(* ===== verification/Prelude.thy ===== *)
theory Prelude
  imports Main "HOL-Library.Word"
begin

text \<open>
  The vocabulary every component shares.

  \<^item> Machine integers keep their width: \<open>u128\<close> for the payload of \<open>Uint128\<close> and of the atomics
    of \<open>Decimal\<close>, \<open>u64\<close> for seconds and nanoseconds. The workspace builds with
    \<open>overflow-checks = true\<close>, so an arithmetic overflow of a Rust integer is a panic and never
    a wrap-around: \<open>u128_of\<close> and \<open>u64_of\<close> are the checked conversions.
  \<^item> A Rust \<open>Result\<close> is a sum. The left side is a \<open>failure\<close>: an error value that the code can
    inspect, or a panic, which no code of the repository can catch. On both the chain discards
    the storage writes of the transaction, so the failing branch carries no storage.
  \<^item> \<open>rbind\<close> is the \<open>?\<close> operator, \<open>traverse\<close> is \<open>iter().map(f).collect::<Result<Vec<_>>>()\<close>.
\<close>

named_theorems res_simps \<open>equations of the result type and of its combinators\<close>
named_theorems num_laws \<open>the readings of checked machine arithmetic on natural numbers\<close>

type_synonym u8 = "8 word"
type_synonym u32 = "32 word"
type_synonym u64 = "64 word"
type_synonym u128 = "128 word"
type_synonym u256 = "256 word"

section \<open>Errors and results\<close>

text \<open>
  \<open>StdError\<close> has more variants than these; the repository builds \<open>generic_err\<close> itself, meets
  \<open>NotFound\<close> when an \<open>Item\<close> is loaded before it is saved, and propagates the other two
  (an answer that does not parse, a number that does not fit).
\<close>

datatype std_error =
    GenericErr string
  | NotFound string
  | ParseErr string
  | ConversionOverflow

text \<open>
  \<open>cw20_base::ContractError\<close>: the repository names \<open>Std\<close> and \<open>Unauthorized\<close>; an error that only
  the token library builds is \<open>Cw20Base\<close> with its text.
\<close>

datatype contract_error =
    Std std_error
  | Unauthorized
  | Cw20Base string

datatype failure = Err contract_error | Panic

type_synonym 'a res = "failure + 'a"

abbreviation generic_err :: "string \<Rightarrow> 'a res" where
  "generic_err s \<equiv> Inl (Err (Std (GenericErr s)))"

definition rbind :: "'a res \<Rightarrow> ('a \<Rightarrow> 'b res) \<Rightarrow> 'b res" where
  "rbind m f = (case m of Inl e \<Rightarrow> Inl e | Inr x \<Rightarrow> f x)"

definition std_res :: "std_error + 'a \<Rightarrow> 'a res" where
  "std_res m = (case m of Inl e \<Rightarrow> Inl (Err (Std e)) | Inr x \<Rightarrow> Inr x)"

text \<open>An operation that panics where it is undefined.\<close>

definition or_panic :: "'a option \<Rightarrow> 'a res" where
  "or_panic m = (case m of None \<Rightarrow> Inl Panic | Some x \<Rightarrow> Inr x)"

definition map_err :: "(contract_error \<Rightarrow> contract_error) \<Rightarrow> 'a res \<Rightarrow> 'a res" where
  "map_err f m = (case m of Inl (Err e) \<Rightarrow> Inl (Err (f e)) | Inl Panic \<Rightarrow> Inl Panic | Inr x \<Rightarrow> Inr x)"

fun traverse :: "('a \<Rightarrow> 'b res) \<Rightarrow> 'a list \<Rightarrow> 'b list res" where
  "traverse f [] = Inr []"
| "traverse f (x # xs) = rbind (f x) (\<lambda>y. rbind (traverse f xs) (\<lambda>ys. Inr (y # ys)))"

text \<open>
  \<open>Option<T>\<close> followed by \<open>.map(f).transpose()?\<close>: nothing to do on \<open>None\<close>, else the value of \<open>f\<close>.
\<close>

definition opt_traverse :: "('a \<Rightarrow> 'b res) \<Rightarrow> 'a option \<Rightarrow> 'b option res" where
  "opt_traverse f m = (case m of None \<Rightarrow> Inr None | Some x \<Rightarrow> rbind (f x) (\<lambda>y. Inr (Some y)))"

text \<open>Reading a storage cell: \<open>Item::load\<close> fails when nothing was saved under the key.\<close>

definition load :: "string \<Rightarrow> 'a option \<Rightarrow> 'a res" where
  "load key cell = (case cell of None \<Rightarrow> Inl (Err (Std (NotFound key))) | Some x \<Rightarrow> Inr x)"

lemma rbind_Inr [simp]: "rbind (Inr x) f = f x"
  by (simp add: rbind_def)

lemma rbind_Inl [simp]: "rbind (Inl e) f = Inl e"
  by (simp add: rbind_def)

lemma rbind_eq_Inr [res_simps]: "rbind m f = Inr y \<longleftrightarrow> (\<exists>x. m = Inr x \<and> f x = Inr y)"
  by (cases m) auto

lemma rbind_eq_Inl:
  "rbind m f = Inl e \<longleftrightarrow> m = Inl e \<or> (\<exists>x. m = Inr x \<and> f x = Inl e)"
  by (cases m) auto

lemma rbind_return: "rbind m Inr = m"
  by (cases m) simp_all

lemma rbind_assoc: "rbind (rbind m f) g = rbind m (\<lambda>x. rbind (f x) g)"
  by (cases m) auto

lemma std_res_simps [simp]:
  "std_res (Inl e) = Inl (Err (Std e))" "std_res (Inr x) = Inr x"
  by (simp_all add: std_res_def)

lemma std_res_eq_Inr [res_simps]: "std_res m = Inr y \<longleftrightarrow> m = Inr y"
  by (cases m) auto

lemma or_panic_simps [simp]: "or_panic None = Inl Panic" "or_panic (Some x) = Inr x"
  by (simp_all add: or_panic_def)

lemma or_panic_eq_Inr [res_simps]: "or_panic m = Inr y \<longleftrightarrow> m = Some y"
  by (cases m) auto

lemma or_panic_eq_Inl: "or_panic m = Inl e \<longleftrightarrow> m = None \<and> e = Panic"
  by (cases m) auto

lemma case_option_eq_Inr [res_simps]:
  "(case m of None \<Rightarrow> Inl f | Some x \<Rightarrow> Inr x) = Inr y \<longleftrightarrow> m = Some y"
  by (cases m) auto

lemma map_err_eq_Inr [res_simps]: "map_err f m = Inr y \<longleftrightarrow> m = Inr y"
  by (auto simp: map_err_def split: sum.splits failure.splits)

lemma map_err_simps [simp]:
  "map_err f (Inr x) = Inr x" "map_err f (Inl (Err e)) = Inl (Err (f e))"
  "map_err f (Inl Panic) = Inl Panic"
  by (simp_all add: map_err_def)

lemma load_simps [simp]:
  "load key (Some x) = Inr x" "load key None = Inl (Err (Std (NotFound key)))"
  by (simp_all add: load_def)

lemma load_eq_Inr [res_simps]: "load key cell = Inr x \<longleftrightarrow> cell = Some x"
  by (cases cell) auto

lemma opt_traverse_simps [simp]:
  "opt_traverse f None = Inr None"
  "opt_traverse f (Some x) = rbind (f x) (\<lambda>y. Inr (Some y))"
  by (simp_all add: opt_traverse_def)

lemma opt_traverse_eq_Inr [res_simps]:
  "opt_traverse f m = Inr r \<longleftrightarrow>
    (m = None \<and> r = None) \<or> (\<exists>x y. m = Some x \<and> f x = Inr y \<and> r = Some y)"
  by (cases m) (auto simp: rbind_eq_Inr)

lemma traverse_eq_Inr: "traverse f xs = Inr ys \<longleftrightarrow> list_all2 (\<lambda>x y. f x = Inr y) xs ys"
proof (induction xs arbitrary: ys)
  case Nil
  then show ?case by auto
next
  case (Cons x xs)
  then show ?case by (cases ys) (auto simp: rbind_eq_Inr)
qed

lemma traverse_total:
  assumes "\<And>x. x \<in> set xs \<Longrightarrow> f x = Inr (g x)"
  shows "traverse f xs = Inr (map g xs)"
  using assms by (induction xs) auto

lemma traverse_fixes:
  assumes "traverse f xs = Inr ys" and "\<And>x y. f x = Inr y \<Longrightarrow> y = x"
  shows "ys = xs"
  using assms by (induction xs arbitrary: ys) (auto simp: rbind_eq_Inr)

section \<open>Checked machine integers\<close>

definition u128_of :: "nat \<Rightarrow> u128 option" where
  "u128_of n = (if n < 2 ^ 128 then Some (word_of_nat n) else None)"

definition u64_of :: "nat \<Rightarrow> u64 option" where
  "u64_of n = (if n < 2 ^ 64 then Some (word_of_nat n) else None)"

text \<open>Rust's \<open>+\<close> and \<open>-\<close> on \<open>u64\<close>, panicking on overflow.\<close>

definition u64_add :: "u64 \<Rightarrow> u64 \<Rightarrow> u64 option" where
  "u64_add a b = u64_of (unat a + unat b)"

definition u64_sub :: "u64 \<Rightarrow> u64 \<Rightarrow> u64 option" where
  "u64_sub a b = (if unat b \<le> unat a then Some (a - b) else None)"

lemma unat_less_2p: "unat (w :: 'a::len word) < 2 ^ LENGTH('a)"
  by (rule unsigned_less)

lemma unat_of_nat_bounded: "n < 2 ^ LENGTH('a) \<Longrightarrow> unat (word_of_nat n :: 'a::len word) = n"
  by (simp add: unat_of_nat take_bit_nat_eq_self)

lemma u128_of_eq_Some [num_laws]: "u128_of n = Some w \<longleftrightarrow> unat w = n"
proof
  assume "u128_of n = Some w"
  then show "unat w = n"
    by (auto simp: u128_of_def unat_of_nat_bounded split: if_splits)
next
  assume w: "unat w = n"
  then have "n < 2 ^ 128" using unat_less_2p [of w] by simp
  with w show "u128_of n = Some w" by (auto simp: u128_of_def)
qed

lemma u128_of_eq_None: "u128_of n = None \<longleftrightarrow> 2 ^ 128 \<le> n"
  by (auto simp: u128_of_def)

lemma u64_of_eq_Some [num_laws]: "u64_of n = Some w \<longleftrightarrow> unat w = n"
proof
  assume "u64_of n = Some w"
  then show "unat w = n"
    by (auto simp: u64_of_def unat_of_nat_bounded split: if_splits)
next
  assume w: "unat w = n"
  then have "n < 2 ^ 64" using unat_less_2p [of w] by simp
  with w show "u64_of n = Some w" by (auto simp: u64_of_def)
qed

lemma u64_add_eq_Some [num_laws]: "u64_add a b = Some c \<longleftrightarrow> unat c = unat a + unat b"
  by (simp add: u64_add_def num_laws)

lemma u64_sub_eq_Some [num_laws]:
  "u64_sub a b = Some c \<longleftrightarrow> unat b \<le> unat a \<and> unat c = unat a - unat b"
proof (cases "unat b \<le> unat a")
  case True
  then have "unat (a - b) = unat a - unat b" by (simp add: unat_sub word_le_nat_alt)
  with True show ?thesis by (auto simp: u64_sub_def word_unat_eq_iff)
qed (simp add: u64_sub_def)

lemma unat_u128_less: "unat (w :: u128) < 2 ^ 128"
  using unat_less_2p [of w] by simp

lemma unat_ucast_u64_u128 [simp]: "unat (ucast (w :: u64) :: u128) = unat w"
proof -
  have "unat w < 2 ^ 128"
    using unat_less_2p [of w] by simp
  then show ?thesis by (simp add: unsigned_ucast_eq take_bit_nat_eq_self)
qed

lemma unat_zero_iff: "unat w = 0 \<longleftrightarrow> w = 0"
  by (rule unat_eq_zero)

section \<open>Floor division on naturals\<close>

text \<open>The two one-sided readings of a rounded-down quotient; every rounding argument uses them.\<close>

lemma div_mult_lower: "n div d * d \<le> (n::nat)"
  by (rule div_times_less_eq_dividend)

lemma div_mult_upper: "0 < d \<Longrightarrow> n < (n div d + 1) * (d::nat)"
  by (metis Suc_eq_plus1 dividend_less_div_times mult_Suc)

lemma less_div_bound: "(q::nat) = n div d \<Longrightarrow> 0 < d \<Longrightarrow> q * d \<le> n \<and> n < (q + 1) * d"
  using div_mult_lower div_mult_upper by simp

section \<open>Decimal rendering of numbers\<close>

text \<open>\<open>to_string\<close> of an unsigned integer, most significant digit first.\<close>

definition digit_char :: "nat \<Rightarrow> char" where
  "digit_char d = char_of (48 + d)"

fun show_nat :: "nat \<Rightarrow> string" where
  "show_nat n = (if n < 10 then [digit_char n] else show_nat (n div 10) @ [digit_char (n mod 10)])"

declare show_nat.simps [simp del]

end
