(* ===== verification/Cosmwasm_Math.thy ===== *)
theory Cosmwasm_Math
  imports Prelude
begin

text \<open>
  The numeric types of \<open>cosmwasm_std\<close> as the contracts use them. \<open>cosmwasm_std\<close> is not part of
  the repository, so its operations are a parameter: the record \<open>arith\<close> collects the ones the
  source calls, and the locale \<open>decimal_arith\<close> states what its documentation says of them (18
  fractional digits, results rounded down, a panic where the result does not fit or the divisor
  is zero). Every definition of the development that computes takes such a record; every theorem
  about computed values assumes \<open>decimal_arith\<close>. \<open>fixed18\<close> is the instance used in examples.
\<close>

section \<open>Decimals and time stamps\<close>

text \<open>A \<open>Decimal\<close> is its number of atomic units (\<open>Decimal::atomics\<close>); one is \<open>10 ^ 18\<close> of them.\<close>

datatype decimal = Decimal (atomics: u128)

datatype decimal256 = Decimal256 (atomics256: u256)

text \<open>A \<open>Timestamp\<close> counts nanoseconds.\<close>

datatype timestamp = Timestamp (nanos: u64)

definition atoms :: "decimal \<Rightarrow> nat" where
  "atoms d = unat (atomics d)"

definition dec_unit :: nat where
  "dec_unit = 10 ^ 18"

definition dec_zero :: decimal where
  "dec_zero = Decimal 0"

definition dec_one :: decimal where
  "dec_one = Decimal (10 ^ 18)"

instantiation decimal :: linorder
begin

definition less_eq_decimal :: "decimal \<Rightarrow> decimal \<Rightarrow> bool" where
  "less_eq_decimal x y \<longleftrightarrow> atomics x \<le> atomics y"

definition less_decimal :: "decimal \<Rightarrow> decimal \<Rightarrow> bool" where
  "less_decimal x y \<longleftrightarrow> atomics x < atomics y"

instance
proof
  fix x y z :: decimal
  show "x < y \<longleftrightarrow> x \<le> y \<and> \<not> y \<le> x"
    by (auto simp: less_decimal_def less_eq_decimal_def)
  show "x \<le> x" by (simp add: less_eq_decimal_def)
  show "x \<le> y \<Longrightarrow> y \<le> z \<Longrightarrow> x \<le> z"
    unfolding less_eq_decimal_def by (rule order_trans)
  show "x \<le> y \<Longrightarrow> y \<le> x \<Longrightarrow> x = y"
    by (simp add: less_eq_decimal_def decimal.expand)
  show "x \<le> y \<or> y \<le> x"
    by (auto simp: less_eq_decimal_def)
qed

end

instantiation timestamp :: linorder
begin

definition less_eq_timestamp :: "timestamp \<Rightarrow> timestamp \<Rightarrow> bool" where
  "less_eq_timestamp x y \<longleftrightarrow> nanos x \<le> nanos y"

definition less_timestamp :: "timestamp \<Rightarrow> timestamp \<Rightarrow> bool" where
  "less_timestamp x y \<longleftrightarrow> nanos x < nanos y"

instance
proof
  fix x y z :: timestamp
  show "x < y \<longleftrightarrow> x \<le> y \<and> \<not> y \<le> x"
    by (auto simp: less_timestamp_def less_eq_timestamp_def)
  show "x \<le> x" by (simp add: less_eq_timestamp_def)
  show "x \<le> y \<Longrightarrow> y \<le> z \<Longrightarrow> x \<le> z"
    unfolding less_eq_timestamp_def by (rule order_trans)
  show "x \<le> y \<Longrightarrow> y \<le> x \<Longrightarrow> x = y"
    by (simp add: less_eq_timestamp_def timestamp.expand)
  show "x \<le> y \<or> y \<le> x"
    by (auto simp: less_eq_timestamp_def)
qed

end

lemma dec_unit_pos [simp]: "0 < dec_unit" "dec_unit \<noteq> 0"
  by (simp_all add: dec_unit_def)

lemma atoms_simps [simp]: "atoms dec_zero = 0" "atoms dec_one = dec_unit"
  by (simp_all add: atoms_def dec_zero_def dec_one_def dec_unit_def)

lemma atoms_inject: "atoms x = atoms y \<longleftrightarrow> x = y"
  by (cases x; cases y) (simp add: atoms_def word_unat_eq_iff)

lemma decimal_le_iff: "x \<le> y \<longleftrightarrow> atoms x \<le> atoms y"
  by (simp add: less_eq_decimal_def atoms_def word_le_nat_alt)

lemma decimal_less_iff: "x < y \<longleftrightarrow> atoms x < atoms y"
  by (simp add: less_decimal_def atoms_def word_less_nat_alt)

lemma atoms_less: "atoms d < 2 ^ 128"
  by (simp only: atoms_def unat_u128_less)

lemma atoms_min: "atoms (min x y) = min (atoms x) (atoms y)"
  by (simp add: min_def decimal_le_iff)

lemma atoms_max: "atoms (max x y) = max (atoms x) (atoms y)"
  by (simp add: max_def decimal_le_iff)

lemma unat_min_u128: "unat (min x y :: u128) = min (unat x) (unat y)"
  by (simp add: min_def word_le_nat_alt)

section \<open>The operations the contracts call\<close>

text \<open>
  \<open>None\<close> is a panic, but for \<open>d_checked_sub\<close>, \<open>from_atomics\<close> and \<open>try_u128\<close>, whose \<open>None\<close> is the
  error value they return. \<open>d_times\<close> is \<open>Decimal * Uint128\<close> (and \<open>Uint128 * Decimal\<close>).
\<close>

record arith =
  u_add :: "u128 \<Rightarrow> u128 \<Rightarrow> u128 option"
  u_sub :: "u128 \<Rightarrow> u128 \<Rightarrow> u128 option"
  u_mul :: "u128 \<Rightarrow> u128 \<Rightarrow> u128 option"
  u_multiply_ratio :: "u128 \<Rightarrow> u128 \<Rightarrow> u128 \<Rightarrow> u128 option"
  from_ratio :: "u128 \<Rightarrow> u128 \<Rightarrow> decimal option"
  d_add :: "decimal \<Rightarrow> decimal \<Rightarrow> decimal option"
  d_sub :: "decimal \<Rightarrow> decimal \<Rightarrow> decimal option"
  d_checked_sub :: "decimal \<Rightarrow> decimal \<Rightarrow> decimal option"
  d_mul :: "decimal \<Rightarrow> decimal \<Rightarrow> decimal option"
  d_div :: "decimal \<Rightarrow> decimal \<Rightarrow> decimal option"
  d_div_uint :: "decimal \<Rightarrow> u128 \<Rightarrow> decimal option"
  d_times :: "decimal \<Rightarrow> u128 \<Rightarrow> u128 option"
  from_atomics :: "u128 \<Rightarrow> nat \<Rightarrow> decimal option"
  decimal_places256 :: nat
  try_u128 :: "u256 \<Rightarrow> u128 option"
  ts_seconds :: "timestamp \<Rightarrow> u64"

text \<open>
  The documented behaviour. An equation \<open>f x = Some q \<longleftrightarrow> \<dots>\<close> for every \<open>q\<close> also says when the
  operation has no result: when no 128-bit number satisfies the right-hand side.
\<close>

locale decimal_arith =
  fixes A :: arith
  assumes u_add [num_laws]: "u_add A a b = Some c \<longleftrightarrow> unat c = unat a + unat b"
    and u_sub [num_laws]: "u_sub A a b = Some c \<longleftrightarrow> unat b \<le> unat a \<and> unat c = unat a - unat b"
    and u_mul [num_laws]: "u_mul A a b = Some c \<longleftrightarrow> unat c = unat a * unat b"
    and u_multiply_ratio [num_laws]:
      "u_multiply_ratio A a n d = Some c \<longleftrightarrow> d \<noteq> 0 \<and> unat c = unat a * unat n div unat d"
    and from_ratio [num_laws]:
      "from_ratio A n d = Some q \<longleftrightarrow> d \<noteq> 0 \<and> atoms q = unat n * dec_unit div unat d"
    and d_add [num_laws]: "d_add A x y = Some q \<longleftrightarrow> atoms q = atoms x + atoms y"
    and d_sub [num_laws]:
      "d_sub A x y = Some q \<longleftrightarrow> atoms y \<le> atoms x \<and> atoms q = atoms x - atoms y"
    and d_checked_sub [num_laws]:
      "d_checked_sub A x y = Some q \<longleftrightarrow> atoms y \<le> atoms x \<and> atoms q = atoms x - atoms y"
    and d_mul [num_laws]: "d_mul A x y = Some q \<longleftrightarrow> atoms q = atoms x * atoms y div dec_unit"
    and d_div [num_laws]:
      "d_div A x y = Some q \<longleftrightarrow> atoms y \<noteq> 0 \<and> atoms q = atoms x * dec_unit div atoms y"
    and d_div_uint [num_laws]:
      "d_div_uint A x n = Some q \<longleftrightarrow> n \<noteq> 0 \<and> atoms q = atoms x div unat n"
    and d_times [num_laws]: "d_times A x n = Some c \<longleftrightarrow> unat c = atoms x * unat n div dec_unit"
    and from_atomics [num_laws]: "from_atomics A a (decimal_places256 A) = Some q \<longleftrightarrow> atomics q = a"
    and try_u128 [num_laws]: "try_u128 A w = Some c \<longleftrightarrow> unat c = unat w"
    and ts_seconds [num_laws]: "unat (ts_seconds A t) = unat (nanos t) div 10 ^ 9"
begin

text \<open>
  Amounts enter the computations as \<open>Decimal::from_ratio(amount, 1)\<close> and leave them as
  \<open>decimal * Uint128::one()\<close>. The next lemmas are the closed forms of the round trips.
\<close>

lemma from_ratio_one: "from_ratio A n 1 = Some q \<longleftrightarrow> atoms q = unat n * dec_unit"
  by (simp add: from_ratio)

lemma d_times_one: "d_times A x 1 = Some c \<longleftrightarrow> unat c = atoms x div dec_unit"
  by (simp add: d_times)

lemma whole_overflow: "from_ratio A n 1 = None \<longleftrightarrow> 2 ^ 128 \<le> unat n * dec_unit"
proof
  assume none: "from_ratio A n 1 = None"
  show "2 ^ 128 \<le> unat n * dec_unit"
  proof (rule ccontr)
    assume "\<not> ?thesis"
    then obtain w :: u128 where "unat w = unat n * dec_unit"
      using unat_of_nat_bounded [where 'a = 128, of "unat n * dec_unit"] by auto
    then have "from_ratio A n 1 = Some (Decimal w)" by (simp add: from_ratio_one atoms_def)
    with none show False by simp
  qed
next
  assume "2 ^ 128 \<le> unat n * dec_unit"
  then have "from_ratio A n 1 \<noteq> Some q" for q
    using atoms_less [of q] by (simp add: from_ratio_one)
  then show "from_ratio A n 1 = None" by (cases "from_ratio A n 1") auto
qed

text \<open>\<open>from_ratio(a, 1) / r * one\<close>: the amount divided by the rate, rounded down once.\<close>

lemma divide_whole:
  assumes "from_ratio A a 1 = Some x" and "d_div A x r = Some y"
  shows "atoms r \<noteq> 0" "atoms y = unat a * dec_unit * dec_unit div atoms r"
    "atoms y div dec_unit = unat a * dec_unit div atoms r"
proof -
  from assms have r: "atoms r \<noteq> 0" and y: "atoms y = unat a * dec_unit * dec_unit div atoms r"
    by (auto simp: from_ratio_one d_div)
  then show "atoms r \<noteq> 0" "atoms y = unat a * dec_unit * dec_unit div atoms r" by auto
  have "atoms y div dec_unit = unat a * dec_unit * dec_unit div (dec_unit * atoms r)"
    by (simp add: y div_mult2_eq [symmetric] mult.commute)
  also have "\<dots> = unat a * dec_unit div atoms r"
    by (simp add: mult.commute [of dec_unit "atoms r"])
  finally show "atoms y div dec_unit = unat a * dec_unit div atoms r" .
qed

text \<open>\<open>from_ratio(a, 1) * r\<close>: exact in atomic units.\<close>

lemma times_whole:
  assumes "from_ratio A a 1 = Some x" and "d_mul A x r = Some y"
  shows "atoms y = unat a * atoms r"
proof -
  have "atoms x * atoms r = dec_unit * (unat a * atoms r)"
    using assms(1) by (simp add: from_ratio_one ac_simps)
  then show ?thesis using assms(2) by (simp only: d_mul) simp
qed

end

section \<open>An instance\<close>

definition dec_of :: "nat \<Rightarrow> decimal option" where
  "dec_of n = map_option Decimal (u128_of n)"

lemma dec_of_eq_Some: "dec_of n = Some q \<longleftrightarrow> atoms q = n"
  by (cases q) (auto simp: dec_of_def atoms_def u128_of_eq_Some)

definition fixed18 :: arith where
  "fixed18 = \<lparr>
     u_add = (\<lambda>a b. u128_of (unat a + unat b)),
     u_sub = (\<lambda>a b. if unat b \<le> unat a then u128_of (unat a - unat b) else None),
     u_mul = (\<lambda>a b. u128_of (unat a * unat b)),
     u_multiply_ratio = (\<lambda>a n d. if d = 0 then None else u128_of (unat a * unat n div unat d)),
     from_ratio = (\<lambda>n d. if d = 0 then None else dec_of (unat n * dec_unit div unat d)),
     d_add = (\<lambda>x y. dec_of (atoms x + atoms y)),
     d_sub = (\<lambda>x y. if atoms y \<le> atoms x then dec_of (atoms x - atoms y) else None),
     d_checked_sub = (\<lambda>x y. if atoms y \<le> atoms x then dec_of (atoms x - atoms y) else None),
     d_mul = (\<lambda>x y. dec_of (atoms x * atoms y div dec_unit)),
     d_div = (\<lambda>x y. if atoms y = 0 then None else dec_of (atoms x * dec_unit div atoms y)),
     d_div_uint = (\<lambda>x n. if n = 0 then None else dec_of (atoms x div unat n)),
     d_times = (\<lambda>x n. u128_of (atoms x * unat n div dec_unit)),
     from_atomics = (\<lambda>a places. if places = 18 then Some (Decimal a) else None),
     decimal_places256 = 18,
     try_u128 = (\<lambda>w. u128_of (unat w)),
     ts_seconds = (\<lambda>t. word_of_nat (unat (nanos t) div 10 ^ 9)) \<rparr>"

interpretation fixed18: decimal_arith fixed18
proof unfold_locales
  fix t
  have "unat (nanos t) div 10 ^ 9 < 2 ^ LENGTH(64)"
    using unat_less_2p [of "nanos t"] div_le_dividend [of "unat (nanos t)" "10 ^ 9"]
    by (rule le_less_trans [rotated])
  then show "unat (ts_seconds fixed18 t) = unat (nanos t) div 10 ^ 9"
    unfolding fixed18_def by (simp only: arith.simps) (rule unat_of_nat_bounded)
next
  fix a q show "from_atomics fixed18 a (decimal_places256 fixed18) = Some q \<longleftrightarrow> atomics q = a"
    by (cases q) (auto simp: fixed18_def)
qed (auto simp: fixed18_def u128_of_eq_Some dec_of_eq_Some)

lemmas fixed18_eval = fixed18_def u128_of_def dec_of_def atoms_def dec_unit_def dec_one_def
  dec_zero_def

end
