(* ===== verification/Messages.thy ===== *)
theory Messages
  imports Cosmwasm_Math
begin

text \<open>
  The data that crosses contract boundaries: the message and response types of the crate
  \<open>basset\<close>, and the part of the CosmWasm interface they travel in (environment, caller, funds,
  outgoing messages, queries).

  \<open>to_binary\<close> serialises a typed message to JSON; here a \<open>binary\<close> is the typed message itself, one
  constructor per message type, so that two payloads are equal exactly when the messages are.
  Of messages of other projects (CW20, the Astroport router and pair) only the variants that the
  source builds are listed.
\<close>

type_synonym addr = string

section \<open>Coins, environment, caller\<close>

record coin =
  coin_denom :: string
  coin_amount :: u128

record env =
  block_time :: timestamp
  contract_address :: addr

record message_info =
  sender :: addr
  funds :: "coin list"

section \<open>Swap routers (dex\_router.rs)\<close>

datatype asset_info = Token addr | NativeToken string

datatype swap_operation =
    NativeSwap string string
  | AstroSwap asset_info asset_info
  | TerraSwap asset_info asset_info
  | TokenSwap asset_info asset_info

text \<open>The three routers, in the order in which \<open>SwapMessageType::iter()\<close> lists them.\<close>

datatype swap_message_type = Mt_Astroport | Mt_Phoenix | Mt_TerraSwap

definition swap_message_types :: "swap_message_type list" where
  "swap_message_types = [Mt_Astroport, Mt_Phoenix, Mt_TerraSwap]"

section \<open>Execute messages\<close>

datatype expiration = AtHeight u64 | AtTime timestamp | Never_Expires

datatype logo = Logo_Url string | Logo_Svg string | Logo_Png string

text \<open>\<open>reward.rs\<close>: the reward contracts.\<close>

datatype reward_execute_msg =
    SwapToRewardDenom
  | Reward_UpdateConfig (rw_owner: "string option") (rw_custody_contract: "string option")
      (rw_known_tokens: "string list option") (rw_astroport_addr: "string option")
      (rw_phoenix_addr: "string option") (rw_terraswap_addr: "string option")
  | ClaimRewards "string option"

text \<open>\<open>hub.rs\<close>: the hub.\<close>

datatype hub_execute_msg =
    Hub_UpdateConfig (hb_owner: "string option") (hb_reward_contract: "string option")
      (hb_token_contract: "string option")
  | UpdateGlobalIndex

text \<open>\<open>external.rs\<close> and \<open>eris_lp.rs\<close>: the staking contracts of Spectrum and Eris.\<close>

datatype spectrum_execute_msg = Spectrum_Unbond u128

datatype eris_hook_msg = Eris_Bond "string option" | Eris_Unbond "string option"

datatype callback_msg =
    Cb_Stake u128 "u128 option"
  | Cb_BondTo addr u128 "u128 option"

text \<open>The Astroport pair hook; the contracts send it with an empty list of assets.\<close>

datatype pair_hook_msg = WithdrawLiquidity "(asset_info \<times> u128) list"

text \<open>
  Payloads. A message may carry another message (the \<open>msg\<close> of a CW20 \<open>send\<close>), so the types of
  \<open>wrapper.rs\<close>, of the router in \<open>dex_router.rs\<close> and of the contract in \<open>eris_lp.rs\<close> have the type of
  payloads as a parameter; \<open>binary\<close> closes the recursion. \<open>Cw20ReceiveMsg\<close> of the crate \<open>cw20\<close> is a
  sender, an amount and a payload. \<open>Opaque\<close> is a payload that the source only forwards.
\<close>

datatype 'b cw20_execute_message =
    Cw20_Transfer string u128
  | Cw20_TransferFrom string string u128
  | Cw20_Send string u128 'b

datatype 'b router_execute_message =
    Router_Receive string u128 'b
  | ExecuteSwapOperations "swap_operation list" "u128 option" "string option" "decimal option"
  | ExecuteSwapOperation swap_operation "string option" "decimal option" bool
  | AssertMinimumReceive asset_info u128 u128 string

datatype 'b wrapper_execute_message =
    Transfer string u128
  | Burn u128
  | BurnAll
  | Send string u128 'b
  | IncreaseAllowance string u128 "expiration option"
  | DecreaseAllowance string u128 "expiration option"
  | TransferFrom string string u128
  | SendFrom string string u128 'b
  | BurnFrom string u128
  | Mint string u128
  | MintWith string u128
  | UpdateMinter "string option"
  | UpdateMarketing "string option" "string option" "string option"
  | UploadLogo logo
  | Decompound "string option"

datatype 'b eris_execute_message =
    Eris_Receive string u128 'b
  | Eris_UpdateConfig "string option" "string option" "decimal option" "string option" "u64 option"
  | Eris_Compound "u128 option" "decimal option"
  | Eris_BondAssets "(asset_info \<times> u128) list" "u128 option" "bool option" "decimal option"
      "string option"
  | Eris_ProposeNewOwner string u64
  | Eris_DropOwnershipProposal
  | Eris_ClaimOwnership
  | Eris_Callback callback_msg

datatype (plugins only: code size) binary =
    Opaque string
  | Cw20Exec "binary cw20_execute_message"
  | Cw20Receive (rcv_sender: string) (rcv_amount: u128) (rcv_msg: binary)
  | RouterExec "binary router_execute_message"
  | WrapperExec "binary wrapper_execute_message"
  | RewardExec reward_execute_msg
  | HubExec hub_execute_msg
  | SpectrumExec spectrum_execute_msg
  | ErisExec "binary eris_execute_message"
  | ErisHook eris_hook_msg
  | PairHook pair_hook_msg

type_synonym wrapper_execute_msg = "binary wrapper_execute_message"

section \<open>Outgoing messages and responses\<close>

datatype cosmos_msg =
    Bank_Send addr "coin list"
  | Wasm_Execute addr binary "coin list"

datatype reply_on = Reply_Always | Reply_Error | Reply_Success | Reply_Never

record sub_msg =
  sm_id :: u64
  sm_msg :: cosmos_msg
  sm_reply_on :: reply_on

text \<open>\<open>SubMsg::new\<close>: identifier 0 and no reply; \<open>add_message\<close> wraps its argument this way.\<close>

definition sub_msg_new :: "cosmos_msg \<Rightarrow> sub_msg" where
  "sub_msg_new m = \<lparr>sm_id = 0, sm_msg = m, sm_reply_on = Reply_Never\<rparr>"

record response =
  messages :: "sub_msg list"
  attributes :: "(string \<times> string) list"

definition response_new :: response where
  "response_new = \<lparr>messages = [], attributes = []\<rparr>"

definition add_messages :: "cosmos_msg list \<Rightarrow> response \<Rightarrow> response" where
  "add_messages ms r = r\<lparr>messages := messages r @ map sub_msg_new ms\<rparr>"

definition add_submessages :: "sub_msg list \<Rightarrow> response \<Rightarrow> response" where
  "add_submessages ms r = r\<lparr>messages := messages r @ ms\<rparr>"

definition add_attributes :: "(string \<times> string) list \<Rightarrow> response \<Rightarrow> response" where
  "add_attributes as r = r\<lparr>attributes := attributes r @ as\<rparr>"

text \<open>The messages of a response, without the reply settings.\<close>

definition msgs :: "response \<Rightarrow> cosmos_msg list" where
  "msgs r = map sm_msg (messages r)"

lemma msgs_simps [simp]:
  "msgs response_new = []" "msgs (add_messages ms r) = msgs r @ ms"
  "msgs (add_submessages ss r) = msgs r @ map sm_msg ss" "msgs (add_attributes as r) = msgs r"
  by (simp_all add: msgs_def response_new_def add_messages_def add_submessages_def
      add_attributes_def sub_msg_new_def comp_def)

lemma attributes_simps [simp]:
  "attributes response_new = []" "attributes (add_messages ms r) = attributes r"
  "attributes (add_submessages ss r) = attributes r"
  "attributes (add_attributes as r) = attributes r @ as"
  by (simp_all add: response_new_def add_messages_def add_submessages_def add_attributes_def)

text \<open>\<open>CallbackMsg::into_cosmos_msg\<close> of \<open>eris_lp.rs\<close>.\<close>

definition into_callback_cosmos_msg :: "callback_msg \<Rightarrow> addr \<Rightarrow> cosmos_msg res" where
  "into_callback_cosmos_msg cb contract_addr =
     Inr (Wasm_Execute contract_addr (ErisExec (Eris_Callback cb)) [])"

section \<open>Queries and their answers\<close>

text \<open>
  The query messages of \<open>external.rs\<close>, \<open>eris_lp.rs\<close>, \<open>oracle.rs\<close> and \<open>dex_router.rs\<close>. A smart
  query is one of them, the balance query of a CW20 token, or the pair query of Astroport.
\<close>

datatype lsd_query_msg = Lsd_QState

datatype spectrum_query_msg =
    Spectrum_QState
  | Spectrum_QUserInfo (sq_user: string) (sq_lp_token: string)
  | Spectrum_QRewardInfo (sq_staker_addr: string)

datatype eris_query_msg =
    Eris_QConfig
  | Eris_QUserInfo string
  | Eris_QState "string option"
  | Eris_QExchangeRates "u64 option" "u32 option"

datatype oracle_query_msg =
    Oracle_QConfig
  | Oracle_QFeeder string
  | Oracle_QPrice (oq_base: string) (oq_quote: string)
  | Oracle_QPrices "string option" "u32 option"

datatype router_query_msg =
    Router_QConfig
  | Router_QSimulate u128 "swap_operation list"

datatype smart_query =
    Q_Lsd lsd_query_msg
  | Q_Cw20Balance addr
  | Q_Oracle oracle_query_msg
  | Q_Spectrum spectrum_query_msg
  | Q_Eris eris_query_msg
  | Q_Router router_query_msg
  | Q_Pair

text \<open>\<open>external.rs\<close>\<close>

record lsd_state_response =
  total_usteak :: u128
  total_uluna :: u128
  ls_exchange_rate :: decimal
  unlocked_coins :: "coin list"

record ctoken_state_response =
  ct_total_bond_share :: u128

record user_info_response =
  ui_bond_share :: u128
  ui_bond_amount :: u128
  ui_reward_indexes :: "(string \<times> decimal) list"
  ui_pending_rewards :: "(string \<times> decimal) list"

record reward_info_response_item =
  ri_staking_token :: string
  ri_bond_amount :: u128
  ri_bond_share :: u128
  ri_deposit_amount :: u128
  ri_deposit_time :: u64
  ri_deposit_costs :: "u128 list"

record reward_info_response =
  ri_staker_addr :: string
  ri_reward_info :: reward_info_response_item

text \<open>\<open>contracts/ampLuna-wrapper\<close> and \<open>contracts/bLuna-wrapper\<close>\<close>

record amp_luna_state_response =
  al_total_ustake :: u128
  al_total_uluna :: u128
  al_exchange_rate :: decimal
  al_unlocked_coins :: "coin list"
  al_unbonding :: u128
  al_available :: u128
  al_tvl_uluna :: u128

record bluna_state_response =
  bl_total_usteak :: u128
  bl_total_native :: u128
  bl_exchange_rate :: decimal
  bl_unlocked_coins :: "coin list"

text \<open>\<open>oracle.rs\<close>\<close>

record price_response =
  pr_rate :: decimal256
  pr_last_updated_base :: u64
  pr_last_updated_quote :: u64

text \<open>\<open>dex_router.rs\<close>\<close>

record simulate_swap_operations_response =
  si_amount :: u128

text \<open>\<open>eris_lp.rs\<close>\<close>

record eris_user_info =
  eu_user_lp_amount :: u128
  eu_user_amp_lp_amount :: u128

record eris_state_response =
  es_total_lp :: u128
  es_total_amp_lp :: u128
  es_exchange_rate :: decimal
  es_pair_contract :: addr
  es_locked_assets :: "(asset_info \<times> u128) list"
  es_user_info :: "eris_user_info option"

datatype answer =
    A_LsdState lsd_state_response
  | A_AmpLunaState amp_luna_state_response
  | A_BLunaState bluna_state_response
  | A_Balance u128
  | A_Price price_response
  | A_CTokenState ctoken_state_response
  | A_UserInfo user_info_response
  | A_RewardInfo reward_info_response
  | A_ErisState eris_state_response
  | A_Simulation simulate_swap_operations_response
  | A_PairInfo addr

fun a_balance :: "answer \<Rightarrow> u128 option" where
  "a_balance (A_Balance b) = Some b" | "a_balance _ = None"

fun a_price :: "answer \<Rightarrow> price_response option" where
  "a_price (A_Price p) = Some p" | "a_price _ = None"

fun a_ctoken_state :: "answer \<Rightarrow> ctoken_state_response option" where
  "a_ctoken_state (A_CTokenState s) = Some s" | "a_ctoken_state _ = None"

fun a_user_info :: "answer \<Rightarrow> user_info_response option" where
  "a_user_info (A_UserInfo u) = Some u" | "a_user_info _ = None"

fun a_reward_info :: "answer \<Rightarrow> reward_info_response option" where
  "a_reward_info (A_RewardInfo u) = Some u" | "a_reward_info _ = None"

fun a_eris_state :: "answer \<Rightarrow> eris_state_response option" where
  "a_eris_state (A_ErisState s) = Some s" | "a_eris_state _ = None"

fun a_simulation :: "answer \<Rightarrow> simulate_swap_operations_response option" where
  "a_simulation (A_Simulation n) = Some n" | "a_simulation _ = None"

fun a_pair_info :: "answer \<Rightarrow> addr option" where
  "a_pair_info (A_PairInfo a) = Some a" | "a_pair_info _ = None"

text \<open>
  \<open>Deps\<close> without the storage: the chain's address check, its querier, and the debug rendering of
  a list of coins (used in one error text). All four are functions of the chain, so parameters.
\<close>

record deps =
  addr_validate :: "string \<Rightarrow> std_error + addr"
  wasm_smart :: "addr \<Rightarrow> smart_query \<Rightarrow> std_error + answer"
  bank_balance :: "addr \<Rightarrow> string \<Rightarrow> std_error + coin"
  bank_all_balances :: "addr \<Rightarrow> std_error + coin list"
  debug_coins :: "coin list \<Rightarrow> string"

text \<open>
  \<open>deps.querier.query::<T>\<close>: the chain's error, or the answer read at the type the caller
  expects; an answer of another type does not parse.
\<close>

definition query_as :: "deps \<Rightarrow> (answer \<Rightarrow> 'a option) \<Rightarrow> addr \<Rightarrow> smart_query \<Rightarrow> 'a res" where
  "query_as dp parse contract q =
     rbind (std_res (wasm_smart dp contract q))
       (\<lambda>a. case parse a of
              None \<Rightarrow> Inl (Err (Std (ParseErr ''unexpected answer'')))
            | Some x \<Rightarrow> Inr x)"

lemma query_as_eq_Inr [res_simps]:
  "query_as dp parse c q = Inr x \<longleftrightarrow> (\<exists>a. wasm_smart dp c q = Inr a \<and> parse a = Some x)"
  by (auto simp: query_as_def res_simps split: option.splits)

text \<open>
  The documented behaviour of \<open>addr_validate\<close>: when it accepts, the address it returns holds
  the string it was given.
\<close>

definition addr_same :: "deps \<Rightarrow> bool" where
  "addr_same dp \<longleftrightarrow> (\<forall>s a. addr_validate dp s = Inr a \<longrightarrow> a = s)"

lemma addr_sameD: "addr_same dp \<Longrightarrow> addr_validate dp s = Inr a \<Longrightarrow> a = s"
  by (simp add: addr_same_def)

end
