(* ===== verification/Cw20_Base.thy ===== *)
theory Cw20_Base
  imports Messages
begin

text \<open>
  The interface to the crate \<open>cw20_base\<close>, which keeps the balances, the allowances and the total
  supply of a wrapper token. The crate is not part of the repository: the wrapper contracts call
  it through the record \<open>cw20_base\<close> (a parameter of every definition that uses it, polymorphic in
  the storage \<open>'tok\<close> of the crate), and the locale \<open>cw20_token\<close> states what the CW20
  specification documents of the calls that succeed. \<open>ledger_cw20\<close> is an instance.
\<close>

section \<open>The interface\<close>

record token_info =
  ti_name :: string
  ti_symbol :: string
  ti_decimals :: u8
  ti_total_supply :: u128

record minter_response =
  mr_minter :: string
  mr_cap :: "u128 option"

text \<open>\<open>cw20_base::msg::InstantiateMsg\<close>; the wrappers pass no marketing information.\<close>

record cw20_instantiate_msg =
  im_name :: string
  im_symbol :: string
  im_decimals :: u8
  im_initial_balances :: "(string \<times> u128) list"
  im_mint :: "minter_response option"
  im_marketing :: "unit option"

text \<open>The wrappers intercept \<open>TokenInfo\<close> and pass on every other query of the token.\<close>

datatype cw20_query_msg = Query_TokenInfo | Query_Balance string | Query_Other binary

datatype cw20_answer = Ans_Balance u128 | Ans_Other binary

type_synonym 'tok cw20_op = "'tok \<Rightarrow> deps \<Rightarrow> env \<Rightarrow> message_info \<Rightarrow> ('tok \<times> response) res"

record 'tok cw20_base =
  cw20_init :: "cw20_instantiate_msg \<Rightarrow> 'tok cw20_op"
  cw20_transfer :: "string \<Rightarrow> u128 \<Rightarrow> 'tok cw20_op"
  cw20_burn :: "u128 \<Rightarrow> 'tok cw20_op"
  cw20_mint :: "string \<Rightarrow> u128 \<Rightarrow> 'tok cw20_op"
  cw20_send :: "string \<Rightarrow> u128 \<Rightarrow> binary \<Rightarrow> 'tok cw20_op"
  cw20_increase_allowance :: "string \<Rightarrow> u128 \<Rightarrow> expiration option \<Rightarrow> 'tok cw20_op"
  cw20_decrease_allowance :: "string \<Rightarrow> u128 \<Rightarrow> expiration option \<Rightarrow> 'tok cw20_op"
  cw20_transfer_from :: "string \<Rightarrow> string \<Rightarrow> u128 \<Rightarrow> 'tok cw20_op"
  cw20_burn_from :: "string \<Rightarrow> u128 \<Rightarrow> 'tok cw20_op"
  cw20_send_from :: "string \<Rightarrow> string \<Rightarrow> u128 \<Rightarrow> binary \<Rightarrow> 'tok cw20_op"
  cw20_update_minter :: "string option \<Rightarrow> 'tok cw20_op"
  cw20_update_marketing :: "string option \<Rightarrow> string option \<Rightarrow> string option \<Rightarrow> 'tok cw20_op"
  cw20_upload_logo :: "logo \<Rightarrow> 'tok cw20_op"
  query_balance :: "'tok \<Rightarrow> string \<Rightarrow> u128 res"
  query_token_info :: "'tok \<Rightarrow> token_info res"
  cw20_query :: "'tok \<Rightarrow> deps \<Rightarrow> env \<Rightarrow> cw20_query_msg \<Rightarrow> cw20_answer res"
  error_text :: "contract_error \<Rightarrow> string"

text \<open>What the queries of the token say, as natural numbers (0 when a query fails).\<close>

definition token_supply :: "'tok cw20_base \<Rightarrow> 'tok \<Rightarrow> nat" where
  "token_supply C tok = (case query_token_info C tok of Inl _ \<Rightarrow> 0 | Inr ti \<Rightarrow> unat (ti_total_supply ti))"

definition token_holding :: "'tok cw20_base \<Rightarrow> 'tok \<Rightarrow> addr \<Rightarrow> nat" where
  "token_holding C tok a = (case query_balance C tok a of Inl _ \<Rightarrow> 0 | Inr b \<Rightarrow> unat b)"

text \<open>
  The CW20 specification: \<open>Mint\<close> creates \<open>amount\<close> new tokens for the recipient and adds them to
  the total supply; \<open>Burn\<close> and \<open>BurnFrom\<close> remove \<open>amount\<close> from the caller's (the owner's) balance
  and from the total supply; the other messages leave the total supply. Only \<open>Send\<close> and
  \<open>SendFrom\<close> emit a message, the receive hook of the target contract.
\<close>

locale cw20_token =
  fixes C :: "'tok cw20_base"
  assumes mint: "cw20_mint C rcpt a tok dp e i = Inr (tok', r) \<Longrightarrow>
      token_supply C tok' = token_supply C tok + unat a \<and> token_holding C tok' rcpt = token_holding C tok rcpt + unat a \<and>
      msgs r = []"
    and burn: "cw20_burn C a tok dp e i = Inr (tok', r) \<Longrightarrow>
      token_supply C tok = token_supply C tok' + unat a \<and>
      token_holding C tok (sender i) = token_holding C tok' (sender i) + unat a \<and> msgs r = []"
    and burn_from: "cw20_burn_from C owner a tok dp e i = Inr (tok', r) \<Longrightarrow>
      token_supply C tok = token_supply C tok' + unat a \<and>
      token_holding C tok owner = token_holding C tok' owner + unat a \<and> msgs r = []"
    and transfer: "cw20_transfer C rcpt a tok dp e i = Inr (tok', r) \<Longrightarrow>
      token_supply C tok' = token_supply C tok \<and> msgs r = []"
    and transfer_from: "cw20_transfer_from C owner rcpt a tok dp e i = Inr (tok', r) \<Longrightarrow>
      token_supply C tok' = token_supply C tok \<and> msgs r = []"
    and send: "cw20_send C contract a m tok dp e i = Inr (tok', r) \<Longrightarrow>
      token_supply C tok' = token_supply C tok \<and>
      msgs r = [Wasm_Execute contract (Cw20Receive (sender i) a m) []]"
    and send_from: "cw20_send_from C owner contract a m tok dp e i = Inr (tok', r) \<Longrightarrow>
      token_supply C tok' = token_supply C tok \<and>
      msgs r = [Wasm_Execute contract (Cw20Receive (sender i) a m) []]"
    and increase_allowance: "cw20_increase_allowance C spender a ex tok dp e i = Inr (tok', r) \<Longrightarrow>
      token_supply C tok' = token_supply C tok \<and> msgs r = []"
    and decrease_allowance: "cw20_decrease_allowance C spender a ex tok dp e i = Inr (tok', r) \<Longrightarrow>
      token_supply C tok' = token_supply C tok \<and> msgs r = []"
    and update_minter: "cw20_update_minter C new_minter tok dp e i = Inr (tok', r) \<Longrightarrow>
      token_supply C tok' = token_supply C tok \<and> msgs r = []"
    and update_marketing: "cw20_update_marketing C project descr mk tok dp e i = Inr (tok', r) \<Longrightarrow>
      token_supply C tok' = token_supply C tok \<and> msgs r = []"
    and upload_logo: "cw20_upload_logo C l tok dp e i = Inr (tok', r) \<Longrightarrow>
      token_supply C tok' = token_supply C tok \<and> msgs r = []"
begin

lemmas supply_kept = transfer transfer_from increase_allowance decrease_allowance update_minter
  update_marketing upload_logo

end

section \<open>An instance: a ledger of balances and allowances\<close>

record ledger =
  lg_info :: "token_info option"
  lg_minter :: "minter_response option"
  lg_balances :: "addr \<Rightarrow> u128"
  lg_allowances :: "addr \<Rightarrow> addr \<Rightarrow> u128 \<times> expiration"

definition empty_ledger :: ledger where
  "empty_ledger = \<lparr>lg_info = None, lg_minter = None, lg_balances = (\<lambda>_. 0),
     lg_allowances = (\<lambda>_ _. (0, Never_Expires))\<rparr>"

definition lg_err :: "string \<Rightarrow> 'a res" where
  "lg_err s = Inl (Err (Cw20Base s))"

definition lg_add :: "u128 \<Rightarrow> u128 \<Rightarrow> u128 res" where
  "lg_add a b = (case u128_of (unat a + unat b) of None \<Rightarrow> lg_err ''overflow'' | Some c \<Rightarrow> Inr c)"

definition lg_sub :: "u128 \<Rightarrow> u128 \<Rightarrow> u128 res" where
  "lg_sub a b = (if unat b \<le> unat a then Inr (a - b) else lg_err ''overflow'')"

text \<open>Expiry by block height is out of reach of \<open>env\<close> and never triggers in this instance.\<close>

fun lg_expired :: "expiration \<Rightarrow> env \<Rightarrow> bool" where
  "lg_expired (AtTime t) e = (t \<le> block_time e)"
| "lg_expired _ e = False"

definition lg_done :: "ledger \<Rightarrow> (ledger \<times> response) res" where
  "lg_done l = Inr (l, response_new)"

definition lg_move :: "addr \<Rightarrow> addr \<Rightarrow> u128 \<Rightarrow> ledger \<Rightarrow> ledger res" where
  "lg_move src dst a l =
     rbind (lg_sub (lg_balances l src) a) (\<lambda>s.
       (let b = (lg_balances l)(src := s) in
        rbind (lg_add (b dst) a) (\<lambda>d. Inr (l\<lparr>lg_balances := b(dst := d)\<rparr>))))"

definition lg_set_supply :: "(u128 \<Rightarrow> u128 res) \<Rightarrow> ledger \<Rightarrow> ledger res" where
  "lg_set_supply f l =
     rbind (load ''token_info'' (lg_info l)) (\<lambda>ti.
     rbind (f (ti_total_supply ti)) (\<lambda>s.
       Inr (l\<lparr>lg_info := Some (ti\<lparr>ti_total_supply := s\<rparr>)\<rparr>)))"

definition lg_destroy :: "addr \<Rightarrow> u128 \<Rightarrow> ledger \<Rightarrow> ledger res" where
  "lg_destroy owner a l =
     rbind (lg_sub (lg_balances l owner) a) (\<lambda>s.
       lg_set_supply (\<lambda>t. lg_sub t a) (l\<lparr>lg_balances := (lg_balances l)(owner := s)\<rparr>))"

definition lg_create :: "addr \<Rightarrow> u128 \<Rightarrow> ledger \<Rightarrow> ledger res" where
  "lg_create rcpt a l =
     rbind (lg_add (lg_balances l rcpt) a) (\<lambda>s.
       lg_set_supply (\<lambda>t. lg_add t a) (l\<lparr>lg_balances := (lg_balances l)(rcpt := s)\<rparr>))"

definition lg_deduct :: "addr \<Rightarrow> addr \<Rightarrow> u128 \<Rightarrow> env \<Rightarrow> ledger \<Rightarrow> ledger res" where
  "lg_deduct owner spender a e l =
     (case lg_allowances l owner spender of (n, ex) \<Rightarrow>
        if lg_expired ex e then lg_err ''expired''
        else rbind (lg_sub n a) (\<lambda>n'. Inr (l\<lparr>lg_allowances :=
               (lg_allowances l)(owner := (lg_allowances l owner)(spender := (n', ex)))\<rparr>)))"

definition lg_allow :: "(u128 \<Rightarrow> u128 res) \<Rightarrow> string \<Rightarrow> expiration option \<Rightarrow> ledger cw20_op" where
  "lg_allow f spender ex l dp e i =
     (if spender = sender i then lg_err ''cannot set own account''
      else case lg_allowances l (sender i) spender of (n, ex0) \<Rightarrow>
        rbind (f n) (\<lambda>n'.
          lg_done (l\<lparr>lg_allowances := (lg_allowances l)(sender i :=
            (lg_allowances l (sender i))(spender := (n', case ex of None \<Rightarrow> ex0 | Some x \<Rightarrow> x)))\<rparr>)))"

definition lg_receive :: "string \<Rightarrow> u128 \<Rightarrow> binary \<Rightarrow> message_info \<Rightarrow> response" where
  "lg_receive contract a m i =
     add_messages [Wasm_Execute contract (Cw20Receive (sender i) a m) []] response_new"

definition lg_init :: "cw20_instantiate_msg \<Rightarrow> ledger cw20_op" where
  "lg_init m l dp e i =
     rbind (foldr (\<lambda>(rcpt, a) acc. rbind acc (lg_create rcpt a)) (im_initial_balances m)
       (Inr (empty_ledger\<lparr>lg_info := Some \<lparr>ti_name = im_name m, ti_symbol = im_symbol m,
           ti_decimals = im_decimals m, ti_total_supply = 0\<rparr>, lg_minter := im_mint m\<rparr>)))
       lg_done"

definition lg_mint :: "string \<Rightarrow> u128 \<Rightarrow> ledger cw20_op" where
  "lg_mint rcpt a l dp e i =
     (case lg_minter l of
        None \<Rightarrow> Inl (Err Unauthorized)
      | Some mr \<Rightarrow>
          if mr_minter mr \<noteq> sender i then Inl (Err Unauthorized)
          else rbind (lg_create rcpt a l) (\<lambda>l'.
            (case mr_cap mr of
               None \<Rightarrow> lg_done l'
             | Some cap \<Rightarrow>
                 if unat cap < (case lg_info l' of None \<Rightarrow> 0 | Some ti \<Rightarrow> unat (ti_total_supply ti))
                 then lg_err ''cap exceeded'' else lg_done l')))"

definition lg_update_minter :: "string option \<Rightarrow> ledger cw20_op" where
  "lg_update_minter nm l dp e i =
     (case lg_minter l of
        None \<Rightarrow> Inl (Err Unauthorized)
      | Some mr \<Rightarrow>
          if mr_minter mr \<noteq> sender i then Inl (Err Unauthorized)
          else lg_done (l\<lparr>lg_minter :=
            map_option (\<lambda>m. \<lparr>mr_minter = m, mr_cap = mr_cap mr\<rparr>) nm\<rparr>))"

definition ledger_cw20 :: "ledger cw20_base" where
  "ledger_cw20 = \<lparr>
     cw20_init = lg_init,
     cw20_transfer = (\<lambda>rcpt a l dp e i. rbind (lg_move (sender i) rcpt a l) lg_done),
     cw20_burn = (\<lambda>a l dp e i. rbind (lg_destroy (sender i) a l) lg_done),
     cw20_mint = lg_mint,
     cw20_send = (\<lambda>c a m l dp e i. rbind (lg_move (sender i) c a l) (\<lambda>l'. Inr (l', lg_receive c a m i))),
     cw20_increase_allowance = (\<lambda>sp a. lg_allow (\<lambda>n. lg_add n a) sp),
     cw20_decrease_allowance = (\<lambda>sp a. lg_allow (\<lambda>n. Inr (if unat n \<le> unat a then 0 else n - a)) sp),
     cw20_transfer_from = (\<lambda>ow rcpt a l dp e i. rbind (lg_deduct ow (sender i) a e l) (\<lambda>l'.
       rbind (lg_move ow rcpt a l') lg_done)),
     cw20_burn_from = (\<lambda>ow a l dp e i. rbind (lg_deduct ow (sender i) a e l) (\<lambda>l'.
       rbind (lg_destroy ow a l') lg_done)),
     cw20_send_from = (\<lambda>ow c a m l dp e i. rbind (lg_deduct ow (sender i) a e l) (\<lambda>l'.
       rbind (lg_move ow c a l') (\<lambda>l''. Inr (l'', lg_receive c a m i)))),
     cw20_update_minter = lg_update_minter,
     cw20_update_marketing = (\<lambda>_ _ _ _ _ _ _. Inl (Err Unauthorized)),
     cw20_upload_logo = (\<lambda>_ _ _ _ _. Inl (Err Unauthorized)),
     query_balance = (\<lambda>l a. Inr (lg_balances l a)),
     query_token_info = (\<lambda>l. load ''token_info'' (lg_info l)),
     cw20_query = (\<lambda>l dp e q. case q of Query_Balance a \<Rightarrow> Inr (Ans_Balance (lg_balances l a))
                     | _ \<Rightarrow> lg_err ''unsupported query''),
     error_text = (\<lambda>err. case err of Std (GenericErr s) \<Rightarrow> s | Std (NotFound s) \<Rightarrow> s @ '' not found''
                     | Unauthorized \<Rightarrow> ''Unauthorized'' | Cw20Base s \<Rightarrow> s | _ \<Rightarrow> ''error'') \<rparr>"

lemma ledger_ops:
  "cw20_init ledger_cw20 = lg_init"
  "cw20_transfer ledger_cw20 rc a l dp e i = rbind (lg_move (sender i) rc a l) lg_done"
  "cw20_burn ledger_cw20 a l dp e i = rbind (lg_destroy (sender i) a l) lg_done"
  "cw20_mint ledger_cw20 = lg_mint"
  "cw20_send ledger_cw20 c a m l dp e i =
     rbind (lg_move (sender i) c a l) (\<lambda>l'. Inr (l', lg_receive c a m i))"
  "cw20_transfer_from ledger_cw20 ow rc a l dp e i =
     rbind (lg_deduct ow (sender i) a e l) (\<lambda>l'. rbind (lg_move ow rc a l') lg_done)"
  "cw20_burn_from ledger_cw20 ow a l dp e i =
     rbind (lg_deduct ow (sender i) a e l) (\<lambda>l'. rbind (lg_destroy ow a l') lg_done)"
  "cw20_send_from ledger_cw20 ow c a m l dp e i =
     rbind (lg_deduct ow (sender i) a e l) (\<lambda>l'.
       rbind (lg_move ow c a l') (\<lambda>l''. Inr (l'', lg_receive c a m i)))"
  "cw20_increase_allowance ledger_cw20 sp a = lg_allow (\<lambda>n. lg_add n a) sp"
  "cw20_decrease_allowance ledger_cw20 sp a =
     lg_allow (\<lambda>n. Inr (if unat n \<le> unat a then 0 else n - a)) sp"
  "cw20_update_minter ledger_cw20 = lg_update_minter"
  "cw20_update_marketing ledger_cw20 x y z l dp e i = Inl (Err Unauthorized)"
  "cw20_upload_logo ledger_cw20 lo l dp e i = Inl (Err Unauthorized)"
  "query_balance ledger_cw20 l ad = Inr (lg_balances l ad)"
  "query_token_info ledger_cw20 l = load ''token_info'' (lg_info l)"
  by (simp_all add: ledger_cw20_def)

lemma ledger_queries:
  "token_supply ledger_cw20 l = (case lg_info l of None \<Rightarrow> 0 | Some ti \<Rightarrow> unat (ti_total_supply ti))"
  "token_holding ledger_cw20 l a = unat (lg_balances l a)"
  by (auto simp: token_supply_def token_holding_def ledger_ops load_def split: option.splits)

lemma lg_add_eq_Inr: "lg_add a b = Inr c \<longleftrightarrow> unat c = unat a + unat b"
  unfolding u128_of_eq_Some [symmetric] by (auto simp: lg_add_def lg_err_def split: option.splits)

lemma lg_sub_eq_Inr: "lg_sub a b = Inr c \<longleftrightarrow> unat b \<le> unat a \<and> unat c = unat a - unat b"
proof (cases "unat b \<le> unat a")
  case True
  then have "unat (a - b) = unat a - unat b" by (simp add: unat_sub word_le_nat_alt)
  with True show ?thesis by (auto simp: lg_sub_def word_unat_eq_iff)
qed (simp add: lg_sub_def lg_err_def)

lemma lg_move_supply: "lg_move s d a l = Inr l' \<Longrightarrow> lg_info l' = lg_info l"
  by (auto simp: lg_move_def rbind_eq_Inr Let_def)

lemma lg_deduct_frame:
  "lg_deduct ow sp a e l = Inr l' \<Longrightarrow> lg_info l' = lg_info l \<and> lg_balances l' = lg_balances l"
  by (auto simp: lg_deduct_def rbind_eq_Inr lg_err_def split: prod.splits if_splits)

lemma lg_destroy_laws:
  assumes "lg_destroy ow a l = Inr l'"
  shows "token_supply ledger_cw20 l = token_supply ledger_cw20 l' + unat a"
    and "token_holding ledger_cw20 l ow = token_holding ledger_cw20 l' ow + unat a"
  using assms
  by (auto simp: lg_destroy_def lg_set_supply_def res_simps lg_sub_eq_Inr ledger_queries)

lemma lg_create_laws:
  assumes "lg_create rc a l = Inr l'"
  shows "token_supply ledger_cw20 l' = token_supply ledger_cw20 l + unat a"
    and "token_holding ledger_cw20 l' rc = token_holding ledger_cw20 l rc + unat a"
  using assms
  by (auto simp: lg_create_def lg_set_supply_def res_simps lg_add_eq_Inr ledger_queries)

lemma lg_allow_frame: "lg_allow f sp ex l dp e i = Inr (l', r) \<Longrightarrow> lg_info l' = lg_info l \<and> msgs r = []"
  by (auto simp: lg_allow_def rbind_eq_Inr lg_err_def lg_done_def split: prod.splits if_splits)

lemma lg_mint_laws:
  assumes "lg_mint rc a l dp e i = Inr (l', r)"
  shows "lg_create rc a l = Inr l' \<and> msgs r = []"
  using assms
  by (auto simp: lg_mint_def rbind_eq_Inr lg_done_def lg_err_def split: option.splits if_splits)

lemma lg_receive_msgs: "msgs (lg_receive c a m i) = [Wasm_Execute c (Cw20Receive (sender i) a m) []]"
  by (simp add: lg_receive_def)

lemmas ledger_frame = lg_move_supply lg_deduct_frame lg_allow_frame

interpretation ledger: cw20_token ledger_cw20
proof (unfold_locales, goal_cases)
  case (1 rcpt a tok dp e i tok' r)
  then show ?case using lg_mint_laws lg_create_laws unfolding ledger_ops by blast
next
  case (2 a tok dp e i tok' r)
  then have "lg_destroy (sender i) a tok = Inr tok' \<and> msgs r = []"
    by (auto simp: ledger_ops rbind_eq_Inr lg_done_def)
  then show ?case using lg_destroy_laws by blast
next
  case (3 owner a tok dp e i tok' r)
  then obtain l where "lg_deduct owner (sender i) a e tok = Inr l"
      and "lg_destroy owner a l = Inr tok'" "msgs r = []"
    by (auto simp: ledger_ops rbind_eq_Inr lg_done_def)
  then show ?case
    using lg_destroy_laws [of owner a l tok'] lg_deduct_frame [of owner "sender i" a e tok l]
    by (simp add: ledger_queries)
qed (auto simp: ledger_ops ledger_queries rbind_eq_Inr lg_done_def lg_receive_msgs
    lg_update_minter_def dest!: ledger_frame split: option.splits if_splits)

lemmas ledger_eval = ledger_ops lg_init_def lg_mint_def lg_move_def lg_destroy_def lg_create_def
  lg_set_supply_def lg_deduct_def lg_allow_def lg_receive_def lg_update_minter_def lg_done_def
  lg_add_def lg_sub_def lg_err_def empty_ledger_def u128_of_def

end
