(* ===== verification/Lsd_Hub_Trait.thy ===== *)
theory Lsd_Hub_Trait
  imports Messages
begin

text \<open>
  The trait \<open>LSDHub<I>\<close> (\<open>trait_def.rs\<close>): what a wrapper token needs from the liquid staking
  token it wraps. A Rust implementation is a value of the record \<open>lsd_hub\<close>; the generic functions
  of the wrapper crates take one, as the type parameter \<open>T\<close> does in the source. The locale
  \<open>lsd_hub_trait\<close> is the contract between the two sides: which token an implementation moves, and
  how much of it.
\<close>

record ('raw, 'cfg) lsd_hub =
  instantiate_config :: "deps \<Rightarrow> 'raw \<Rightarrow> 'cfg res"
  query_exchange_rate :: "'cfg \<Rightarrow> deps \<Rightarrow> env \<Rightarrow> decimal res"
  get_balance :: "'cfg \<Rightarrow> deps \<Rightarrow> env \<Rightarrow> addr \<Rightarrow> u128 res"
  deposit_funds :: "'cfg \<Rightarrow> deps \<Rightarrow> env \<Rightarrow> message_info \<Rightarrow> u128 \<Rightarrow> addr \<Rightarrow> cosmos_msg list res"
  send_funds :: "'cfg \<Rightarrow> deps \<Rightarrow> env \<Rightarrow> u128 \<Rightarrow> addr \<Rightarrow> cosmos_msg list res"

text \<open>The message that moves \<open>a\<close> units of an asset from the contract to \<open>to\<close>.\<close>

fun lsd_transfer :: "asset_info \<Rightarrow> addr \<Rightarrow> u128 \<Rightarrow> cosmos_msg" where
  "lsd_transfer (Token t) to a = Wasm_Execute t (Cw20Exec (Cw20_Transfer to a)) []"
| "lsd_transfer (NativeToken d) to a = Bank_Send to [\<lparr>coin_denom = d, coin_amount = a\<rparr>]"

text \<open>
  The messages that bring \<open>a\<close> units into the contract: a CW20 token is pulled from the allowance
  of its owner, a native token has already arrived with the call.
\<close>

fun lsd_pull :: "asset_info \<Rightarrow> addr \<Rightarrow> addr \<Rightarrow> u128 \<Rightarrow> cosmos_msg list" where
  "lsd_pull (Token t) owner self a = [Wasm_Execute t (Cw20Exec (Cw20_TransferFrom owner self a)) []]"
| "lsd_pull (NativeToken d) owner self a = []"

text \<open>What the caller attached of the asset.\<close>

fun lsd_attached :: "asset_info \<Rightarrow> message_info \<Rightarrow> nat" where
  "lsd_attached (Token t) i = 0"
| "lsd_attached (NativeToken d) i =
     sum_list (map (\<lambda>c. unat (coin_amount c)) (filter (\<lambda>c. coin_denom c = d) (funds i)))"

text \<open>The balance that the chain reports for a holder of the asset.\<close>

fun lsd_balance :: "asset_info \<Rightarrow> deps \<Rightarrow> addr \<Rightarrow> u128 res" where
  "lsd_balance (Token t) dp who = query_as dp a_balance t (Q_Cw20Balance who)"
| "lsd_balance (NativeToken d) dp who =
     rbind (std_res (bank_balance dp who d)) (\<lambda>c. Inr (coin_amount c))"

locale lsd_hub_trait =
  fixes H :: "('raw, 'cfg) lsd_hub"
    and asset :: "'cfg \<Rightarrow> asset_info"
  assumes send_funds: "send_funds H c dp e a to = Inr [lsd_transfer (asset c) to a]"
    and get_balance: "get_balance H c dp e who = lsd_balance (asset c) dp who"
    and deposit_msgs: "deposit_funds H c dp e i a from = Inr ms \<Longrightarrow>
      ms = lsd_pull (asset c) from (contract_address e) a"
    and deposit_covered: "deposit_funds H c dp e i a from = Inr ms \<Longrightarrow> asset c = NativeToken d \<Longrightarrow>
      unat a \<le> lsd_attached (asset c) i"
begin

text \<open>
  What a successful deposit brings in, from the attached funds or from the pull message, is at
  least the amount that was asked for.
\<close>

lemma deposit_amount:
  assumes "deposit_funds H c dp e i a from = Inr ms"
  obtains (pulled) t where "asset c = Token t"
      "ms = [Wasm_Execute t (Cw20Exec (Cw20_TransferFrom from (contract_address e) a)) []]"
  | (attached) d where "asset c = NativeToken d" "ms = []" "unat a \<le> lsd_attached (asset c) i"
  using deposit_msgs [OF assms] deposit_covered [OF assms] by (cases "asset c") auto

end

end
