(* ===== verification/Wrapper_Token.thy ===== *)
theory Wrapper_Token
  imports Cw20_Base Lsd_Hub_Trait
begin

text \<open>
  The crate \<open>cavern_lsd_wrapper_token\<close>: a CW20 token that wraps a liquid staking token (LSD) and is
  worth one underlying coin per unit. Minting takes LSD at the current exchange rate, burning
  gives LSD back, and the hub may skim ("decompound") the LSD that staking rewards have made
  superfluous. Every function takes the arithmetic \<open>A\<close>, the token library \<open>C\<close> and the hub \<open>H\<close>;
  a handler maps the storage to a new storage and a response, or fails.
\<close>

section \<open>Storage (state.rs, msg.rs)\<close>

record ('cfg, 'tok) wrapper_storage =
  ws_lsd_config :: "'cfg option"
  ws_hub_contract :: "addr option"
  ws_cw20 :: 'tok

record 'raw token_init_msg =
  tm_name :: string
  tm_symbol :: string
  tm_decimals :: u8
  tm_initial_balances :: "(string \<times> u128) list"
  tm_hub_contract :: string
  tm_lsd_config :: 'raw

record wrapper_state =
  w_lsd_exchange_rate :: decimal
  w_wlsd_supply :: u128
  w_backing_luna :: decimal
  w_lsd_balance :: u128

definition wrapper_state_default :: wrapper_state where
  "wrapper_state_default = \<lparr>w_lsd_exchange_rate = dec_zero, w_wlsd_supply = 0,
     w_backing_luna = dec_zero, w_lsd_balance = 0\<rparr>"

text \<open>\<open>wrapper.rs\<close>: the rewards that may leave the wrapper.\<close>

record accrued_rewards =
  luna_rewards :: u128
  lsd_rewards :: u128

definition accrued_rewards_default :: accrued_rewards where
  "accrued_rewards_default = \<lparr>luna_rewards = 0, lsd_rewards = 0\<rparr>"

definition read_hub_contract :: "('cfg, 'tok, 'z) wrapper_storage_scheme \<Rightarrow> addr res" where
  "read_hub_contract st = load ''hub_contract'' (ws_hub_contract st)"

definition store_hub_contract ::
  "addr \<Rightarrow> ('cfg, 'tok, 'z) wrapper_storage_scheme \<Rightarrow> ('cfg, 'tok, 'z) wrapper_storage_scheme" where
  "store_hub_contract a st = st\<lparr>ws_hub_contract := Some a\<rparr>"

definition read_lsd_config :: "('cfg, 'tok, 'z) wrapper_storage_scheme \<Rightarrow> 'cfg res" where
  "read_lsd_config st = load ''lcd_config'' (ws_lsd_config st)"

definition store_lsd_config ::
  "'cfg \<Rightarrow> ('cfg, 'tok, 'z) wrapper_storage_scheme \<Rightarrow> ('cfg, 'tok, 'z) wrapper_storage_scheme" where
  "store_lsd_config c st = st\<lparr>ws_lsd_config := Some c\<rparr>"

section \<open>The exchange rate (querier.rs)\<close>

definition get_current_exchange_rate ::
  "arith \<Rightarrow> 'tok cw20_base \<Rightarrow> ('raw, 'cfg) lsd_hub \<Rightarrow> deps \<Rightarrow> env \<Rightarrow>
   ('cfg, 'tok, 'z) wrapper_storage_scheme \<Rightarrow> wrapper_state \<Rightarrow> (decimal \<times> wrapper_state) res" where
  "get_current_exchange_rate A C H dp e st state =
     rbind (read_lsd_config st) (\<lambda>lsd_config.
     rbind (query_exchange_rate H lsd_config dp e) (\<lambda>lsd_exchange_rate.
     rbind (get_balance H lsd_config dp e (contract_address e)) (\<lambda>balance.
     rbind (or_panic (from_ratio A balance 1)) (\<lambda>dec_balance.
     rbind (or_panic (d_mul A dec_balance lsd_exchange_rate)) (\<lambda>luna_backing_token.
     rbind (query_token_info C (ws_cw20 st)) (\<lambda>ti.
       let total_wlsd_supply = ti_total_supply ti;
           state' = state\<lparr>w_lsd_exchange_rate := lsd_exchange_rate,
                          w_wlsd_supply := total_wlsd_supply,
                          w_backing_luna := luna_backing_token,
                          w_lsd_balance := balance\<rparr>
       in if total_wlsd_supply = 0 then Inr (dec_one, state')
          else rbind (or_panic (d_div_uint A luna_backing_token total_wlsd_supply)) (\<lambda>r.
            Inr (r, state'))))))))"

section \<open>Handlers (handler.rs)\<close>

type_synonym ('cfg, 'tok, 'z) handler =
  "deps \<Rightarrow> env \<Rightarrow> message_info \<Rightarrow> ('cfg, 'tok, 'z) wrapper_storage_scheme \<Rightarrow>
   (('cfg, 'tok, 'z) wrapper_storage_scheme \<times> response) res"

text \<open>A call into the token library works on its part of the storage.\<close>

definition on_cw20 :: "'tok cw20_op \<Rightarrow> ('cfg, 'tok, 'z) handler" where
  "on_cw20 op dp e i st =
     rbind (op (ws_cw20 st) dp e i) (\<lambda>(tok, r). Inr (st\<lparr>ws_cw20 := tok\<rparr>, r))"

definition execute_transfer ::
  "'tok cw20_base \<Rightarrow> string \<Rightarrow> u128 \<Rightarrow> ('cfg, 'tok, 'z) handler" where
  "execute_transfer C recipient amount = on_cw20 (cw20_transfer C recipient amount)"

definition before_burn ::
  "arith \<Rightarrow> ('raw, 'cfg) lsd_hub \<Rightarrow> u128 \<Rightarrow> deps \<Rightarrow> env \<Rightarrow> message_info \<Rightarrow>
   ('cfg, 'tok, 'z) wrapper_storage_scheme \<Rightarrow> cosmos_msg list res" where
  "before_burn A H amount dp e i st =
     rbind (read_lsd_config st) (\<lambda>lsd_config.
     rbind (query_exchange_rate H lsd_config dp e) (\<lambda>lsd_exchange_rate.
     rbind (or_panic (from_ratio A amount 1)) (\<lambda>dec_amount.
     rbind (or_panic (d_div A dec_amount lsd_exchange_rate)) (\<lambda>lsd_amount.
     rbind (or_panic (d_times A lsd_amount 1)) (\<lambda>n.
       send_funds H lsd_config dp e n (sender i))))))"

definition execute_burn ::
  "arith \<Rightarrow> 'tok cw20_base \<Rightarrow> ('raw, 'cfg) lsd_hub \<Rightarrow> u128 \<Rightarrow> ('cfg, 'tok, 'z) handler" where
  "execute_burn A C H amount dp e i st =
     rbind (before_burn A H amount dp e i st) (\<lambda>transfer_messages.
     rbind (on_cw20 (cw20_burn C amount) dp e i st) (\<lambda>(st', r).
       Inr (st', add_messages transfer_messages r)))"

definition execute_burn_all ::
  "arith \<Rightarrow> 'tok cw20_base \<Rightarrow> ('raw, 'cfg) lsd_hub \<Rightarrow> ('cfg, 'tok, 'z) handler" where
  "execute_burn_all A C H dp e i st =
     rbind (query_balance C (ws_cw20 st) (sender i)) (\<lambda>amount.
       if amount = 0 then Inr (st, response_new)
       else execute_burn A C H amount dp e i st)"

definition execute_mint ::
  "arith \<Rightarrow> 'tok cw20_base \<Rightarrow> ('raw, 'cfg) lsd_hub \<Rightarrow> string \<Rightarrow> u128 \<Rightarrow> ('cfg, 'tok, 'z) handler" where
  "execute_mint A C H recipient amount dp e i st =
     rbind (read_lsd_config st) (\<lambda>lsd_config.
     rbind (query_exchange_rate H lsd_config dp e) (\<lambda>lsd_exchange_rate.
     rbind (or_panic (from_ratio A amount 1)) (\<lambda>dec_amount.
     rbind (or_panic (d_div A dec_amount lsd_exchange_rate)) (\<lambda>quotient.
     rbind (or_panic (d_add A quotient dec_one)) (\<lambda>send_lsd_amount.
     rbind (or_panic (d_times A send_lsd_amount 1)) (\<lambda>n.
     rbind (deposit_funds H lsd_config dp e i n (sender i)) (\<lambda>ms.
     rbind (on_cw20 (cw20_mint C recipient amount) dp e (i\<lparr>sender := contract_address e\<rparr>) st)
       (\<lambda>(st', r). Inr (st', add_messages ms r)))))))))"

definition execute_mint_with ::
  "arith \<Rightarrow> 'tok cw20_base \<Rightarrow> ('raw, 'cfg) lsd_hub \<Rightarrow> string \<Rightarrow> u128 \<Rightarrow> ('cfg, 'tok, 'z) handler" where
  "execute_mint_with A C H recipient lsd_amount dp e i st =
     rbind (read_lsd_config st) (\<lambda>lsd_config.
     rbind (query_exchange_rate H lsd_config dp e) (\<lambda>lsd_exchange_rate.
     rbind (or_panic (from_ratio A lsd_amount 1)) (\<lambda>dec_amount.
     rbind (or_panic (d_mul A dec_amount lsd_exchange_rate)) (\<lambda>mint_amount.
     rbind (deposit_funds H lsd_config dp e i lsd_amount (sender i)) (\<lambda>ms.
     rbind (or_panic (d_times A mint_amount 1)) (\<lambda>n.
     rbind (on_cw20 (cw20_mint C recipient n) dp e (i\<lparr>sender := contract_address e\<rparr>) st)
       (\<lambda>(st', r). Inr (st', add_messages ms r))))))))"

definition execute_send ::
  "'tok cw20_base \<Rightarrow> string \<Rightarrow> u128 \<Rightarrow> binary \<Rightarrow> ('cfg, 'tok, 'z) handler" where
  "execute_send C contract amount msg = on_cw20 (cw20_send C contract amount msg)"

definition execute_transfer_from ::
  "'tok cw20_base \<Rightarrow> string \<Rightarrow> string \<Rightarrow> u128 \<Rightarrow> ('cfg, 'tok, 'z) handler" where
  "execute_transfer_from C owner recipient amount =
     on_cw20 (cw20_transfer_from C owner recipient amount)"

definition execute_burn_from ::
  "arith \<Rightarrow> 'tok cw20_base \<Rightarrow> ('raw, 'cfg) lsd_hub \<Rightarrow> string \<Rightarrow> u128 \<Rightarrow> ('cfg, 'tok, 'z) handler" where
  "execute_burn_from A C H owner amount dp e i st =
     rbind (before_burn A H amount dp e i st) (\<lambda>transfer_messages.
     rbind (on_cw20 (cw20_burn_from C owner amount) dp e i st) (\<lambda>(st', r).
       Inr (st', add_messages transfer_messages r)))"

definition execute_send_from ::
  "'tok cw20_base \<Rightarrow> string \<Rightarrow> string \<Rightarrow> u128 \<Rightarrow> binary \<Rightarrow> ('cfg, 'tok, 'z) handler" where
  "execute_send_from C owner contract amount msg =
     on_cw20 (cw20_send_from C owner contract amount msg)"

section \<open>Rewards (contract.rs)\<close>

definition no_rewards :: string where
  "no_rewards = ''No rewards to decompound''"

text \<open>
  The margin of one LSD unit that stays in the wrapper when there is anything to take out. The
  second component is the number of LSD units, the first their value.
\<close>

definition subtract_margin :: "arith \<Rightarrow> decimal \<Rightarrow> u128 \<Rightarrow> u128 \<Rightarrow> (u128 \<times> u128) res" where
  "subtract_margin A lsd_exchange_rate luna to_decompound =
     (if 0 < to_decompound then
        rbind (or_panic (u_sub A to_decompound 1)) (\<lambda>d.
        rbind (or_panic (d_times A lsd_exchange_rate 1)) (\<lambda>one_lsd.
        rbind (or_panic (u_sub A luna one_lsd)) (\<lambda>l. Inr (l, d))))
      else Inr (luna, to_decompound))"

text \<open>
  What exceeds the need of the outstanding tokens: its value in whole coins, and the LSD units.
\<close>

definition available_rewards :: "arith \<Rightarrow> wrapper_state \<Rightarrow> (u128 \<times> u128) res" where
  "available_rewards A state =
     rbind (or_panic (d_times A (w_backing_luna state) 1)) (\<lambda>backing.
     rbind (or_panic (u_sub A backing (w_wlsd_supply state))) (\<lambda>luna.
     rbind (or_panic (from_ratio A (w_lsd_balance state) 1)) (\<lambda>dec_balance.
     rbind (or_panic (from_ratio A (w_wlsd_supply state) 1)) (\<lambda>dec_supply.
     rbind (or_panic (d_div A dec_supply (w_lsd_exchange_rate state))) (\<lambda>needed.
     rbind (or_panic (d_sub A dec_balance needed)) (\<lambda>excess.
     rbind (or_panic (d_times A excess 1)) (\<lambda>to_decompound.
       Inr (luna, to_decompound))))))))"

definition compute_accrued_rewards ::
  "arith \<Rightarrow> 'tok cw20_base \<Rightarrow> ('raw, 'cfg) lsd_hub \<Rightarrow> deps \<Rightarrow> env \<Rightarrow>
   ('cfg, 'tok, 'z) wrapper_storage_scheme \<Rightarrow> accrued_rewards res" where
  "compute_accrued_rewards A C H dp e st =
     rbind (get_current_exchange_rate A C H dp e st wrapper_state_default)
       (\<lambda>(current_exchange_rate, state).
     if current_exchange_rate < dec_one then generic_err no_rewards
     else
       rbind (available_rewards A state) (\<lambda>(luna, to_decompound).
       rbind (subtract_margin A (w_lsd_exchange_rate state) luna to_decompound) (\<lambda>(l, d).
       rbind (or_panic (u_mul A l 1)) (\<lambda>l1.
       rbind (or_panic (u_mul A d 1)) (\<lambda>d1.
         Inr \<lparr>luna_rewards = l1, lsd_rewards = d1\<rparr>)))))"

definition decompound_response :: "u128 \<Rightarrow> cosmos_msg list \<Rightarrow> response" where
  "decompound_response luna ms =
     add_messages ms (add_attributes
       [(''action'', ''execute_decompound''), (''total_luna_rewards'', show_nat (unat luna))]
       response_new)"

text \<open>
  The \<open>match\<close> of \<open>execute_decompound\<close>: the error that says there is nothing to take out becomes
  an empty result, every other one stops the call.
\<close>

definition decompound_messages ::
  "arith \<Rightarrow> 'tok cw20_base \<Rightarrow> ('raw, 'cfg) lsd_hub \<Rightarrow> 'cfg \<Rightarrow> addr \<Rightarrow> deps \<Rightarrow> env \<Rightarrow>
   ('cfg, 'tok, 'z) wrapper_storage_scheme \<Rightarrow> (cosmos_msg list \<times> accrued_rewards) res" where
  "decompound_messages A C H lsd_config to dp e st =
     (case compute_accrued_rewards A C H dp e st of
        Inl (Err err) \<Rightarrow>
          if err = Std (GenericErr no_rewards) then Inr ([], accrued_rewards_default)
          else Inl (Err err)
      | Inl Panic \<Rightarrow> Inl Panic
      | Inr rewards \<Rightarrow>
          rbind (if lsd_rewards rewards \<noteq> 0
                 then send_funds H lsd_config dp e (lsd_rewards rewards) to
                 else Inr [])
            (\<lambda>ms. Inr (ms, rewards)))"

definition execute_decompound ::
  "arith \<Rightarrow> 'tok cw20_base \<Rightarrow> ('raw, 'cfg) lsd_hub \<Rightarrow> string option \<Rightarrow> ('cfg, 'tok, 'z) handler" where
  "execute_decompound A C H recipient dp e i st =
     rbind (read_hub_contract st) (\<lambda>hub_contract.
     if sender i \<noteq> hub_contract then Inl (Err Unauthorized)
     else
       rbind (opt_traverse (\<lambda>x. std_res (addr_validate dp x)) recipient) (\<lambda>validated.
       let to = (case validated of None \<Rightarrow> sender i | Some a \<Rightarrow> a) in
       rbind (read_lsd_config st) (\<lambda>lsd_config.
       rbind (decompound_messages A C H lsd_config to dp e st)
         (\<lambda>(out_messages, accrued).
           Inr (st, decompound_response (luna_rewards accrued) out_messages)))))"

section \<open>Entry points (contract.rs)\<close>

definition wrapper_instantiate ::
  "'tok cw20_base \<Rightarrow> ('raw, 'cfg) lsd_hub \<Rightarrow> 'raw token_init_msg \<Rightarrow> ('cfg, 'tok, 'z) handler" where
  "wrapper_instantiate C H m dp e i st =
     rbind (instantiate_config H dp (tm_lsd_config m)) (\<lambda>lsd_config.
     let st1 = store_lsd_config lsd_config st in
     rbind (std_res (addr_validate dp (tm_hub_contract m))) (\<lambda>hub.
     let st2 = store_hub_contract hub st1 in
     rbind (map_err (\<lambda>_. Std (GenericErr ''CW20 Token init error''))
              (on_cw20 (cw20_init C \<lparr>im_name = tm_name m, im_symbol = tm_symbol m,
                  im_decimals = tm_decimals m, im_initial_balances = tm_initial_balances m,
                  im_mint = Some \<lparr>mr_minter = contract_address e, mr_cap = None\<rparr>,
                  im_marketing = None\<rparr>) dp e i st2))
       (\<lambda>(st3, _). Inr (st3, response_new))))"

fun wrapper_execute ::
  "arith \<Rightarrow> 'tok cw20_base \<Rightarrow> ('raw, 'cfg) lsd_hub \<Rightarrow> wrapper_execute_msg \<Rightarrow>
   ('cfg, 'tok, 'z) handler" where
  "wrapper_execute A C H (Transfer recipient amount) = execute_transfer C recipient amount"
| "wrapper_execute A C H (Burn amount) = execute_burn A C H amount"
| "wrapper_execute A C H BurnAll = execute_burn_all A C H"
| "wrapper_execute A C H (Send contract amount m) = execute_send C contract amount m"
| "wrapper_execute A C H (Mint recipient amount) = execute_mint A C H recipient amount"
| "wrapper_execute A C H (MintWith recipient lsd_amount) = execute_mint_with A C H recipient lsd_amount"
| "wrapper_execute A C H (IncreaseAllowance spender amount expires) =
     on_cw20 (cw20_increase_allowance C spender amount expires)"
| "wrapper_execute A C H (DecreaseAllowance spender amount expires) =
     on_cw20 (cw20_decrease_allowance C spender amount expires)"
| "wrapper_execute A C H (TransferFrom owner recipient amount) =
     execute_transfer_from C owner recipient amount"
| "wrapper_execute A C H (BurnFrom owner amount) = execute_burn_from A C H owner amount"
| "wrapper_execute A C H (SendFrom owner contract amount m) =
     execute_send_from C owner contract amount m"
| "wrapper_execute A C H (UpdateMinter new_minter) = on_cw20 (cw20_update_minter C new_minter)"
| "wrapper_execute A C H (UpdateMarketing project description marketing) =
     on_cw20 (cw20_update_marketing C project description marketing)"
| "wrapper_execute A C H (UploadLogo l) = on_cw20 (cw20_upload_logo C l)"
| "wrapper_execute A C H (Decompound recipient) = execute_decompound A C H recipient"

text \<open>\<open>TokenInfoResponse\<close> of \<open>wrapper.rs\<close>.\<close>

record token_info_response =
  tr_name :: string
  tr_symbol :: string
  tr_decimals :: u8
  tr_total_supply :: u128
  tr_exchange_rate :: decimal

datatype 'info wrapper_answer = Info_Answer 'info | Cw20_Answer cw20_answer

definition to_generic :: "'tok cw20_base \<Rightarrow> 'a res \<Rightarrow> 'a res" where
  "to_generic C = map_err (\<lambda>err. Std (GenericErr (error_text C err)))"

definition wrapper_query ::
  "arith \<Rightarrow> 'tok cw20_base \<Rightarrow> ('raw, 'cfg) lsd_hub \<Rightarrow> cw20_query_msg \<Rightarrow> deps \<Rightarrow> env \<Rightarrow>
   ('cfg, 'tok, 'z) wrapper_storage_scheme \<Rightarrow> token_info_response wrapper_answer res" where
  "wrapper_query A C H q dp e st =
     (case q of
        Query_TokenInfo \<Rightarrow>
          rbind (query_token_info C (ws_cw20 st)) (\<lambda>ti.
          rbind (to_generic C (get_current_exchange_rate A C H dp e st wrapper_state_default))
            (\<lambda>(r, _). Inr (Info_Answer \<lparr>tr_name = ti_name ti, tr_symbol = ti_symbol ti,
               tr_decimals = ti_decimals ti, tr_total_supply = ti_total_supply ti,
               tr_exchange_rate = r\<rparr>)))
      | _ \<Rightarrow> rbind (cw20_query C (ws_cw20 st) dp e q) (\<lambda>a. Inr (Cw20_Answer a)))"

definition wrapper_migrate :: "('cfg, 'tok, 'z) handler" where
  "wrapper_migrate dp e i st = Inr (st, response_new)"

end
