(* ===== verification/Limited_Wrapper.thy ===== *)
theory Limited_Wrapper
  imports Wrapper_Token
begin

text \<open>
  The crate \<open>cavern_lsd_wrapper_token_with_limit\<close>, used for liquidity-pool tokens. It differs from
  \<open>cavern_lsd_wrapper_token\<close> in two ways: minting and burning go by the share of the pot that a
  wrapper unit stands for, and what a decompound may take out is limited to a ratio per year,
  which the contract accounts for in its storage. The functions that the crate repeats unchanged
  (configuration, current rate, transfers and sends) are translated on its own storage and shown to
  be those of \<open>Wrapper_Token\<close> there.
\<close>

section \<open>Storage (state.rs, msg.rs)\<close>

record decompound_state =
  ds_ratio_sum :: decimal
  ds_total_seconds :: u64
  ds_last_decompound :: timestamp

record decompound_config =
  dc_max_decompound_ratio :: "decimal option"

record ('cfg, 'tok) limited_storage = "('cfg, 'tok) wrapper_storage" +
  lm_decompound_state :: "decompound_state option"
  lm_decompound_config :: "decompound_config option"

record 'raw limited_init_msg = "'raw token_init_msg" +
  tm_max_decompound_ratio :: "decimal option"

text \<open>\<open>AccruedRewardsLimited\<close> of \<open>wrapper.rs\<close>.\<close>

record accrued_rewards_limited =
  al_rate_decrease :: decimal
  al_luna_rewards :: u128
  al_lsd_rewards :: u128

definition accrued_rewards_limited_default :: accrued_rewards_limited where
  "accrued_rewards_limited_default =
     \<lparr>al_rate_decrease = dec_zero, al_luna_rewards = 0, al_lsd_rewards = 0\<rparr>"

definition seconds_per_year :: u64 where
  "seconds_per_year = 365 * 24 * 60 * 60"

definition load_decompound_config :: "('cfg, 'tok) limited_storage \<Rightarrow> decompound_config res" where
  "load_decompound_config st = load ''decompound_config'' (lm_decompound_config st)"

definition load_decompound_state :: "('cfg, 'tok) limited_storage \<Rightarrow> decompound_state res" where
  "load_decompound_state st = load ''decompound_state'' (lm_decompound_state st)"

definition limited_read_hub_contract :: "('cfg, 'tok) limited_storage \<Rightarrow> addr res" where
  "limited_read_hub_contract st = load ''hub_contract'' (ws_hub_contract st)"

definition limited_store_hub_contract ::
  "addr \<Rightarrow> ('cfg, 'tok) limited_storage \<Rightarrow> ('cfg, 'tok) limited_storage" where
  "limited_store_hub_contract a st = st\<lparr>ws_hub_contract := Some a\<rparr>"

definition limited_read_lsd_config :: "('cfg, 'tok) limited_storage \<Rightarrow> 'cfg res" where
  "limited_read_lsd_config st = load ''lcd_config'' (ws_lsd_config st)"

definition limited_store_lsd_config ::
  "'cfg \<Rightarrow> ('cfg, 'tok) limited_storage \<Rightarrow> ('cfg, 'tok) limited_storage" where
  "limited_store_lsd_config c st = st\<lparr>ws_lsd_config := Some c\<rparr>"

lemma limited_cells [simp]:
  "limited_read_hub_contract st = read_hub_contract st"
  "limited_store_hub_contract a st = store_hub_contract a st"
  "limited_read_lsd_config st = read_lsd_config st"
  "limited_store_lsd_config c st = store_lsd_config c st"
  by (simp_all add: limited_read_hub_contract_def read_hub_contract_def limited_store_hub_contract_def
      store_hub_contract_def limited_read_lsd_config_def read_lsd_config_def limited_store_lsd_config_def
      store_lsd_config_def)

section \<open>Exchange rates (querier.rs)\<close>

definition limited_current_exchange_rate ::
  "arith \<Rightarrow> 'tok cw20_base \<Rightarrow> ('raw, 'cfg) lsd_hub \<Rightarrow> deps \<Rightarrow> env \<Rightarrow>
   ('cfg, 'tok) limited_storage \<Rightarrow> wrapper_state \<Rightarrow> (decimal \<times> wrapper_state) res" where
  "limited_current_exchange_rate A C H dp e st state =
     rbind (limited_read_lsd_config st) (\<lambda>lsd_config.
     rbind (query_exchange_rate H lsd_config dp e) (\<lambda>lsd_exchange_rate.
     rbind (get_balance H lsd_config dp e (contract_address e)) (\<lambda>balance.
     rbind (or_panic (from_ratio A balance 1)) (\<lambda>dec_balance.
     rbind (or_panic (d_mul A dec_balance lsd_exchange_rate)) (\<lambda>luna_backing_token.
     rbind (query_token_info C (ws_cw20 st)) (\<lambda>ti.
       let total_wlsd_supply = ti_total_supply ti;
           state = state\<lparr>w_lsd_exchange_rate := lsd_exchange_rate\<rparr>;
           state = state\<lparr>w_wlsd_supply := total_wlsd_supply\<rparr>;
           state = state\<lparr>w_backing_luna := luna_backing_token\<rparr>;
           state = state\<lparr>w_lsd_balance := balance\<rparr>
       in if total_wlsd_supply = 0 then Inr (dec_one, state)
          else rbind (or_panic (d_div_uint A luna_backing_token total_wlsd_supply)) (\<lambda>r.
            Inr (r, state))))))))"

lemma limited_current_rate [simp]:
  "limited_current_exchange_rate A C H dp e st state = get_current_exchange_rate A C H dp e st state"
  by (simp add: limited_current_exchange_rate_def get_current_exchange_rate_def Let_def)

text \<open>What a year's allowance amounts to after some seconds.\<close>

definition allowance_after :: "arith \<Rightarrow> decimal \<Rightarrow> u64 \<Rightarrow> decimal res" where
  "allowance_after A max_decompound_ratio secs =
     rbind (or_panic (from_ratio A (ucast secs) (ucast seconds_per_year))) (\<lambda>years.
       or_panic (d_mul A max_decompound_ratio years))"

definition get_expected_exchange_rate ::
  "arith \<Rightarrow> 'tok cw20_base \<Rightarrow> ('raw, 'cfg) lsd_hub \<Rightarrow> deps \<Rightarrow> env \<Rightarrow>
   ('cfg, 'tok) limited_storage \<Rightarrow> wrapper_state \<Rightarrow> (decimal \<times> wrapper_state) res" where
  "get_expected_exchange_rate A C H dp e st state =
     rbind (limited_current_exchange_rate A C H dp e st state) (\<lambda>(exchange_rate, state').
     if exchange_rate < dec_one then Inr (exchange_rate, state')
     else
       rbind (load_decompound_config st) (\<lambda>config.
       case dc_max_decompound_ratio config of
         None \<Rightarrow> Inr (exchange_rate, state')
       | Some max_decompound_ratio \<Rightarrow>
           rbind (load_decompound_state st) (\<lambda>ds.
           rbind (or_panic (u64_sub (ts_seconds A (block_time e))
                              (ts_seconds A (ds_last_decompound ds)))) (\<lambda>elapsed.
           rbind (or_panic (u64_add (ds_total_seconds ds) elapsed)) (\<lambda>time_since_start.
           rbind (or_panic (d_add A exchange_rate (ds_ratio_sum ds))) (\<lambda>gross.
           rbind (allowance_after A max_decompound_ratio time_since_start) (\<lambda>allowance.
             let expected = (case d_checked_sub A gross allowance of None \<Rightarrow> dec_one | Some x \<Rightarrow> x)
             in Inr (max expected dec_one, state'))))))))"

definition get_lsd_wrapper_exchange_rate ::
  "arith \<Rightarrow> 'tok cw20_base \<Rightarrow> ('raw, 'cfg) lsd_hub \<Rightarrow> deps \<Rightarrow> env \<Rightarrow>
   ('cfg, 'tok) limited_storage \<Rightarrow> decimal res" where
  "get_lsd_wrapper_exchange_rate A C H dp e st =
     rbind (limited_read_lsd_config st) (\<lambda>lsd_config.
     rbind (get_balance H lsd_config dp e (contract_address e)) (\<lambda>total_lsd_balance.
     rbind (query_token_info C (ws_cw20 st)) (\<lambda>ti.
       if total_lsd_balance = 0 \<or> ti_total_supply ti = 0 then Inr dec_one
       else or_panic (from_ratio A (ti_total_supply ti) total_lsd_balance))))"

section \<open>Handlers (handler.rs)\<close>

type_synonym ('cfg, 'tok) limited_handler =
  "deps \<Rightarrow> env \<Rightarrow> message_info \<Rightarrow> ('cfg, 'tok) limited_storage \<Rightarrow>
   (('cfg, 'tok) limited_storage \<times> response) res"

definition limited_transfer ::
  "'tok cw20_base \<Rightarrow> string \<Rightarrow> u128 \<Rightarrow> ('cfg, 'tok) limited_handler" where
  "limited_transfer C recipient amount = on_cw20 (cw20_transfer C recipient amount)"

definition limited_before_burn ::
  "arith \<Rightarrow> 'tok cw20_base \<Rightarrow> ('raw, 'cfg) lsd_hub \<Rightarrow> u128 \<Rightarrow> deps \<Rightarrow> env \<Rightarrow> message_info \<Rightarrow>
   ('cfg, 'tok) limited_storage \<Rightarrow> cosmos_msg list res" where
  "limited_before_burn A C H amount dp e i st =
     rbind (limited_read_lsd_config st) (\<lambda>lsd_config.
     rbind (get_lsd_wrapper_exchange_rate A C H dp e st) (\<lambda>lsd_exchange_rate.
     rbind (or_panic (from_ratio A amount 1)) (\<lambda>dec_amount.
     rbind (or_panic (d_div A dec_amount lsd_exchange_rate)) (\<lambda>lsd_amount.
     rbind (or_panic (d_times A lsd_amount 1)) (\<lambda>n.
       send_funds H lsd_config dp e n (sender i))))))"

definition limited_burn ::
  "arith \<Rightarrow> 'tok cw20_base \<Rightarrow> ('raw, 'cfg) lsd_hub \<Rightarrow> u128 \<Rightarrow> ('cfg, 'tok) limited_handler" where
  "limited_burn A C H amount dp e i st =
     rbind (limited_before_burn A C H amount dp e i st) (\<lambda>transfer_messages.
     rbind (on_cw20 (cw20_burn C amount) dp e i st) (\<lambda>(st', r).
       Inr (st', add_messages transfer_messages r)))"

definition limited_burn_all ::
  "arith \<Rightarrow> 'tok cw20_base \<Rightarrow> ('raw, 'cfg) lsd_hub \<Rightarrow> ('cfg, 'tok) limited_handler" where
  "limited_burn_all A C H dp e i st =
     rbind (query_balance C (ws_cw20 st) (sender i)) (\<lambda>amount.
       if amount = 0 then Inr (st, response_new)
       else limited_burn A C H amount dp e i st)"

definition limited_mint ::
  "arith \<Rightarrow> 'tok cw20_base \<Rightarrow> ('raw, 'cfg) lsd_hub \<Rightarrow> string \<Rightarrow> u128 \<Rightarrow> ('cfg, 'tok) limited_handler" where
  "limited_mint A C H recipient amount dp e i st =
     rbind (limited_read_lsd_config st) (\<lambda>lsd_config.
     rbind (get_lsd_wrapper_exchange_rate A C H dp e st) (\<lambda>exchange_rate.
     rbind (or_panic (from_ratio A amount 1)) (\<lambda>dec_amount.
     rbind (or_panic (d_div A dec_amount exchange_rate)) (\<lambda>quotient.
     rbind (or_panic (d_add A quotient dec_one)) (\<lambda>send_lsd_amount.
     rbind (or_panic (d_times A send_lsd_amount 1)) (\<lambda>n.
     rbind (deposit_funds H lsd_config dp e i n (sender i)) (\<lambda>ms.
     rbind (on_cw20 (cw20_mint C recipient amount) dp e (i\<lparr>sender := contract_address e\<rparr>) st)
       (\<lambda>(st', r). Inr (st', add_messages ms r)))))))))"

definition limited_mint_with ::
  "arith \<Rightarrow> 'tok cw20_base \<Rightarrow> ('raw, 'cfg) lsd_hub \<Rightarrow> string \<Rightarrow> u128 \<Rightarrow> ('cfg, 'tok) limited_handler" where
  "limited_mint_with A C H recipient lsd_amount dp e i st =
     rbind (limited_read_lsd_config st) (\<lambda>lsd_config.
     rbind (get_lsd_wrapper_exchange_rate A C H dp e st) (\<lambda>exchange_rate.
     rbind (or_panic (d_times A exchange_rate lsd_amount)) (\<lambda>mint_amount.
     rbind (deposit_funds H lsd_config dp e i lsd_amount (sender i)) (\<lambda>ms.
     rbind (or_panic (u_mul A mint_amount 1)) (\<lambda>n.
     rbind (on_cw20 (cw20_mint C recipient n) dp e (i\<lparr>sender := contract_address e\<rparr>) st)
       (\<lambda>(st', r). Inr (st', add_messages ms r)))))))"

definition limited_send ::
  "'tok cw20_base \<Rightarrow> string \<Rightarrow> u128 \<Rightarrow> binary \<Rightarrow> ('cfg, 'tok) limited_handler" where
  "limited_send C contract amount msg = on_cw20 (cw20_send C contract amount msg)"

definition limited_transfer_from ::
  "'tok cw20_base \<Rightarrow> string \<Rightarrow> string \<Rightarrow> u128 \<Rightarrow> ('cfg, 'tok) limited_handler" where
  "limited_transfer_from C owner recipient amount =
     on_cw20 (cw20_transfer_from C owner recipient amount)"

definition limited_burn_from ::
  "arith \<Rightarrow> 'tok cw20_base \<Rightarrow> ('raw, 'cfg) lsd_hub \<Rightarrow> string \<Rightarrow> u128 \<Rightarrow> ('cfg, 'tok) limited_handler" where
  "limited_burn_from A C H owner amount dp e i st =
     rbind (limited_before_burn A C H amount dp e i st) (\<lambda>transfer_messages.
     rbind (on_cw20 (cw20_burn_from C owner amount) dp e i st) (\<lambda>(st', r).
       Inr (st', add_messages transfer_messages r)))"

definition limited_send_from ::
  "'tok cw20_base \<Rightarrow> string \<Rightarrow> string \<Rightarrow> u128 \<Rightarrow> binary \<Rightarrow> ('cfg, 'tok) limited_handler" where
  "limited_send_from C owner contract amount msg =
     on_cw20 (cw20_send_from C owner contract amount msg)"

lemma limited_forwards [simp]:
  "limited_transfer C recipient amount = execute_transfer C recipient amount"
  "limited_send C contract amount msg = execute_send C contract amount msg"
  "limited_transfer_from C owner recipient amount = execute_transfer_from C owner recipient amount"
  "limited_send_from C owner contract amount msg = execute_send_from C owner contract amount msg"
  by (simp_all add: limited_transfer_def execute_transfer_def limited_send_def execute_send_def
      limited_transfer_from_def execute_transfer_from_def limited_send_from_def execute_send_from_def)

section \<open>Limited rewards (contract.rs)\<close>

text \<open>
  \<open>decompound_state.total_seconds + now - last\<close>, in this order of evaluation: the sum may
  overflow before the difference is taken.
\<close>

definition seconds_until :: "arith \<Rightarrow> decompound_state \<Rightarrow> timestamp \<Rightarrow> u64 res" where
  "seconds_until A ds now =
     rbind (or_panic (u64_add (ds_total_seconds ds) (ts_seconds A now))) (\<lambda>s.
       or_panic (u64_sub s (ts_seconds A (ds_last_decompound ds))))"

definition limit_error :: string where
  "limit_error = ''Error substracting the total ratio to the current max_decompound ratio''"

text \<open>The section "Limiting the ratio of rewards extracted".\<close>

definition limit_rewards ::
  "arith \<Rightarrow> env \<Rightarrow> ('cfg, 'tok) limited_storage \<Rightarrow> wrapper_state \<Rightarrow> u128 \<Rightarrow> u128 \<Rightarrow>
   (u128 \<times> u128) res" where
  "limit_rewards A e st state luna to_decompound =
     rbind (load_decompound_config st) (\<lambda>config.
     case dc_max_decompound_ratio config of
       None \<Rightarrow> Inr (luna, to_decompound)
     | Some max_decompound_ratio \<Rightarrow>
         rbind (load_decompound_state st) (\<lambda>ds.
         rbind (seconds_until A ds (block_time e)) (\<lambda>total_period.
         rbind (allowance_after A max_decompound_ratio total_period) (\<lambda>allowance.
         rbind (case d_checked_sub A allowance (ds_ratio_sum ds) of
                  None \<Rightarrow> generic_err limit_error | Some x \<Rightarrow> Inr x) (\<lambda>max_rate.
         rbind (or_panic (d_mul A max_rate (w_backing_luna state))) (\<lambda>max_backing.
         rbind (or_panic (d_times A max_backing 1)) (\<lambda>max_luna.
         rbind (or_panic (d_times A max_rate (w_lsd_balance state))) (\<lambda>max_lsd.
           Inr (min luna max_luna, min to_decompound max_lsd)))))))))"

definition limited_compute_accrued_rewards ::
  "arith \<Rightarrow> 'tok cw20_base \<Rightarrow> ('raw, 'cfg) lsd_hub \<Rightarrow> deps \<Rightarrow> env \<Rightarrow>
   ('cfg, 'tok) limited_storage \<Rightarrow> accrued_rewards_limited res" where
  "limited_compute_accrued_rewards A C H dp e st =
     rbind (limited_current_exchange_rate A C H dp e st wrapper_state_default)
       (\<lambda>(current_exchange_rate, state).
     if current_exchange_rate < dec_one then generic_err no_rewards
     else
       rbind (available_rewards A state) (\<lambda>(luna, to_decompound).
       rbind (limit_rewards A e st state luna to_decompound) (\<lambda>(luna', to_decompound').
       rbind (subtract_margin A (w_lsd_exchange_rate state) luna' to_decompound') (\<lambda>(l, d).
       rbind (or_panic (from_ratio A l 1)) (\<lambda>dec_l.
       rbind (or_panic (d_div A dec_l (w_backing_luna state))) (\<lambda>rate_decrease.
       rbind (or_panic (u_mul A d 1)) (\<lambda>d1.
         Inr \<lparr>al_rate_decrease = rate_decrease, al_luna_rewards = l, al_lsd_rewards = d1\<rparr>)))))))"

text \<open>The accounting of a decompound, with the check that time has passed since the last one.\<close>

definition next_decompound_state ::
  "arith \<Rightarrow> env \<Rightarrow> accrued_rewards_limited \<Rightarrow> decompound_state \<Rightarrow> decompound_state res" where
  "next_decompound_state A e rewards old =
     (if ds_last_decompound old \<ge> block_time e then generic_err ''Can't decompound too often''
      else
        rbind (or_panic (d_add A (ds_ratio_sum old) (al_rate_decrease rewards))) (\<lambda>ratio_sum.
        rbind (seconds_until A old (block_time e)) (\<lambda>total_seconds.
          Inr \<lparr>ds_ratio_sum = ratio_sum, ds_total_seconds = total_seconds,
               ds_last_decompound = block_time e\<rparr>)))"

definition limited_decompound_messages ::
  "arith \<Rightarrow> 'tok cw20_base \<Rightarrow> ('raw, 'cfg) lsd_hub \<Rightarrow> 'cfg \<Rightarrow> addr \<Rightarrow> deps \<Rightarrow> env \<Rightarrow>
   ('cfg, 'tok) limited_storage \<Rightarrow>
   (('cfg, 'tok) limited_storage \<times> cosmos_msg list \<times> accrued_rewards_limited) res" where
  "limited_decompound_messages A C H lsd_config to dp e st =
     (case limited_compute_accrued_rewards A C H dp e st of
        Inl (Err err) \<Rightarrow>
          if err = Std (GenericErr no_rewards) then Inr (st, [], accrued_rewards_limited_default)
          else Inl (Err err)
      | Inl Panic \<Rightarrow> Inl Panic
      | Inr rewards \<Rightarrow>
          rbind (load_decompound_state st) (\<lambda>old_decompound.
          rbind (next_decompound_state A e rewards old_decompound) (\<lambda>new_decompound.
          let st' = st\<lparr>lm_decompound_state := Some new_decompound\<rparr> in
          rbind (if al_lsd_rewards rewards \<noteq> 0
                 then send_funds H lsd_config dp e (al_lsd_rewards rewards) to
                 else Inr [])
            (\<lambda>ms. Inr (st', ms, rewards)))))"

definition limited_decompound ::
  "arith \<Rightarrow> 'tok cw20_base \<Rightarrow> ('raw, 'cfg) lsd_hub \<Rightarrow> string option \<Rightarrow>
   ('cfg, 'tok) limited_handler" where
  "limited_decompound A C H recipient dp e i st =
     rbind (limited_read_hub_contract st) (\<lambda>hub_contract.
     if sender i \<noteq> hub_contract then Inl (Err Unauthorized)
     else
       rbind (opt_traverse (\<lambda>x. std_res (addr_validate dp x)) recipient) (\<lambda>validated.
       let to = (case validated of None \<Rightarrow> sender i | Some a \<Rightarrow> a) in
       rbind (limited_read_lsd_config st) (\<lambda>lsd_config.
       rbind (limited_decompound_messages A C H lsd_config to dp e st)
         (\<lambda>(st', out_messages, accrued).
           Inr (st', decompound_response (al_luna_rewards accrued) out_messages)))))"

section \<open>Entry points (contract.rs)\<close>

definition limited_instantiate ::
  "'tok cw20_base \<Rightarrow> ('raw, 'cfg) lsd_hub \<Rightarrow> 'raw limited_init_msg \<Rightarrow>
   ('cfg, 'tok) limited_handler" where
  "limited_instantiate C H m dp e i st =
     rbind (instantiate_config H dp (tm_lsd_config m)) (\<lambda>lsd_config.
     let st1 = limited_store_lsd_config lsd_config st in
     rbind (std_res (addr_validate dp (tm_hub_contract m))) (\<lambda>hub.
     let st2 = limited_store_hub_contract hub st1;
         st3 = st2\<lparr>lm_decompound_config :=
                 Some \<lparr>dc_max_decompound_ratio = tm_max_decompound_ratio m\<rparr>\<rparr>;
         st4 = st3\<lparr>lm_decompound_state :=
                 Some \<lparr>ds_ratio_sum = dec_zero, ds_total_seconds = 0,
                       ds_last_decompound = block_time e\<rparr>\<rparr> in
     rbind (map_err (\<lambda>_. Std (GenericErr ''CW20 Token init error''))
              (on_cw20 (cw20_init C \<lparr>im_name = tm_name m, im_symbol = tm_symbol m,
                  im_decimals = tm_decimals m, im_initial_balances = tm_initial_balances m,
                  im_mint = Some \<lparr>mr_minter = contract_address e, mr_cap = None\<rparr>,
                  im_marketing = None\<rparr>) dp e i st4))
       (\<lambda>(st5, _). Inr (st5, response_new))))"

fun limited_execute ::
  "arith \<Rightarrow> 'tok cw20_base \<Rightarrow> ('raw, 'cfg) lsd_hub \<Rightarrow> wrapper_execute_msg \<Rightarrow>
   ('cfg, 'tok) limited_handler" where
  "limited_execute A C H (Transfer recipient amount) = limited_transfer C recipient amount"
| "limited_execute A C H (Burn amount) = limited_burn A C H amount"
| "limited_execute A C H BurnAll = limited_burn_all A C H"
| "limited_execute A C H (Send contract amount m) = limited_send C contract amount m"
| "limited_execute A C H (Mint recipient amount) = limited_mint A C H recipient amount"
| "limited_execute A C H (MintWith recipient lsd_amount) = limited_mint_with A C H recipient lsd_amount"
| "limited_execute A C H (IncreaseAllowance spender amount expires) =
     on_cw20 (cw20_increase_allowance C spender amount expires)"
| "limited_execute A C H (DecreaseAllowance spender amount expires) =
     on_cw20 (cw20_decrease_allowance C spender amount expires)"
| "limited_execute A C H (TransferFrom owner recipient amount) =
     limited_transfer_from C owner recipient amount"
| "limited_execute A C H (BurnFrom owner amount) = limited_burn_from A C H owner amount"
| "limited_execute A C H (SendFrom owner contract amount m) =
     limited_send_from C owner contract amount m"
| "limited_execute A C H (UpdateMinter new_minter) = on_cw20 (cw20_update_minter C new_minter)"
| "limited_execute A C H (UpdateMarketing project description marketing) =
     on_cw20 (cw20_update_marketing C project description marketing)"
| "limited_execute A C H (UploadLogo l) = on_cw20 (cw20_upload_logo C l)"
| "limited_execute A C H (Decompound recipient) = limited_decompound A C H recipient"

text \<open>\<open>TokenInfoResponseWithLimit\<close> of \<open>wrapper.rs\<close>.\<close>

record token_info_response_with_limit = token_info_response +
  tr_expected_exchange_rate :: decimal

definition limited_query ::
  "arith \<Rightarrow> 'tok cw20_base \<Rightarrow> ('raw, 'cfg) lsd_hub \<Rightarrow> cw20_query_msg \<Rightarrow> deps \<Rightarrow> env \<Rightarrow>
   ('cfg, 'tok) limited_storage \<Rightarrow> token_info_response_with_limit wrapper_answer res" where
  "limited_query A C H q dp e st =
     (case q of
        Query_TokenInfo \<Rightarrow>
          rbind (query_token_info C (ws_cw20 st)) (\<lambda>ti.
          rbind (to_generic C (limited_current_exchange_rate A C H dp e st wrapper_state_default))
            (\<lambda>(r, state).
          rbind (to_generic C (get_expected_exchange_rate A C H dp e st state)) (\<lambda>(x, _).
            Inr (Info_Answer \<lparr>tr_name = ti_name ti, tr_symbol = ti_symbol ti,
               tr_decimals = ti_decimals ti, tr_total_supply = ti_total_supply ti,
               tr_exchange_rate = r, tr_expected_exchange_rate = x\<rparr>))))
      | _ \<Rightarrow> rbind (cw20_query C (ws_cw20 st) dp e q) (\<lambda>a. Inr (Cw20_Answer a)))"

definition limited_migrate :: "('cfg, 'tok) limited_handler" where
  "limited_migrate dp e i st = Inr (st, response_new)"

end
