(* ===== verification/Vault.thy ===== *)
theory Vault
  imports Cosmwasm_Math
begin

text \<open>
  The abstract specification of a wrapper token, free of messages, storage and machine words: a
  pot of LSD units that stands behind a supply of wrapper units. At an exchange rate of \<open>r\<close>
  atomic units of the underlying coin per LSD unit, the pot is sufficient when it is worth one
  coin per wrapper unit. The steps below are all that a wrapper may do to its pot.
\<close>

record vault =
  v_lsd :: nat
  v_supply :: nat

definition backed :: "nat \<Rightarrow> vault \<Rightarrow> bool" where
  "backed r v \<longleftrightarrow> v_supply v * dec_unit \<le> v_lsd v * r"

text \<open>The amounts the contract quotes: LSD for wrapper units and wrapper units for LSD, both
  rounded down.\<close>

definition lsd_for :: "nat \<Rightarrow> nat \<Rightarrow> nat" where
  "lsd_for r amount = amount * dec_unit div r"

definition wrapped_for :: "nat \<Rightarrow> nat \<Rightarrow> nat" where
  "wrapped_for r lsd = lsd * r div dec_unit"

inductive vault_step :: "nat \<Rightarrow> vault \<Rightarrow> vault \<Rightarrow> bool" for r :: nat where
  deposit: "a * dec_unit \<le> l * r \<Longrightarrow>
    vault_step r v (v\<lparr>v_lsd := v_lsd v + l, v_supply := v_supply v + a\<rparr>)"
| redeem: "l * r \<le> a * dec_unit \<Longrightarrow> l \<le> v_lsd v \<Longrightarrow> a \<le> v_supply v \<Longrightarrow>
    vault_step r v (v\<lparr>v_lsd := v_lsd v - l, v_supply := v_supply v - a\<rparr>)"
| skim: "l \<le> v_lsd v \<Longrightarrow> v_supply v * dec_unit \<le> (v_lsd v - l) * r \<Longrightarrow>
    vault_step r v (v\<lparr>v_lsd := v_lsd v - l\<rparr>)"
| receive: "vault_step r v (v\<lparr>v_lsd := v_lsd v + l\<rparr>)"

inductive_cases vault_stepE: "vault_step r v v'"

lemma backed_empty: "backed r \<lparr>v_lsd = n, v_supply = 0\<rparr>"
  by (simp add: backed_def)

lemma backed_rate_mono: "backed r v \<Longrightarrow> r \<le> r' \<Longrightarrow> backed r' v"
  unfolding backed_def by (meson le_trans mult_le_mono2)

section \<open>Shortfalls\<close>

text \<open>What a pot lacks against its supply: no step makes it more.\<close>

definition backed_upto :: "nat \<Rightarrow> nat \<Rightarrow> vault \<Rightarrow> bool" where
  "backed_upto lack r v \<longleftrightarrow> v_supply v * dec_unit \<le> v_lsd v * r + lack"

lemma backed_upto_0 [simp]: "backed_upto 0 r v = backed r v"
  by (simp add: backed_upto_def backed_def)

lemma vault_step_upto:
  assumes "vault_step r v v'" and "backed_upto lack r v"
  shows "backed_upto lack r v'"
  using assms
proof cases
  case (redeem l a)
  have "l * r \<le> v_lsd v * r" using redeem(3) by (rule mult_le_mono1)
  with redeem assms(2) show ?thesis by (simp add: backed_upto_def diff_mult_distrib)
qed (use assms(2) in \<open>auto simp: backed_upto_def add_mult_distrib\<close>)

lemma vault_step_backed: "vault_step r v v' \<Longrightarrow> backed r v \<Longrightarrow> backed r v'"
  using vault_step_upto [of r v v' 0] by simp

text \<open>When the rate falls, the shortfall grows by what the LSD in the pot is worth less.\<close>

lemma backed_upto_drift:
  assumes "backed_upto lack r v"
  shows "backed_upto (lack + v_lsd v * (r - r')) r' v"
proof -
  have "v_lsd v * r \<le> v_lsd v * (r' + (r - r'))" by (intro mult_le_mono2) simp
  with assms show ?thesis by (simp add: backed_upto_def add_mult_distrib2)
qed

lemma vault_steps_upto: "(vault_step r)\<^sup>*\<^sup>* v v' \<Longrightarrow> backed_upto lack r v \<Longrightarrow> backed_upto lack r v'"
  by (induction rule: rtranclp_induct) (auto intro: vault_step_upto)

section \<open>The rounding of the quotes\<close>

lemma lsd_for_le: "lsd_for r a * r \<le> a * dec_unit"
  by (simp add: lsd_for_def)

lemma lsd_for_plus_one: "0 < r \<Longrightarrow> a * dec_unit \<le> (lsd_for r a + 1) * r"
  using div_mult_upper [of r "a * dec_unit"] by (simp add: lsd_for_def)

lemma wrapped_for_le: "wrapped_for r l * dec_unit \<le> l * r"
  by (simp add: wrapped_for_def)

text \<open>What the wrapper may skim: the excess of LSD over the need, less one unit.\<close>

definition lsd_excess :: "nat \<Rightarrow> nat \<Rightarrow> nat \<Rightarrow> nat" where
  "lsd_excess r lsd issued = (lsd * dec_unit - issued * dec_unit * dec_unit div r) div dec_unit"

lemma lsd_excess_le: "lsd_excess r lsd issued \<le> lsd"
proof -
  have "lsd_excess r lsd issued \<le> (lsd * dec_unit) div dec_unit"
    unfolding lsd_excess_def by (intro div_le_mono) simp
  then show ?thesis by simp
qed

lemma skim_leaves_backed:
  assumes "0 < r" and "0 < lsd_excess r lsd issued" and "x \<le> lsd_excess r lsd issued - 1"
  shows "issued * dec_unit \<le> (lsd - x) * r"
proof -
  define q where "q = issued * dec_unit * dec_unit div r"
  define e where "e = lsd_excess r lsd issued"
  have e: "0 < e" "e \<le> lsd" using assms(2) lsd_excess_le by (auto simp: e_def)
  have "e * dec_unit \<le> lsd * dec_unit - q"
    by (simp add: e_def lsd_excess_def q_def)
  with e(1) have "q + e * dec_unit \<le> lsd * dec_unit"
    by (cases "q \<le> lsd * dec_unit") auto
  then have "q \<le> (lsd - e) * dec_unit" by (simp add: diff_mult_distrib)
  have "issued * dec_unit * dec_unit < (q + 1) * r"
    using div_mult_upper [OF assms(1)] by (simp add: q_def)
  also have "\<dots> \<le> ((lsd - e) * dec_unit + dec_unit) * r"
    using \<open>q \<le> (lsd - e) * dec_unit\<close> dec_unit_pos(1) by (intro mult_le_mono1 add_mono) (simp_all add: Suc_leI)
  also have "\<dots> = (lsd - (e - 1)) * r * dec_unit"
  proof -
    obtain k where "lsd - e = k" and "lsd - (e - 1) = k + 1" using e by simp
    then show ?thesis by (simp add: algebra_simps)
  qed
  finally have "issued * dec_unit < (lsd - (e - 1)) * r" by simp
  also have "\<dots> \<le> (lsd - x) * r"
    using assms(3) by (intro mult_le_mono1) (simp add: e_def)
  finally show ?thesis by simp
qed

end
