(* ===== verification/Wrapper_Laws.thy ===== *)
theory Wrapper_Laws
  imports Wrapper_Token Vault
begin

text \<open>
  What the handlers of the wrapper token do, proved once for every implementation of the three
  interfaces they use: the arithmetic, the token library and the LSD hub. The locale
  \<open>wrapper_env\<close> joins the three contracts; it is interpreted on the hubs of the repository in
  the theories \<open>Coin_Hub\<close>, \<open>Steak_Hub\<close> and \<open>Lp_Hubs\<close>.
\<close>

locale wrapper_env =
  num: decimal_arith A + tok: cw20_token C + hub: lsd_hub_trait H asset
  for A :: arith
    and C :: "'tok cw20_base"
    and H :: "('raw, 'cfg) lsd_hub"
    and asset :: "'cfg \<Rightarrow> asset_info"
begin

lemma on_cw20_ok:
  "on_cw20 op dp e i st = Inr (st', r) \<longleftrightarrow>
    (\<exists>t. op (ws_cw20 st) dp e i = Inr (t, r) \<and> st' = st\<lparr>ws_cw20 := t\<rparr>)"
  by (auto simp: on_cw20_def rbind_eq_Inr)

lemma before_burn_ok:
  assumes "before_burn A H amount dp e i st = Inr ms"
  obtains cfg rate l where "ws_lsd_config st = Some cfg" "query_exchange_rate H cfg dp e = Inr rate"
    "0 < atoms rate" "unat l = lsd_for (atoms rate) (unat amount)"
    "ms = [lsd_transfer (asset cfg) (sender i) l]"
proof -
  from assms obtain cfg rate x y l where st: "ws_lsd_config st = Some cfg"
      and rate: "query_exchange_rate H cfg dp e = Inr rate"
      and x: "from_ratio A amount 1 = Some x" and y: "d_div A x rate = Some y"
      and l: "d_times A y 1 = Some l" and ms: "send_funds H cfg dp e l (sender i) = Inr ms"
    by (auto simp: before_burn_def read_lsd_config_def res_simps)
  show ?thesis
  proof (rule that [OF st rate])
    show "0 < atoms rate" using num.divide_whole(1) [OF x y] by simp
    show "unat l = lsd_for (atoms rate) (unat amount)"
      using l num.divide_whole(3) [OF x y] by (simp add: num.d_times_one lsd_for_def)
    show "ms = [lsd_transfer (asset cfg) (sender i) l]" using ms by (simp add: hub.send_funds)
  qed
qed

lemma burn_ok:
  assumes "execute_burn A C H amount dp e i st = Inr (st', r)"
  obtains cfg rate l t where "ws_lsd_config st = Some cfg"
    "query_exchange_rate H cfg dp e = Inr rate" "0 < atoms rate"
    "unat l = lsd_for (atoms rate) (unat amount)"
    "msgs r = [lsd_transfer (asset cfg) (sender i) l]" "st' = st\<lparr>ws_cw20 := t\<rparr>"
    "token_supply C (ws_cw20 st) = token_supply C t + unat amount"
    "token_holding C (ws_cw20 st) (sender i) = token_holding C t (sender i) + unat amount"
proof -
  from assms obtain ms t r0 where b: "before_burn A H amount dp e i st = Inr ms"
      and c: "cw20_burn C amount (ws_cw20 st) dp e i = Inr (t, r0)"
      and st': "st' = st\<lparr>ws_cw20 := t\<rparr>" and r: "r = add_messages ms r0"
    by (auto simp: execute_burn_def rbind_eq_Inr on_cw20_ok)
  from b show ?thesis
    by (rule before_burn_ok) (rule that, use st' r tok.burn [OF c] in auto)
qed

lemma burn_from_ok:
  assumes "execute_burn_from A C H owner amount dp e i st = Inr (st', r)"
  obtains cfg rate l t where "ws_lsd_config st = Some cfg"
    "query_exchange_rate H cfg dp e = Inr rate" "0 < atoms rate"
    "unat l = lsd_for (atoms rate) (unat amount)"
    "msgs r = [lsd_transfer (asset cfg) (sender i) l]" "st' = st\<lparr>ws_cw20 := t\<rparr>"
    "token_supply C (ws_cw20 st) = token_supply C t + unat amount"
    "token_holding C (ws_cw20 st) owner = token_holding C t owner + unat amount"
proof -
  from assms obtain ms t r0 where b: "before_burn A H amount dp e i st = Inr ms"
      and c: "cw20_burn_from C owner amount (ws_cw20 st) dp e i = Inr (t, r0)"
      and st': "st' = st\<lparr>ws_cw20 := t\<rparr>" and r: "r = add_messages ms r0"
    by (auto simp: execute_burn_from_def rbind_eq_Inr on_cw20_ok)
  from b show ?thesis
    by (rule before_burn_ok) (rule that, use st' r tok.burn_from [OF c] in auto)
qed

lemma burn_all_ok:
  assumes "execute_burn_all A C H dp e i st = Inr (st', r)"
  obtains (idle) "query_balance C (ws_cw20 st) (sender i) = Inr 0" "st' = st" "msgs r = []"
  | (positive) amount where "query_balance C (ws_cw20 st) (sender i) = Inr amount" "amount \<noteq> 0"
      "execute_burn A C H amount dp e i st = Inr (st', r)"
  using assms by (auto simp: execute_burn_all_def rbind_eq_Inr split: if_splits)

lemma mint_ok:
  assumes "execute_mint A C H recipient amount dp e i st = Inr (st', r)"
  obtains cfg rate l t where "ws_lsd_config st = Some cfg"
    "query_exchange_rate H cfg dp e = Inr rate" "0 < atoms rate"
    "unat l = lsd_for (atoms rate) (unat amount) + 1"
    "deposit_funds H cfg dp e i l (sender i) = Inr (msgs r)" "st' = st\<lparr>ws_cw20 := t\<rparr>"
    "token_supply C t = token_supply C (ws_cw20 st) + unat amount"
    "token_holding C t recipient = token_holding C (ws_cw20 st) recipient + unat amount"
proof -
  from assms obtain cfg rate x y z l ms t r0 where st: "ws_lsd_config st = Some cfg"
      and rate: "query_exchange_rate H cfg dp e = Inr rate"
      and x: "from_ratio A amount 1 = Some x" and y: "d_div A x rate = Some y"
      and z: "d_add A y dec_one = Some z" and l: "d_times A z 1 = Some l"
      and dep: "deposit_funds H cfg dp e i l (sender i) = Inr ms"
      and c: "cw20_mint C recipient amount (ws_cw20 st) dp e (i\<lparr>sender := contract_address e\<rparr>)
                = Inr (t, r0)"
      and st': "st' = st\<lparr>ws_cw20 := t\<rparr>" and r: "r = add_messages ms r0"
    by (auto simp: execute_mint_def read_lsd_config_def res_simps on_cw20_ok)
  note mint = tok.mint [OF c]
  show ?thesis
  proof (rule that [OF st rate])
    show "0 < atoms rate" using num.divide_whole(1) [OF x y] by simp
    show "unat l = lsd_for (atoms rate) (unat amount) + 1"
      using l z num.divide_whole(3) [OF x y]
      by (simp add: num.d_times_one num.d_add lsd_for_def div_add_self2)
    show "deposit_funds H cfg dp e i l (sender i) = Inr (msgs r)" using dep r mint by simp
    show "token_supply C t = token_supply C (ws_cw20 st) + unat amount"
      "token_holding C t recipient = token_holding C (ws_cw20 st) recipient + unat amount"
      using mint by auto
  qed (rule st')
qed

lemma mint_with_ok:
  assumes "execute_mint_with A C H recipient lsd dp e i st = Inr (st', r)"
  obtains cfg rate n t where "ws_lsd_config st = Some cfg"
    "query_exchange_rate H cfg dp e = Inr rate"
    "n = wrapped_for (atoms rate) (unat lsd)"
    "deposit_funds H cfg dp e i lsd (sender i) = Inr (msgs r)" "st' = st\<lparr>ws_cw20 := t\<rparr>"
    "token_supply C t = token_supply C (ws_cw20 st) + n"
    "token_holding C t recipient = token_holding C (ws_cw20 st) recipient + n"
proof -
  from assms obtain cfg rate x y n ms t r0 where st: "ws_lsd_config st = Some cfg"
      and rate: "query_exchange_rate H cfg dp e = Inr rate"
      and x: "from_ratio A lsd 1 = Some x" and y: "d_mul A x rate = Some y"
      and dep: "deposit_funds H cfg dp e i lsd (sender i) = Inr ms"
      and n: "d_times A y 1 = Some n"
      and c: "cw20_mint C recipient n (ws_cw20 st) dp e (i\<lparr>sender := contract_address e\<rparr>)
                = Inr (t, r0)"
      and st': "st' = st\<lparr>ws_cw20 := t\<rparr>" and r: "r = add_messages ms r0"
    by (auto simp: execute_mint_with_def read_lsd_config_def res_simps on_cw20_ok)
  have "unat n = wrapped_for (atoms rate) (unat lsd)"
    using n num.times_whole [OF x y] by (simp add: num.d_times_one wrapped_for_def)
  with st rate dep st' r tok.mint [OF c] show ?thesis by (intro that [of cfg rate "unat n" t]) auto
qed

text \<open>The rates and balances that enter a reward computation.\<close>

lemma current_rate_ok:
  assumes "get_current_exchange_rate A C H dp e st s0 = Inr (cur, s)"
  obtains cfg where "ws_lsd_config st = Some cfg"
    "query_exchange_rate H cfg dp e = Inr (w_lsd_exchange_rate s)"
    "lsd_balance (asset cfg) dp (contract_address e) = Inr (w_lsd_balance s)"
    "unat (w_wlsd_supply s) = token_supply C (ws_cw20 st)"
    "atoms (w_backing_luna s) = unat (w_lsd_balance s) * atoms (w_lsd_exchange_rate s)"
    "if w_wlsd_supply s = 0 then cur = dec_one
     else atoms cur = atoms (w_backing_luna s) div unat (w_wlsd_supply s)"
proof -
  from assms obtain cfg rate b x y ti where st: "ws_lsd_config st = Some cfg"
      and rate: "query_exchange_rate H cfg dp e = Inr rate"
      and b: "get_balance H cfg dp e (contract_address e) = Inr b"
      and x: "from_ratio A b 1 = Some x" and y: "d_mul A x rate = Some y"
      and ti: "query_token_info C (ws_cw20 st) = Inr ti"
      and cur: "if ti_total_supply ti = 0 then cur = dec_one
                else d_div_uint A y (ti_total_supply ti) = Some cur"
      and s: "w_lsd_exchange_rate s = rate" "w_wlsd_supply s = ti_total_supply ti"
        "w_backing_luna s = y" "w_lsd_balance s = b"
    by (auto simp: get_current_exchange_rate_def read_lsd_config_def res_simps Let_def
        split: if_splits)
  show ?thesis
    by (rule that [OF st])
      (use rate b ti cur s num.times_whole [OF x y] in
        \<open>auto simp: hub.get_balance token_supply_def num.d_div_uint\<close>)
qed

lemma subtract_margin_ok:
  "subtract_margin A rate luna n = Inr (l, d) \<longleftrightarrow>
    (if 0 < unat n then unat n = unat d + 1 \<and> unat luna = unat l + atoms rate div dec_unit
     else l = luna \<and> d = n)"
proof -
  have "(\<exists>w :: u128. unat w = atoms rate div dec_unit)"
    by (rule exI [of _ "word_of_nat (atoms rate div dec_unit)"], rule unat_of_nat_bounded)
      (use le_less_trans [OF div_le_dividend atoms_less] in simp)
  then obtain w :: u128 where w: "unat w = atoms rate div dec_unit" ..
  have "d_times A rate 1 = Some w" by (simp add: num.d_times_one w)
  then show ?thesis
    by (auto simp: subtract_margin_def res_simps word_less_nat_alt num.u_sub w)
qed

lemma available_rewards_ok:
  assumes "available_rewards A s = Inr (luna, n)"
    and worth: "atoms (w_backing_luna s) = unat (w_lsd_balance s) * atoms (w_lsd_exchange_rate s)"
  shows "0 < atoms (w_lsd_exchange_rate s)"
    and "unat n = lsd_excess (atoms (w_lsd_exchange_rate s)) (unat (w_lsd_balance s))
           (unat (w_wlsd_supply s))"
    and "unat luna + unat (w_wlsd_supply s) =
           wrapped_for (atoms (w_lsd_exchange_rate s)) (unat (w_lsd_balance s))"
proof -
  from assms(1) obtain backing x y needed excess where
      backing: "d_times A (w_backing_luna s) 1 = Some backing"
      and luna: "u_sub A backing (w_wlsd_supply s) = Some luna"
      and x: "from_ratio A (w_lsd_balance s) 1 = Some x"
      and y: "from_ratio A (w_wlsd_supply s) 1 = Some y"
      and needed: "d_div A y (w_lsd_exchange_rate s) = Some needed"
      and excess: "d_sub A x needed = Some excess"
      and n: "d_times A excess 1 = Some n"
    by (auto simp: available_rewards_def res_simps)
  show "0 < atoms (w_lsd_exchange_rate s)" using num.divide_whole(1) [OF y needed] by simp
  show "unat n = lsd_excess (atoms (w_lsd_exchange_rate s)) (unat (w_lsd_balance s))
      (unat (w_wlsd_supply s))"
    using x excess n num.divide_whole(2) [OF y needed]
    by (simp add: num.from_ratio_one num.d_sub num.d_times_one lsd_excess_def)
  show "unat luna + unat (w_wlsd_supply s) =
      wrapped_for (atoms (w_lsd_exchange_rate s)) (unat (w_lsd_balance s))"
    using backing luna by (auto simp: num.d_times_one num.u_sub worth wrapped_for_def)
qed

lemma compute_ok:
  assumes "compute_accrued_rewards A C H dp e st = Inr rw"
  obtains cfg rate b where "ws_lsd_config st = Some cfg"
    "query_exchange_rate H cfg dp e = Inr rate" "0 < atoms rate"
    "lsd_balance (asset cfg) dp (contract_address e) = Inr b"
    "unat (lsd_rewards rw) =
       lsd_excess (atoms rate) (unat b) (token_supply C (ws_cw20 st)) - 1"
    "0 < lsd_excess (atoms rate) (unat b) (token_supply C (ws_cw20 st)) \<Longrightarrow>
       unat (luna_rewards rw) + atoms rate div dec_unit + token_supply C (ws_cw20 st)
         = wrapped_for (atoms rate) (unat b)"
proof -
  from assms obtain cur s where
      g: "get_current_exchange_rate A C H dp e st wrapper_state_default = Inr (cur, s)"
      and "\<not> cur < dec_one"
    by (auto simp: compute_accrued_rewards_def rbind_eq_Inr split: if_splits)
  with assms obtain luna n d1 l1 where av: "available_rewards A s = Inr (luna, n)"
      and margin: "subtract_margin A (w_lsd_exchange_rate s) luna n = Inr (l1, d1)"
      and rw: "u_mul A l1 1 = Some (luna_rewards rw)" "u_mul A d1 1 = Some (lsd_rewards rw)"
    by (auto simp: compute_accrued_rewards_def res_simps)
  from g obtain cfg where st: "ws_lsd_config st = Some cfg"
      and rate: "query_exchange_rate H cfg dp e = Inr (w_lsd_exchange_rate s)"
      and bal: "lsd_balance (asset cfg) dp (contract_address e) = Inr (w_lsd_balance s)"
      and issued: "unat (w_wlsd_supply s) = token_supply C (ws_cw20 st)"
      and worth: "atoms (w_backing_luna s) = unat (w_lsd_balance s) * atoms (w_lsd_exchange_rate s)"
    by (rule current_rate_ok)
  note av' = available_rewards_ok [OF av worth, unfolded issued]
  show ?thesis
    by (rule that [OF st rate av'(1) bal])
      (use margin rw av'(2,3) in \<open>auto simp: subtract_margin_ok num.u_mul split: if_splits\<close>)
qed

lemma decompound_messages_ok:
  assumes "decompound_messages A C H cfg to dp e st = Inr (ms, rw)"
  shows "ms = [] \<or> (compute_accrued_rewards A C H dp e st = Inr rw \<and> lsd_rewards rw \<noteq> 0 \<and>
           ms = [lsd_transfer (asset cfg) to (lsd_rewards rw)])"
  using assms
  by (auto simp: decompound_messages_def rbind_eq_Inr hub.send_funds
      split: sum.splits failure.splits if_splits)

lemma decompound_ok:
  assumes "execute_decompound A C H recipient dp e i st = Inr (st', r)"
  obtains (idle) "ws_hub_contract st = Some (sender i)" "st' = st" "msgs r = []"
  | (skimmed) cfg rate b to l where "ws_hub_contract st = Some (sender i)" "st' = st"
    "ws_lsd_config st = Some cfg" "query_exchange_rate H cfg dp e = Inr rate" "0 < atoms rate"
    "lsd_balance (asset cfg) dp (contract_address e) = Inr b"
    "case recipient of None \<Rightarrow> to = sender i | Some x \<Rightarrow> addr_validate dp x = Inr to"
    "msgs r = [lsd_transfer (asset cfg) to l]" "0 < unat l"
    "unat l = lsd_excess (atoms rate) (unat b) (token_supply C (ws_cw20 st)) - 1"
proof -
  from assms have hub: "ws_hub_contract st = Some (sender i)"
    by (auto simp: execute_decompound_def read_hub_contract_def res_simps split: if_splits)
  with assms obtain validated to cfg ms rw where
      v: "opt_traverse (\<lambda>x. std_res (addr_validate dp x)) recipient = Inr validated"
      and to: "to = (case validated of None \<Rightarrow> sender i | Some a \<Rightarrow> a)"
      and cfg: "ws_lsd_config st = Some cfg" and st': "st' = st"
      and m: "decompound_messages A C H cfg to dp e st = Inr (ms, rw)"
      and r: "r = decompound_response (luna_rewards rw) ms"
    by (auto simp: execute_decompound_def read_hub_contract_def read_lsd_config_def Let_def
        rbind_eq_Inr load_eq_Inr)
  from v to have to': "case recipient of None \<Rightarrow> to = sender i | Some x \<Rightarrow> addr_validate dp x = Inr to"
    by (auto simp: opt_traverse_eq_Inr std_res_eq_Inr)
  have rm: "msgs r = ms" by (simp add: r decompound_response_def)
  from decompound_messages_ok [OF m] show ?thesis
  proof (elim disjE conjE)
    assume "ms = []"
    with rm have "msgs r = []" by simp
    with hub st' show ?thesis by (rule idle)
  next
    assume c: "compute_accrued_rewards A C H dp e st = Inr rw" and nz: "lsd_rewards rw \<noteq> 0"
      and ms: "ms = [lsd_transfer (asset cfg) to (lsd_rewards rw)]"
    from c obtain cfg' rate b where c': "ws_lsd_config st = Some cfg'"
      "query_exchange_rate H cfg' dp e = Inr rate" "0 < atoms rate"
      "lsd_balance (asset cfg') dp (contract_address e) = Inr b"
      "unat (lsd_rewards rw) = lsd_excess (atoms rate) (unat b) (token_supply C (ws_cw20 st)) - 1"
      by (rule compute_ok)
    with cfg have "cfg' = cfg" by simp
    with c' have c: "query_exchange_rate H cfg dp e = Inr rate" "0 < atoms rate"
      "lsd_balance (asset cfg) dp (contract_address e) = Inr b" by auto
    have pos: "0 < unat (lsd_rewards rw)" using nz by (simp add: unat_gt_0)
    have out: "msgs r = [lsd_transfer (asset cfg) to (lsd_rewards rw)]" using ms rm by simp
    show ?thesis by (rule skimmed [OF hub st' cfg c to' out pos c'(5)])
  qed
qed

text \<open>
  Every message of the wrapper leaves the configuration and the hub address alone; it works on
  the token part of the storage only.
\<close>

lemma on_cw20_frame: "on_cw20 op dp e i st = Inr (st', r) \<Longrightarrow> \<exists>t. st' = st\<lparr>ws_cw20 := t\<rparr>"
  by (auto simp: on_cw20_ok)

lemma execute_frame:
  assumes "wrapper_execute A C H m dp e i st = Inr (st', r)"
  shows "\<exists>t. st' = st\<lparr>ws_cw20 := t\<rparr>"
proof -
  have keep: "\<exists>t. st = st\<lparr>ws_cw20 := t\<rparr>" by (rule exI [of _ "ws_cw20 st"]) simp
  show ?thesis
    using assms
    by (cases m) (auto simp: execute_transfer_def execute_send_def execute_transfer_from_def
        execute_send_from_def dest: on_cw20_frame elim!: burn_ok burn_from_ok burn_all_ok mint_ok
        mint_with_ok decompound_ok intro: keep)
qed

end

end
