(* ===== verification/Limited_Laws.thy ===== *)
theory Limited_Laws
  imports Limited_Wrapper Wrapper_Laws
begin

text \<open>
  What the handlers of the limited wrapper do, for every implementation of the interfaces (the
  locale \<open>wrapper_env\<close> again), and the two invariants of its accounting: the ratio taken out so
  far stays within the yearly allowance, and the seconds it counts are those since instantiation.
\<close>

section \<open>Shares\<close>

text \<open>The wrapper units per LSD unit that the contract quotes, in atomic units.\<close>

definition share_rate :: "nat \<Rightarrow> nat \<Rightarrow> nat" where
  "share_rate lsd issued = (if lsd = 0 \<or> issued = 0 then dec_unit else issued * dec_unit div lsd)"

lemma share_rate_le: "issued \<noteq> 0 \<Longrightarrow> lsd \<noteq> 0 \<Longrightarrow> share_rate lsd issued * lsd \<le> issued * dec_unit"
  by (simp add: share_rate_def)

text \<open>
  A mint for \<open>a\<close> units against \<open>l\<close> LSD does not lower the LSD that stands behind every unit: the
  pot per unit before is at most the pot per unit after, cross-multiplied.
\<close>

lemma share_not_diluted:
  assumes "a * dec_unit \<le> l * share_rate lsd issued" and "issued \<noteq> 0"
  shows "lsd * (issued + a) \<le> (lsd + l) * issued"
proof (cases "lsd = 0")
  case False
  have "a * lsd * dec_unit \<le> l * (share_rate lsd issued * lsd)"
    using mult_le_mono1 [OF assms(1), of lsd] by (simp add: ac_simps)
  also have "\<dots> \<le> l * issued * dec_unit"
    using share_rate_le [OF assms(2) False] by (simp add: mult.assoc)
  finally have "a * lsd \<le> l * issued" by simp
  then show ?thesis by (simp add: algebra_simps)
qed simp

text \<open>A burn of \<open>a\<close> units pays at least the fair share of the pot, rounded down.\<close>

lemma burn_not_short:
  assumes "0 < share_rate lsd issued" and "issued \<noteq> 0"
  shows "a * lsd div issued \<le> lsd_for (share_rate lsd issued) a"
proof (cases "lsd = 0")
  case False
  let ?q = "share_rate lsd issued" and ?l = "lsd_for (share_rate lsd issued) a"
  have "a * dec_unit < (?l + 1) * ?q"
    using div_mult_upper [OF assms(1)] by (simp add: lsd_for_def)
  then have "a * dec_unit * lsd < (?l + 1) * ?q * lsd" using False by simp
  also have "\<dots> \<le> (?l + 1) * (issued * dec_unit)"
    using mult_le_mono2 [OF share_rate_le [OF assms(2) False], of "?l + 1"] by (simp only: mult.assoc)
  finally have "a * lsd * dec_unit < (?l + 1) * issued * dec_unit" by (simp only: ac_simps)
  then have "a * lsd < (?l + 1) * issued" by simp
  then show ?thesis using assms(2) by (simp add: div_less_iff_less_mult less_Suc_eq_le [symmetric])
qed simp

text \<open>What the rounded rate pays is at most the share of a pot that is one unit of rounding larger.\<close>

lemma leave_share:
  assumes "l = lsd_for (share_rate p s) a" and "p \<noteq> 0" and "s \<noteq> 0"
  shows "l * (s * dec_unit - p) \<le> a * p * dec_unit"
proof -
  define q where "q = share_rate p s"
  have q: "q = s * dec_unit div p" using assms by (simp add: q_def share_rate_def)
  have "s * dec_unit < (q + 1) * p"
    using div_mult_upper [of p "s * dec_unit"] assms(2) by (simp add: q)
  then have "s * dec_unit - p \<le> q * p" by simp
  then have "l * (s * dec_unit - p) \<le> l * q * p" by (simp add: mult.assoc)
  also have "\<dots> \<le> a * dec_unit * p"
    using lsd_for_le [of q a] assms(1) by (simp add: q_def)
  finally show ?thesis by (simp only: ac_simps)
qed

section \<open>The allowance\<close>

definition year_seconds :: nat where
  "year_seconds = 31536000"

lemma seconds_per_year: "unat seconds_per_year = year_seconds"
  by (simp add: seconds_per_year_def year_seconds_def)

definition allowance :: "nat \<Rightarrow> nat \<Rightarrow> nat" where
  "allowance ratio secs = ratio * (secs * dec_unit div year_seconds) div dec_unit"

lemma allowance_le: "allowance ratio secs * year_seconds \<le> ratio * secs"
proof -
  have "allowance ratio secs * year_seconds * dec_unit
      \<le> ratio * (secs * dec_unit div year_seconds * year_seconds)"
    using mult_le_mono1 [OF div_mult_lower [of "ratio * (secs * dec_unit div year_seconds)" dec_unit],
        of year_seconds]
    by (simp add: allowance_def ac_simps)
  also have "\<dots> \<le> ratio * secs * dec_unit"
    using mult_le_mono2 [OF div_mult_lower [of "secs * dec_unit" year_seconds], of ratio]
    by (simp add: ac_simps)
  finally show ?thesis by simp
qed

text \<open>\<open>ratio\<close> taken from \<open>backing\<close>, put back into a ratio of \<open>backing\<close>, does not exceed it.\<close>

lemma rate_of_part:
  assumes "luna \<le> (ratio * backing div dec_unit) div dec_unit"
  shows "luna * dec_unit * dec_unit div backing \<le> ratio"
proof (cases "backing = 0")
  case False
  have "luna * dec_unit \<le> ratio * backing div dec_unit"
    using assms by (meson div_mult_lower le_trans mult_le_mono1)
  then have "luna * dec_unit * dec_unit \<le> ratio * backing"
    by (meson div_mult_lower le_trans mult_le_mono1)
  then have "luna * dec_unit * dec_unit div backing \<le> ratio * backing div backing"
    by (rule div_le_mono)
  with False show ?thesis by simp
qed simp

section \<open>Handlers\<close>

definition secs :: "arith \<Rightarrow> timestamp \<Rightarrow> nat" where
  "secs A t = unat (ts_seconds A t)"

context wrapper_env
begin

lemma allowance_after_atoms:
  assumes "allowance_after A m s = Inr x"
  shows "atoms x = allowance (atoms m) (unat s)"
  using assms
  by (auto simp: allowance_after_def res_simps num.d_mul num.from_ratio allowance_def seconds_per_year)

lemma seconds_until_ok:
  "seconds_until A ds now = Inr s \<Longrightarrow>
    secs A (ds_last_decompound ds) \<le> unat (ds_total_seconds ds) + secs A now \<and>
    unat s = unat (ds_total_seconds ds) + secs A now - secs A (ds_last_decompound ds)"
  by (auto simp: seconds_until_def res_simps num_laws secs_def)

text \<open>The rate that the contract expects for the end of the current period.\<close>

lemma expected_rate_ok:
  assumes "get_expected_exchange_rate A C H dp e st s0 = Inr (x, s)"
  obtains cur c where "get_current_exchange_rate A C H dp e st s0 = Inr (cur, s)"
    "cur < dec_one \<Longrightarrow> x = cur"
    "dec_one \<le> cur \<Longrightarrow> lm_decompound_config st = Some c"
    "dec_one \<le> cur \<Longrightarrow> dc_max_decompound_ratio c = None \<Longrightarrow> x = cur"
    "\<And>m. dec_one \<le> cur \<Longrightarrow> dc_max_decompound_ratio c = Some m \<Longrightarrow>
      \<exists>ds. lm_decompound_state st = Some ds \<and>
        secs A (ds_last_decompound ds) \<le> secs A (block_time e) \<and>
        atoms x = max dec_unit (atoms cur + atoms (ds_ratio_sum ds) -
          allowance (atoms m) (unat (ds_total_seconds ds) +
            (secs A (block_time e) - secs A (ds_last_decompound ds))))"
proof -
  from assms obtain cur where cur: "get_current_exchange_rate A C H dp e st s0 = Inr (cur, s)"
    by (auto simp: get_expected_exchange_rate_def load_decompound_config_def load_decompound_state_def
        res_simps Let_def split: if_splits option.splits)
  show thesis
  proof (cases "cur < dec_one")
    case True
    with assms cur show thesis
      by (intro that [OF cur]) (auto simp: get_expected_exchange_rate_def)
  next
    case False
    with assms cur obtain c where c: "lm_decompound_config st = Some c"
      by (auto simp: get_expected_exchange_rate_def load_decompound_config_def res_simps)
    show thesis
    proof (cases "dc_max_decompound_ratio c")
      case None
      with assms cur c False show thesis
        by (intro that [OF cur]) (auto simp: get_expected_exchange_rate_def load_decompound_config_def)
    next
      case (Some m)
      with assms cur c False obtain ds elapsed total gross al where ds: "lm_decompound_state st = Some ds"
          and el: "u64_sub (ts_seconds A (block_time e)) (ts_seconds A (ds_last_decompound ds)) = Some elapsed"
          and total: "u64_add (ds_total_seconds ds) elapsed = Some total"
          and gross: "d_add A cur (ds_ratio_sum ds) = Some gross"
          and al: "allowance_after A m total = Inr al"
          and x: "x = max (case d_checked_sub A gross al of None \<Rightarrow> dec_one | Some x \<Rightarrow> x) dec_one"
        by (auto simp: get_expected_exchange_rate_def load_decompound_config_def
            load_decompound_state_def res_simps Let_def)
      have "atoms x = max dec_unit (atoms gross - atoms al)"
      proof (cases "d_checked_sub A gross al")
        case None
        have "\<not> atoms al \<le> atoms gross"
        proof
          assume le: "atoms al \<le> atoms gross"
          have "atoms gross - atoms al < 2 ^ 128" using atoms_less [of gross] by simp
          then have "atoms (Decimal (word_of_nat (atoms gross - atoms al))) = atoms gross - atoms al"
            using unat_of_nat_bounded [where 'a = 128] by (simp add: atoms_def)
          with le have "d_checked_sub A gross al = Some (Decimal (word_of_nat (atoms gross - atoms al)))"
            by (simp add: num.d_checked_sub)
          with None show False by simp
        qed
        with None show ?thesis by (simp add: x)
      next
        case (Some d)
        then have "atoms d = atoms gross - atoms al" by (simp add: num.d_checked_sub)
        with Some show ?thesis by (simp add: x atoms_max max.commute)
      qed
      moreover have "unat total = unat (ds_total_seconds ds) +
          (secs A (block_time e) - secs A (ds_last_decompound ds))"
        "secs A (ds_last_decompound ds) \<le> secs A (block_time e)"
        using el total by (auto simp: num_laws secs_def)
      moreover have "atoms gross = atoms cur + atoms (ds_ratio_sum ds)"
        using gross by (simp add: num.d_add)
      ultimately show thesis
        using Some False ds c allowance_after_atoms [OF al] by (intro that [OF cur]) auto
    qed
  qed
qed

lemma share_rate_ok:
  assumes "get_lsd_wrapper_exchange_rate A C H dp e st = Inr q"
  obtains cfg b where "ws_lsd_config st = Some cfg"
    "lsd_balance (asset cfg) dp (contract_address e) = Inr b"
    "atoms q = share_rate (unat b) (token_supply C (ws_cw20 st))"
proof -
  from assms obtain cfg b ti where cfg: "ws_lsd_config st = Some cfg"
      and b: "lsd_balance (asset cfg) dp (contract_address e) = Inr b"
      and ti: "query_token_info C (ws_cw20 st) = Inr ti"
      and q: "if b = 0 \<or> ti_total_supply ti = 0 then q = dec_one
              else from_ratio A (ti_total_supply ti) b = Some q"
    by (auto simp: get_lsd_wrapper_exchange_rate_def read_lsd_config_def res_simps hub.get_balance
        split: if_splits)
  show ?thesis
    by (rule that [OF cfg b])
      (use q ti in \<open>auto simp: share_rate_def token_supply_def num.from_ratio unat_zero_iff
        split: if_splits\<close>)
qed

lemma limited_before_burn_ok:
  assumes "limited_before_burn A C H amount dp e i st = Inr ms"
  obtains cfg b l where "ws_lsd_config st = Some cfg"
    "lsd_balance (asset cfg) dp (contract_address e) = Inr b"
    "0 < share_rate (unat b) (token_supply C (ws_cw20 st))"
    "unat l = lsd_for (share_rate (unat b) (token_supply C (ws_cw20 st))) (unat amount)"
    "ms = [lsd_transfer (asset cfg) (sender i) l]"
proof -
  from assms obtain cfg q x y l where cfg: "ws_lsd_config st = Some cfg"
      and q: "get_lsd_wrapper_exchange_rate A C H dp e st = Inr q"
      and x: "from_ratio A amount 1 = Some x" and y: "d_div A x q = Some y"
      and l: "d_times A y 1 = Some l" and ms: "send_funds H cfg dp e l (sender i) = Inr ms"
    by (auto simp: limited_before_burn_def read_lsd_config_def res_simps)
  from q obtain b where b: "lsd_balance (asset cfg) dp (contract_address e) = Inr b"
      and a: "atoms q = share_rate (unat b) (token_supply C (ws_cw20 st))"
    using cfg by (auto elim!: share_rate_ok)
  show ?thesis
    by (rule that [OF cfg b])
      (use a l ms num.divide_whole(1,3) [OF x y] in
        \<open>auto simp: num.d_times_one lsd_for_def hub.send_funds\<close>)
qed

lemma limited_burn_ok:
  assumes "limited_burn A C H amount dp e i st = Inr (st', r)"
  obtains cfg b l t where "ws_lsd_config st = Some cfg"
    "lsd_balance (asset cfg) dp (contract_address e) = Inr b"
    "unat l = lsd_for (share_rate (unat b) (token_supply C (ws_cw20 st))) (unat amount)"
    "msgs r = [lsd_transfer (asset cfg) (sender i) l]" "st' = st\<lparr>ws_cw20 := t\<rparr>"
    "token_supply C (ws_cw20 st) = token_supply C t + unat amount"
    "0 < share_rate (unat b) (token_supply C (ws_cw20 st))"
proof -
  from assms obtain ms t r0 where b: "limited_before_burn A C H amount dp e i st = Inr ms"
      and c: "cw20_burn C amount (ws_cw20 st) dp e i = Inr (t, r0)"
      and st': "st' = st\<lparr>ws_cw20 := t\<rparr>" and r: "r = add_messages ms r0"
    by (auto simp: limited_burn_def rbind_eq_Inr on_cw20_ok)
  from b show ?thesis
    by (rule limited_before_burn_ok) (rule that, use st' r tok.burn [OF c] in auto)
qed

lemma limited_burn_from_ok:
  assumes "limited_burn_from A C H owner amount dp e i st = Inr (st', r)"
  obtains cfg b l t where "ws_lsd_config st = Some cfg"
    "lsd_balance (asset cfg) dp (contract_address e) = Inr b"
    "unat l = lsd_for (share_rate (unat b) (token_supply C (ws_cw20 st))) (unat amount)"
    "msgs r = [lsd_transfer (asset cfg) (sender i) l]" "st' = st\<lparr>ws_cw20 := t\<rparr>"
    "token_supply C (ws_cw20 st) = token_supply C t + unat amount"
    "0 < share_rate (unat b) (token_supply C (ws_cw20 st))"
proof -
  from assms obtain ms t r0 where b: "limited_before_burn A C H amount dp e i st = Inr ms"
      and c: "cw20_burn_from C owner amount (ws_cw20 st) dp e i = Inr (t, r0)"
      and st': "st' = st\<lparr>ws_cw20 := t\<rparr>" and r: "r = add_messages ms r0"
    by (auto simp: limited_burn_from_def rbind_eq_Inr on_cw20_ok)
  from b show ?thesis
    by (rule limited_before_burn_ok) (rule that, use st' r tok.burn_from [OF c] in auto)
qed

lemma limited_mint_ok:
  assumes "limited_mint A C H recipient amount dp e i st = Inr (st', r)"
  obtains cfg b l t where "ws_lsd_config st = Some cfg"
    "lsd_balance (asset cfg) dp (contract_address e) = Inr b"
    "0 < share_rate (unat b) (token_supply C (ws_cw20 st))"
    "unat l = lsd_for (share_rate (unat b) (token_supply C (ws_cw20 st))) (unat amount) + 1"
    "deposit_funds H cfg dp e i l (sender i) = Inr (msgs r)" "st' = st\<lparr>ws_cw20 := t\<rparr>"
    "token_supply C t = token_supply C (ws_cw20 st) + unat amount"
proof -
  from assms obtain cfg q x y z l ms t r0 where cfg: "ws_lsd_config st = Some cfg"
      and q: "get_lsd_wrapper_exchange_rate A C H dp e st = Inr q"
      and x: "from_ratio A amount 1 = Some x" and y: "d_div A x q = Some y"
      and z: "d_add A y dec_one = Some z" and l: "d_times A z 1 = Some l"
      and dep: "deposit_funds H cfg dp e i l (sender i) = Inr ms"
      and c: "cw20_mint C recipient amount (ws_cw20 st) dp e (i\<lparr>sender := contract_address e\<rparr>)
                = Inr (t, r0)"
      and st': "st' = st\<lparr>ws_cw20 := t\<rparr>" and r: "r = add_messages ms r0"
    by (auto simp: limited_mint_def read_lsd_config_def res_simps on_cw20_ok)
  from q obtain b where b: "lsd_balance (asset cfg) dp (contract_address e) = Inr b"
      and a: "atoms q = share_rate (unat b) (token_supply C (ws_cw20 st))"
    using cfg by (auto elim!: share_rate_ok)
  show ?thesis
    by (rule that [OF cfg b _ _ _ st'])
      (use a l z dep r tok.mint [OF c] num.divide_whole(1,3) [OF x y] in
        \<open>auto simp: num.d_times_one num.d_add lsd_for_def div_add_self2\<close>)
qed

lemma limited_mint_with_ok:
  assumes "limited_mint_with A C H recipient lsd dp e i st = Inr (st', r)"
  obtains cfg b n t where "ws_lsd_config st = Some cfg"
    "lsd_balance (asset cfg) dp (contract_address e) = Inr b"
    "n = wrapped_for (share_rate (unat b) (token_supply C (ws_cw20 st))) (unat lsd)"
    "deposit_funds H cfg dp e i lsd (sender i) = Inr (msgs r)" "st' = st\<lparr>ws_cw20 := t\<rparr>"
    "token_supply C t = token_supply C (ws_cw20 st) + n"
proof -
  from assms obtain cfg q y n ms t r0 where cfg: "ws_lsd_config st = Some cfg"
      and q: "get_lsd_wrapper_exchange_rate A C H dp e st = Inr q"
      and y: "d_times A q lsd = Some y"
      and dep: "deposit_funds H cfg dp e i lsd (sender i) = Inr ms"
      and n: "u_mul A y 1 = Some n"
      and c: "cw20_mint C recipient n (ws_cw20 st) dp e (i\<lparr>sender := contract_address e\<rparr>)
                = Inr (t, r0)"
      and st': "st' = st\<lparr>ws_cw20 := t\<rparr>" and r: "r = add_messages ms r0"
    by (auto simp: limited_mint_with_def read_lsd_config_def res_simps on_cw20_ok)
  from q obtain b where b: "lsd_balance (asset cfg) dp (contract_address e) = Inr b"
      and a: "atoms q = share_rate (unat b) (token_supply C (ws_cw20 st))"
    using cfg by (auto elim!: share_rate_ok)
  have "unat n = wrapped_for (share_rate (unat b) (token_supply C (ws_cw20 st))) (unat lsd)"
    using y n by (simp add: num.d_times num.u_mul wrapped_for_def a mult.commute)
  with cfg b dep st' r tok.mint [OF c] show ?thesis by (intro that [of cfg b "unat n" t]) auto
qed

lemma limit_rewards_ok:
  assumes "limit_rewards A e st s luna n = Inr (luna', n')"
  obtains (unlimited) "lm_decompound_config st = Some \<lparr>dc_max_decompound_ratio = None\<rparr>"
      "luna' = luna" "n' = n"
  | (limited) m ds period q where
      "lm_decompound_config st = Some \<lparr>dc_max_decompound_ratio = Some m\<rparr>"
      "lm_decompound_state st = Some ds" "seconds_until A ds (block_time e) = Inr period"
      "atoms q + atoms (ds_ratio_sum ds) = allowance (atoms m) (unat period)"
      "unat luna' = min (unat luna) ((atoms q * atoms (w_backing_luna s) div dec_unit) div dec_unit)"
      "unat n' = min (unat n) (atoms q * unat (w_lsd_balance s) div dec_unit)"
proof -
  from assms obtain c where c: "lm_decompound_config st = Some c"
    by (auto simp: limit_rewards_def load_decompound_config_def res_simps)
  show ?thesis
  proof (cases "dc_max_decompound_ratio c")
    case None
    with assms c have "luna' = luna" "n' = n"
      by (auto simp: limit_rewards_def load_decompound_config_def)
    moreover have "lm_decompound_config st = Some \<lparr>dc_max_decompound_ratio = None\<rparr>"
      using c None by (cases c) simp
    ultimately show ?thesis by (rule unlimited [rotated])
  next
    case (Some m)
    with assms c obtain ds period al q mb ml mn where ds: "lm_decompound_state st = Some ds"
        and period: "seconds_until A ds (block_time e) = Inr period"
        and al: "allowance_after A m period = Inr al"
        and q: "d_checked_sub A al (ds_ratio_sum ds) = Some q"
        and mb: "d_mul A q (w_backing_luna s) = Some mb" and ml: "d_times A mb 1 = Some ml"
        and mn: "d_times A q (w_lsd_balance s) = Some mn"
        and eqs: "luna' = min luna ml" "n' = min n mn"
      by (auto simp: limit_rewards_def load_decompound_config_def load_decompound_state_def res_simps)
    have "lm_decompound_config st = Some \<lparr>dc_max_decompound_ratio = Some m\<rparr>"
      using c Some by (cases c) simp
    moreover have "atoms q + atoms (ds_ratio_sum ds) = allowance (atoms m) (unat period)"
      using q allowance_after_atoms [OF al] by (auto simp: num.d_checked_sub)
    moreover have "unat luna' = min (unat luna) ((atoms q * atoms (w_backing_luna s) div dec_unit) div dec_unit)"
      using mb ml eqs by (simp add: num.d_mul num.d_times_one unat_min_u128)
    moreover have "unat n' = min (unat n) (atoms q * unat (w_lsd_balance s) div dec_unit)"
      using mn eqs by (simp add: num.d_times unat_min_u128)
    ultimately show ?thesis by (intro limited [of m ds period q] ds period)
  qed
qed

text \<open>
  The rewards that may leave: at most the unlimited ones, at most \<open>q\<close> of the LSD balance, and
  the rate recorded for them at most \<open>q\<close>, where \<open>q\<close> is what is left of the allowance.
\<close>

lemma limited_compute_ok:
  assumes "limited_compute_accrued_rewards A C H dp e st = Inr rw"
  obtains cfg rt b where "ws_lsd_config st = Some cfg"
    "query_exchange_rate H cfg dp e = Inr rt" "0 < atoms rt"
    "lsd_balance (asset cfg) dp (contract_address e) = Inr b"
    "unat b * atoms rt \<noteq> 0"
    "unat (al_lsd_rewards rw) \<le> lsd_excess (atoms rt) (unat b) (token_supply C (ws_cw20 st)) - 1"
    "lm_decompound_config st = Some \<lparr>dc_max_decompound_ratio = None\<rparr> \<or>
     (\<exists>m ds period q. lm_decompound_config st = Some \<lparr>dc_max_decompound_ratio = Some m\<rparr> \<and>
        lm_decompound_state st = Some ds \<and> seconds_until A ds (block_time e) = Inr period \<and>
        q + atoms (ds_ratio_sum ds) = allowance (atoms m) (unat period) \<and>
        unat (al_lsd_rewards rw) \<le> q * unat b div dec_unit \<and>
        atoms (al_rate_decrease rw) \<le> q)"
proof -
  from assms obtain cur s where
      g: "get_current_exchange_rate A C H dp e st wrapper_state_default = Inr (cur, s)"
      and "\<not> cur < dec_one"
    by (auto simp: limited_compute_accrued_rewards_def rbind_eq_Inr split: if_splits)
  with assms obtain luna n luna' n' d l dl where av: "available_rewards A s = Inr (luna, n)"
      and lim: "limit_rewards A e st s luna n = Inr (luna', n')"
      and margin: "subtract_margin A (w_lsd_exchange_rate s) luna' n' = Inr (l, d)"
      and dl: "from_ratio A l 1 = Some dl"
      and rd: "d_div A dl (w_backing_luna s) = Some (al_rate_decrease rw)"
      and ld: "u_mul A d 1 = Some (al_lsd_rewards rw)"
    by (auto simp: limited_compute_accrued_rewards_def res_simps)
  from g obtain cfg where st: "ws_lsd_config st = Some cfg"
      and rate: "query_exchange_rate H cfg dp e = Inr (w_lsd_exchange_rate s)"
      and bal: "lsd_balance (asset cfg) dp (contract_address e) = Inr (w_lsd_balance s)"
      and issued: "unat (w_wlsd_supply s) = token_supply C (ws_cw20 st)"
      and worth: "atoms (w_backing_luna s) = unat (w_lsd_balance s) * atoms (w_lsd_exchange_rate s)"
    by (rule current_rate_ok)
  note av' = available_rewards_ok [OF av worth, unfolded issued]
  note decrease = num.divide_whole(2) [OF dl rd]
  have nz: "unat (w_lsd_balance s) * atoms (w_lsd_exchange_rate s) \<noteq> 0"
    using num.divide_whole(1) [OF dl rd] by (simp add: worth)
  have d_le: "unat d \<le> unat n' - 1" and l_le: "unat l \<le> unat luna'"
    using margin by (auto simp: subtract_margin_ok split: if_splits)
  have ld': "unat (al_lsd_rewards rw) = unat d" using ld by (simp add: num.u_mul)
  from lim show ?thesis
  proof (cases rule: limit_rewards_ok)
    case unlimited
    with d_le av'(2) ld' show ?thesis
      by (intro that [OF st rate av'(1) bal nz]) auto
  next
    case (limited m ds period q)
    have "atoms (al_rate_decrease rw) \<le> atoms q"
      unfolding decrease by (rule rate_of_part) (use l_le limited(5) in simp)
    moreover have "unat (al_lsd_rewards rw) \<le> atoms q * unat (w_lsd_balance s) div dec_unit"
      and "unat (al_lsd_rewards rw) \<le>
        lsd_excess (atoms (w_lsd_exchange_rate s)) (unat (w_lsd_balance s)) (token_supply C (ws_cw20 st)) - 1"
      using d_le limited(6) ld' av'(2) by auto
    ultimately show ?thesis
      using limited(1-4) by (intro that [OF st rate av'(1) bal nz]) blast+
  qed
qed

lemma next_state_ok:
  assumes "next_decompound_state A e rw old = Inr new"
  shows "ds_last_decompound old < block_time e"
    and "atoms (ds_ratio_sum new) = atoms (ds_ratio_sum old) + atoms (al_rate_decrease rw)"
    and "seconds_until A old (block_time e) = Inr (ds_total_seconds new)"
    and "ds_last_decompound new = block_time e"
  using assms
  by (auto simp: next_decompound_state_def res_simps num.d_add not_le split: if_splits)

lemma limited_decompound_ok:
  assumes "limited_decompound A C H recipient dp e i st = Inr (st', r)"
  obtains (idle) "ws_hub_contract st = Some (sender i)" "st' = st" "msgs r = []"
    "limited_compute_accrued_rewards A C H dp e st = generic_err no_rewards"
  | (skimmed) rw old new cfg to where "ws_hub_contract st = Some (sender i)"
    "limited_compute_accrued_rewards A C H dp e st = Inr rw"
    "lm_decompound_state st = Some old" "next_decompound_state A e rw old = Inr new"
    "st' = st\<lparr>lm_decompound_state := Some new\<rparr>" "ws_lsd_config st = Some cfg"
    "case recipient of None \<Rightarrow> to = sender i | Some x \<Rightarrow> addr_validate dp x = Inr to"
    "msgs r = (if al_lsd_rewards rw = 0 then [] else [lsd_transfer (asset cfg) to (al_lsd_rewards rw)])"
proof -
  from assms have hub: "ws_hub_contract st = Some (sender i)"
    by (auto simp: limited_decompound_def read_hub_contract_def res_simps split: if_splits)
  with assms obtain validated to cfg ms rw where
      v: "opt_traverse (\<lambda>x. std_res (addr_validate dp x)) recipient = Inr validated"
      and to: "to = (case validated of None \<Rightarrow> sender i | Some a \<Rightarrow> a)"
      and cfg: "ws_lsd_config st = Some cfg"
      and m: "limited_decompound_messages A C H cfg to dp e st = Inr (st', ms, rw)"
      and r: "r = decompound_response (al_luna_rewards rw) ms"
    by (auto simp: limited_decompound_def read_hub_contract_def read_lsd_config_def Let_def
        rbind_eq_Inr load_eq_Inr)
  from v to have to': "case recipient of None \<Rightarrow> to = sender i | Some x \<Rightarrow> addr_validate dp x = Inr to"
    by (auto simp: opt_traverse_eq_Inr std_res_eq_Inr)
  have rm: "msgs r = ms" by (simp add: r decompound_response_def)
  show ?thesis
  proof (cases "limited_compute_accrued_rewards A C H dp e st")
    case (Inl f)
    with m have "f = Err (Std (GenericErr no_rewards))" "st' = st" "ms = []"
      by (auto simp: limited_decompound_messages_def split: failure.splits if_splits)
    then show ?thesis using rm Inl by - (rule idle [OF hub], simp_all)
  next
    case (Inr rw')
    with m obtain old new where "lm_decompound_state st = Some old"
        "next_decompound_state A e rw old = Inr new" "rw' = rw"
        "st' = st\<lparr>lm_decompound_state := Some new\<rparr>"
        "ms = (if al_lsd_rewards rw = 0 then [] else [lsd_transfer (asset cfg) to (al_lsd_rewards rw)])"
      by (auto simp: limited_decompound_messages_def load_decompound_state_def res_simps Let_def
          hub.send_funds split: if_splits)
    then show ?thesis
      using Inr rm by - (rule skimmed [of rw old new cfg to, OF hub _ _ _ _ cfg to'], simp_all)
  qed
qed

text \<open>Only a decompound changes the accounting, and nothing changes the configuration.\<close>

lemma limited_frame:
  assumes "limited_execute A C H m dp e i st = Inr (st', r)"
  shows "ws_lsd_config st' = ws_lsd_config st \<and> ws_hub_contract st' = ws_hub_contract st \<and>
    lm_decompound_config st' = lm_decompound_config st \<and>
    ((\<forall>rc. m \<noteq> Decompound rc) \<longrightarrow> lm_decompound_state st' = lm_decompound_state st)"
proof -
  have all: "ws_lsd_config st' = ws_lsd_config st \<and> ws_hub_contract st' = ws_hub_contract st \<and>
    lm_decompound_config st' = lm_decompound_config st \<and>
    lm_decompound_state st' = lm_decompound_state st"
    if "limited_burn_all A C H dp e i st = Inr (st', r)"
    using that by (auto simp: limited_burn_all_def rbind_eq_Inr split: if_splits elim!: limited_burn_ok)
  show ?thesis
    using assms
    by (cases m) (auto simp: execute_transfer_def execute_send_def execute_transfer_from_def
        execute_send_from_def on_cw20_ok dest!: all elim!: limited_burn_ok limited_burn_from_ok
        limited_mint_ok limited_mint_with_ok limited_decompound_ok)
qed

end

end
