(* ===== verification/Limited_System.thy ===== *)
theory Limited_System
  imports Limited_Laws
begin

text \<open>
  Runs of the limited wrapper: any sequence of successful executions and migrations, by any
  callers, with any replies of the chain, from the storage that an instantiation leaves. Two
  invariants of the accounting of decompounds hold along every run:

  \<^item> the clock: the seconds counted are those from the instantiation to the last decompound;
  \<^item> the budget: the sum of the ratios taken out is within the allowance for these seconds.
\<close>

inductive limited_step ::
  "arith \<Rightarrow> 'tok cw20_base \<Rightarrow> ('raw, 'cfg) lsd_hub \<Rightarrow> ('cfg, 'tok) limited_storage \<Rightarrow>
   ('cfg, 'tok) limited_storage \<Rightarrow> bool"
  for A :: arith and C :: "'tok cw20_base" and H :: "('raw, 'cfg) lsd_hub" where
  limited_call: "limited_execute A C H m dp e i st = Inr (st', r) \<Longrightarrow> limited_step A C H st st'"
| limited_migration: "limited_migrate dp e i st = Inr (st', r) \<Longrightarrow> limited_step A C H st st'"

text \<open>The books of a wrapper instantiated at \<open>t0\<close> with the maximal ratio \<open>m\<close>.\<close>

definition accounted :: "arith \<Rightarrow> decimal \<Rightarrow> timestamp \<Rightarrow> ('cfg, 'tok) limited_storage \<Rightarrow> bool" where
  "accounted A m t0 st \<longleftrightarrow>
     lm_decompound_config st = Some \<lparr>dc_max_decompound_ratio = Some m\<rparr> \<and>
     (case lm_decompound_state st of
        None \<Rightarrow> False
      | Some ds \<Rightarrow>
          unat (ds_total_seconds ds) + secs A t0 = secs A (ds_last_decompound ds) \<and>
          atoms (ds_ratio_sum ds) \<le> allowance (atoms m) (unat (ds_total_seconds ds)))"

text \<open>In one line: a year's allowance, pro rata of the time, bounds what was taken out.\<close>

lemma accounted_budget:
  assumes "accounted A m t0 st" and "lm_decompound_state st = Some ds"
  shows "atoms (ds_ratio_sum ds) * year_seconds
    \<le> atoms m * (secs A (ds_last_decompound ds) - secs A t0)"
proof -
  from assms have clock: "unat (ds_total_seconds ds) = secs A (ds_last_decompound ds) - secs A t0"
      and budget: "atoms (ds_ratio_sum ds) \<le> allowance (atoms m) (unat (ds_total_seconds ds))"
    by (auto simp: accounted_def)
  from budget have "atoms (ds_ratio_sum ds) * year_seconds
      \<le> allowance (atoms m) (unat (ds_total_seconds ds)) * year_seconds"
    by (rule mult_le_mono1)
  also have "\<dots> \<le> atoms m * unat (ds_total_seconds ds)" by (rule allowance_le)
  finally show ?thesis by (simp add: clock)
qed

context wrapper_env
begin

lemma instantiate_accounted:
  assumes "limited_instantiate C H m dp e i st = Inr (st', r)"
    and "tm_max_decompound_ratio m = Some ratio"
  shows "accounted A ratio (block_time e) st'"
  using assms
  by (auto simp: limited_instantiate_def Let_def rbind_eq_Inr map_err_eq_Inr on_cw20_ok
      store_hub_contract_def store_lsd_config_def accounted_def)

text \<open>One decompound keeps the books.\<close>

lemma decompound_accounted:
  assumes "limited_decompound A C H rc dp e i st = Inr (st', r)" and inv: "accounted A m t0 st"
  shows "accounted A m t0 st'"
  using assms(1)
proof (cases rule: limited_decompound_ok)
  case idle
  with inv show ?thesis by simp
next
  case (skimmed rw old new cfg to)
  note new = next_state_ok [OF skimmed(4)]
  from skimmed(2) inv skimmed(3) obtain period q where
      period: "seconds_until A old (block_time e) = Inr period"
      and q: "q + atoms (ds_ratio_sum old) = allowance (atoms m) (unat period)"
      and le: "atoms (al_rate_decrease rw) \<le> q"
    by (auto simp: accounted_def elim!: limited_compute_ok)
  from period new(3) have "period = ds_total_seconds new" by simp
  with q le new(2)
  have budget: "atoms (ds_ratio_sum new) \<le> allowance (atoms m) (unat (ds_total_seconds new))"
    by simp
  from inv skimmed(3) have "unat (ds_total_seconds old) + secs A t0 = secs A (ds_last_decompound old)"
    by (simp add: accounted_def)
  with seconds_until_ok [OF new(3)]
  have "unat (ds_total_seconds new) + secs A t0 = secs A (ds_last_decompound new)"
    by (auto simp: new(4))
  with budget inv skimmed(5) show ?thesis by (simp add: accounted_def)
qed

lemma step_accounted:
  assumes "limited_step A C H st st'" and "accounted A m t0 st"
  shows "accounted A m t0 st'"
  using assms(1)
proof cases
  case (limited_call x dp e i r)
  show ?thesis
  proof (cases "\<exists>rc. x = Decompound rc")
    case True
    with limited_call assms(2) show ?thesis by (auto intro: decompound_accounted)
  next
    case False
    with limited_frame [OF limited_call] assms(2) show ?thesis by (simp add: accounted_def)
  qed
next
  case (limited_migration dp e i r)
  with assms(2) show ?thesis by (simp add: limited_migrate_def)
qed

lemma run_accounted:
  assumes "(limited_step A C H)\<^sup>*\<^sup>* st st'" and "accounted A m t0 st"
  shows "accounted A m t0 st'"
  using assms by (induction rule: rtranclp_induct) (auto intro: step_accounted)

text \<open>Minting never lowers the LSD that stands behind each unit already issued.\<close>

lemma limited_mint_not_diluting:
  assumes "limited_mint A C H recipient amount dp e i st = Inr (st', r)"
    and "token_supply C (ws_cw20 st) \<noteq> 0"
  obtains cfg b l where "ws_lsd_config st = Some cfg"
    "lsd_balance (asset cfg) dp (contract_address e) = Inr b"
    "deposit_funds H cfg dp e i l (sender i) = Inr (msgs r)"
    "unat b * token_supply C (ws_cw20 st') \<le> (unat b + unat l) * token_supply C (ws_cw20 st)"
  using assms(1)
proof (rule limited_mint_ok)
  fix cfg and b l :: u128 and t
  let ?q = "share_rate (unat b) (token_supply C (ws_cw20 st))"
  assume cfg: "ws_lsd_config st = Some cfg"
    and b: "lsd_balance (asset cfg) dp (contract_address e) = Inr b" and q: "0 < ?q"
    and l: "unat l = lsd_for ?q (unat amount) + 1"
    and d: "deposit_funds H cfg dp e i l (sender i) = Inr (msgs r)"
    and t: "st' = st\<lparr>ws_cw20 := t\<rparr>" "token_supply C t = token_supply C (ws_cw20 st) + unat amount"
  have "unat amount * dec_unit \<le> unat l * ?q"
    using lsd_for_plus_one [OF q, of "unat amount"] by (simp add: l)
  from share_not_diluted [OF this assms(2)] cfg b d t show thesis by (intro that) auto
qed

lemma limited_mint_with_not_diluting:
  assumes "limited_mint_with A C H recipient lsd dp e i st = Inr (st', r)"
    and "token_supply C (ws_cw20 st) \<noteq> 0"
  obtains cfg b where "ws_lsd_config st = Some cfg"
    "lsd_balance (asset cfg) dp (contract_address e) = Inr b"
    "deposit_funds H cfg dp e i lsd (sender i) = Inr (msgs r)"
    "unat b * token_supply C (ws_cw20 st') \<le> (unat b + unat lsd) * token_supply C (ws_cw20 st)"
  using assms(1)
proof (rule limited_mint_with_ok)
  fix cfg and b :: u128 and n t
  let ?q = "share_rate (unat b) (token_supply C (ws_cw20 st))"
  assume cfg: "ws_lsd_config st = Some cfg"
    and b: "lsd_balance (asset cfg) dp (contract_address e) = Inr b"
    and n: "n = wrapped_for ?q (unat lsd)"
    and d: "deposit_funds H cfg dp e i lsd (sender i) = Inr (msgs r)"
    and t: "st' = st\<lparr>ws_cw20 := t\<rparr>" "token_supply C t = token_supply C (ws_cw20 st) + n"
  have "n * dec_unit \<le> unat lsd * ?q" using wrapped_for_le by (simp add: n)
  from share_not_diluted [OF this assms(2)] cfg b d t show thesis by (intro that) auto
qed

text \<open>An empty wrapper has no rate: the worth it would divide by is zero.\<close>

lemma limited_empty_no_rewards:
  assumes "ws_lsd_config st = Some cfg"
    and "lsd_balance (asset cfg) dp (contract_address e) = Inr 0"
  shows "\<nexists>rw. limited_compute_accrued_rewards A C H dp e st = Inr rw"
  using assms by (auto elim!: limited_compute_ok)

text \<open>The error that means there is nothing to take out comes from a low rate only.\<close>

lemma or_panic_no_error [simp]: "or_panic m \<noteq> Inl (Err x)"
  by (cases m) simp_all

lemma no_rewards_only_when_low:
  assumes "limited_compute_accrued_rewards A C H dp e st = generic_err no_rewards"
  shows "get_current_exchange_rate A C H dp e st wrapper_state_default = generic_err no_rewards \<or>
    (\<exists>cur s. get_current_exchange_rate A C H dp e st wrapper_state_default = Inr (cur, s) \<and> cur < dec_one)"
proof (rule ccontr)
  assume not_low: "\<not> ?thesis"
  with assms obtain cur s where "get_current_exchange_rate A C H dp e st wrapper_state_default = Inr (cur, s)"
      and rest: "rbind (available_rewards A s) (\<lambda>(luna, n). rbind (limit_rewards A e st s luna n) (\<lambda>(luna', n').
        rbind (subtract_margin A (w_lsd_exchange_rate s) luna' n') (\<lambda>(l, d).
        rbind (or_panic (from_ratio A l 1)) (\<lambda>dec_l.
        rbind (or_panic (d_div A dec_l (w_backing_luna s))) (\<lambda>rate_decrease.
        rbind (or_panic (u_mul A d 1)) (\<lambda>d1. Inr \<lparr>al_rate_decrease = rate_decrease,
          al_luna_rewards = l, al_lsd_rewards = d1\<rparr>)))))) = generic_err no_rewards"
    by (auto simp: limited_compute_accrued_rewards_def rbind_eq_Inl split: if_splits)
  have "available_rewards A s \<noteq> Inl (Err x)" "subtract_margin A r l d \<noteq> Inl (Err x)" for x r l d
    by (auto simp: available_rewards_def subtract_margin_def rbind_eq_Inl)
  moreover have "limit_rewards A e st s l d \<noteq> generic_err no_rewards" for l d
    by (auto simp: limit_rewards_def load_decompound_config_def load_decompound_state_def load_def
        seconds_until_def allowance_after_def rbind_eq_Inl limit_error_def no_rewards_def
        split: option.splits)
  ultimately show False using rest by (auto simp: rbind_eq_Inl)
qed

text \<open>A wrapper that holds nothing and has issued nothing cannot be decompounded.\<close>

lemma limited_empty_stuck:
  assumes "ws_lsd_config st = Some cfg" and "query_exchange_rate H cfg dp e = Inr q"
    and "lsd_balance (asset cfg) dp (contract_address e) = Inr 0"
    and "query_token_info C (ws_cw20 st) = Inr ti" and "ti_total_supply ti = 0"
  shows "limited_decompound A C H recipient dp e i st \<noteq> Inr x"
proof
  obtain st' r where x: "x = (st', r)" by force
  assume "limited_decompound A C H recipient dp e i st = Inr x"
  then have "limited_decompound A C H recipient dp e i st = Inr (st', r)" by (simp add: x)
  then show False
  proof (cases rule: limited_decompound_ok)
    case idle
    from no_rewards_only_when_low [OF idle(4)] show False
      using assms
      by (auto simp: get_current_exchange_rate_def read_lsd_config_def hub.get_balance rbind_eq_Inl
          rbind_eq_Inr Let_def)
  next
    case skimmed
    with limited_empty_no_rewards [OF assms(1,3)] show False by blast
  qed
qed

end

end
