(* ===== verification/Wrapper_Outcome.thy ===== *)
theory Wrapper_Outcome
  imports Wrapper_Laws
begin

text \<open>
  The complete outcome of the wrapper's own operations, errors included: for each of them an
  equation whose right-hand side computes with natural numbers and names the conditions under
  which the arithmetic panics.
\<close>

section \<open>Numbers that fit\<close>

definition fits :: "nat \<Rightarrow> bool" where
  "fits n \<longleftrightarrow> n < 2 ^ 128"

definition uint128 :: "nat \<Rightarrow> u128" where
  "uint128 n = word_of_nat n"

definition dec_nat :: "nat \<Rightarrow> decimal" where
  "dec_nat n = Decimal (word_of_nat n)"

lemma unat_uint128 [simp]: "fits n \<Longrightarrow> unat (uint128 n) = n"
  unfolding fits_def uint128_def by (rule unat_of_nat_bounded) simp

lemma atoms_dec_nat [simp]: "fits n \<Longrightarrow> atoms (dec_nat n) = n"
  using unat_uint128 [of n] by (simp add: dec_nat_def atoms_def uint128_def)

lemma fits_unat [simp]: "fits (unat (w :: u128))"
  unfolding fits_def by (rule unat_u128_less)

lemma fits_0 [simp]: "fits 0"
  by (simp add: fits_def)

lemma fits_atoms [simp]: "fits (atoms q)"
  unfolding fits_def by (rule atoms_less)

lemma fits_le: "fits n \<Longrightarrow> m \<le> n \<Longrightarrow> fits m"
  by (simp add: fits_def)

lemma fits_div: "fits n \<Longrightarrow> fits (n div d)"
  by (erule fits_le) (rule div_le_dividend)

text \<open>An operation specified by the value of its result is a case distinction on the range.\<close>

lemma u128_exhausted:
  assumes "\<And>c. f = Some c \<longleftrightarrow> unat (c :: u128) = n"
  shows "f = (if fits n then Some (uint128 n) else None)"
proof (cases "fits n")
  case True
  with assms [of "uint128 n"] show ?thesis by simp
next
  case False
  with assms have "f \<noteq> Some c" for c using fits_unat [of c] by auto
  with False show ?thesis by (cases f) auto
qed

lemma decimal_exhausted:
  assumes "\<And>q. f = Some q \<longleftrightarrow> atoms q = n"
  shows "f = (if fits n then Some (dec_nat n) else None)"
proof (cases "fits n")
  case True
  with assms [of "dec_nat n"] show ?thesis by simp
next
  case False
  with assms have "f \<noteq> Some q" for q using fits_atoms [of q] by auto
  with False show ?thesis by (cases f) auto
qed

definition whole_fits :: "nat \<Rightarrow> bool" where
  "whole_fits n \<longleftrightarrow> fits (n * dec_unit)"

text \<open>When the quotient of an amount by a rate can be formed.\<close>

definition quotable :: "nat \<Rightarrow> nat \<Rightarrow> bool" where
  "quotable r a \<longleftrightarrow> whole_fits a \<and> r \<noteq> 0 \<and> fits (a * dec_unit * dec_unit div r)"

lemma quotient_whole: "n * dec_unit * dec_unit div r div dec_unit = lsd_for r n"
proof -
  have "n * dec_unit * dec_unit div r div dec_unit = n * dec_unit * dec_unit div (dec_unit * r)"
    by (simp add: div_mult2_eq [symmetric] mult.commute)
  then show ?thesis by (simp add: lsd_for_def mult.commute [of dec_unit r])
qed

lemma quotable_lsd_for: "quotable r a \<Longrightarrow> fits (lsd_for r a)"
  unfolding quotable_def quotient_whole [symmetric] by (blast intro: fits_div)

context decimal_arith
begin

lemma from_ratio_one_eq:
  "from_ratio A n 1 = (if whole_fits (unat n) then Some (dec_nat (unat n * dec_unit)) else None)"
  unfolding whole_fits_def by (rule decimal_exhausted) (rule from_ratio_one)

lemma d_mul_eq:
  "d_mul A x y = (if fits (atoms x * atoms y div dec_unit)
     then Some (dec_nat (atoms x * atoms y div dec_unit)) else None)"
  by (rule decimal_exhausted) (rule d_mul)

lemma d_add_eq:
  "d_add A x y = (if fits (atoms x + atoms y) then Some (dec_nat (atoms x + atoms y)) else None)"
  by (rule decimal_exhausted) (rule d_add)

lemma d_div_eq:
  "d_div A x y = (if atoms y \<noteq> 0 \<and> fits (atoms x * dec_unit div atoms y)
     then Some (dec_nat (atoms x * dec_unit div atoms y)) else None)"
proof (cases "atoms y = 0")
  case True
  then have "d_div A x y \<noteq> Some q" for q by (simp add: d_div)
  with True show ?thesis by (cases "d_div A x y") auto
next
  case False
  then have "d_div A x y = (if fits (atoms x * dec_unit div atoms y)
      then Some (dec_nat (atoms x * dec_unit div atoms y)) else None)"
    by (intro decimal_exhausted) (simp add: d_div)
  with False show ?thesis by simp
qed

lemma d_div_uint_eq:
  "d_div_uint A x n = (if n \<noteq> 0 then Some (dec_nat (atoms x div unat n)) else None)"
proof (cases "n = 0")
  case True
  then have "d_div_uint A x n \<noteq> Some q" for q by (simp add: d_div_uint)
  with True show ?thesis by (cases "d_div_uint A x n") auto
next
  case False
  then have "d_div_uint A x n = (if fits (atoms x div unat n) then Some (dec_nat (atoms x div unat n)) else None)"
    by (intro decimal_exhausted) (simp add: d_div_uint)
  with False fits_div [OF fits_atoms] show ?thesis by simp
qed

lemma d_times_one_eq: "d_times A x 1 = Some (uint128 (atoms x div dec_unit))"
  using u128_exhausted [OF d_times_one [of x]] fits_div [OF fits_atoms] by simp

lemma u_mul_one_eq: "u_mul A x 1 = Some x"
  by (simp add: u_mul)

lemma u_sub_eq: "u_sub A a b = (if unat b \<le> unat a then Some (a - b) else None)"
proof (cases "unat b \<le> unat a")
  case True
  then have "unat (a - b) = unat a - unat b" by (simp add: unat_sub word_le_nat_alt)
  with True show ?thesis by (simp add: u_sub)
next
  case False
  then have "u_sub A a b \<noteq> Some c" for c by (simp add: u_sub)
  with False show ?thesis by (cases "u_sub A a b") auto
qed

lemma d_sub_eq:
  "d_sub A x y = (if atoms y \<le> atoms x then Some (dec_nat (atoms x - atoms y)) else None)"
proof (cases "atoms y \<le> atoms x")
  case True
  moreover have "fits (atoms x - atoms y)" by (rule fits_le [OF fits_atoms [of x]]) simp
  ultimately show ?thesis by (simp add: d_sub)
next
  case False
  then have "d_sub A x y \<noteq> Some c" for c by (simp add: d_sub)
  with False show ?thesis by (cases "d_sub A x y") auto
qed

text \<open>\<open>from_ratio(a, 1) / r\<close> in one equation: a quotient, or no result.\<close>

lemma whole_quotient:
  "rbind (or_panic (from_ratio A a 1)) (\<lambda>x. rbind (or_panic (d_div A x r)) f) =
    (if quotable (atoms r) (unat a) then f (dec_nat (unat a * dec_unit * dec_unit div atoms r))
     else Inl Panic)"
  by (simp add: from_ratio_one_eq d_div_eq quotable_def whole_fits_def)

end

section \<open>Burning and minting\<close>

context wrapper_env
begin

lemma before_burn_eq:
  assumes "ws_lsd_config st = Some cfg" and "query_exchange_rate H cfg dp e = Inr q"
  shows "before_burn A H amount dp e i st =
    (if quotable (atoms q) (unat amount)
     then Inr [lsd_transfer (asset cfg) (sender i) (uint128 (lsd_for (atoms q) (unat amount)))]
     else Inl Panic)"
  using assms
  by (simp add: before_burn_def read_lsd_config_def num.whole_quotient num.d_times_one_eq
      quotable_def quotient_whole hub.send_funds)

lemma burn_eq:
  assumes "ws_lsd_config st = Some cfg" and "query_exchange_rate H cfg dp e = Inr q"
  shows "execute_burn A C H amount dp e i st =
    (if quotable (atoms q) (unat amount)
     then rbind (cw20_burn C amount (ws_cw20 st) dp e i) (\<lambda>(t, r). Inr (st\<lparr>ws_cw20 := t\<rparr>,
       add_messages [lsd_transfer (asset cfg) (sender i)
         (uint128 (lsd_for (atoms q) (unat amount)))] r))
     else Inl Panic)"
  by (simp add: execute_burn_def before_burn_eq [OF assms] on_cw20_def rbind_assoc case_prod_unfold)

lemma burn_from_eq:
  assumes "ws_lsd_config st = Some cfg" and "query_exchange_rate H cfg dp e = Inr q"
  shows "execute_burn_from A C H owner amount dp e i st =
    (if quotable (atoms q) (unat amount)
     then rbind (cw20_burn_from C owner amount (ws_cw20 st) dp e i) (\<lambda>(t, r). Inr (st\<lparr>ws_cw20 := t\<rparr>,
       add_messages [lsd_transfer (asset cfg) (sender i)
         (uint128 (lsd_for (atoms q) (unat amount)))] r))
     else Inl Panic)"
  by (simp add: execute_burn_from_def before_burn_eq [OF assms] on_cw20_def rbind_assoc case_prod_unfold)

lemma mint_eq:
  assumes "ws_lsd_config st = Some cfg" and "query_exchange_rate H cfg dp e = Inr q"
  shows "execute_mint A C H recipient amount dp e i st =
    (if quotable (atoms q) (unat amount) \<and>
        fits (unat amount * dec_unit * dec_unit div atoms q + dec_unit)
     then rbind (deposit_funds H cfg dp e i (uint128 (lsd_for (atoms q) (unat amount) + 1)) (sender i))
       (\<lambda>ms. rbind (cw20_mint C recipient amount (ws_cw20 st) dp e (i\<lparr>sender := contract_address e\<rparr>))
         (\<lambda>(t, r). Inr (st\<lparr>ws_cw20 := t\<rparr>, add_messages ms r)))
     else Inl Panic)"
  using assms
  by (simp add: execute_mint_def read_lsd_config_def num.whole_quotient num.d_times_one_eq
      num.d_add_eq quotable_def div_add_self2 quotient_whole on_cw20_def rbind_assoc case_prod_unfold)

lemma mint_with_eq:
  assumes "ws_lsd_config st = Some cfg" and "query_exchange_rate H cfg dp e = Inr q"
  shows "execute_mint_with A C H recipient lsd dp e i st =
    (if whole_fits (unat lsd) \<and> fits (unat lsd * atoms q)
     then rbind (deposit_funds H cfg dp e i lsd (sender i))
       (\<lambda>ms. rbind (cw20_mint C recipient (uint128 (wrapped_for (atoms q) (unat lsd)))
           (ws_cw20 st) dp e (i\<lparr>sender := contract_address e\<rparr>))
         (\<lambda>(t, r). Inr (st\<lparr>ws_cw20 := t\<rparr>, add_messages ms r)))
     else Inl Panic)"
proof -
  have exact: "unat lsd * dec_unit * atoms q div dec_unit = unat lsd * atoms q"
    by (simp add: mult.commute mult.left_commute)
  show ?thesis
    using assms
    by (simp add: execute_mint_with_def read_lsd_config_def num.from_ratio_one_eq num.d_mul_eq
        num.d_times_one_eq whole_fits_def exact wrapped_for_def on_cw20_def rbind_assoc case_prod_unfold)
qed

end

section \<open>Decompounding\<close>

text \<open>
  What a decompound of the hub sends out, when the wrapper holds \<open>b\<close> LSD at the rate \<open>r\<close> against a
  supply of \<open>s\<close>: \<open>None\<close> is a panic, \<open>Some 0\<close> no message.
\<close>

definition decompound_amount :: "nat \<Rightarrow> nat \<Rightarrow> nat \<Rightarrow> nat option" where
  "decompound_amount r b s =
     (if \<not> whole_fits b \<or> \<not> fits (b * r) then None
      else if s \<noteq> 0 \<and> b * r div s < dec_unit then Some 0
      else if \<not> quotable r s then None
      else if lsd_excess r b s = 0 then Some 0
      else if wrapped_for r b - s < r div dec_unit then None
      else Some (lsd_excess r b s - 1))"

text \<open>The messages of an outcome.\<close>

definition outcome :: "('st \<times> response) res \<Rightarrow> ('st \<times> cosmos_msg list) res" where
  "outcome x = rbind x (\<lambda>(st, r). Inr (st, msgs r))"

lemma outcome_Inr: "outcome x = Inr (st, ms) \<Longrightarrow> \<exists>r. x = Inr (st, r) \<and> msgs r = ms"
  by (auto simp: outcome_def rbind_eq_Inr)

lemma outcome_Inl: "outcome x = Inl f \<Longrightarrow> x = Inl f"
  by (cases x) (auto simp: outcome_def)

lemma wrapped_minus_supply:
  "s * dec_unit \<le> b * r \<Longrightarrow> s \<le> wrapped_for r b"
  unfolding wrapped_for_def by (metis div_le_mono dec_unit_pos(2) nonzero_mult_div_cancel_right)

lemma need_within_balance:
  assumes "s * dec_unit \<le> b * r"
  shows "s * dec_unit * dec_unit div r \<le> b * dec_unit"
proof (cases "r = 0")
  case False
  have "s * dec_unit * dec_unit \<le> b * dec_unit * r"
    using mult_le_mono1 [OF assms, of dec_unit] by (simp add: ac_simps)
  then have "s * dec_unit * dec_unit div r \<le> b * dec_unit * r div r" by (rule div_le_mono)
  with False show ?thesis by simp
qed simp

text \<open>The pot of a wrapper that holds \<open>b\<close> LSD at the rate \<open>q\<close> against \<open>supply\<close> units.\<close>

definition pot_state :: "decimal \<Rightarrow> u128 \<Rightarrow> u128 \<Rightarrow> wrapper_state" where
  "pot_state q b supply = \<lparr>w_lsd_exchange_rate = q, w_wlsd_supply = supply,
     w_backing_luna = dec_nat (unat b * atoms q), w_lsd_balance = b\<rparr>"

definition current_rate :: "decimal \<Rightarrow> u128 \<Rightarrow> u128 \<Rightarrow> decimal" where
  "current_rate q b supply =
     (if supply = 0 then dec_one else dec_nat (unat b * atoms q div unat supply))"

lemma pot_state_simps [simp]:
  "w_lsd_exchange_rate (pot_state q b s) = q" "w_wlsd_supply (pot_state q b s) = s"
  "w_backing_luna (pot_state q b s) = dec_nat (unat b * atoms q)" "w_lsd_balance (pot_state q b s) = b"
  by (simp_all add: pot_state_def)

lemma current_rate_low:
  assumes "fits (unat b * atoms q)"
  shows "current_rate q b s < dec_one \<longleftrightarrow> unat s \<noteq> 0 \<and> unat b * atoms q div unat s < dec_unit"
  using assms fits_div by (auto simp: current_rate_def decimal_less_iff unat_zero_iff)

lemma covered_iff:
  "\<not> (s \<noteq> 0 \<and> n div s < dec_unit) \<longleftrightarrow> s * dec_unit \<le> n"
  by (cases "s = 0") (auto simp: not_less less_eq_div_iff_mult_less_eq mult.commute)

lemma uint128_minus: "fits n \<Longrightarrow> unat s \<le> n \<Longrightarrow> uint128 n - s = uint128 (n - unat s)"
  using fits_le [of n "n - unat s"] by (simp add: word_unat_eq_iff unat_sub word_le_nat_alt)

lemma uint128_0 [simp]: "uint128 0 = 0"
  by (simp add: uint128_def)

context wrapper_env
begin

lemma current_rate_eq:
  assumes "ws_lsd_config st = Some cfg" and "query_exchange_rate H cfg dp e = Inr q"
    and "lsd_balance (asset cfg) dp (contract_address e) = Inr b"
    and "query_token_info C (ws_cw20 st) = Inr ti"
  shows "get_current_exchange_rate A C H dp e st wrapper_state_default =
    (if whole_fits (unat b) \<and> fits (unat b * atoms q)
     then Inr (current_rate q b (ti_total_supply ti), pot_state q b (ti_total_supply ti))
     else Inl Panic)"
proof -
  have exact: "unat b * dec_unit * atoms q div dec_unit = unat b * atoms q"
    by (simp add: mult.commute mult.left_commute)
  show ?thesis
    using assms
    by (simp add: get_current_exchange_rate_def read_lsd_config_def hub.get_balance
        num.from_ratio_one_eq num.d_mul_eq num.d_div_uint_eq whole_fits_def exact pot_state_def
        current_rate_def wrapper_state_default_def Let_def)
qed

lemma available_eq:
  assumes "unat s * dec_unit \<le> unat b * atoms q" and "whole_fits (unat b)" and "fits (unat b * atoms q)"
  shows "available_rewards A (pot_state q b s) =
    (if quotable (atoms q) (unat s)
     then Inr (uint128 (wrapped_for (atoms q) (unat b) - unat s),
       uint128 (lsd_excess (atoms q) (unat b) (unat s)))
     else Inl Panic)"
proof -
  note wrapped = wrapped_minus_supply [OF assms(1)] and need = need_within_balance [OF assms(1)]
  have backing: "fits (wrapped_for (atoms q) (unat b))"
    using assms(3) fits_div by (simp add: wrapped_for_def)
  show ?thesis
    using assms wrapped need backing fits_le [of "unat b * dec_unit"]
    by (simp add: available_rewards_def num.d_times_one_eq num.u_sub_eq num.from_ratio_one_eq
        num.d_div_eq num.d_sub_eq whole_fits_def wrapped_for_def [symmetric] lsd_excess_def quotable_def
        uint128_minus)
qed

lemma margin_eq:
  assumes "fits l" and "fits n"
  shows "subtract_margin A q (uint128 l) (uint128 n) =
    (if n = 0 then Inr (uint128 l, 0)
     else if l < atoms q div dec_unit then Inl Panic
     else Inr (uint128 (l - atoms q div dec_unit), uint128 (n - 1)))"
  using assms fits_div [OF fits_atoms, of q dec_unit]
  by (auto simp: subtract_margin_def num.u_sub_eq num.d_times_one_eq word_less_nat_alt uint128_minus
      not_less)

lemma compute_eq:
  assumes "ws_lsd_config st = Some cfg" and "query_exchange_rate H cfg dp e = Inr q"
    and "lsd_balance (asset cfg) dp (contract_address e) = Inr b"
    and "query_token_info C (ws_cw20 st) = Inr ti"
  defines "s \<equiv> unat (ti_total_supply ti)"
  shows "rbind (compute_accrued_rewards A C H dp e st) (\<lambda>rw. Inr (unat (lsd_rewards rw))) =
    (if \<not> whole_fits (unat b) \<or> \<not> fits (unat b * atoms q) then Inl Panic
     else if s \<noteq> 0 \<and> unat b * atoms q div s < dec_unit then generic_err no_rewards
     else case decompound_amount (atoms q) (unat b) s of None \<Rightarrow> Inl Panic | Some n \<Rightarrow> Inr n)"
proof (cases "whole_fits (unat b) \<and> fits (unat b * atoms q)")
  case False
  with current_rate_eq [OF assms(1-4)] show ?thesis by (auto simp: compute_accrued_rewards_def)
next
  case fit: True
  note rate = current_rate_eq [OF assms(1-4)] and low = current_rate_low [of b q "ti_total_supply ti"]
  show ?thesis
  proof (cases "s * dec_unit \<le> unat b * atoms q")
    case False
    then have "s \<noteq> 0 \<and> unat b * atoms q div s < dec_unit"
      using covered_iff [of s "unat b * atoms q"] by blast
    with fit rate low show ?thesis
      by (simp add: compute_accrued_rewards_def s_def)
  next
    case True
    then have enough: "\<not> (s \<noteq> 0 \<and> unat b * atoms q div s < dec_unit)" 
      using covered_iff [of s "unat b * atoms q"] by blast
    have f: "fits (wrapped_for (atoms q) (unat b) - s)" "fits (lsd_excess (atoms q) (unat b) s)"
      using fit fits_div fits_le by (metis wrapped_for_def diff_le_self, metis fits_unat lsd_excess_le fits_le)
    have above: "\<not> current_rate q b (ti_total_supply ti) < dec_one"
      using low fit enough by (simp only: s_def simp_thms)
    have "rbind (compute_accrued_rewards A C H dp e st) (\<lambda>rw. Inr (unat (lsd_rewards rw))) =
        (if quotable (atoms q) s then rbind (subtract_margin A q
            (uint128 (wrapped_for (atoms q) (unat b) - s))
            (uint128 (lsd_excess (atoms q) (unat b) s))) (\<lambda>(l, d). Inr (unat d))
         else Inl Panic)"
      using True fit rate above available_eq [of "ti_total_supply ti" b q]
      by (simp add: compute_accrued_rewards_def s_def num.u_mul_one_eq rbind_assoc case_prod_unfold)
    also have "\<dots> = (case decompound_amount (atoms q) (unat b) s of None \<Rightarrow> Inl Panic | Some n \<Rightarrow> Inr n)"
      using fit enough fits_le [OF f(2), of "lsd_excess (atoms q) (unat b) s - 1"]
      by (auto simp: decompound_amount_def margin_eq [OF f])
    finally show ?thesis using fit enough by auto
  qed
qed

text \<open>The outcome of a decompound: who may ask, where the LSD goes, how much, and when it panics.\<close>

lemma decompound_eq:
  assumes "ws_lsd_config st = Some cfg" and "query_exchange_rate H cfg dp e = Inr q"
    and "lsd_balance (asset cfg) dp (contract_address e) = Inr b"
    and "query_token_info C (ws_cw20 st) = Inr ti" and "ws_hub_contract st = Some (sender i)"
    and "opt_traverse (\<lambda>x. std_res (addr_validate dp x)) recipient = Inr to"
  shows "outcome (execute_decompound A C H recipient dp e i st) =
    (case decompound_amount (atoms q) (unat b) (unat (ti_total_supply ti)) of
       None \<Rightarrow> Inl Panic
     | Some n \<Rightarrow> Inr (st, if n = 0 then [] else
         [lsd_transfer (asset cfg) (case to of None \<Rightarrow> sender i | Some a \<Rightarrow> a) (uint128 n)]))"
proof -
  define s where "s = unat (ti_total_supply ti)"
  note c = compute_eq [OF assms(1-4), folded s_def]
  have low: "decompound_amount (atoms q) (unat b) s = Some 0"
    if "whole_fits (unat b)" "fits (unat b * atoms q)" "s \<noteq> 0" "unat b * atoms q div s < dec_unit"
    using that by (simp add: decompound_amount_def)
  have out: "outcome (execute_decompound A C H recipient dp e i st) =
      rbind (decompound_messages A C H cfg (case to of None \<Rightarrow> sender i | Some a \<Rightarrow> a) dp e st)
        (\<lambda>(ms, rw). Inr (st, ms))"
    using assms
    by (simp add: execute_decompound_def read_hub_contract_def read_lsd_config_def Let_def
        outcome_def rbind_assoc case_prod_unfold decompound_response_def)
  show ?thesis
    unfolding out s_def [symmetric]
  proof (cases "compute_accrued_rewards A C H dp e st")
    case (Inl f)
    with c low show "rbind (decompound_messages A C H cfg (case to of None \<Rightarrow> sender i | Some a \<Rightarrow> a) dp e st)
        (\<lambda>(ms, rw). Inr (st, ms)) = (case decompound_amount (atoms q) (unat b) s of
       None \<Rightarrow> Inl Panic
     | Some n \<Rightarrow> Inr (st, if n = 0 then [] else
         [lsd_transfer (asset cfg) (case to of None \<Rightarrow> sender i | Some a \<Rightarrow> a) (uint128 n)]))"
      by (cases "s = 0")
        (auto simp: decompound_messages_def decompound_amount_def split: if_splits option.splits)
  next
    case (Inr rw)
    with c have "decompound_amount (atoms q) (unat b) s = Some (unat (lsd_rewards rw))"
      by (auto split: if_splits option.splits)
    with Inr show "rbind (decompound_messages A C H cfg (case to of None \<Rightarrow> sender i | Some a \<Rightarrow> a) dp e st)
        (\<lambda>(ms, rw). Inr (st, ms)) = (case decompound_amount (atoms q) (unat b) s of
       None \<Rightarrow> Inl Panic
     | Some n \<Rightarrow> Inr (st, if n = 0 then [] else
         [lsd_transfer (asset cfg) (case to of None \<Rightarrow> sender i | Some a \<Rightarrow> a) (uint128 n)]))"
      by (auto simp: decompound_messages_def hub.send_funds unat_zero_iff uint128_def)
  qed
qed

end

end
