(* ===== verification/Reward_Swap.thy ===== *)
theory Reward_Swap
  imports Messages
begin

text \<open>
  The modules \<open>state.rs\<close>, \<open>querier.rs\<close>, \<open>swap.rs\<close>, \<open>user.rs\<close>, \<open>global.rs\<close> and the configuration update
  of \<open>contracts/cavern-lsd-reward\<close>: the storage, the choice of the router that offers most for an
  asset, the swap of everything the contract holds into the reward denomination, and the claim of
  the result. The storage is a record that can be extended: that of the crate with retrieval
  (\<open>Custom_Swap\<close>) adds a cell, and the lemmas on these functions hold there too.
\<close>

section \<open>Storage (state.rs)\<close>

record swap_config =
  sw_astroport_addr :: addr
  sw_phoenix_addr :: addr
  sw_terraswap_addr :: addr

record reward_config =
  rc_owner :: addr
  rc_hub_contract :: addr
  rc_custody_contract :: "addr option"
  rc_reward_denom :: string
  rc_known_cw20_tokens :: "addr list"

record reward_state =
  rt_global_index :: decimal256
  rt_total_balance :: u128
  rt_prev_reward_balance :: u128

record reward_storage =
  rs_config :: "reward_config option"
  rs_state :: "reward_state option"
  rs_swap_config :: "swap_config option"

definition store_config ::
  "reward_config \<Rightarrow> 'z reward_storage_scheme \<Rightarrow> 'z reward_storage_scheme" where
  "store_config c st = st\<lparr>rs_config := Some c\<rparr>"

definition read_config :: "'z reward_storage_scheme \<Rightarrow> reward_config res" where
  "read_config st = load ''config'' (rs_config st)"

definition store_state ::
  "reward_state \<Rightarrow> 'z reward_storage_scheme \<Rightarrow> 'z reward_storage_scheme" where
  "store_state s st = st\<lparr>rs_state := Some s\<rparr>"

definition read_state :: "'z reward_storage_scheme \<Rightarrow> reward_state res" where
  "read_state st = load ''state'' (rs_state st)"

definition load_swap_config :: "'z reward_storage_scheme \<Rightarrow> swap_config res" where
  "load_swap_config st = load ''swap_config'' (rs_swap_config st)"

section \<open>Balances (querier.rs)\<close>

record asset =
  as_amount :: u128
  as_info :: asset_info

text \<open>A token that does not answer counts as a zero balance; the result is widened.\<close>

definition query_token_balance :: "deps \<Rightarrow> addr \<Rightarrow> addr \<Rightarrow> u256 res" where
  "query_token_balance dp contract_addr account_addr =
     (case query_as dp a_balance contract_addr (Q_Cw20Balance account_addr) of
        Inr b \<Rightarrow> Inr (ucast b)
      | Inl (Err _) \<Rightarrow> Inr 0
      | Inl Panic \<Rightarrow> Inl Panic)"

text \<open>\<open>Uint256\<close> to \<open>Uint128\<close>, with the \<open>unwrap\<close> of \<open>query_all_cw20_balances\<close>.\<close>

definition narrow :: "u256 \<Rightarrow> u128 option" where
  "narrow n = (if unat n < 2 ^ 128 then Some (ucast n) else None)"

definition query_all_cw20_balances :: "deps \<Rightarrow> addr \<Rightarrow> addr list \<Rightarrow> asset list res" where
  "query_all_cw20_balances dp contract_addr tokens =
     traverse (\<lambda>token.
       (case query_token_balance dp token contract_addr of
          Inr amount \<Rightarrow> rbind (or_panic (narrow amount))
            (\<lambda>a. Inr \<lparr>as_amount = a, as_info = Token token\<rparr>)
        | Inl (Err _) \<Rightarrow> Inr \<lparr>as_amount = 0, as_info = Token token\<rparr>
        | Inl Panic \<Rightarrow> Inl Panic)) tokens"

section \<open>Routers (swap.rs)\<close>

fun get_astroport_swap_operation ::
  "asset_info \<Rightarrow> asset_info \<Rightarrow> swap_message_type \<Rightarrow> swap_operation" where
  "get_astroport_swap_operation offer ask Mt_Astroport = AstroSwap offer ask"
| "get_astroport_swap_operation offer ask Mt_Phoenix = TokenSwap offer ask"
| "get_astroport_swap_operation offer ask Mt_TerraSwap = TerraSwap offer ask"

fun router_addr :: "swap_message_type \<Rightarrow> swap_config \<Rightarrow> addr" where
  "router_addr Mt_Astroport c = sw_astroport_addr c"
| "router_addr Mt_Phoenix c = sw_phoenix_addr c"
| "router_addr Mt_TerraSwap c = sw_terraswap_addr c"

definition get_contract_address :: "swap_message_type \<Rightarrow> 'z reward_storage_scheme \<Rightarrow> addr res" where
  "get_contract_address message_type st =
     rbind (load_swap_config st) (\<lambda>swap_config. Inr (router_addr message_type swap_config))"

definition into_cosmos_msg :: "binary \<Rightarrow> addr \<Rightarrow> coin list \<Rightarrow> cosmos_msg res" where
  "into_cosmos_msg message contract_addr fs = Inr (Wasm_Execute contract_addr message fs)"

definition create_swap_message_for ::
  "asset \<Rightarrow> string \<Rightarrow> swap_message_type \<Rightarrow> 'z reward_storage_scheme \<Rightarrow> cosmos_msg res" where
  "create_swap_message_for asset_to_swap stable_denom message_type st =
     rbind (get_contract_address message_type st) (\<lambda>swap_contract_address.
     let stable_token = NativeToken stable_denom;
         swap = RouterExec (ExecuteSwapOperations
                  [get_astroport_swap_operation (as_info asset_to_swap) stable_token message_type]
                  None None None)
     in case as_info asset_to_swap of
          Token contract_addr \<Rightarrow>
            Inr (Wasm_Execute contract_addr
              (Cw20Exec (Cw20_Send swap_contract_address (as_amount asset_to_swap) swap)) [])
        | NativeToken denom \<Rightarrow>
            into_cosmos_msg swap swap_contract_address
              [\<lparr>coin_denom = denom, coin_amount = as_amount asset_to_swap\<rparr>])"

definition get_swap_result_for ::
  "deps \<Rightarrow> asset \<Rightarrow> string \<Rightarrow> swap_message_type \<Rightarrow> 'z reward_storage_scheme \<Rightarrow> u128 res" where
  "get_swap_result_for dp asset_to_swap stable_denom message_type st =
     rbind (get_contract_address message_type st) (\<lambda>contract_address.
     rbind (query_as dp a_simulation contract_address
              (Q_Router (Router_QSimulate (as_amount asset_to_swap)
                [get_astroport_swap_operation (as_info asset_to_swap) (NativeToken stable_denom)
                   message_type]))) (\<lambda>response. Inr (si_amount response)))"

text \<open>\<open>Iterator::max_by_key\<close>: of several greatest elements the last.\<close>

fun max_by_key :: "('a \<Rightarrow> 'k::linorder) \<Rightarrow> 'a list \<Rightarrow> 'a option" where
  "max_by_key f [] = None"
| "max_by_key f (x # xs) = Some (fold (\<lambda>y best. if f y < f best then best else y) xs x)"

fun is_ok :: "'a res \<Rightarrow> bool" where
  "is_ok (Inr _) = True" | "is_ok (Inl _) = False"

text \<open>
  The quotes of the routers that answer, each with its index. The filter drops errors; it could
  not drop a panic, but \<open>get_swap_result_for\<close> has none (\<open>swap_result_no_panic\<close> below).
\<close>

definition swap_quotes ::
  "deps \<Rightarrow> asset \<Rightarrow> string \<Rightarrow> 'z reward_storage_scheme \<Rightarrow> (nat \<times> u128) list" where
  "swap_quotes dp asset_to_swap reward_denom st =
     map (\<lambda>(k, r). (k, projr r))
       (filter (\<lambda>(k, r). is_ok r)
         (enumerate 0 (map (\<lambda>mt. get_swap_result_for dp asset_to_swap reward_denom mt st)
           swap_message_types)))"

definition create_swap_msgs ::
  "deps \<Rightarrow> asset \<Rightarrow> string \<Rightarrow> 'z reward_storage_scheme \<Rightarrow> cosmos_msg list res" where
  "create_swap_msgs dp asset_to_swap reward_denom st =
     (case max_by_key snd (swap_quotes dp asset_to_swap reward_denom st) of
        Some (best_price_index, best_price) \<Rightarrow>
          if best_price = 0 then Inr []
          else
            rbind (or_panic (if best_price_index < length swap_message_types
                             then Some (swap_message_types ! best_price_index) else None))
              (\<lambda>best_price_marketplace.
            rbind (create_swap_message_for asset_to_swap reward_denom best_price_marketplace st)
              (\<lambda>m. Inr [m]))
      | None \<Rightarrow> Inr [])"

section \<open>Swapping everything (global.rs)\<close>

text \<open>
  The part of \<open>execute_swap\<close> after the configuration is read. \<open>map\<close>, \<open>flat_map\<close> and \<open>collect\<close> into
  one \<open>Result\<close> stop at the first error: a \<open>traverse\<close> whose lists are joined.
\<close>

definition swap_messages_of ::
  "deps \<Rightarrow> string \<Rightarrow> 'z reward_storage_scheme \<Rightarrow> asset list \<Rightarrow> cosmos_msg list res" where
  "swap_messages_of dp reward_denom st assets =
     rbind (traverse (\<lambda>a. create_swap_msgs dp a reward_denom st) assets) (\<lambda>mss. Inr (concat mss))"

definition swap_balances ::
  "deps \<Rightarrow> env \<Rightarrow> reward_config \<Rightarrow> 'z reward_storage_scheme \<Rightarrow>
   ('z reward_storage_scheme \<times> response) res" where
  "swap_balances dp e config st =
     (let reward_denom = rc_reward_denom config in
     rbind (std_res (bank_all_balances dp (contract_address e))) (\<lambda>balances.
     rbind (swap_messages_of dp reward_denom st
              (map (\<lambda>c. \<lparr>as_amount = coin_amount c, as_info = NativeToken (coin_denom c)\<rparr>)
                (filter (\<lambda>x. reward_denom \<noteq> coin_denom x) balances))) (\<lambda>native_swap_messages.
     rbind (query_all_cw20_balances dp (contract_address e) (rc_known_cw20_tokens config))
       (\<lambda>cw20_balances.
     rbind (swap_messages_of dp reward_denom st
              (filter (\<lambda>a. as_amount a \<noteq> 0) cw20_balances)) (\<lambda>cw20_messages.
       Inr (st, add_attributes [(''action'', ''swap'')]
                  (add_messages cw20_messages (add_messages native_swap_messages response_new))))))))"

section \<open>Claims (user.rs)\<close>

definition execute_claim_rewards ::
  "string option \<Rightarrow> deps \<Rightarrow> env \<Rightarrow> message_info \<Rightarrow> 'z reward_storage_scheme \<Rightarrow>
   ('z reward_storage_scheme \<times> response) res" where
  "execute_claim_rewards recipient dp e i st =
     rbind (read_config st) (\<lambda>config.
     rbind (case rc_custody_contract config of
              None \<Rightarrow> generic_err ''the custody contract must have been registered''
            | Some a \<Rightarrow> Inr a) (\<lambda>custody_addr.
     rbind (std_res (addr_validate dp custody_addr)) (\<lambda>custody.
     if sender i \<noteq> custody then generic_err ''unauthorized''
     else
       rbind (opt_traverse (\<lambda>x. std_res (addr_validate dp x)) recipient) (\<lambda>validated.
       let to = (case validated of None \<Rightarrow> sender i | Some a \<Rightarrow> a) in
       rbind (std_res (bank_balance dp (contract_address e) (rc_reward_denom config))) (\<lambda>rewards.
       if coin_amount rewards = 0 then generic_err ''No rewards have accrued yet''
       else
         Inr (st, add_messages [Bank_Send to [rewards]]
           (add_attributes [(''action'', ''claim_reward''),
              (''rewards'', show_nat (unat (coin_amount rewards)) @ coin_denom rewards)]
             response_new)))))))"

definition query_accrued_rewards :: "deps \<Rightarrow> env \<Rightarrow> 'z reward_storage_scheme \<Rightarrow> u128 res" where
  "query_accrued_rewards dp e st =
     rbind (read_config st) (\<lambda>config.
       Inr (case bank_balance dp (contract_address e) (rc_reward_denom config) of
              Inl _ \<Rightarrow> 0 | Inr c \<Rightarrow> coin_amount c))"

section \<open>Configuration (contract.rs)\<close>

text \<open>\<open>has_unique_elements\<close>: \<open>HashSet::insert\<close> says whether the element is new.\<close>

fun unique_from :: "string set \<Rightarrow> string list \<Rightarrow> bool" where
  "unique_from seen [] = True"
| "unique_from seen (x # xs) = (x \<notin> seen \<and> unique_from (insert x seen) xs)"

definition has_unique_elements :: "string list \<Rightarrow> bool" where
  "has_unique_elements xs = unique_from {} xs"

definition duplicate_tokens :: string where
  "duplicate_tokens = ''Known tokens shouldn't contain duplicate assets''"

text \<open>The messages of \<open>basset/src/reward.rs\<close> and \<open>custom_reward.rs\<close>.\<close>

record reward_init_msg =
  rm_hub_contract :: string
  rm_reward_denom :: string
  rm_astroport_addr :: string
  rm_phoenix_addr :: string
  rm_terraswap_addr :: string
  rm_known_tokens :: "string list"

datatype reward_query_msg = Reward_QueryConfig | Reward_QueryAccrued string

datatype reward_answer = Reward_Config reward_config | Reward_Accrued u128

definition set_addr :: "deps \<Rightarrow> string option \<Rightarrow> (addr \<Rightarrow> 'c \<Rightarrow> 'c) \<Rightarrow> 'c \<Rightarrow> 'c res" where
  "set_addr dp field put c =
     (case field of
        None \<Rightarrow> Inr c
      | Some s \<Rightarrow> rbind (std_res (addr_validate dp s)) (\<lambda>a. Inr (put a c)))"

definition set_known_tokens ::
  "deps \<Rightarrow> string list option \<Rightarrow> reward_config \<Rightarrow> reward_config res" where
  "set_known_tokens dp known_tokens c =
     (case known_tokens of
        None \<Rightarrow> Inr c
      | Some tokens \<Rightarrow>
          if \<not> has_unique_elements tokens then generic_err duplicate_tokens
          else rbind (traverse (\<lambda>token. std_res (addr_validate dp token)) tokens)
                 (\<lambda>addrs. Inr (c\<lparr>rc_known_cw20_tokens := addrs\<rparr>)))"

text \<open>\<open>set_custody_contract\<close>, named \<open>update_config\<close> in the second crate.\<close>

definition set_custody_contract ::
  "string option \<Rightarrow> string option \<Rightarrow> string list option \<Rightarrow> string option \<Rightarrow> string option \<Rightarrow>
   string option \<Rightarrow> deps \<Rightarrow> message_info \<Rightarrow> 'z reward_storage_scheme \<Rightarrow>
   ('z reward_storage_scheme \<times> response) res" where
  "set_custody_contract owner custody_contract known_tokens astroport phoenix terraswap dp i st =
     rbind (read_config st) (\<lambda>config.
     rbind (load_swap_config st) (\<lambda>swap_config.
     if sender i \<noteq> rc_owner config then generic_err ''unauthorized''
     else
       rbind (set_addr dp owner (\<lambda>a c. c\<lparr>rc_owner := a\<rparr>) config) (\<lambda>c1.
       rbind (set_addr dp custody_contract (\<lambda>a c. c\<lparr>rc_custody_contract := Some a\<rparr>) c1) (\<lambda>c2.
       rbind (set_addr dp astroport (\<lambda>a c. c\<lparr>sw_astroport_addr := a\<rparr>) swap_config) (\<lambda>s1.
       rbind (set_addr dp phoenix (\<lambda>a c. c\<lparr>sw_phoenix_addr := a\<rparr>) s1) (\<lambda>s2.
       rbind (set_addr dp terraswap (\<lambda>a c. c\<lparr>sw_terraswap_addr := a\<rparr>) s2) (\<lambda>s3.
       rbind (set_known_tokens dp known_tokens c2) (\<lambda>c3.
         Inr ((store_config c3 st)\<lparr>rs_swap_config := Some s3\<rparr>,
              add_attributes [(''action'', ''set_custody_contract'')] response_new)))))))))"

definition reward_config_of :: "deps \<Rightarrow> message_info \<Rightarrow> 'y reward_init_msg_scheme \<Rightarrow> reward_config res" where
  "reward_config_of dp i m =
     (if \<not> has_unique_elements (rm_known_tokens m) then generic_err duplicate_tokens
      else
        rbind (std_res (addr_validate dp (rm_hub_contract m))) (\<lambda>hub.
        rbind (traverse (\<lambda>a. std_res (addr_validate dp a)) (rm_known_tokens m)) (\<lambda>tokens.
          Inr \<lparr>rc_owner = sender i, rc_hub_contract = hub, rc_custody_contract = None,
               rc_reward_denom = rm_reward_denom m, rc_known_cw20_tokens = tokens\<rparr>)))"

definition reward_state_zero :: reward_state where
  "reward_state_zero =
     \<lparr>rt_global_index = Decimal256 0, rt_total_balance = 0, rt_prev_reward_balance = 0\<rparr>"

definition swap_config_of :: "deps \<Rightarrow> 'y reward_init_msg_scheme \<Rightarrow> swap_config res" where
  "swap_config_of dp m =
     rbind (std_res (addr_validate dp (rm_astroport_addr m))) (\<lambda>astroport.
     rbind (std_res (addr_validate dp (rm_phoenix_addr m))) (\<lambda>phoenix.
     rbind (std_res (addr_validate dp (rm_terraswap_addr m))) (\<lambda>terraswap.
       Inr \<lparr>sw_astroport_addr = astroport, sw_phoenix_addr = phoenix,
            sw_terraswap_addr = terraswap\<rparr>)))"

definition reward_query ::
  "reward_query_msg \<Rightarrow> deps \<Rightarrow> env \<Rightarrow> 'z reward_storage_scheme \<Rightarrow> reward_answer res" where
  "reward_query q dp e st =
     (case q of
        Reward_QueryConfig \<Rightarrow> rbind (read_config st) (\<lambda>c. Inr (Reward_Config c))
      | Reward_QueryAccrued address \<Rightarrow>
          rbind (query_accrued_rewards dp e st) (\<lambda>r. Inr (Reward_Accrued r)))"

end
