(* ===== verification/Reward_Laws.thy ===== *)
theory Reward_Laws
  imports Reward_Swap
begin

text \<open>
  What the functions shared by the reward crates do: the choice of the router, the orders it
  leads to, the balances, the claim, and the updates of the configuration.
\<close>

section \<open>The greatest element\<close>

lemma max_by_key_split:
  "max_by_key f xs = Some x \<Longrightarrow>
    \<exists>as bs. xs = as @ x # bs \<and> (\<forall>a\<in>set as. f a \<le> f x) \<and> (\<forall>b\<in>set bs. f b < f x)"
proof (induction xs arbitrary: x rule: rev_induct)
  case (snoc y ys)
  show ?case
  proof (cases "max_by_key f ys")
    case None
    then have "ys = []" by (cases ys) auto
    with snoc.prems show ?thesis by (intro exI [of _ "[]"]) simp
  next
    case (Some z)
    then obtain as bs where z: "ys = as @ z # bs" "\<forall>a\<in>set as. f a \<le> f z" "\<forall>b\<in>set bs. f b < f z"
      using snoc.IH by blast
    have step: "max_by_key f (ys @ [y]) = Some (if f y < f z then z else y)"
      using Some by (cases ys) auto
    show ?thesis
    proof (cases "f y < f z")
      case True
      with z snoc.prems step have "ys @ [y] = as @ x # (bs @ [y])" "z = x" by auto
      with z True show ?thesis by (intro exI [of _ as] exI [of _ "bs @ [y]"]) auto
    next
      case False
      with snoc.prems step have "x = y" by simp
      moreover from z False have "\<forall>a\<in>set ys. f a \<le> f y" by force
      ultimately show ?thesis by (intro exI [of _ ys] exI [of _ "[]"]) auto
    qed
  qed
qed simp

lemma max_by_key_None [simp]: "max_by_key f xs = None \<longleftrightarrow> xs = []"
  by (cases xs) auto

section \<open>Routers\<close>

lemma all_routers: "mt \<in> set swap_message_types"
  by (cases mt) (simp_all add: swap_message_types_def)

lemma distinct_routers: "distinct swap_message_types"
  by (simp add: swap_message_types_def)

text \<open>The place of a router in the list of routers.\<close>

primrec router_rank :: "swap_message_type \<Rightarrow> nat" where
  "router_rank Mt_Astroport = 0" | "router_rank Mt_Phoenix = 1" | "router_rank Mt_TerraSwap = 2"

lemma router_at: "k < 3 \<Longrightarrow> router_rank (swap_message_types ! k) = k"
  by (auto simp: swap_message_types_def less_Suc_eq numeral_3_eq_3 nth_Cons')

lemma rank_at: "router_rank mt < 3 \<and> swap_message_types ! router_rank mt = mt"
  by (cases mt) (simp_all add: swap_message_types_def)

lemma swap_result_no_panic: "get_swap_result_for dp a d mt st \<noteq> Inl Panic"
  by (auto simp: get_swap_result_for_def get_contract_address_def load_swap_config_def load_def
      query_as_def std_res_def rbind_def split: option.splits sum.splits)

lemma quotes_mem:
  "(k, p) \<in> set (swap_quotes dp a d st) \<longleftrightarrow>
    k < 3 \<and> get_swap_result_for dp a d (swap_message_types ! k) st = Inr p"
proof -
  have ok: "is_ok r \<and> projr r = p \<longleftrightarrow> r = Inr p" for r :: "u128 res" by (cases r) auto
  have three: "length swap_message_types = 3" by (simp add: swap_message_types_def)
  have "(k, p) \<in> set (swap_quotes dp a d st) \<longleftrightarrow>
      (\<exists>r. (k, r) \<in> set (enumerate 0 (map (\<lambda>mt. get_swap_result_for dp a d mt st) swap_message_types)) \<and>
        is_ok r \<and> projr r = p)"
    by (force simp: swap_quotes_def)
  then show ?thesis
    by (auto simp: ok in_set_enumerate_eq three)
qed

lemma quotes_sorted: "sorted_wrt (\<lambda>x y. fst x < fst y) (swap_quotes dp a d st)"
proof -
  have "sorted_wrt (\<lambda>x y. fst x < fst y) (enumerate 0 xs)" for xs :: "u128 res list"
    using sorted_wrt_map [of "(<)" fst "enumerate 0 xs"] by simp
  then have "sorted_wrt (\<lambda>x y. fst x < fst y) (filter P (enumerate 0 xs))" for P and xs :: "u128 res list"
    by (rule sorted_wrt_filter)
  then show ?thesis by (simp add: swap_quotes_def sorted_wrt_map case_prod_beta)
qed

text \<open>The order that sells an asset on a router for the denomination.\<close>

definition swap_order :: "swap_config \<Rightarrow> asset \<Rightarrow> string \<Rightarrow> swap_message_type \<Rightarrow> cosmos_msg" where
  "swap_order c a d mt =
     (let swap = RouterExec (ExecuteSwapOperations
                   [get_astroport_swap_operation (as_info a) (NativeToken d) mt] None None None)
      in case as_info a of
           Token t \<Rightarrow> Wasm_Execute t (Cw20Exec (Cw20_Send (router_addr mt c) (as_amount a) swap)) []
         | NativeToken n \<Rightarrow>
             Wasm_Execute (router_addr mt c) swap [\<lparr>coin_denom = n, coin_amount = as_amount a\<rparr>])"

lemma create_swap_message_for_eq:
  "rs_swap_config st = Some c \<Longrightarrow> create_swap_message_for a d mt st = Inr (swap_order c a d mt)"
  by (simp add: create_swap_message_for_def get_contract_address_def load_swap_config_def load_def
      swap_order_def into_cosmos_msg_def Let_def split: asset_info.splits)

text \<open>
  The outcome of \<open>create_swap_msgs\<close>: it never fails; it sells nothing when no router offers
  anything; otherwise it sells the whole asset on the router with the greatest offer, the last
  one of several.
\<close>

lemma create_swap_msgs_cases:
  obtains (no_offer) "create_swap_msgs dp a d st = Inr []"
      "\<forall>mt p. get_swap_result_for dp a d mt st = Inr p \<longrightarrow> p = 0"
  | (best) c mt p where "rs_swap_config st = Some c"
      "create_swap_msgs dp a d st = Inr [swap_order c a d mt]"
      "get_swap_result_for dp a d mt st = Inr p" "p \<noteq> 0"
      "\<forall>mt' p'. get_swap_result_for dp a d mt' st = Inr p' \<longrightarrow>
         p' < p \<or> p' = p \<and> router_rank mt' \<le> router_rank mt"
proof (cases "max_by_key snd (swap_quotes dp a d st)")
  case None
  then have "swap_quotes dp a d st = []" by simp
  then have "get_swap_result_for dp a d mt st \<noteq> Inr p" for mt p
    using quotes_mem [of "router_rank mt" p dp a d st] rank_at [of mt] by auto
  then show thesis using None by (intro no_offer) (auto simp: create_swap_msgs_def)
next
  case (Some kp)
  obtain k p where kp: "kp = (k, p)" by force
  from Some kp obtain as bs where split: "swap_quotes dp a d st = as @ (k, p) # bs"
      "\<forall>x\<in>set as. snd x \<le> p" "\<forall>x\<in>set bs. snd x < p"
    using max_by_key_split [of snd] by fastforce
  have k: "k < 3" "get_swap_result_for dp a d (swap_message_types ! k) st = Inr p"
    using quotes_mem [of k p dp a d st] split(1) by auto
  have before: "\<forall>x\<in>set as. fst x < k"
    using quotes_sorted [of dp a d st] by (simp add: split(1) sorted_wrt_append)
  have greatest: "p' < p \<or> p' = p \<and> router_rank mt' \<le> k"
    if "get_swap_result_for dp a d mt' st = Inr p'" for mt' p'
  proof -
    have "(router_rank mt', p') \<in> set (swap_quotes dp a d st)"
      using that rank_at [of mt'] by (simp add: quotes_mem)
    then show ?thesis using split before by fastforce
  qed
  show thesis
  proof (cases "p = 0")
    case True
    with Some kp have "create_swap_msgs dp a d st = Inr []" by (simp add: create_swap_msgs_def)
    moreover have "p' = 0" if "get_swap_result_for dp a d mt p'' = Inr p'" "p'' = st" for mt p' p''
      using greatest [of mt p'] that True by auto
    ultimately show thesis by (intro no_offer) auto
  next
    case False
    from k(2) obtain c where c: "rs_swap_config st = Some c"
      by (auto simp: get_swap_result_for_def get_contract_address_def load_swap_config_def res_simps)
    from Some kp False k(1)
    have "create_swap_msgs dp a d st = Inr [swap_order c a d (swap_message_types ! k)]"
      by (simp add: create_swap_msgs_def create_swap_message_for_eq [OF c])
        (simp add: swap_message_types_def)
    with c k False greatest show thesis
      by (intro best [of c "swap_message_types ! k" p]) (auto simp: router_at)
  qed
qed

lemma create_swap_msgs_total: "\<exists>ms. create_swap_msgs dp a d st = Inr ms"
  by (rule create_swap_msgs_cases [of dp a d st]) auto

section \<open>Balances\<close>

lemma narrow_widened [simp]: "narrow (ucast (b :: u128)) = Some b"
proof -
  have "unat (ucast b :: u256) = unat b" using unat_u128_less [of b]
    by (simp add: unsigned_ucast_eq take_bit_nat_eq_self)
  moreover have "(ucast (ucast b :: u256) :: u128) = b" by (rule ucast_up_ucast_id) (simp add: is_up)
  ultimately show ?thesis using unat_u128_less [of b] by (simp add: narrow_def)
qed

text \<open>What the contract holds of a token; a token that does not answer counts as zero.\<close>

definition token_held :: "deps \<Rightarrow> addr \<Rightarrow> addr \<Rightarrow> u128" where
  "token_held dp self t =
     (case query_as dp a_balance t (Q_Cw20Balance self) of Inr b \<Rightarrow> b | Inl _ \<Rightarrow> 0)"

lemma query_as_no_panic: "query_as dp f c q \<noteq> Inl Panic"
  by (auto simp: query_as_def std_res_def rbind_def split: option.splits sum.splits)

lemma query_all_cw20_balances_eq:
  "query_all_cw20_balances dp self tokens =
     Inr (map (\<lambda>t. \<lparr>as_amount = token_held dp self t, as_info = Token t\<rparr>) tokens)"
proof -
  have "query_token_balance dp t self = Inr (ucast (token_held dp self t))" for t
    using query_as_no_panic [of dp a_balance t "Q_Cw20Balance self"]
    by (auto simp: query_token_balance_def token_held_def split: sum.splits failure.splits)
  then show ?thesis
    by (simp add: query_all_cw20_balances_def traverse_total [of _ _ "\<lambda>t. \<lparr>as_amount = token_held dp self t, as_info = Token t\<rparr>"] rbind_def or_panic_def)
qed

section \<open>Swapping everything\<close>

definition sell :: "deps \<Rightarrow> string \<Rightarrow> 'z reward_storage_scheme \<Rightarrow> asset \<Rightarrow> cosmos_msg list" where
  "sell dp d st a = projr (create_swap_msgs dp a d st)"

lemma create_swap_msgs_sell: "create_swap_msgs dp a d st = Inr (sell dp d st a)"
  using create_swap_msgs_total [of dp a d st] by (auto simp: sell_def)

lemma swap_messages_of_eq: "swap_messages_of dp d st xs = Inr (concat (map (sell dp d st) xs))"
  by (simp add: swap_messages_of_def traverse_total [of _ _ "sell dp d st"] create_swap_msgs_sell)

text \<open>
  What is for sale: every coin but those of the reward denomination, and the known tokens held.
\<close>

definition for_sale :: "deps \<Rightarrow> addr \<Rightarrow> reward_config \<Rightarrow> coin list \<Rightarrow> asset list" where
  "for_sale dp self c balances =
     map (\<lambda>k. \<lparr>as_amount = coin_amount k, as_info = NativeToken (coin_denom k)\<rparr>)
       (filter (\<lambda>k. coin_denom k \<noteq> rc_reward_denom c) balances) @
     map (\<lambda>t. \<lparr>as_amount = token_held dp self t, as_info = Token t\<rparr>)
       (filter (\<lambda>t. token_held dp self t \<noteq> 0) (rc_known_cw20_tokens c))"

lemma swap_balances_ok:
  assumes "bank_all_balances dp (contract_address e) = Inr balances"
  obtains r where "swap_balances dp e c st = Inr (st, r)"
    "msgs r = concat (map (sell dp (rc_reward_denom c) st)
       (for_sale dp (contract_address e) c balances))"
    "attributes r = [(''action'', ''swap'')]"
  using assms that
  by (auto simp: swap_balances_def Let_def swap_messages_of_eq query_all_cw20_balances_eq
      for_sale_def filter_map comp_def eq_commute [of "rc_reward_denom c"])

lemma swap_balances_fails:
  "bank_all_balances dp (contract_address e) = Inl err \<Longrightarrow>
    swap_balances dp e c st = Inl (Err (Std err))"
  by (simp add: swap_balances_def Let_def)

lemma swap_balances_eq_Inr:
  assumes "swap_balances dp e c st = Inr (st', r)"
  obtains balances where "bank_all_balances dp (contract_address e) = Inr balances" "st' = st"
    "msgs r = concat (map (sell dp (rc_reward_denom c) st)
       (for_sale dp (contract_address e) c balances))"
proof (cases "bank_all_balances dp (contract_address e)")
  case (Inl err)
  with assms show thesis by (simp add: swap_balances_fails)
next
  case (Inr balances)
  then show thesis
    by (rule swap_balances_ok [of _ _ _ c st]) (use assms Inr that in auto)
qed

text \<open>Every message of a swap sells one thing that is for sale, at a router, for a positive quote.\<close>

lemma sell_mem:
  assumes "m \<in> set (sell dp d st a)"
  obtains c mt p where "rs_swap_config st = Some c" "m = swap_order c a d mt"
    "get_swap_result_for dp a d mt st = Inr p" "p \<noteq> 0"
    "\<forall>mt' p'. get_swap_result_for dp a d mt' st = Inr p' \<longrightarrow> p' \<le> p"
proof (rule create_swap_msgs_cases [of dp a d st])
  assume "create_swap_msgs dp a d st = Inr []"
  with assms show thesis by (simp add: create_swap_msgs_sell)
next
  fix c mt p
  assume *: "rs_swap_config st = Some c" "create_swap_msgs dp a d st = Inr [swap_order c a d mt]"
    "get_swap_result_for dp a d mt st = Inr p" "p \<noteq> 0"
    "\<forall>mt' p'. get_swap_result_for dp a d mt' st = Inr p' \<longrightarrow>
       p' < p \<or> p' = p \<and> router_rank mt' \<le> router_rank mt"
  from *(2) assms have "m = swap_order c a d mt" by (simp add: create_swap_msgs_sell)
  with * show thesis by (intro that [of c mt p]) fastforce+
qed

lemma sell_at_most_one: "length (sell dp d st a) \<le> 1"
  by (rule create_swap_msgs_cases [of dp a d st]) (auto simp: create_swap_msgs_sell)

section \<open>Claims\<close>

lemma execute_claim_rewards_ok:
  assumes "execute_claim_rewards recipient dp e i st = Inr (st', r)"
  obtains c custody to k where "rs_config st = Some c" "rc_custody_contract c = Some custody"
    "addr_validate dp custody = Inr (sender i)"
    "case recipient of None \<Rightarrow> to = sender i | Some x \<Rightarrow> addr_validate dp x = Inr to"
    "bank_balance dp (contract_address e) (rc_reward_denom c) = Inr k" "coin_amount k \<noteq> 0"
    "st' = st" "msgs r = [Bank_Send to [k]]"
proof -
  from assms obtain c custody v k where c: "rs_config st = Some c" "rc_custody_contract c = Some custody"
      "addr_validate dp custody = Inr (sender i)"
      and v: "opt_traverse (\<lambda>x. std_res (addr_validate dp x)) recipient = Inr v"
      and k: "bank_balance dp (contract_address e) (rc_reward_denom c) = Inr k" "coin_amount k \<noteq> 0"
      and st': "st' = st" "msgs r = [Bank_Send (case v of None \<Rightarrow> sender i | Some a \<Rightarrow> a) [k]]"
    by (auto simp: execute_claim_rewards_def read_config_def load_eq_Inr rbind_eq_Inr std_res_eq_Inr
        Let_def case_option_eq_Inr split: if_splits)
  from v have "case recipient of None \<Rightarrow> (case v of None \<Rightarrow> sender i | Some a \<Rightarrow> a) = sender i
      | Some x \<Rightarrow> addr_validate dp x = Inr (case v of None \<Rightarrow> sender i | Some a \<Rightarrow> a)"
    by (auto simp: opt_traverse_eq_Inr std_res_eq_Inr)
  from that [OF c this k st'] show thesis .
qed

section \<open>Configuration\<close>

lemma unique_from_iff: "unique_from seen xs \<longleftrightarrow> distinct xs \<and> set xs \<inter> seen = {}"
  by (induction xs arbitrary: seen) auto

lemma has_unique_elements_iff: "has_unique_elements xs \<longleftrightarrow> distinct xs"
  by (simp add: has_unique_elements_def unique_from_iff)

lemma set_addr_eq_Inr:
  "set_addr dp field f c = Inr c' \<longleftrightarrow>
    (case field of None \<Rightarrow> c' = c | Some s \<Rightarrow> \<exists>a. addr_validate dp s = Inr a \<and> c' = f a c)"
  by (auto simp: set_addr_def res_simps split: option.splits)

lemma validated_tokens_distinct:
  assumes "addr_same dp" and "has_unique_elements xs"
    and "traverse (\<lambda>a. std_res (addr_validate dp a)) xs = Inr ys"
  shows "ys = xs \<and> distinct ys"
proof -
  have "ys = xs"
    using assms(3)
    by (rule traverse_fixes) (auto simp: std_res_eq_Inr dest: addr_sameD [OF assms(1)])
  with assms(2) show ?thesis by (simp add: has_unique_elements_iff)
qed

lemma set_known_tokens_ok:
  assumes "set_known_tokens dp kt c = Inr c'"
  shows "rc_hub_contract c' = rc_hub_contract c \<and> rc_reward_denom c' = rc_reward_denom c \<and>
    rc_owner c' = rc_owner c \<and> rc_custody_contract c' = rc_custody_contract c \<and>
    (case kt of None \<Rightarrow> rc_known_cw20_tokens c' = rc_known_cw20_tokens c
     | Some tokens \<Rightarrow> has_unique_elements tokens \<and>
         traverse (\<lambda>a. std_res (addr_validate dp a)) tokens = Inr (rc_known_cw20_tokens c'))"
  using assms by (auto simp: set_known_tokens_def rbind_eq_Inr split: option.splits if_splits)

lemma set_custody_contract_ok:
  assumes "set_custody_contract ow cu kt as ph ts dp i st = Inr (st', r)"
  obtains c c' s s' where "rs_config st = Some c" "rs_swap_config st = Some s"
    "sender i = rc_owner c" "st' = st\<lparr>rs_config := Some c', rs_swap_config := Some s'\<rparr>"
    "rc_hub_contract c' = rc_hub_contract c" "rc_reward_denom c' = rc_reward_denom c"
    "case kt of None \<Rightarrow> rc_known_cw20_tokens c' = rc_known_cw20_tokens c
     | Some tokens \<Rightarrow> has_unique_elements tokens \<and>
         traverse (\<lambda>a. std_res (addr_validate dp a)) tokens = Inr (rc_known_cw20_tokens c')"
    "case ow of None \<Rightarrow> rc_owner c' = rc_owner c | Some x \<Rightarrow> addr_validate dp x = Inr (rc_owner c')"
    "case cu of None \<Rightarrow> rc_custody_contract c' = rc_custody_contract c
     | Some x \<Rightarrow> (\<exists>a. addr_validate dp x = Inr a \<and> rc_custody_contract c' = Some a)"
    "case as of None \<Rightarrow> sw_astroport_addr s' = sw_astroport_addr s
     | Some x \<Rightarrow> addr_validate dp x = Inr (sw_astroport_addr s')"
    "case ph of None \<Rightarrow> sw_phoenix_addr s' = sw_phoenix_addr s
     | Some x \<Rightarrow> addr_validate dp x = Inr (sw_phoenix_addr s')"
    "case ts of None \<Rightarrow> sw_terraswap_addr s' = sw_terraswap_addr s
     | Some x \<Rightarrow> addr_validate dp x = Inr (sw_terraswap_addr s')" "msgs r = []"
proof -
  from assms obtain c s c1 c2 s1 s2 s3 c3 where c: "rs_config st = Some c" "rs_swap_config st = Some s"
      "sender i = rc_owner c"
      and 1: "set_addr dp ow (\<lambda>a c. c\<lparr>rc_owner := a\<rparr>) c = Inr c1"
      and 2: "set_addr dp cu (\<lambda>a c. c\<lparr>rc_custody_contract := Some a\<rparr>) c1 = Inr c2"
      and 3: "set_addr dp as (\<lambda>a c. c\<lparr>sw_astroport_addr := a\<rparr>) s = Inr s1"
      and 4: "set_addr dp ph (\<lambda>a c. c\<lparr>sw_phoenix_addr := a\<rparr>) s1 = Inr s2"
      and 5: "set_addr dp ts (\<lambda>a c. c\<lparr>sw_terraswap_addr := a\<rparr>) s2 = Inr s3"
      and 6: "set_known_tokens dp kt c2 = Inr c3"
      and st': "st' = st\<lparr>rs_config := Some c3, rs_swap_config := Some s3\<rparr>" "msgs r = []"
    by (auto simp: set_custody_contract_def read_config_def load_swap_config_def store_config_def
        load_eq_Inr rbind_eq_Inr split: if_splits)
  note step = set_addr_eq_Inr [THEN iffD1]
  have owner: "case ow of None \<Rightarrow> rc_owner c1 = rc_owner c | Some x \<Rightarrow> addr_validate dp x = Inr (rc_owner c1)"
    and keep1: "rc_hub_contract c1 = rc_hub_contract c \<and> rc_reward_denom c1 = rc_reward_denom c \<and>
      rc_known_cw20_tokens c1 = rc_known_cw20_tokens c \<and> rc_custody_contract c1 = rc_custody_contract c"
    using step [OF 1] by (auto split: option.splits)
  have custody: "case cu of None \<Rightarrow> rc_custody_contract c2 = rc_custody_contract c1
      | Some x \<Rightarrow> (\<exists>a. addr_validate dp x = Inr a \<and> rc_custody_contract c2 = Some a)"
    and keep2: "rc_hub_contract c2 = rc_hub_contract c1 \<and> rc_reward_denom c2 = rc_reward_denom c1 \<and>
      rc_known_cw20_tokens c2 = rc_known_cw20_tokens c1 \<and> rc_owner c2 = rc_owner c1"
    using step [OF 2] by (auto split: option.splits)
  have astroport: "case as of None \<Rightarrow> sw_astroport_addr s1 = sw_astroport_addr s
      | Some x \<Rightarrow> addr_validate dp x = Inr (sw_astroport_addr s1)"
    and keep3: "sw_phoenix_addr s1 = sw_phoenix_addr s \<and> sw_terraswap_addr s1 = sw_terraswap_addr s"
    using step [OF 3] by (auto split: option.splits)
  have phoenix: "case ph of None \<Rightarrow> sw_phoenix_addr s2 = sw_phoenix_addr s1
      | Some x \<Rightarrow> addr_validate dp x = Inr (sw_phoenix_addr s2)"
    and keep4: "sw_astroport_addr s2 = sw_astroport_addr s1 \<and> sw_terraswap_addr s2 = sw_terraswap_addr s1"
    using step [OF 4] by (auto split: option.splits)
  have terraswap: "case ts of None \<Rightarrow> sw_terraswap_addr s3 = sw_terraswap_addr s2
      | Some x \<Rightarrow> addr_validate dp x = Inr (sw_terraswap_addr s3)"
    and keep5: "sw_astroport_addr s3 = sw_astroport_addr s2 \<and> sw_phoenix_addr s3 = sw_phoenix_addr s2"
    using step [OF 5] by (auto split: option.splits)
  show thesis
    by (rule that [OF c st'(1)])
      (use set_known_tokens_ok [OF 6] st'(2) owner keep1 custody keep2
        astroport keep3 phoenix keep4 terraswap keep5 in
        \<open>auto split: option.splits\<close>)
qed

end
