(* ===== verification/Reward_Contract.thy ===== *)
theory Reward_Contract
  imports Reward_Laws
begin

text \<open>
  The reward contract (\<open>contracts/cavern-lsd-reward\<close>): entry points and \<open>execute_swap\<close>, over the
  functions of \<open>Reward_Swap\<close>, and what stays true of its configuration along every run.
\<close>

section \<open>Entry points (contract.rs, global.rs)\<close>

type_synonym 'z reward_handler =
  "deps \<Rightarrow> env \<Rightarrow> message_info \<Rightarrow> 'z reward_storage_scheme \<Rightarrow>
   ('z reward_storage_scheme \<times> response) res"

definition execute_swap :: "'z reward_handler" where
  "execute_swap dp e i st =
     rbind (read_config st) (\<lambda>config.
       if sender i \<noteq> rc_hub_contract config then generic_err ''unauthorized''
       else swap_balances dp e config st)"

definition reward_instantiate :: "'y reward_init_msg_scheme \<Rightarrow> 'z reward_handler" where
  "reward_instantiate m dp e i st =
     rbind (reward_config_of dp i m) (\<lambda>conf.
     let st1 = store_state reward_state_zero (store_config conf st) in
     rbind (swap_config_of dp m) (\<lambda>swap_config.
       Inr (st1\<lparr>rs_swap_config := Some swap_config\<rparr>, response_new)))"

fun reward_execute :: "reward_execute_msg \<Rightarrow> 'z reward_handler" where
  "reward_execute (ClaimRewards recipient) dp e i st = execute_claim_rewards recipient dp e i st"
| "reward_execute SwapToRewardDenom dp e i st = execute_swap dp e i st"
| "reward_execute (Reward_UpdateConfig owner custody known_tokens astroport phoenix terraswap) dp e i st =
     set_custody_contract owner custody known_tokens astroport phoenix terraswap dp i st"

definition reward_migrate :: "'z reward_handler" where
  "reward_migrate dp e i st = Inr (st, response_new)"

section \<open>Configuration along a run\<close>

text \<open>The hub and the denomination are those of the instantiation, no known token is listed twice.\<close>

definition reward_configured :: "addr \<Rightarrow> string \<Rightarrow> 'z reward_storage_scheme \<Rightarrow> bool" where
  "reward_configured hub denom st \<longleftrightarrow>
     (case rs_config st of
        None \<Rightarrow> False
      | Some c \<Rightarrow> rc_hub_contract c = hub \<and> rc_reward_denom c = denom \<and>
          distinct (rc_known_cw20_tokens c)) \<and> rs_swap_config st \<noteq> None"

inductive reward_step :: "'z reward_storage_scheme \<Rightarrow> 'z reward_storage_scheme \<Rightarrow> bool" where
  reward_call: "addr_same dp \<Longrightarrow> reward_execute m dp e i st = Inr (st', r) \<Longrightarrow> reward_step st st'"
| reward_migration: "reward_migrate dp e i st = Inr (st', r) \<Longrightarrow> reward_step st st'"

lemma reward_instantiate_configured:
  assumes "addr_same dp" and "reward_instantiate m dp e i st = Inr (st', r)"
  shows "reward_configured (rm_hub_contract m) (rm_reward_denom m) st'"
proof -
  from assms(2) obtain c s where c: "reward_config_of dp i m = Inr c"
      and st': "st' = (store_state reward_state_zero (store_config c st))\<lparr>rs_swap_config := Some s\<rparr>"
    by (auto simp: reward_instantiate_def rbind_eq_Inr Let_def)
  from c have "rc_hub_contract c = rm_hub_contract m" "rc_reward_denom c = rm_reward_denom m"
    and "distinct (rc_known_cw20_tokens c)"
    using validated_tokens_distinct [OF assms(1)]
    by (auto simp: reward_config_of_def rbind_eq_Inr std_res_eq_Inr split: if_splits
        dest: addr_sameD [OF assms(1)])
  then show ?thesis by (simp add: st' reward_configured_def store_state_def store_config_def)
qed

lemma set_custody_contract_configured:
  assumes "addr_same dp" and "set_custody_contract ow cu kt as ph ts dp i st = Inr (st', r)"
    and "reward_configured hub denom st"
  shows "reward_configured hub denom st'"
  using assms(2)
proof (rule set_custody_contract_ok)
  fix c c' s s'
  assume "rs_config st = Some c" "st' = st\<lparr>rs_config := Some c', rs_swap_config := Some s'\<rparr>"
    "rc_hub_contract c' = rc_hub_contract c" "rc_reward_denom c' = rc_reward_denom c"
    "case kt of None \<Rightarrow> rc_known_cw20_tokens c' = rc_known_cw20_tokens c
     | Some tokens \<Rightarrow> has_unique_elements tokens \<and>
         traverse (\<lambda>a. std_res (addr_validate dp a)) tokens = Inr (rc_known_cw20_tokens c')"
  then show ?thesis
    using assms(3) validated_tokens_distinct [OF assms(1)]
    by (auto simp: reward_configured_def split: option.splits)
qed

lemma execute_swap_ok:
  assumes "execute_swap dp e i st = Inr (st', r)"
  obtains c balances where "rs_config st = Some c" "sender i = rc_hub_contract c" "st' = st"
    "bank_all_balances dp (contract_address e) = Inr balances"
    "msgs r = concat (map (sell dp (rc_reward_denom c) st)
       (for_sale dp (contract_address e) c balances))"
  using assms
  by (auto simp: execute_swap_def read_config_def rbind_eq_Inr load_eq_Inr split: if_splits
      elim!: swap_balances_eq_Inr)

lemma reward_step_configured:
  assumes "reward_step st st'" and "reward_configured hub denom st"
  shows "reward_configured hub denom st'"
  using assms(1)
proof cases
  case (reward_call dp m e i r)
  then show ?thesis
    using assms(2)
    by (cases m) (auto elim!: execute_swap_ok execute_claim_rewards_ok
        intro: set_custody_contract_configured)
next
  case (reward_migration dp e i r)
  with assms(2) show ?thesis by (simp add: reward_migrate_def)
qed

lemma reward_run_configured:
  assumes "reward_step\<^sup>*\<^sup>* st st'" and "reward_configured hub denom st"
  shows "reward_configured hub denom st'"
  using assms by (induction rule: rtranclp_induct) (auto intro: reward_step_configured)

text \<open>Swapping only fails for a wrong caller or a bank that does not answer.\<close>

lemma execute_swap_total:
  assumes "rs_config st = Some c" and "sender i = rc_hub_contract c"
    and "bank_all_balances dp (contract_address e) = Inr balances"
  obtains r where "execute_swap dp e i st = Inr (st, r)"
    "msgs r = concat (map (sell dp (rc_reward_denom c) st)
       (for_sale dp (contract_address e) c balances))"
  using swap_balances_ok [OF assms(3), of c st] assms that
  by (auto simp: execute_swap_def read_config_def load_def)

end
