(* ===== verification/Reward_Holders.thy ===== *)
theory Reward_Holders
  imports Cosmwasm_Math "HOL-Library.Finite_Map" "HOL-Library.List_Lexorder" "HOL-Library.Char_ord"
begin

text \<open>
  The holders of a reward contract (the second half of \<open>state.rs\<close>; no entry point uses them yet):
  saving, reading with a default, and the paginated listing. The \<open>Map\<close> of \<open>cw_storage_plus\<close> is a
  parameter, a record of its three operations; the locale \<open>holder_map\<close> has their documented
  behaviour: a range lists the entries above an exclusive bound in ascending order of the keys.
\<close>

record holder =
  ho_balance :: u128
  ho_index :: decimal256
  ho_pending_rewards :: decimal256

record holder_response =
  hr_address :: string
  hr_balance :: u128
  hr_index :: decimal256
  hr_pending_rewards :: decimal256

record holders_response =
  hs_holders :: "holder_response list"

record 'm kv_map =
  kv_save :: "string \<Rightarrow> holder \<Rightarrow> 'm \<Rightarrow> 'm"
  kv_may_load :: "'m \<Rightarrow> string \<Rightarrow> holder option"
  kv_range :: "'m \<Rightarrow> string option \<Rightarrow> (string \<times> holder) list"

section \<open>The functions of state.rs\<close>

definition store_holder :: "'m kv_map \<Rightarrow> string \<Rightarrow> holder \<Rightarrow> 'm \<Rightarrow> 'm" where
  "store_holder M holder_address h m = kv_save M holder_address h m"

definition read_holder :: "'m kv_map \<Rightarrow> 'm \<Rightarrow> string \<Rightarrow> holder" where
  "read_holder M m holder_address =
     (case kv_may_load M m holder_address of
        Some h \<Rightarrow> h
      | None \<Rightarrow> \<lparr>ho_balance = 0, ho_index = Decimal256 0, ho_pending_rewards = Decimal256 0\<rparr>)"

definition max_limit :: u32 where "max_limit = 30"

definition default_limit :: u32 where "default_limit = 10"

definition holder_response_of :: "string \<times> holder \<Rightarrow> holder_response" where
  "holder_response_of kv = \<lparr>hr_address = fst kv, hr_balance = ho_balance (snd kv),
     hr_index = ho_index (snd kv), hr_pending_rewards = ho_pending_rewards (snd kv)\<rparr>"

definition read_holders ::
  "'m kv_map \<Rightarrow> 'm \<Rightarrow> string option \<Rightarrow> u32 option \<Rightarrow> holder_response list" where
  "read_holders M m start_after limit =
     (let n = unat (min (case limit of None \<Rightarrow> default_limit | Some l \<Rightarrow> l) max_limit)
      in map holder_response_of (take n (kv_range M m start_after)))"

section \<open>The map, and an instance\<close>

definition above :: "string option \<Rightarrow> string \<Rightarrow> bool" where
  "above b k \<longleftrightarrow> (case b of None \<Rightarrow> True | Some s \<Rightarrow> s < k)"

lemma above_None [simp]: "above None k"
  by (simp add: above_def)

lemma keyed_lists_equal:
  fixes xs ys :: "(string \<times> 'v) list"
  assumes "sorted_wrt (<) (map fst xs)" "sorted_wrt (<) (map fst ys)" "set xs = set ys"
  shows "xs = ys"
proof -
  have "map fst xs = map fst ys"
    using assms by (intro strict_sorted_equal) (auto simp: image_iff)
  moreover have "inj_on fst (set xs \<union> set ys)"
    using assms by (simp add: strict_sorted_iff distinct_map)
  ultimately show ?thesis by (rule map_inj_on)
qed

locale holder_map =
  fixes M :: "'m kv_map"
  assumes load_save: "kv_may_load M (kv_save M k h m) j = (if j = k then Some h else kv_may_load M m j)"
    and range_mem: "(k, h) \<in> set (kv_range M m b) \<longleftrightarrow> kv_may_load M m k = Some h \<and> above b k"
    and range_sorted: "sorted_wrt (<) (map fst (kv_range M m b))"
begin

lemma range_filter: "kv_range M m b = filter (\<lambda>kv. above b (fst kv)) (kv_range M m None)"
proof (rule keyed_lists_equal [OF range_sorted])
  show "sorted_wrt (<) (map fst (filter (\<lambda>kv. above b (fst kv)) (kv_range M m None)))"
    using range_sorted [of m None] by (simp add: sorted_wrt_map sorted_wrt_filter)
  show "set (kv_range M m b) = set (filter (\<lambda>kv. above b (fst kv)) (kv_range M m None))"
    by (auto simp: range_mem)
qed

text \<open>After the last address of a page comes the rest of the listing.\<close>

lemma range_after:
  assumes "kv_range M m b = xs @ (k, h) # ys"
  shows "kv_range M m (Some k) = ys"
proof -
  from range_sorted [of m b] have s: "sorted_wrt (<) (map fst xs @ k # map fst ys)"
    by (simp add: assms)
  have in_b: "above b k" using range_mem [of k h m b] by (simp add: assms)
  have "kv_range M m (Some k) = filter (\<lambda>kv. above (Some k) (fst kv)) (kv_range M m b)"
    using in_b
    by (subst (1 2) range_filter, simp only: filter_filter)
      (rule filter_cong, auto simp: above_def split: option.splits)
  also have "\<dots> = ys"
    using s by (auto simp: assms above_def sorted_wrt_append filter_empty_conv filter_id_conv
        dest: less_imp_not_less)
  finally show ?thesis .
qed

lemma read_store: "read_holder M (store_holder M k h m) j = (if j = k then h else read_holder M m j)"
  by (simp add: read_holder_def store_holder_def load_save)

end

text \<open>An instance: a finite map, listed by its sorted keys.\<close>

definition fmap_store :: "(string, holder) fmap kv_map" where
  "fmap_store = \<lparr>
     kv_save = (\<lambda>k h m. fmupd k h m),
     kv_may_load = fmlookup,
     kv_range = (\<lambda>m b. map (\<lambda>k. (k, the (fmlookup m k)))
       (filter (above b) (sorted_list_of_fset (fmdom m)))) \<rparr>"

lemma fmap_store_simps [simp]:
  "kv_save fmap_store k h m = fmupd k h m"
  "kv_may_load fmap_store = fmlookup"
  "kv_range fmap_store m b = map (\<lambda>k. (k, the (fmlookup m k)))
     (filter (above b) (sorted_list_of_fset (fmdom m)))"
  by (simp_all add: fmap_store_def)

interpretation fmap_store: holder_map fmap_store
proof unfold_locales
  fix m b k and h :: holder
  show "(k, h) \<in> set (kv_range fmap_store m b) \<longleftrightarrow> kv_may_load fmap_store m k = Some h \<and> above b k"
    by (auto simp: sorted_list_of_fset.rep_eq fmlookup_dom_iff)
  show "sorted_wrt (<) (map fst (kv_range fmap_store m b))"
    by (simp add: comp_def sorted_list_of_fset.rep_eq sorted_wrt_filter)
qed simp

section \<open>Pagination\<close>

text \<open>How many entries a request asks for.\<close>

definition page_size :: "u32 option \<Rightarrow> nat" where
  "page_size limit = unat (min (case limit of None \<Rightarrow> default_limit | Some l \<Rightarrow> l) max_limit)"

lemma read_holders_take:
  "read_holders M m start limit = map holder_response_of (take (page_size limit) (kv_range M m start))"
  by (simp add: read_holders_def page_size_def)

context holder_map
begin

text \<open>A page that ends with \<open>p\<close> is the front of the listing up to the address of \<open>p\<close>.\<close>

lemma page_split:
  assumes "read_holders M m start limit = ps @ [p]"
  obtains xs x ys where "kv_range M m start = xs @ x # ys" "ps = map holder_response_of xs"
    "p = holder_response_of x" "hr_address p = fst x" "take (page_size limit) (kv_range M m start) = xs @ [x]"
    "ys = drop (page_size limit) (kv_range M m start)"
proof -
  obtain xs x where t: "take (page_size limit) (kv_range M m start) = xs @ [x]"
    using assms by (cases "take (page_size limit) (kv_range M m start)" rule: rev_cases)
      (auto simp: read_holders_take)
  with assms have p: "ps = map holder_response_of xs" "p = holder_response_of x"
    by (simp_all add: read_holders_take)
  have "kv_range M m start = (xs @ [x]) @ drop (page_size limit) (kv_range M m start)"
    by (simp flip: t)
  then have "kv_range M m start = xs @ x # drop (page_size limit) (kv_range M m start)" by simp
  from that [OF this p _ t refl] show thesis by (simp add: p(2) holder_response_of_def)
qed

lemma pages_continue:
  assumes "read_holders M m start limit = ps @ [p]"
  shows "(ps @ [p]) @ read_holders M m (Some (hr_address p)) limit' =
    map holder_response_of (take (page_size limit + page_size limit') (kv_range M m start))"
  using assms
proof (cases rule: page_split)
  case (1 xs x ys)
  have "kv_range M m (Some (hr_address p)) = ys"
    using range_after [of m start xs "fst x" "snd x" ys] 1(1,4) by simp
  then have "read_holders M m (Some (hr_address p)) limit' = map holder_response_of (take (page_size limit') ys)"
    by (simp add: read_holders_take)
  then show ?thesis unfolding assms [symmetric] read_holders_take take_add map_append 1(6) by simp
qed

lemma page_entries:
  assumes "read_holders M m start limit = ps @ [p]"
  shows "e \<in> set (ps @ [p]) \<longleftrightarrow>
    (\<exists>k h. kv_may_load M m k = Some h \<and> above start k \<and> k \<le> hr_address p \<and> e = holder_response_of (k, h))"
  using assms
proof (cases rule: page_split)
  case (1 xs x ys)
  have s: "sorted_wrt (<) (map fst xs @ fst x # map fst ys)"
    using range_sorted [of m start] unfolding 1(1) by simp
  have in_range: "kv_may_load M m k = Some h \<and> above start k \<longleftrightarrow> (k, h) \<in> set (xs @ x # ys)" for k h
    unfolding range_mem [symmetric] 1(1) ..
  have late: "fst x < fst y" if "y \<in> set ys" for y using s that by (simp add: sorted_wrt_append)
  have early: "fst y < fst x" if "y \<in> set xs" for y using s that by (simp add: sorted_wrt_append)
  have "(k, h) \<in> set (xs @ [x]) \<longleftrightarrow> (k, h) \<in> set (xs @ x # ys) \<and> k \<le> fst x" for k h
    using late [of "(k, h)"] early [of "(k, h)"] by (auto simp: less_imp_le dest: leD)
  then have page: "(k, h) \<in> set (xs @ [x]) \<longleftrightarrow> kv_may_load M m k = Some h \<and> above start k \<and> k \<le> fst x" for k h
    by (simp only: in_range [symmetric] conj_assoc)
  have "ps @ [p] = map holder_response_of (xs @ [x])" by (simp add: 1(2,3))
  then have "e \<in> set (ps @ [p]) \<longleftrightarrow> (\<exists>k h. (k, h) \<in> set (xs @ [x]) \<and> e = holder_response_of (k, h))"
    by (simp only: set_map image_iff Bex_def split_paired_Ex)
  then show ?thesis unfolding page 1(4) by blast
qed

lemma page_sorted: "sorted_wrt (<) (map hr_address (map holder_response_of (take n (kv_range M m start))))"
proof -
  have "map hr_address (map holder_response_of (take n (kv_range M m start))) = take n (map fst (kv_range M m start))"
    by (simp add: holder_response_of_def comp_def take_map)
  then show ?thesis using range_sorted by (simp add: sorted_wrt_take)
qed

text \<open>No page is longer than thirty entries.\<close>

lemma read_holders_length: "length (read_holders M m start limit) \<le> 30"
proof -
  have "unat (min l max_limit) \<le> 30" for l
    by (simp add: max_limit_def min_def word_le_nat_alt)
  then show ?thesis by (simp add: read_holders_def Let_def min_le_iff_disj)
qed

end

end
