(* ===== verification/Custom_Swap.thy ===== *)
theory Custom_Swap
  imports Reward_Laws Reward_Holders
begin

text \<open>
  The modules \<open>state.rs\<close>, \<open>querier.rs\<close>, \<open>swap.rs\<close> and \<open>user.rs\<close> of the crate
  \<open>packages/cavern_aAsset_custom_reward\<close>, with the swap of \<open>global.rs\<close> and the configuration
  update of \<open>contract.rs\<close>. The crate has its own copies of these functions; they are translated on
  its own storage, which has the retrieval configuration beside the cells of the plain reward
  contract, and each is then shown to compute what the function of \<open>Reward_Swap\<close> computes.
\<close>

section \<open>Storage (state.rs)\<close>

record 'rc custom_storage = reward_storage +
  cs_retrieve_config :: "'rc option"

definition custom_store_config :: "reward_config \<Rightarrow> 'rc custom_storage \<Rightarrow> 'rc custom_storage" where
  "custom_store_config c st = st\<lparr>rs_config := Some c\<rparr>"

definition custom_read_config :: "'rc custom_storage \<Rightarrow> reward_config res" where
  "custom_read_config st = load ''config'' (rs_config st)"

definition store_retrieve_config :: "'rc \<Rightarrow> 'rc custom_storage \<Rightarrow> 'rc custom_storage" where
  "store_retrieve_config c st = st\<lparr>cs_retrieve_config := Some c\<rparr>"

definition read_retrieve_config :: "'rc custom_storage \<Rightarrow> 'rc res" where
  "read_retrieve_config st = load ''retrieve_config'' (cs_retrieve_config st)"

definition custom_store_state :: "reward_state \<Rightarrow> 'rc custom_storage \<Rightarrow> 'rc custom_storage" where
  "custom_store_state s st = st\<lparr>rs_state := Some s\<rparr>"

definition custom_read_state :: "'rc custom_storage \<Rightarrow> reward_state res" where
  "custom_read_state st = load ''state'' (rs_state st)"

text \<open>\<open>SWAP_CONFIG.load\<close> and \<open>SWAP_CONFIG.save\<close>\<close>

definition custom_load_swap_config :: "'rc custom_storage \<Rightarrow> swap_config res" where
  "custom_load_swap_config st = load ''swap_config'' (rs_swap_config st)"

definition custom_save_swap_config :: "swap_config \<Rightarrow> 'rc custom_storage \<Rightarrow> 'rc custom_storage" where
  "custom_save_swap_config s st = st\<lparr>rs_swap_config := Some s\<rparr>"

definition custom_store_holder :: "'m kv_map \<Rightarrow> string \<Rightarrow> holder \<Rightarrow> 'm \<Rightarrow> 'm" where
  "custom_store_holder M holder_address h m = kv_save M holder_address h m"

definition custom_read_holder :: "'m kv_map \<Rightarrow> 'm \<Rightarrow> string \<Rightarrow> holder" where
  "custom_read_holder M m holder_address =
     (let result = kv_may_load M m holder_address in
      case result of
        Some h \<Rightarrow> h
      | None \<Rightarrow> \<lparr>ho_balance = 0, ho_index = Decimal256 0, ho_pending_rewards = Decimal256 0\<rparr>)"

definition custom_read_holders ::
  "'m kv_map \<Rightarrow> 'm \<Rightarrow> string option \<Rightarrow> u32 option \<Rightarrow> holder_response list" where
  "custom_read_holders M m start_after limit =
     (let n = unat (min (case limit of None \<Rightarrow> 10 | Some l \<Rightarrow> l) 30) in
      map (\<lambda>(k, v). \<lparr>hr_address = k, hr_balance = ho_balance v, hr_index = ho_index v,
             hr_pending_rewards = ho_pending_rewards v\<rparr>)
        (take n (kv_range M m start_after)))"

section \<open>Balances (querier.rs)\<close>

definition custom_query_token_balance :: "deps \<Rightarrow> addr \<Rightarrow> addr \<Rightarrow> u256 res" where
  "custom_query_token_balance dp contract_addr account_addr =
     (case query_as dp a_balance contract_addr (Q_Cw20Balance account_addr) of
        Inl Panic \<Rightarrow> Inl Panic
      | Inl (Err _) \<Rightarrow> Inr (ucast (0 :: u128))
      | Inr balance \<Rightarrow> Inr (ucast balance))"

definition custom_query_all_cw20_balances :: "deps \<Rightarrow> addr \<Rightarrow> addr list \<Rightarrow> asset list res" where
  "custom_query_all_cw20_balances dp contract_addr tokens =
     traverse (\<lambda>token.
       let result = custom_query_token_balance dp token contract_addr; info = Token token in
       case result of
         Inr amount \<Rightarrow> rbind (or_panic (narrow amount)) (\<lambda>a. Inr \<lparr>as_amount = a, as_info = info\<rparr>)
       | Inl (Err _) \<Rightarrow> Inr \<lparr>as_amount = 0, as_info = info\<rparr>
       | Inl Panic \<Rightarrow> Inl Panic) tokens"

section \<open>Routers (swap.rs)\<close>

definition custom_into_cosmos_msg :: "binary \<Rightarrow> addr \<Rightarrow> coin list \<Rightarrow> cosmos_msg res" where
  "custom_into_cosmos_msg message contract_addr fs =
     (let execute = Wasm_Execute contract_addr message fs in Inr execute)"

definition custom_swap_operation ::
  "asset_info \<Rightarrow> asset_info \<Rightarrow> swap_message_type \<Rightarrow> swap_operation" where
  "custom_swap_operation offer ask message_type =
     (case message_type of
        Mt_Astroport \<Rightarrow> AstroSwap offer ask
      | Mt_Phoenix \<Rightarrow> TokenSwap offer ask
      | Mt_TerraSwap \<Rightarrow> TerraSwap offer ask)"

definition custom_contract_address :: "swap_message_type \<Rightarrow> 'rc custom_storage \<Rightarrow> addr res" where
  "custom_contract_address message_type st =
     rbind (custom_load_swap_config st) (\<lambda>swap_config.
       Inr (case message_type of
              Mt_Astroport \<Rightarrow> sw_astroport_addr swap_config
            | Mt_Phoenix \<Rightarrow> sw_phoenix_addr swap_config
            | Mt_TerraSwap \<Rightarrow> sw_terraswap_addr swap_config))"

definition custom_swap_message_for ::
  "asset \<Rightarrow> string \<Rightarrow> swap_message_type \<Rightarrow> 'rc custom_storage \<Rightarrow> cosmos_msg res" where
  "custom_swap_message_for asset_to_swap stable_denom message_type st =
     rbind (custom_contract_address message_type st) (\<lambda>swap_contract_address.
     let stable_token = NativeToken stable_denom in
     case as_info asset_to_swap of
       Token contract_addr \<Rightarrow>
         Inr (Wasm_Execute contract_addr
           (Cw20Exec (Cw20_Send swap_contract_address (as_amount asset_to_swap)
             (RouterExec (ExecuteSwapOperations
               [custom_swap_operation (as_info asset_to_swap) stable_token message_type]
               None None None)))) [])
     | NativeToken denom \<Rightarrow>
         custom_into_cosmos_msg
           (RouterExec (ExecuteSwapOperations
              [custom_swap_operation (as_info asset_to_swap) stable_token message_type]
              None None None))
           swap_contract_address
           [\<lparr>coin_denom = denom, coin_amount = as_amount asset_to_swap\<rparr>])"

definition custom_swap_result_for ::
  "deps \<Rightarrow> asset \<Rightarrow> string \<Rightarrow> swap_message_type \<Rightarrow> 'rc custom_storage \<Rightarrow> u128 res" where
  "custom_swap_result_for dp asset_to_swap stable_denom message_type st =
     rbind (custom_contract_address message_type st) (\<lambda>contract_address.
     rbind (query_as dp a_simulation contract_address
              (Q_Router (Router_QSimulate (as_amount asset_to_swap)
                [custom_swap_operation (as_info asset_to_swap) (NativeToken stable_denom)
                   message_type]))) (\<lambda>response. Inr (si_amount response)))"

definition custom_create_swap_msgs ::
  "deps \<Rightarrow> asset \<Rightarrow> string \<Rightarrow> 'rc custom_storage \<Rightarrow> cosmos_msg list res" where
  "custom_create_swap_msgs dp asset_to_swap reward_denom st =
     (let best_price_result =
            max_by_key snd
              (map (\<lambda>(best_price_index, best_price). (best_price_index, projr best_price))
                (filter (\<lambda>(_, best_price). is_ok best_price)
                  (enumerate 0
                    (map (\<lambda>message_type.
                            custom_swap_result_for dp asset_to_swap reward_denom message_type st)
                      swap_message_types))))
      in case best_price_result of
           None \<Rightarrow> Inr []
         | Some (best_price_index, best_price) \<Rightarrow>
             if best_price = 0 then Inr []
             else
               rbind (or_panic (if best_price_index < length swap_message_types
                                then Some (swap_message_types ! best_price_index) else None))
                 (\<lambda>best_price_marketplace.
               rbind (custom_swap_message_for asset_to_swap reward_denom best_price_marketplace st)
                 (\<lambda>m. Inr [m])))"

section \<open>The swap (global.rs)\<close>

text \<open>
  \<open>flat_map\<close> turns every result into a list of results: one for each message, or the error alone;
  \<open>collect\<close> stops at the first error.
\<close>

definition collect :: "'a res list \<Rightarrow> 'a list res" where
  "collect = traverse (\<lambda>r. r)"

definition flat_messages :: "cosmos_msg list res list \<Rightarrow> cosmos_msg res list" where
  "flat_messages results =
     concat (map (\<lambda>r. case r of Inr ms \<Rightarrow> map Inr ms | Inl er \<Rightarrow> [Inl er]) results)"

definition custom_execute_swap ::
  "deps \<Rightarrow> env \<Rightarrow> 'rc custom_storage \<Rightarrow> ('rc custom_storage \<times> response) res" where
  "custom_execute_swap dp e st =
     rbind (custom_read_config st) (\<lambda>config.
     rbind (std_res (bank_all_balances dp (contract_address e))) (\<lambda>balances.
     let reward_denom = rc_reward_denom config in
     rbind (collect (flat_messages
              (map (\<lambda>c. custom_create_swap_msgs dp
                      \<lparr>as_amount = coin_amount c, as_info = NativeToken (coin_denom c)\<rparr> reward_denom st)
                (filter (\<lambda>x. reward_denom \<noteq> coin_denom x) balances)))) (\<lambda>native_swap_messages.
     rbind (custom_query_all_cw20_balances dp (contract_address e) (rc_known_cw20_tokens config))
       (\<lambda>cw20_balances.
     rbind (collect (flat_messages
              (map (\<lambda>a. custom_create_swap_msgs dp
                      \<lparr>as_amount = as_amount a, as_info = as_info a\<rparr> reward_denom st)
                (filter (\<lambda>a. as_amount a \<noteq> 0) cw20_balances)))) (\<lambda>cw20_messages.
       Inr (st, add_attributes [(''action'', ''swap'')]
                  (add_messages cw20_messages (add_messages native_swap_messages response_new))))))))"

section \<open>Claims (user.rs)\<close>

definition custom_execute_claim_rewards ::
  "string option \<Rightarrow> deps \<Rightarrow> env \<Rightarrow> message_info \<Rightarrow> 'rc custom_storage \<Rightarrow>
   ('rc custom_storage \<times> response) res" where
  "custom_execute_claim_rewards recipient dp e i st =
     rbind (custom_read_config st) (\<lambda>config.
     rbind (case rc_custody_contract config of
              Some a \<Rightarrow> Inr a
            | None \<Rightarrow> generic_err ''the custody contract must have been registered'') (\<lambda>custody_addr.
     rbind (std_res (addr_validate dp custody_addr)) (\<lambda>custody.
     if sender i \<noteq> custody then generic_err ''unauthorized''
     else
       rbind (case recipient of
                None \<Rightarrow> Inr (sender i)
              | Some x \<Rightarrow> std_res (addr_validate dp x)) (\<lambda>to.
       rbind (std_res (bank_balance dp (contract_address e) (rc_reward_denom config))) (\<lambda>rewards.
       if coin_amount rewards = 0 then generic_err ''No rewards have accrued yet''
       else
         let r = add_attributes [(''action'', ''claim_reward''),
                   (''rewards'', show_nat (unat (coin_amount rewards)) @ coin_denom rewards)]
                   response_new
         in Inr (st, add_messages [Bank_Send to [rewards]] r))))))"

definition custom_query_accrued_rewards :: "deps \<Rightarrow> env \<Rightarrow> 'rc custom_storage \<Rightarrow> u128 res" where
  "custom_query_accrued_rewards dp e st =
     rbind (custom_read_config st) (\<lambda>config.
       let rewards = (case bank_balance dp (contract_address e) (rc_reward_denom config) of
                        Inl _ \<Rightarrow> 0 | Inr c \<Rightarrow> coin_amount c)
       in Inr rewards)"

section \<open>Configuration (contract.rs)\<close>

text \<open>\<open>has_unique_elements\<close>: \<open>insert\<close> into the set of the elements seen says whether one is new.\<close>

definition custom_has_unique_elements :: "string list \<Rightarrow> bool" where
  "custom_has_unique_elements list = fst (fold (\<lambda>x (ok, uniq). (ok \<and> x \<notin> uniq, insert x uniq)) list (True, {}))"

definition custom_update_config ::
  "string option \<Rightarrow> string option \<Rightarrow> string list option \<Rightarrow> string option \<Rightarrow> string option \<Rightarrow>
   string option \<Rightarrow> deps \<Rightarrow> message_info \<Rightarrow> 'rc custom_storage \<Rightarrow>
   ('rc custom_storage \<times> response) res" where
  "custom_update_config owner custody_contract known_tokens astroport phoenix terraswap dp i st =
     rbind (custom_read_config st) (\<lambda>config.
     rbind (custom_load_swap_config st) (\<lambda>swap_config.
     if sender i \<noteq> rc_owner config then generic_err ''unauthorized''
     else
       rbind (case owner of None \<Rightarrow> Inr config
              | Some x \<Rightarrow> rbind (std_res (addr_validate dp x)) (\<lambda>a. Inr (config\<lparr>rc_owner := a\<rparr>)))
         (\<lambda>config.
       rbind (case custody_contract of None \<Rightarrow> Inr config
              | Some x \<Rightarrow> rbind (std_res (addr_validate dp x))
                  (\<lambda>a. Inr (config\<lparr>rc_custody_contract := Some a\<rparr>))) (\<lambda>config.
       rbind (case astroport of None \<Rightarrow> Inr swap_config
              | Some x \<Rightarrow> rbind (std_res (addr_validate dp x))
                  (\<lambda>a. Inr (swap_config\<lparr>sw_astroport_addr := a\<rparr>))) (\<lambda>swap_config.
       rbind (case phoenix of None \<Rightarrow> Inr swap_config
              | Some x \<Rightarrow> rbind (std_res (addr_validate dp x))
                  (\<lambda>a. Inr (swap_config\<lparr>sw_phoenix_addr := a\<rparr>))) (\<lambda>swap_config.
       rbind (case terraswap of None \<Rightarrow> Inr swap_config
              | Some x \<Rightarrow> rbind (std_res (addr_validate dp x))
                  (\<lambda>a. Inr (swap_config\<lparr>sw_terraswap_addr := a\<rparr>))) (\<lambda>swap_config.
       rbind (case known_tokens of None \<Rightarrow> Inr config
              | Some tokens \<Rightarrow>
                  if \<not> custom_has_unique_elements tokens
                  then generic_err ''Known tokens shouldn't contain duplicate assets''
                  else rbind (traverse (\<lambda>token. std_res (addr_validate dp token)) tokens)
                         (\<lambda>addrs. Inr (config\<lparr>rc_known_cw20_tokens := addrs\<rparr>))) (\<lambda>config.
         Inr (custom_save_swap_config swap_config (custom_store_config config st),
              add_attributes [(''action'', ''set_custody_contract'')] response_new)))))))))"

section \<open>The two crates compute the same\<close>

lemma custom_state [simp]:
  "custom_store_config = store_config" "custom_read_config = read_config"
  "custom_store_state = store_state" "custom_read_state = read_state"
  "custom_load_swap_config = load_swap_config"
  by (simp_all add: fun_eq_iff custom_store_config_def store_config_def custom_read_config_def read_config_def
      custom_store_state_def store_state_def custom_read_state_def read_state_def
      custom_load_swap_config_def load_swap_config_def)

lemma custom_holders [simp]:
  "custom_store_holder = store_holder" "custom_read_holder = read_holder"
  "custom_read_holders = read_holders"
  by (simp_all add: custom_store_holder_def store_holder_def custom_read_holder_def read_holder_def
      custom_read_holders_def read_holders_def max_limit_def default_limit_def holder_response_of_def [abs_def]
      case_prod_unfold fun_eq_iff Let_def cong: option.case_cong)

lemma custom_balances [simp]:
  "custom_query_token_balance = query_token_balance"
  "custom_query_all_cw20_balances = query_all_cw20_balances"
proof -
  show 1: "custom_query_token_balance = query_token_balance"
    by (rule ext)+ (simp add: custom_query_token_balance_def query_token_balance_def
        split: sum.split failure.split)
  show "custom_query_all_cw20_balances = query_all_cw20_balances"
    by (rule ext)+ (simp add: custom_query_all_cw20_balances_def query_all_cw20_balances_def 1 Let_def)
qed

lemma custom_routers [simp]:
  "custom_into_cosmos_msg = into_cosmos_msg"
  "custom_swap_operation = get_astroport_swap_operation"
  "custom_contract_address = get_contract_address"
  "custom_swap_message_for = create_swap_message_for"
  "custom_swap_result_for = get_swap_result_for"
  "custom_create_swap_msgs = create_swap_msgs"
proof -
  show 1: "custom_into_cosmos_msg = into_cosmos_msg"
    by (rule ext)+ (simp add: custom_into_cosmos_msg_def into_cosmos_msg_def)
  show 2: "custom_swap_operation = get_astroport_swap_operation"
    by (rule ext)+ (simp add: custom_swap_operation_def split: swap_message_type.split)
  show 3: "custom_contract_address = get_contract_address"
  proof (rule ext)+
    show "custom_contract_address mt st = get_contract_address mt st" for mt and st :: "'rc custom_storage"
      by (cases mt) (simp_all add: custom_contract_address_def get_contract_address_def)
  qed
  show 4: "custom_swap_message_for = create_swap_message_for"
    by (rule ext)+ (simp add: custom_swap_message_for_def create_swap_message_for_def 1 2 3 Let_def
        cong: asset_info.case_cong)
  show 5: "custom_swap_result_for = get_swap_result_for"
    by (rule ext)+ (simp add: custom_swap_result_for_def get_swap_result_for_def 2 3 rbind_return)
  show "custom_create_swap_msgs = create_swap_msgs"
    by (rule ext)+ (simp add: custom_create_swap_msgs_def create_swap_msgs_def swap_quotes_def 4 5
        split: option.split)
qed

lemma collect_simps [simp]:
  "collect [] = Inr []" "collect (r # rs) = rbind r (\<lambda>x. rbind (collect rs) (\<lambda>xs. Inr (x # xs)))"
  by (simp_all add: collect_def)

lemma collect_Inr_append: "collect (map Inr xs @ ys) = rbind (collect ys) (\<lambda>bs. Inr (xs @ bs))"
  by (induction xs) (simp_all add: rbind_assoc, simp add: rbind_def split: sum.split)

lemma collect_flat_messages:
  "collect (flat_messages (map f xs)) = rbind (traverse f xs) (\<lambda>mss. Inr (concat mss))"
proof (induction xs)
  case (Cons x xs)
  have "flat_messages (map f (x # xs)) =
      (case f x of Inr ms \<Rightarrow> map Inr ms | Inl er \<Rightarrow> [Inl er]) @ flat_messages (map f xs)"
    by (simp add: flat_messages_def)
  with Cons show ?case by (cases "f x") (simp_all add: collect_Inr_append rbind_assoc)
qed (simp add: flat_messages_def)

lemma custom_swap: "custom_execute_swap dp e st = rbind (read_config st) (\<lambda>config. swap_balances dp e config st)"
proof -
  have asset: "\<lparr>as_amount = as_amount a, as_info = as_info a\<rparr> = a" for a :: asset by simp
  have coins: "traverse (\<lambda>c. create_swap_msgs dp (f c) d st) xs = traverse (\<lambda>a. create_swap_msgs dp a d st) (map f xs)"
    for f d and xs :: "coin list"
    by (induction xs) simp_all
  show ?thesis
    by (simp add: custom_execute_swap_def swap_balances_def swap_messages_of_def collect_flat_messages
        asset coins Let_def)
qed

lemma custom_claim [simp]: "custom_execute_claim_rewards = execute_claim_rewards"
proof (rule ext)+
  show "custom_execute_claim_rewards recipient dp e i st = execute_claim_rewards recipient dp e i st"
    for recipient dp e i and st :: "'rc custom_storage"
    by (cases recipient)
      (simp_all add: custom_execute_claim_rewards_def execute_claim_rewards_def Let_def opt_traverse_def rbind_assoc
        cong: if_cong)
qed

lemma custom_accrued [simp]: "custom_query_accrued_rewards = query_accrued_rewards"
  by (rule ext)+ (simp add: custom_query_accrued_rewards_def query_accrued_rewards_def)

lemma custom_unique [simp]: "custom_has_unique_elements xs = has_unique_elements xs"
proof -
  have "fst (fold (\<lambda>x (ok, uniq). (ok \<and> x \<notin> uniq, insert x uniq)) xs (ok, seen)) = (ok \<and> unique_from seen xs)"
    for ok seen by (induction xs arbitrary: ok seen) auto
  then show ?thesis by (simp add: custom_has_unique_elements_def has_unique_elements_def)
qed

lemma custom_update [simp]: "custom_update_config = set_custody_contract"
  by (rule ext)+ (simp add: custom_update_config_def set_custody_contract_def set_addr_def set_known_tokens_def
      duplicate_tokens_def custom_save_swap_config_def cong: if_cong option.case_cong)

end
