(* ===== verification/Custom_Reward.thy ===== *)
theory Custom_Reward
  imports Reward_Contract Custom_Swap
begin

text \<open>
  Reward contracts that first turn what the wrapper sent them into swappable assets
  (\<open>packages/cavern_aAsset_custom_reward\<close>, trait in \<open>basset/src/custom_reward.rs\<close>). The retrieval
  messages come from an implementation of the trait \<open>ExecuteWithSwapReply\<close>, a record here; the last
  of them asks for a reply on success, and the reply swaps. Implementations: the empty one,
  \<open>AmpLPRetrieve\<close> (\<open>contracts/cavern_aAsset_amp_lp_reward\<close>) and \<open>SpectrumRetrieve\<close>
  (\<open>contracts/cavern_aAsset_spectrum_reward\<close>).
\<close>

section \<open>The trait\<close>

record ('raw, 'rc) execute_with_swap_reply =
  get_retrieve_messages :: "deps \<Rightarrow> env \<Rightarrow> 'rc custom_storage \<Rightarrow> cosmos_msg list res"
  validate_retrieve_config :: "deps \<Rightarrow> 'raw \<Rightarrow> 'rc res"

record 'raw custom_init_msg = reward_init_msg +
  cm_retrieve_config :: 'raw

section \<open>Entry points (contract.rs, global.rs)\<close>

type_synonym 'rc custom_handler =
  "deps \<Rightarrow> env \<Rightarrow> message_info \<Rightarrow> 'rc custom_storage \<Rightarrow> ('rc custom_storage \<times> response) res"

definition retrieve_normal_tokens_operation :: u64 where
  "retrieve_normal_tokens_operation = 1"

text \<open>\<open>messages.last_mut()\<close>: the reply settings of the last message change.\<close>

definition reply_on_last :: "sub_msg list \<Rightarrow> sub_msg list" where
  "reply_on_last ms =
     butlast ms @ [(last ms)\<lparr>sm_id := retrieve_normal_tokens_operation, sm_reply_on := Reply_Success\<rparr>]"

definition execute_retrieve_normal_tokens ::
  "('raw, 'rc) execute_with_swap_reply \<Rightarrow> 'rc custom_handler" where
  "execute_retrieve_normal_tokens T dp e i st =
     rbind (custom_read_config st) (\<lambda>config.
     if sender i \<noteq> rc_hub_contract config then generic_err ''unauthorized''
     else
       rbind (get_retrieve_messages T dp e st) (\<lambda>ms.
       let messages = map sub_msg_new ms in
       if messages = [] then custom_execute_swap dp e st
       else Inr (st, add_submessages (reply_on_last messages) response_new)))"

definition custom_instantiate ::
  "('raw, 'rc) execute_with_swap_reply \<Rightarrow> 'raw custom_init_msg \<Rightarrow> 'rc custom_handler" where
  "custom_instantiate T m dp e i st =
     (if \<not> custom_has_unique_elements (rm_known_tokens m)
      then generic_err ''Known tokens shouldn't contain duplicate assets''
      else
        rbind (std_res (addr_validate dp (rm_hub_contract m))) (\<lambda>hub_contract.
        rbind (traverse (\<lambda>a. std_res (addr_validate dp a)) (rm_known_tokens m)) (\<lambda>known_cw20_tokens.
        let conf = \<lparr>rc_owner = sender i, rc_hub_contract = hub_contract, rc_custody_contract = None,
                     rc_reward_denom = rm_reward_denom m, rc_known_cw20_tokens = known_cw20_tokens\<rparr>;
            st1 = custom_store_config conf st;
            st2 = custom_store_state \<lparr>rt_global_index = Decimal256 0, rt_total_balance = 0,
                     rt_prev_reward_balance = 0\<rparr> st1 in
        rbind (validate_retrieve_config T dp (cm_retrieve_config m)) (\<lambda>validated_retrieve_config.
        let st3 = store_retrieve_config validated_retrieve_config st2 in
        rbind (std_res (addr_validate dp (rm_astroport_addr m))) (\<lambda>astroport.
        rbind (std_res (addr_validate dp (rm_phoenix_addr m))) (\<lambda>phoenix.
        rbind (std_res (addr_validate dp (rm_terraswap_addr m))) (\<lambda>terraswap.
          Inr (custom_save_swap_config \<lparr>sw_astroport_addr = astroport, sw_phoenix_addr = phoenix,
                 sw_terraswap_addr = terraswap\<rparr> st3, response_new))))))))"

fun custom_execute ::
  "('raw, 'rc) execute_with_swap_reply \<Rightarrow> reward_execute_msg \<Rightarrow> 'rc custom_handler" where
  "custom_execute T (ClaimRewards recipient) dp e i st = custom_execute_claim_rewards recipient dp e i st"
| "custom_execute T SwapToRewardDenom dp e i st =
     rbind (custom_read_config st) (\<lambda>config.
       if sender i \<noteq> rc_hub_contract config then generic_err ''unauthorized''
       else execute_retrieve_normal_tokens T dp e i st)"
| "custom_execute T (Reward_UpdateConfig owner custody known_tokens astroport phoenix terraswap) dp e i st =
     custom_update_config owner custody known_tokens astroport phoenix terraswap dp i st"

definition custom_reply ::
  "u64 \<Rightarrow> deps \<Rightarrow> env \<Rightarrow> 'rc custom_storage \<Rightarrow> ('rc custom_storage \<times> response) res" where
  "custom_reply reply_id dp e st =
     (if reply_id = retrieve_normal_tokens_operation then custom_execute_swap dp e st
      else generic_err ''Invalid Reply Id'')"

definition custom_query ::
  "reward_query_msg \<Rightarrow> deps \<Rightarrow> env \<Rightarrow> 'rc custom_storage \<Rightarrow> reward_answer res" where
  "custom_query q dp e st =
     (case q of
        Reward_QueryConfig \<Rightarrow> rbind (custom_read_config st) (\<lambda>config. Inr (Reward_Config config))
      | Reward_QueryAccrued address \<Rightarrow>
          rbind (custom_query_accrued_rewards dp e st) (\<lambda>rewards. Inr (Reward_Accrued rewards)))"

definition custom_migrate :: "'rc custom_handler" where
  "custom_migrate dp e i st = Inr (st, response_new)"

text \<open>The entry points in terms of the functions that the two reward crates share.\<close>

lemma custom_instantiate_eq:
  "custom_instantiate T m dp e i st =
     rbind (reward_config_of dp i m) (\<lambda>conf.
     rbind (validate_retrieve_config T dp (cm_retrieve_config m)) (\<lambda>validated_retrieve_config.
     rbind (swap_config_of dp m) (\<lambda>swap_config.
       Inr ((store_retrieve_config validated_retrieve_config
               (store_state reward_state_zero (store_config conf st)))\<lparr>rs_swap_config := Some swap_config\<rparr>,
            response_new))))"
  by (simp add: custom_instantiate_def reward_config_of_def swap_config_of_def reward_state_zero_def
      duplicate_tokens_def custom_save_swap_config_def rbind_assoc Let_def)

lemma custom_query_eq: "custom_query = reward_query"
  by (rule ext)+ (simp add: custom_query_def reward_query_def cong: reward_query_msg.case_cong)

section \<open>The contract of the trait\<close>

text \<open>
  What the crate relies on: a retrieval depends on nothing but its own configuration and the
  chain, and it only calls contracts, without attaching coins.
\<close>

locale swap_reply =
  fixes T :: "('raw, 'rc) execute_with_swap_reply"
  assumes reads_config: "cs_retrieve_config st = cs_retrieve_config st' \<Longrightarrow>
      get_retrieve_messages T dp e st = get_retrieve_messages T dp e st'"
    and no_funds: "get_retrieve_messages T dp e st = Inr ms \<Longrightarrow> m \<in> set ms \<Longrightarrow>
      \<exists>c b. m = Wasm_Execute c b []"
begin

text \<open>
  A swap request either swaps at once, when there is nothing to retrieve, or sends the retrieval
  messages, all without coins, of which exactly the last one asks for the reply.
\<close>

lemma swap_request:
  assumes "custom_execute T SwapToRewardDenom dp e i st = Inr (st', r)"
  obtains (at_once) c balances where "rs_config st = Some c" "sender i = rc_hub_contract c"
      "get_retrieve_messages T dp e st = Inr []" "st' = st"
      "bank_all_balances dp (contract_address e) = Inr balances"
      "msgs r = concat (map (sell dp (rc_reward_denom c) st)
         (for_sale dp (contract_address e) c balances))"
  | (retrieve) c ms m where "rs_config st = Some c" "sender i = rc_hub_contract c"
      "get_retrieve_messages T dp e st = Inr (ms @ [m])" "st' = st"
      "messages r = map sub_msg_new ms @ [\<lparr>sm_id = 1, sm_msg = m, sm_reply_on = Reply_Success\<rparr>]"
      "\<forall>x \<in> set (ms @ [m]). \<exists>c b. x = Wasm_Execute c b []"
proof -
  from assms obtain c ms where c: "rs_config st = Some c" "sender i = rc_hub_contract c"
      and ms: "get_retrieve_messages T dp e st = Inr ms"
      and r: "if ms = [] then custom_execute_swap dp e st = Inr (st', r)
        else st' = st \<and> r = add_submessages (reply_on_last (map sub_msg_new ms)) response_new"
    by (auto simp: execute_retrieve_normal_tokens_def read_config_def load_eq_Inr rbind_eq_Inr Let_def
        split: if_splits)
  show thesis
  proof (cases ms rule: rev_cases)
    case Nil
    with r have "swap_balances dp e c st = Inr (st', r)"
      by (simp add: custom_swap read_config_def c load_def)
    then show thesis
      by (rule swap_balances_eq_Inr) (use at_once [OF c] ms Nil in simp)
  next
    case (snoc ys y)
    then show thesis
      using r no_funds [OF ms]
      by - (rule retrieve [OF c ms [unfolded snoc]],
        auto simp: reply_on_last_def add_submessages_def response_new_def sub_msg_new_def
          retrieve_normal_tokens_operation_def)
  qed
qed

end

section \<open>Implementations\<close>

text \<open>\<open>impl ExecuteWithSwapReply for Empty\<close> (\<open>basset/src/custom_reward.rs\<close>)\<close>

definition empty_retrieve :: "(unit option, unit option) execute_with_swap_reply" where
  "empty_retrieve = \<lparr>
     get_retrieve_messages = (\<lambda>dp e st. Inr []),
     validate_retrieve_config = (\<lambda>dp config. Inr None) \<rparr>"

subsection \<open>cavern\_aAsset\_amp\_lp\_reward/src/lib.rs\<close>

record amp_retrieve_config_raw =
  arw_amp_lp_token :: string
  arw_hub :: string
  arw_pair :: string

record amp_retrieve_config =
  arc_amp_lp_token :: addr
  arc_hub :: addr
  arc_pair :: addr

text \<open>The pool shares that the staking contract gives back for so many of its own.\<close>

definition amp_bond_amount :: "arith \<Rightarrow> eris_state_response \<Rightarrow> u128 \<Rightarrow> u128 res" where
  "amp_bond_amount A state amp_lp_balance =
     (if es_total_amp_lp state = 0 then Inr 0
      else or_panic (u_multiply_ratio A (es_total_lp state) amp_lp_balance (es_total_amp_lp state)))"

definition amp_get_retrieve_messages ::
  "arith \<Rightarrow> deps \<Rightarrow> env \<Rightarrow> amp_retrieve_config custom_storage \<Rightarrow> cosmos_msg list res" where
  "amp_get_retrieve_messages A dp e st =
     rbind (read_retrieve_config st) (\<lambda>config.
     rbind (query_as dp a_balance (arc_amp_lp_token config) (Q_Cw20Balance (contract_address e)))
       (\<lambda>amp_lp_balance.
     if amp_lp_balance = 0 then Inr []
     else
       let unbond = Wasm_Execute (arc_amp_lp_token config)
             (Cw20Exec (Cw20_Send (arc_hub config) amp_lp_balance (ErisHook (Eris_Unbond None)))) [] in
       rbind (query_as dp a_pair_info (arc_pair config) Q_Pair) (\<lambda>liquidity_token.
       rbind (query_as dp a_balance liquidity_token (Q_Cw20Balance (contract_address e)))
         (\<lambda>astro_lp_balance.
       rbind (query_as dp a_eris_state (arc_hub config) (Q_Eris (Eris_QState None))) (\<lambda>state.
       rbind (amp_bond_amount A state amp_lp_balance) (\<lambda>bond_amount.
       rbind (or_panic (u_add A bond_amount astro_lp_balance)) (\<lambda>total.
         if total = 0 then Inr []
         else Inr [unbond,
           Wasm_Execute liquidity_token
             (Cw20Exec (Cw20_Send (arc_pair config) total (PairHook (WithdrawLiquidity [])))) []])))))))"

definition amp_validate_retrieve_config ::
  "deps \<Rightarrow> amp_retrieve_config_raw \<Rightarrow> amp_retrieve_config res" where
  "amp_validate_retrieve_config dp config =
     rbind (std_res (addr_validate dp (arw_pair config))) (\<lambda>pair.
     rbind (std_res (addr_validate dp (arw_amp_lp_token config))) (\<lambda>amp_lp_token.
     rbind (std_res (addr_validate dp (arw_hub config))) (\<lambda>h.
       Inr \<lparr>arc_amp_lp_token = amp_lp_token, arc_hub = h, arc_pair = pair\<rparr>)))"

definition amp_lp_retrieve ::
  "arith \<Rightarrow> (amp_retrieve_config_raw, amp_retrieve_config) execute_with_swap_reply" where
  "amp_lp_retrieve A = \<lparr>
     get_retrieve_messages = amp_get_retrieve_messages A,
     validate_retrieve_config = amp_validate_retrieve_config \<rparr>"

definition amp_reward_instantiate ::
  "arith \<Rightarrow> amp_retrieve_config_raw custom_init_msg \<Rightarrow> amp_retrieve_config custom_handler" where
  "amp_reward_instantiate A = custom_instantiate (amp_lp_retrieve A)"

definition amp_reward_execute ::
  "arith \<Rightarrow> reward_execute_msg \<Rightarrow> amp_retrieve_config custom_handler" where
  "amp_reward_execute A = custom_execute (amp_lp_retrieve A)"

definition amp_reward_query ::
  "reward_query_msg \<Rightarrow> deps \<Rightarrow> env \<Rightarrow> amp_retrieve_config custom_storage \<Rightarrow> reward_answer res" where
  "amp_reward_query = custom_query"

definition amp_reward_reply ::
  "u64 \<Rightarrow> deps \<Rightarrow> env \<Rightarrow> amp_retrieve_config custom_storage \<Rightarrow>
   (amp_retrieve_config custom_storage \<times> response) res" where
  "amp_reward_reply = custom_reply"

subsection \<open>cavern\_aAsset\_spectrum\_reward/src/lib.rs\<close>

record spectrum_retrieve_config_raw =
  srw_spectrum_token :: string
  srw_pair :: string

record spectrum_retrieve_config =
  src_spectrum_token :: addr
  src_pair :: addr

definition spectrum_get_retrieve_messages ::
  "deps \<Rightarrow> env \<Rightarrow> spectrum_retrieve_config custom_storage \<Rightarrow> cosmos_msg list res" where
  "spectrum_get_retrieve_messages dp e st =
     rbind (read_retrieve_config st) (\<lambda>config.
     rbind (query_as dp a_reward_info (src_spectrum_token config)
              (Q_Spectrum (Spectrum_QRewardInfo (contract_address e)))) (\<lambda>lp_amount.
     if ri_bond_share (ri_reward_info lp_amount) = 0 then Inr []
     else
       rbind (query_as dp a_pair_info (src_pair config) Q_Pair) (\<lambda>liquidity_token.
       let amount = ri_bond_amount (ri_reward_info lp_amount) in
         Inr [Wasm_Execute (src_spectrum_token config) (SpectrumExec (Spectrum_Unbond amount)) [],
              Wasm_Execute liquidity_token
                (Cw20Exec (Cw20_Send (src_pair config) amount (PairHook (WithdrawLiquidity [])))) []])))"

definition spectrum_validate_retrieve_config ::
  "deps \<Rightarrow> spectrum_retrieve_config_raw \<Rightarrow> spectrum_retrieve_config res" where
  "spectrum_validate_retrieve_config dp config =
     rbind (std_res (addr_validate dp (srw_pair config))) (\<lambda>pair.
     rbind (std_res (addr_validate dp (srw_spectrum_token config))) (\<lambda>spectrum_token.
       Inr \<lparr>src_spectrum_token = spectrum_token, src_pair = pair\<rparr>))"

definition spectrum_retrieve ::
  "(spectrum_retrieve_config_raw, spectrum_retrieve_config) execute_with_swap_reply" where
  "spectrum_retrieve = \<lparr>
     get_retrieve_messages = spectrum_get_retrieve_messages,
     validate_retrieve_config = spectrum_validate_retrieve_config \<rparr>"

definition spectrum_reward_instantiate ::
  "spectrum_retrieve_config_raw custom_init_msg \<Rightarrow> spectrum_retrieve_config custom_handler" where
  "spectrum_reward_instantiate = custom_instantiate spectrum_retrieve"

definition spectrum_reward_execute ::
  "reward_execute_msg \<Rightarrow> spectrum_retrieve_config custom_handler" where
  "spectrum_reward_execute = custom_execute spectrum_retrieve"

definition spectrum_reward_query ::
  "reward_query_msg \<Rightarrow> deps \<Rightarrow> env \<Rightarrow> spectrum_retrieve_config custom_storage \<Rightarrow> reward_answer res" where
  "spectrum_reward_query = custom_query"

definition spectrum_reward_reply ::
  "u64 \<Rightarrow> deps \<Rightarrow> env \<Rightarrow> spectrum_retrieve_config custom_storage \<Rightarrow>
   (spectrum_retrieve_config custom_storage \<times> response) res" where
  "spectrum_reward_reply = custom_reply"

section \<open>What the implementations send\<close>

lemma retrieve_ops [simp]:
  "get_retrieve_messages empty_retrieve dp' e' st1 = Inr []"
  "get_retrieve_messages (amp_lp_retrieve A) = amp_get_retrieve_messages A"
  "get_retrieve_messages spectrum_retrieve = spectrum_get_retrieve_messages"
  by (simp_all add: empty_retrieve_def amp_lp_retrieve_def spectrum_retrieve_def)

lemma amp_retrieve_cases:
  assumes "amp_get_retrieve_messages A dp e st = Inr ms"
  obtains (none) c where "cs_retrieve_config st = Some c"
      "query_as dp a_balance (arc_amp_lp_token c) (Q_Cw20Balance (contract_address e)) = Inr 0" "ms = []"
  | (unbond) c b lp n s bond total where "cs_retrieve_config st = Some c"
      "query_as dp a_balance (arc_amp_lp_token c) (Q_Cw20Balance (contract_address e)) = Inr b" "b \<noteq> 0"
      "query_as dp a_pair_info (arc_pair c) Q_Pair = Inr lp"
      "query_as dp a_balance lp (Q_Cw20Balance (contract_address e)) = Inr n"
      "query_as dp a_eris_state (arc_hub c) (Q_Eris (Eris_QState None)) = Inr s"
      "amp_bond_amount A s b = Inr bond"
      "u_add A bond n = Some total"
      "ms = (if total = 0 then []
         else [Wasm_Execute (arc_amp_lp_token c)
                 (Cw20Exec (Cw20_Send (arc_hub c) b (ErisHook (Eris_Unbond None)))) [],
               Wasm_Execute lp
                 (Cw20Exec (Cw20_Send (arc_pair c) total (PairHook (WithdrawLiquidity [])))) []])"
  using assms
  by (auto simp: amp_get_retrieve_messages_def read_retrieve_config_def rbind_eq_Inr load_eq_Inr
      or_panic_eq_Inr Let_def split: if_splits)

lemma spectrum_retrieve_cases:
  assumes "spectrum_get_retrieve_messages dp e st = Inr ms"
  obtains (none) c info where "cs_retrieve_config st = Some c"
      "query_as dp a_reward_info (src_spectrum_token c) (Q_Spectrum (Spectrum_QRewardInfo (contract_address e)))
         = Inr info" "ri_bond_share (ri_reward_info info) = 0" "ms = []"
  | (unbond) c info lp where "cs_retrieve_config st = Some c"
      "query_as dp a_reward_info (src_spectrum_token c) (Q_Spectrum (Spectrum_QRewardInfo (contract_address e)))
         = Inr info" "ri_bond_share (ri_reward_info info) \<noteq> 0"
      "query_as dp a_pair_info (src_pair c) Q_Pair = Inr lp"
      "ms = [Wasm_Execute (src_spectrum_token c)
               (SpectrumExec (Spectrum_Unbond (ri_bond_amount (ri_reward_info info)))) [],
             Wasm_Execute lp (Cw20Exec (Cw20_Send (src_pair c) (ri_bond_amount (ri_reward_info info))
               (PairHook (WithdrawLiquidity [])))) []]"
  using assms
  by (auto simp: spectrum_get_retrieve_messages_def read_retrieve_config_def rbind_eq_Inr load_eq_Inr
      Let_def split: if_splits)

interpretation empty: swap_reply empty_retrieve
  by unfold_locales simp_all

interpretation amp_retrieve: swap_reply "amp_lp_retrieve A" for A
proof unfold_locales
  fix dp e ms m and st :: "amp_retrieve_config custom_storage"
  assume "get_retrieve_messages (amp_lp_retrieve A) dp e st = Inr ms" and "m \<in> set ms"
  then show "\<exists>c b. m = Wasm_Execute c b []"
    by (auto elim!: amp_retrieve_cases split: if_splits)
qed (simp add: amp_get_retrieve_messages_def read_retrieve_config_def)

interpretation spectrum_retrieve: swap_reply spectrum_retrieve
proof unfold_locales
  fix dp e ms m and st :: "spectrum_retrieve_config custom_storage"
  assume "get_retrieve_messages spectrum_retrieve dp e st = Inr ms" and "m \<in> set ms"
  then show "\<exists>c b. m = Wasm_Execute c b []" by (auto elim!: spectrum_retrieve_cases)
qed (simp add: spectrum_get_retrieve_messages_def read_retrieve_config_def)

text \<open>The crate keeps the configuration as the plain reward contract does.\<close>

lemma custom_instantiate_configured:
  assumes "addr_same dp" and "custom_instantiate T m dp e i st = Inr (st', r)"
  shows "reward_configured (rm_hub_contract m) (rm_reward_denom m) st'"
proof -
  from assms(2) obtain c s rc where c: "reward_config_of dp i m = Inr c"
      and s: "swap_config_of dp m = Inr s"
      and st': "st' = (store_retrieve_config rc (store_state reward_state_zero (store_config c st)))
        \<lparr>rs_swap_config := Some s\<rparr>"
    by (auto simp: custom_instantiate_eq rbind_eq_Inr)
  have "reward_instantiate m dp e i st = Inr
      ((store_state reward_state_zero (store_config c st))\<lparr>rs_swap_config := Some s\<rparr>, response_new)"
    by (simp add: reward_instantiate_def c s Let_def)
  from reward_instantiate_configured [OF assms(1) this] show ?thesis
    by (simp add: st' reward_configured_def store_retrieve_config_def)
qed

section \<open>Runs\<close>

inductive custom_step ::
  "('raw, 'rc) execute_with_swap_reply \<Rightarrow> 'rc custom_storage \<Rightarrow> 'rc custom_storage \<Rightarrow> bool"
  for T :: "('raw, 'rc) execute_with_swap_reply" where
  custom_call: "addr_same dp \<Longrightarrow> custom_execute T m dp e i st = Inr (st', r) \<Longrightarrow> custom_step T st st'"
| custom_answer: "custom_reply reply_id dp e st = Inr (st', r) \<Longrightarrow> custom_step T st st'"
| custom_migration: "custom_migrate dp e i st = Inr (st', r) \<Longrightarrow> custom_step T st st'"

lemma custom_reply_ok:
  assumes "custom_reply reply_id dp e st = Inr (st', r)"
  obtains c balances where "reply_id = 1" "rs_config st = Some c" "st' = st"
    "bank_all_balances dp (contract_address e) = Inr balances"
    "msgs r = concat (map (sell dp (rc_reward_denom c) st)
       (for_sale dp (contract_address e) c balances))"
  using assms
  by (auto simp: custom_reply_def retrieve_normal_tokens_operation_def custom_swap
      read_config_def rbind_eq_Inr load_eq_Inr split: if_splits elim!: swap_balances_eq_Inr)

context swap_reply
begin

lemma custom_step_configured:
  assumes "custom_step T st st'" and "reward_configured hub denom st"
  shows "reward_configured hub denom st'"
  using assms(1)
proof cases
  case (custom_call dp m e i r)
  show ?thesis
  proof (cases "m = SwapToRewardDenom")
    case True
    with custom_call(2) have "custom_execute T SwapToRewardDenom dp e i st = Inr (st', r)" by simp
    then have "st' = st" by (rule swap_request)
    with assms(2) show ?thesis by simp
  next
    case False
    with custom_call assms(2) show ?thesis
      by (cases m) (auto simp: custom_update elim!: execute_claim_rewards_ok
          intro: set_custody_contract_configured)
  qed
next
  case (custom_answer reply_id dp e r)
  with assms(2) show ?thesis by (auto elim!: custom_reply_ok)
next
  case (custom_migration dp e i r)
  with assms(2) show ?thesis by (simp add: custom_migrate_def)
qed

lemma custom_run_configured:
  assumes "(custom_step T)\<^sup>*\<^sup>* st st'" and "reward_configured hub denom st"
  shows "reward_configured hub denom st'"
  using assms by (induction rule: rtranclp_induct) (auto intro: custom_step_configured)

end

end
