(* ===== verification/Hub_Contract.thy ===== *)
theory Hub_Contract
  imports Messages
begin

text \<open>
  The hub (\<open>contracts/cavern-lsd-hub\<close>, types in \<open>basset/src/hub.rs\<close>). It knows the wrapper token
  and the reward contract; anybody may ask it to update the global index, which makes the wrapper
  hand its rewards to the reward contract and the reward contract swap them.
\<close>

section \<open>Storage (hub.rs, state.rs)\<close>

record hub_config =
  hc_creator :: addr
  hc_reward_contract :: "addr option"
  hc_token_contract :: "addr option"

record hub_state =
  hs_exchange_rate :: decimal
  hs_total_bond_amount :: u128
  hs_last_index_modification :: u64
  hs_prev_hub_balance :: u128

definition hub_state_default :: hub_state where
  "hub_state_default = \<lparr>hs_exchange_rate = dec_zero, hs_total_bond_amount = 0,
     hs_last_index_modification = 0, hs_prev_hub_balance = 0\<rparr>"

record hub_parameters =
  hp_reward_denom :: string

record hub_storage =
  hub_config_item :: "hub_config option"
  hub_state_item :: "hub_state option"
  hub_parameters_item :: "hub_parameters option"

definition load_hub_config :: "hub_storage \<Rightarrow> hub_config res" where
  "load_hub_config st = load ''config'' (hub_config_item st)"

definition load_hub_state :: "hub_storage \<Rightarrow> hub_state res" where
  "load_hub_state st = load ''state'' (hub_state_item st)"

text \<open>\<open>Item::update\<close>: read, change, write back.\<close>

definition update_hub_config :: "(hub_config \<Rightarrow> hub_config) \<Rightarrow> hub_storage \<Rightarrow> hub_storage res" where
  "update_hub_config f st =
     rbind (load_hub_config st) (\<lambda>c. Inr (st\<lparr>hub_config_item := Some (f c)\<rparr>))"

text \<open>\<open>State::update_exchange_rate\<close> of \<open>hub.rs\<close>.\<close>

definition update_exchange_rate :: "arith \<Rightarrow> u128 \<Rightarrow> u128 \<Rightarrow> hub_state \<Rightarrow> hub_state res" where
  "update_exchange_rate A total_issued requested_with_fee s =
     rbind (or_panic (u_add A total_issued requested_with_fee)) (\<lambda>actual_supply.
       if hs_total_bond_amount s = 0 \<or> actual_supply = 0
       then Inr (s\<lparr>hs_exchange_rate := dec_one\<rparr>)
       else rbind (or_panic (from_ratio A (hs_total_bond_amount s) actual_supply))
              (\<lambda>r. Inr (s\<lparr>hs_exchange_rate := r\<rparr>)))"

section \<open>Entry points (contract.rs, config.rs)\<close>

type_synonym hub_handler =
  "deps \<Rightarrow> env \<Rightarrow> message_info \<Rightarrow> hub_storage \<Rightarrow> (hub_storage \<times> response) res"

record hub_init_msg =
  hi_reward_denom :: string

definition hub_instantiate :: "arith \<Rightarrow> hub_init_msg \<Rightarrow> hub_handler" where
  "hub_instantiate A m dp e i st =
     (let data = \<lparr>hc_creator = sender i, hc_reward_contract = None, hc_token_contract = None\<rparr>;
          state = hub_state_default\<lparr>hs_exchange_rate := dec_one,
                    hs_last_index_modification := ts_seconds A (block_time e)\<rparr>
      in Inr (st\<lparr>hub_config_item := Some data, hub_state_item := Some state,
                 hub_parameters_item := Some \<lparr>hp_reward_denom = hi_reward_denom m\<rparr>\<rparr>, response_new))"

text \<open>One optional field of the configuration: check the address, then store it.\<close>

definition update_hub_field ::
  "deps \<Rightarrow> (addr \<Rightarrow> hub_config \<Rightarrow> hub_config) \<Rightarrow> string option \<Rightarrow> hub_storage \<Rightarrow> hub_storage res" where
  "update_hub_field dp put field st =
     (case field of
        None \<Rightarrow> Inr st
      | Some s \<Rightarrow> rbind (std_res (addr_validate dp s)) (\<lambda>a. update_hub_config (put a) st))"

definition hub_update_config ::
  "string option \<Rightarrow> string option \<Rightarrow> string option \<Rightarrow> hub_handler" where
  "hub_update_config owner reward_contract token_contract dp e i st =
     rbind (load_hub_config st) (\<lambda>conf.
     if sender i \<noteq> hc_creator conf then generic_err ''unauthorized''
     else
       rbind (update_hub_field dp (\<lambda>a c. c\<lparr>hc_creator := a\<rparr>) owner st) (\<lambda>st1.
       rbind (update_hub_field dp (\<lambda>a c. c\<lparr>hc_reward_contract := Some a\<rparr>) reward_contract st1) (\<lambda>st2.
       rbind (update_hub_field dp (\<lambda>a c. c\<lparr>hc_token_contract := Some a\<rparr>) token_contract st2) (\<lambda>st3.
         Inr (st3, add_attributes [(''action'', ''update_config'')] response_new)))))"

definition execute_update_global :: "arith \<Rightarrow> hub_handler" where
  "execute_update_global A dp e i st =
     rbind (load_hub_config st) (\<lambda>config.
     rbind (case hc_reward_contract config of
              None \<Rightarrow> generic_err ''the reward contract must have been registered''
            | Some a \<Rightarrow> Inr a) (\<lambda>reward_addr.
     rbind (case hc_token_contract config of
              None \<Rightarrow> generic_err ''the token contract must have been registered''
            | Some a \<Rightarrow> Inr a) (\<lambda>lsd_wrapper_contract.
     let ms = [Wasm_Execute lsd_wrapper_contract (WrapperExec (Decompound (Some reward_addr))) [],
               Wasm_Execute reward_addr (RewardExec SwapToRewardDenom) []] in
     rbind (load_hub_state st) (\<lambda>last_state.
       Inr (st\<lparr>hub_state_item :=
                 Some (last_state\<lparr>hs_last_index_modification := ts_seconds A (block_time e)\<rparr>)\<rparr>,
            add_attributes [(''action'', ''update_global_index'')]
              (add_messages ms response_new))))))"

fun hub_execute :: "arith \<Rightarrow> hub_execute_msg \<Rightarrow> hub_handler" where
  "hub_execute A UpdateGlobalIndex = execute_update_global A"
| "hub_execute A (Hub_UpdateConfig owner reward_contract token_contract) =
     hub_update_config owner reward_contract token_contract"

datatype hub_query_msg = Hub_QueryConfig | Hub_QueryState | Hub_QueryParameters

datatype hub_answer =
    Hub_ConfigResponse (hr_owner: string) (hr_reward_contract: "string option")
      (hr_token_contract: "string option")
  | Hub_StateResponse decimal u128 u64 u128
  | Hub_Parameters hub_parameters

fun hub_query :: "hub_query_msg \<Rightarrow> hub_storage \<Rightarrow> hub_answer res" where
  "hub_query Hub_QueryConfig st =
     rbind (load_hub_config st) (\<lambda>config.
       Inr (Hub_ConfigResponse (hc_creator config) (hc_reward_contract config)
              (hc_token_contract config)))"
| "hub_query Hub_QueryState st =
     rbind (load_hub_state st) (\<lambda>s.
       Inr (Hub_StateResponse (hs_exchange_rate s) (hs_total_bond_amount s)
              (hs_last_index_modification s) (hs_prev_hub_balance s)))"
| "hub_query Hub_QueryParameters st =
     rbind (load ''parameteres'' (hub_parameters_item st)) (\<lambda>p. Inr (Hub_Parameters p))"

definition hub_migrate :: hub_handler where
  "hub_migrate dp e i st = Inr (st, response_new)"

section \<open>What the operations do\<close>

lemma update_hub_field_ok:
  assumes "update_hub_field dp f field st = Inr st'" and "hub_config_item st = Some c"
  obtains (keep) "field = None" "st' = st"
  | (put) s a where "field = Some s" "addr_validate dp s = Inr a"
      "st' = st\<lparr>hub_config_item := Some (f a c)\<rparr>"
  using assms
  by (auto simp: update_hub_field_def update_hub_config_def load_hub_config_def res_simps
      split: option.splits)

text \<open>What an optional address field becomes.\<close>

definition set_to :: "deps \<Rightarrow> string option \<Rightarrow> 'a \<Rightarrow> (addr \<Rightarrow> 'a) \<Rightarrow> 'a \<Rightarrow> bool" where
  "set_to dp field old f new \<longleftrightarrow>
     (case field of None \<Rightarrow> new = old | Some s \<Rightarrow> \<exists>a. addr_validate dp s = Inr a \<and> new = f a)"

lemma hub_update_config_ok:
  assumes "hub_update_config o' rw tk dp e i st = Inr (st', r)"
  obtains c c' where "hub_config_item st = Some c" "sender i = hc_creator c"
    "st' = st\<lparr>hub_config_item := Some c'\<rparr>" "msgs r = []"
    "set_to dp o' (hc_creator c) (\<lambda>a. a) (hc_creator c')"
    "set_to dp rw (hc_reward_contract c) Some (hc_reward_contract c')"
    "set_to dp tk (hc_token_contract c) Some (hc_token_contract c')"
proof -
  from assms obtain c st1 st2 where c: "hub_config_item st = Some c" "sender i = hc_creator c"
      and 1: "update_hub_field dp (\<lambda>a c. c\<lparr>hc_creator := a\<rparr>) o' st = Inr st1"
      and 2: "update_hub_field dp (\<lambda>a c. c\<lparr>hc_reward_contract := Some a\<rparr>) rw st1 = Inr st2"
      and 3: "update_hub_field dp (\<lambda>a c. c\<lparr>hc_token_contract := Some a\<rparr>) tk st2 = Inr st'"
      and r: "msgs r = []"
    by (auto simp: hub_update_config_def load_hub_config_def res_simps split: if_splits)
  from 1 c(1) obtain c1 where c1: "st1 = st\<lparr>hub_config_item := Some c1\<rparr>"
      "set_to dp o' (hc_creator c) (\<lambda>a. a) (hc_creator c1)"
      "hc_reward_contract c1 = hc_reward_contract c" "hc_token_contract c1 = hc_token_contract c"
    by (rule update_hub_field_ok) (auto simp: set_to_def c(1) intro!: exI [of _ c] that)
  from 2 have "hub_config_item st1 = Some c1" by (simp add: c1(1))
  with 2 obtain c2 where c2: "st2 = st1\<lparr>hub_config_item := Some c2\<rparr>" "hc_creator c2 = hc_creator c1"
      "set_to dp rw (hc_reward_contract c1) Some (hc_reward_contract c2)"
      "hc_token_contract c2 = hc_token_contract c1"
    by (rule update_hub_field_ok) (auto simp: set_to_def c1(1) intro!: that)
  have "hub_config_item st2 = Some c2" by (simp add: c2(1))
  with 3 obtain c3 where c3: "st' = st2\<lparr>hub_config_item := Some c3\<rparr>" "hc_creator c3 = hc_creator c2"
      "hc_reward_contract c3 = hc_reward_contract c2"
      "set_to dp tk (hc_token_contract c2) Some (hc_token_contract c3)"
    by (rule update_hub_field_ok) (auto simp: set_to_def c2(1) intro!: that)
  show thesis
    by (rule that [of c c3]) (use c r c1 c2 c3 in simp_all)
qed

lemma execute_update_global_ok:
  assumes "execute_update_global A dp e i st = Inr (st', r)"
  obtains c rw tk s where "hub_config_item st = Some c" "hc_reward_contract c = Some rw"
    "hc_token_contract c = Some tk" "hub_state_item st = Some s"
    "msgs r = [Wasm_Execute tk (WrapperExec (Decompound (Some rw))) [],
               Wasm_Execute rw (RewardExec SwapToRewardDenom) []]"
    "st' = st\<lparr>hub_state_item :=
        Some (s\<lparr>hs_last_index_modification := ts_seconds A (block_time e)\<rparr>)\<rparr>"
  using assms
  by (auto simp: execute_update_global_def load_hub_config_def load_hub_state_def res_simps Let_def
      split: option.splits)

end
