(* ===== verification/Chain.thy ===== *)
theory Chain
  imports Limited_System Wrapper_Outcome Reward_Laws Reward_Contract Custom_Reward Hub_Contract
begin

text \<open>
  Transactions across the contracts. The chain runs the messages of a response in order and depth
  first, each in the name of the contract that sent it; after a message whose sender asked for it,
  the sender's reply entry point runs; a failure that nobody asked to be told of undoes the whole
  transaction. The three contracts of the repository are one wrapper token, one reward contract
  and the hub; everything else (tokens, routers, staking contracts, the bank) is the outside, a
  parameter: how it changes when it receives a message, what each contract then reads of it, and
  what it sends in its turn, which may be calls back into the three contracts.
\<close>

section \<open>Contracts and the outside\<close>

record ('w, 'rw) contracts =
  ct_hub :: addr
  ct_token :: addr
  ct_reward :: addr
  ct_arith :: arith
  token_execute :: "wrapper_execute_msg \<Rightarrow> deps \<Rightarrow> env \<Rightarrow> message_info \<Rightarrow> 'w \<Rightarrow> ('w \<times> response) res"
  reward_entry :: "reward_execute_msg \<Rightarrow> deps \<Rightarrow> env \<Rightarrow> message_info \<Rightarrow> 'rw \<Rightarrow> ('rw \<times> response) res"
  reward_reply :: "u64 \<Rightarrow> deps \<Rightarrow> env \<Rightarrow> 'rw \<Rightarrow> ('rw \<times> response) res"

text \<open>
  \<open>ext_calls\<close> is what a contract outside sends on when it has handled a message, and \<open>ext_reply\<close> is
  the reply entry point of the contracts outside.
\<close>

record 'x outside =
  ext_deliver :: "addr \<Rightarrow> cosmos_msg \<Rightarrow> 'x \<Rightarrow> 'x res"
  ext_view :: "'x \<Rightarrow> addr \<Rightarrow> deps"
  ext_calls :: "addr \<Rightarrow> cosmos_msg \<Rightarrow> 'x \<Rightarrow> sub_msg list"
  ext_reply :: "addr \<Rightarrow> u64 \<Rightarrow> 'x \<Rightarrow> ('x \<times> sub_msg list) res"

record ('w, 'rw, 'x) chain_state =
  st_hub :: hub_storage
  st_token :: 'w
  st_reward :: 'rw
  st_ext :: 'x

definition block_env :: "timestamp \<Rightarrow> addr \<Rightarrow> env" where
  "block_env t self = \<lparr>block_time = t, contract_address = self\<rparr>"

definition own :: "('w, 'rw) contracts \<Rightarrow> addr \<Rightarrow> bool" where
  "own D a \<longleftrightarrow> a = ct_hub D \<or> a = ct_token D \<or> a = ct_reward D"

text \<open>A message for the outside: a payment, or a call of a contract that is none of the three.\<close>

fun outgoing :: "('w, 'rw) contracts \<Rightarrow> cosmos_msg \<Rightarrow> bool" where
  "outgoing D (Bank_Send to cs) = True"
| "outgoing D (Wasm_Execute to b fs) = (\<not> own D to)"

text \<open>Who acts next when such a message has been handled: a payment runs no code.\<close>

fun calls_on :: "'x outside \<Rightarrow> addr \<Rightarrow> cosmos_msg \<Rightarrow> 'x \<Rightarrow> addr \<times> sub_msg list" where
  "calls_on X from_addr (Bank_Send to cs) x = (from_addr, [])"
| "calls_on X from_addr (Wasm_Execute to b fs) x = (to, ext_calls X from_addr (Wasm_Execute to b fs) x)"

definition unknown_message :: "'a res" where
  "unknown_message = Inl (Err (Std (ParseErr ''unknown message'')))"

text \<open>
  A message arrives: the new state, and what the contract that received it sends on. Attached
  coins travel before the call, as a payment does.
\<close>

definition enter ::
  "('w, 'rw) contracts \<Rightarrow> 'x outside \<Rightarrow> timestamp \<Rightarrow> addr \<Rightarrow> cosmos_msg \<Rightarrow> ('w, 'rw, 'x) chain_state \<Rightarrow>
   (('w, 'rw, 'x) chain_state \<times> addr \<times> sub_msg list) res" where
  "enter D X t from_addr m s =
     (if outgoing D m then
        rbind (ext_deliver X from_addr m (st_ext s)) (\<lambda>x. Inr (s\<lparr>st_ext := x\<rparr>, calls_on X from_addr m x))
      else case m of
        Bank_Send to cs \<Rightarrow> unknown_message
      | Wasm_Execute to b fs \<Rightarrow>
          rbind (if fs = [] then Inr (st_ext s) else ext_deliver X from_addr (Bank_Send to fs) (st_ext s))
            (\<lambda>x. let s1 = s\<lparr>st_ext := x\<rparr>; i = \<lparr>sender = from_addr, funds = fs\<rparr> in
              if to = ct_token D then
                (case b of
                   WrapperExec w \<Rightarrow>
                     rbind (token_execute D w (ext_view X x to) (block_env t to) i (st_token s1))
                       (\<lambda>(st', r). Inr (s1\<lparr>st_token := st'\<rparr>, to, messages r))
                 | _ \<Rightarrow> unknown_message)
              else if to = ct_reward D then
                (case b of
                   RewardExec w \<Rightarrow>
                     rbind (reward_entry D w (ext_view X x to) (block_env t to) i (st_reward s1))
                       (\<lambda>(st', r). Inr (s1\<lparr>st_reward := st'\<rparr>, to, messages r))
                 | _ \<Rightarrow> unknown_message)
              else
                (case b of
                   HubExec w \<Rightarrow>
                     rbind (hub_execute (ct_arith D) w (ext_view X x to) (block_env t to) i (st_hub s1))
                       (\<lambda>(h, r). Inr (s1\<lparr>st_hub := h\<rparr>, to, messages r))
                 | _ \<Rightarrow> unknown_message)))"

text \<open>Of the three, only the reward contract has a reply entry point.\<close>

definition answer_reply ::
  "('w, 'rw) contracts \<Rightarrow> 'x outside \<Rightarrow> timestamp \<Rightarrow> addr \<Rightarrow> u64 \<Rightarrow> ('w, 'rw, 'x) chain_state \<Rightarrow>
   (('w, 'rw, 'x) chain_state \<times> sub_msg list) res" where
  "answer_reply D X t self reply_id s =
     (if self = ct_reward D then
        rbind (reward_reply D reply_id (ext_view X (st_ext s) self) (block_env t self) (st_reward s))
          (\<lambda>(st', r). Inr (s\<lparr>st_reward := st'\<rparr>, messages r))
      else if own D self then unknown_message
      else rbind (ext_reply X self reply_id (st_ext s)) (\<lambda>(x, subs). Inr (s\<lparr>st_ext := x\<rparr>, subs)))"

definition on_success :: "reply_on \<Rightarrow> bool" where
  "on_success r \<longleftrightarrow> r = Reply_Success \<or> r = Reply_Always"

definition on_error :: "reply_on \<Rightarrow> bool" where
  "on_error r \<longleftrightarrow> r = Reply_Error \<or> r = Reply_Always"

text \<open>
  The messages of one response, in the name of \<open>self\<close>. \<open>depth\<close> bounds how deep calls may nest:
  \<open>None\<close> means that it was exceeded.
\<close>

fun run_msgs ::
  "('w, 'rw) contracts \<Rightarrow> 'x outside \<Rightarrow> timestamp \<Rightarrow> nat \<Rightarrow> addr \<Rightarrow> sub_msg list \<Rightarrow>
   ('w, 'rw, 'x) chain_state \<Rightarrow> ('w, 'rw, 'x) chain_state res option" where
  "run_msgs D X t depth self [] s = Some (Inr s)"
| "run_msgs D X t 0 self (m # ms) s = None"
| "run_msgs D X t (Suc depth) self (m # ms) s =
     (case (case enter D X t self (sm_msg m) s of
              Inl f \<Rightarrow> Some (Inl f)
            | Inr (s1, who, subs) \<Rightarrow> run_msgs D X t depth who subs s1) of
        None \<Rightarrow> None
      | Some (Inl f) \<Rightarrow>
          if on_error (sm_reply_on m) then
            (case answer_reply D X t self (sm_id m) s of
               Inl f' \<Rightarrow> Some (Inl f')
             | Inr (s2, subs) \<Rightarrow>
                 (case run_msgs D X t depth self subs s2 of
                    None \<Rightarrow> None
                  | Some (Inl f') \<Rightarrow> Some (Inl f')
                  | Some (Inr s3) \<Rightarrow> run_msgs D X t (Suc depth) self ms s3))
          else Some (Inl f)
      | Some (Inr s1) \<Rightarrow>
          if on_success (sm_reply_on m) then
            (case answer_reply D X t self (sm_id m) s1 of
               Inl f' \<Rightarrow> Some (Inl f')
             | Inr (s2, subs) \<Rightarrow>
                 (case run_msgs D X t depth self subs s2 of
                    None \<Rightarrow> None
                  | Some (Inl f') \<Rightarrow> Some (Inl f')
                  | Some (Inr s3) \<Rightarrow> run_msgs D X t (Suc depth) self ms s3))
          else run_msgs D X t (Suc depth) self ms s1)"

text \<open>
  A transaction: somebody calls the hub, without coins. (As a message within a transaction, such a call
  is a case of \<open>enter\<close>.)
\<close>

definition call_hub ::
  "('w, 'rw) contracts \<Rightarrow> 'x outside \<Rightarrow> timestamp \<Rightarrow> nat \<Rightarrow> addr \<Rightarrow> hub_execute_msg \<Rightarrow>
   ('w, 'rw, 'x) chain_state \<Rightarrow> ('w, 'rw, 'x) chain_state res option" where
  "call_hub D X t depth caller m s =
     (case hub_execute (ct_arith D) m (ext_view X (st_ext s) (ct_hub D)) (block_env t (ct_hub D))
             \<lparr>sender = caller, funds = []\<rparr> (st_hub s) of
        Inl f \<Rightarrow> Some (Inl f)
      | Inr (h, r) \<Rightarrow> run_msgs D X t depth (ct_hub D) (messages r) (s\<lparr>st_hub := h\<rparr>))"

section \<open>Plain messages\<close>

text \<open>Messages for the outside, sent one after the other.\<close>

fun send_all :: "'x outside \<Rightarrow> addr \<Rightarrow> cosmos_msg list \<Rightarrow> 'x \<Rightarrow> 'x res" where
  "send_all X self [] x = Inr x"
| "send_all X self (m # ms) x = rbind (ext_deliver X self m x) (send_all X self ms)"

lemma send_all_one [simp]: "send_all X self [m] = ext_deliver X self m"
  by (rule ext) (simp add: rbind_def split: sum.split)

lemma send_all_append:
  "send_all X self (ms @ ms') x = rbind (send_all X self ms x) (send_all X self ms')"
  by (induction ms arbitrary: x) (auto simp: rbind_def split: sum.split)

lemma enter_outgoing:
  "outgoing D m \<Longrightarrow> enter D X t self m s =
     rbind (ext_deliver X self m (st_ext s)) (\<lambda>x. Inr (s\<lparr>st_ext := x\<rparr>, calls_on X self m x))"
  by (simp add: enter_def)

text \<open>An outside that sends nothing on when one of the three contracts calls it.\<close>

definition quiet :: "('w, 'rw) contracts \<Rightarrow> 'x outside \<Rightarrow> bool" where
  "quiet D X \<longleftrightarrow> (\<forall>self m x. own D self \<longrightarrow> ext_calls X self m x = [])"

lemma quiet_calls:
  assumes "quiet D X" and "own D self"
  shows "calls_on X self m x = (fst (calls_on X self m x), [])"
  using assms by (cases m) (simp_all add: quiet_def)

lemma enter_quiet:
  assumes "quiet D X" and "own D self" and "outgoing D m"
  obtains (failed) f where "ext_deliver X self m (st_ext s) = Inl f" "enter D X t self m s = Inl f"
  | (delivered) x who where "ext_deliver X self m (st_ext s) = Inr x"
      "enter D X t self m s = Inr (s\<lparr>st_ext := x\<rparr>, who, [])"
proof (cases "ext_deliver X self m (st_ext s)")
  case (Inr x)
  obtain who where "calls_on X self m x = (who, [])" using quiet_calls [OF assms(1,2)] by blast
  with Inr delivered assms(3) show thesis by (simp add: enter_outgoing)
qed (use failed assms(3) in \<open>simp add: enter_outgoing\<close>)

lemma plain_msg [simp]:
  "sm_msg (sub_msg_new m) = m" "on_success (sm_reply_on (sub_msg_new m)) = False"
  "on_error (sm_reply_on (sub_msg_new m)) = False"
  by (simp_all add: sub_msg_new_def on_success_def on_error_def)

lemma run_plain:
  "run_msgs D X t (Suc n) self (sub_msg_new m # rest) s =
    (case (case enter D X t self m s of
             Inl f \<Rightarrow> Some (Inl f)
           | Inr (s1, who, subs) \<Rightarrow> run_msgs D X t n who subs s1) of
       None \<Rightarrow> None
     | Some (Inl f) \<Rightarrow> Some (Inl f)
     | Some (Inr s1) \<Rightarrow> run_msgs D X t (Suc n) self rest s1)"
  by (simp split: option.split sum.split)

text \<open>Calls of the two contracts, without coins.\<close>

lemma enter_token:
  "enter D X t self (Wasm_Execute (ct_token D) (WrapperExec m) []) s =
     rbind (token_execute D m (ext_view X (st_ext s) (ct_token D)) (block_env t (ct_token D))
       \<lparr>sender = self, funds = []\<rparr> (st_token s))
       (\<lambda>(st', r). Inr (s\<lparr>st_token := st'\<rparr>, ct_token D, messages r))"
  by (simp add: enter_def own_def)

lemma enter_reward:
  "ct_token D \<noteq> ct_reward D \<Longrightarrow>
   enter D X t self (Wasm_Execute (ct_reward D) (RewardExec m) []) s =
     rbind (reward_entry D m (ext_view X (st_ext s) (ct_reward D)) (block_env t (ct_reward D))
       \<lparr>sender = self, funds = []\<rparr> (st_reward s))
       (\<lambda>(st', r). Inr (s\<lparr>st_reward := st'\<rparr>, ct_reward D, messages r))"
  by (simp add: enter_def own_def)

lemma run_outgoing:
  assumes "quiet D X" and "own D self" and "\<forall>m \<in> set ms. outgoing D m"
  shows "run_msgs D X t (Suc n) self (map sub_msg_new ms @ rest) s =
    (case send_all X self ms (st_ext s) of
       Inl f \<Rightarrow> Some (Inl f)
     | Inr x \<Rightarrow> run_msgs D X t (Suc n) self rest (s\<lparr>st_ext := x\<rparr>))"
  using assms(3)
proof (induction ms arbitrary: s)
  case (Cons m ms)
  then have "outgoing D m" by simp
  from assms(1,2) this show ?case
    by (cases rule: enter_quiet [where s = s and t = t]) (use Cons in \<open>simp_all split: sum.split\<close>)
qed simp

text \<open>
  The same for the retrieval: only the last message has its reply, which runs in the state that
  the message has left.
\<close>

lemma run_with_reply:
  assumes "quiet D X" and "outgoing D m" and "self = ct_reward D"
  shows "run_msgs D X t (Suc n) self [\<lparr>sm_id = reply_id, sm_msg = m, sm_reply_on = Reply_Success\<rparr>] s =
    (case rbind (ext_deliver X self m (st_ext s)) (\<lambda>x.
        rbind (reward_reply D reply_id (ext_view X x self) (block_env t self) (st_reward s))
          (\<lambda>(st', r). Inr (s\<lparr>st_ext := x, st_reward := st'\<rparr>, messages r))) of
       Inl f \<Rightarrow> Some (Inl f)
     | Inr (s', subs) \<Rightarrow> run_msgs D X t n self subs s')"
proof -
  have "own D self" by (simp add: own_def assms(3))
  from assms(1) this assms(2) show ?thesis
  proof (cases rule: enter_quiet [where s = s and t = t])
    case (delivered x who)
    then show ?thesis
      using assms(3)
      by (cases "reward_reply D reply_id (ext_view X x self) (block_env t self) (st_reward s)")
        (auto simp: on_success_def answer_reply_def split: option.splits sum.splits)
  qed (simp add: on_error_def)
qed

end
