(* ===== verification/Index_Round.thy ===== *)
theory Index_Round
  imports Chain
begin

text \<open>
  The update of the global index across the contracts. \<open>index_round\<close> says what it should do as a
  sequence of five stages on the outside: the wrapper decompounds, its payment is made, the
  reward contract retrieves, and then sells what it holds after the retrieval. The lemmas show that
  the chain, with its nested messages and the reply, does exactly this, for both families of
  contracts.
\<close>

definition reward_orders :: "deps \<Rightarrow> addr \<Rightarrow> 'z reward_storage_scheme \<Rightarrow> cosmos_msg list res" where
  "reward_orders dp self st =
     rbind (read_config st) (\<lambda>c.
     rbind (std_res (bank_all_balances dp self)) (\<lambda>balances.
       Inr (concat (map (sell dp (rc_reward_denom c) st) (for_sale dp self c balances)))))"

text \<open>The hub's own record of the update.\<close>

definition stamp :: "arith \<Rightarrow> timestamp \<Rightarrow> hub_storage \<Rightarrow> hub_storage" where
  "stamp A t h = h\<lparr>hub_state_item :=
     map_option (\<lambda>s. s\<lparr>hs_last_index_modification := ts_seconds A t\<rparr>) (hub_state_item h)\<rparr>"

definition index_round ::
  "('w, 'z reward_storage_scheme) contracts \<Rightarrow> 'x outside \<Rightarrow> timestamp \<Rightarrow>
   (deps \<Rightarrow> cosmos_msg list res) \<Rightarrow> ('w, 'z reward_storage_scheme, 'x) chain_state \<Rightarrow>
   ('w, 'z reward_storage_scheme, 'x) chain_state res" where
  "index_round D X t retrieve s =
     rbind (token_execute D (Decompound (Some (ct_reward D))) (ext_view X (st_ext s) (ct_token D))
              (block_env t (ct_token D)) \<lparr>sender = ct_hub D, funds = []\<rparr> (st_token s)) (\<lambda>(w, r).
     rbind (send_all X (ct_token D) (msgs r) (st_ext s)) (\<lambda>x1.
     rbind (retrieve (ext_view X x1 (ct_reward D))) (\<lambda>ms.
     rbind (send_all X (ct_reward D) ms x1) (\<lambda>x2.
     rbind (reward_orders (ext_view X x2 (ct_reward D)) (ct_reward D) (st_reward s)) (\<lambda>orders.
     rbind (send_all X (ct_reward D) orders x2) (\<lambda>x3.
       Inr (s\<lparr>st_hub := stamp (ct_arith D) t (st_hub s), st_token := w, st_ext := x3\<rparr>)))))))"

text \<open>The addresses: three contracts, none of which is a router or a known token.\<close>

definition wired ::
  "('w, 'z reward_storage_scheme) contracts \<Rightarrow> ('w, 'z reward_storage_scheme, 'x) chain_state \<Rightarrow> bool" where
  "wired D s \<longleftrightarrow> ct_token D \<noteq> ct_reward D \<and>
     (\<exists>hc hs. hub_config_item (st_hub s) = Some hc \<and> hub_state_item (st_hub s) = Some hs \<and>
        hc_reward_contract hc = Some (ct_reward D) \<and> hc_token_contract hc = Some (ct_token D)) \<and>
     (\<exists>c. rs_config (st_reward s) = Some c \<and> rc_hub_contract c = ct_hub D \<and>
        (\<forall>k \<in> set (rc_known_cw20_tokens c). \<not> own D k)) \<and>
     (\<forall>c mt. rs_swap_config (st_reward s) = Some c \<longrightarrow> \<not> own D (router_addr mt c))"

section \<open>Orders go out\<close>

lemma for_sale_info:
  assumes "a \<in> set (for_sale dp self c balances)" and "as_info a = Token k"
  shows "k \<in> set (rc_known_cw20_tokens c)"
  using assms by (auto simp: for_sale_def)

lemma orders_outgoing:
  assumes "wired D s" and "reward_orders dp self (st_reward s) = Inr orders" and "m \<in> set orders"
  shows "outgoing D m"
proof -
  from assms(2,3) obtain c balances a where c: "rs_config (st_reward s) = Some c"
      and a: "a \<in> set (for_sale dp self c balances)"
      and m: "m \<in> set (sell dp (rc_reward_denom c) (st_reward s) a)"
    by (auto simp: reward_orders_def read_config_def res_simps load_eq_Inr)
  from m obtain sc mt where sc: "rs_swap_config (st_reward s) = Some sc"
      and m: "m = swap_order sc a (rc_reward_denom c) mt"
    by (rule sell_mem)
  with assms(1) c for_sale_info [OF a] show ?thesis
    by (cases "as_info a") (auto simp: swap_order_def wired_def)
qed

section \<open>The reward contract's part\<close>

text \<open>A reward contract whose swap request and whose reply do what the round asks for.\<close>

definition serves_swap ::
  "('w, 'z reward_storage_scheme) contracts \<Rightarrow> 'x outside \<Rightarrow> (deps \<Rightarrow> cosmos_msg list res) \<Rightarrow>
   timestamp \<Rightarrow> 'z reward_storage_scheme \<Rightarrow> bool" where
  "serves_swap D X retrieve t st \<longleftrightarrow>
     (\<forall>x. let dp = ext_view X x (ct_reward D);
              entry = reward_entry D SwapToRewardDenom dp (block_env t (ct_reward D))
              \<lparr>sender = ct_hub D, funds = []\<rparr> st
           in case retrieve dp of
                Inl f \<Rightarrow> entry = Inl f
              | Inr ms \<Rightarrow>
                  if ms = [] then
                    rbind entry (\<lambda>(st', r). Inr (st', messages r)) =
                    rbind (reward_orders dp (ct_reward D) st) (\<lambda>orders. Inr (st, map sub_msg_new orders))
                  else
                    (\<forall>m \<in> set ms. outgoing D m) \<and>
                    rbind entry (\<lambda>(st', r). Inr (st', messages r)) =
                    Inr (st, map sub_msg_new (butlast ms) @
                      [\<lparr>sm_id = 1, sm_msg = last ms, sm_reply_on = Reply_Success\<rparr>]) \<and>
                    (\<forall>x'. let dp' = ext_view X x' (ct_reward D) in
                      rbind (reward_reply D 1 dp' (block_env t (ct_reward D)) st)
                             (\<lambda>(st', r). Inr (st', messages r)) =
                      rbind (reward_orders dp' (ct_reward D) st) (\<lambda>orders. Inr (st, map sub_msg_new orders))))"

lemma orders_msgs:
  "run_msgs D X t (Suc n) self (map sub_msg_new ms) s =
     Some (rbind (send_all X self ms (st_ext s)) (\<lambda>x. Inr (s\<lparr>st_ext := x\<rparr>)))"
  if "quiet D X" "own D self" "\<forall>m \<in> set ms. outgoing D m"
  using run_outgoing [OF that, of t n "[]" s] by (simp split: sum.split)

text \<open>What the orders do once they are known to be the messages of an answer.\<close>

lemma run_answer:
  fixes s :: "('w, 'z reward_storage_scheme, 'x) chain_state"
  assumes q: "quiet D X" "own D self" and w: "wired D s" and st: "st_reward s1 = st_reward s" and x: "st_ext s1 = x"
    and eq: "rbind answer (\<lambda>(st', r). Inr (st', messages r)) =
      rbind (reward_orders dp self (st_reward s)) (\<lambda>orders. Inr (st_reward s, map sub_msg_new orders))"
  shows "(case answer of Inl f \<Rightarrow> Some (Inl f)
      | Inr (st', r) \<Rightarrow> run_msgs D X t (Suc n) self (messages r) (s1\<lparr>st_reward := st'\<rparr>)) =
    Some (rbind (reward_orders dp self (st_reward s)) (\<lambda>orders.
      rbind (send_all X self orders x) (\<lambda>x'. Inr (s1\<lparr>st_ext := x'\<rparr>))))"
proof (cases "reward_orders dp self (st_reward s)")
  case (Inl f)
  with eq show ?thesis by (cases answer) auto
next
  case (Inr orders)
  with eq obtain r where "answer = Inr (st_reward s, r)" "messages r = map sub_msg_new orders"
    by (cases answer) auto
  moreover have "\<forall>m \<in> set orders. outgoing D m"
    using orders_outgoing [OF w Inr] by blast
  moreover have "s1\<lparr>st_reward := st_reward s\<rparr> = s1" by (simp flip: st)
  ultimately show ?thesis by (simp add: Inr orders_msgs [OF q] x)
qed

lemma run_swap:
  fixes X :: "'x outside"
  assumes q: "quiet D X" and "wired D s" and "serves_swap D X retrieve t (st_reward s)"
  shows "run_msgs D X t (Suc (Suc (Suc n))) (ct_hub D)
      [sub_msg_new (Wasm_Execute (ct_reward D) (RewardExec SwapToRewardDenom) [])] s =
    Some (rbind (retrieve (ext_view X (st_ext s) (ct_reward D))) (\<lambda>ms.
      rbind (send_all X (ct_reward D) ms (st_ext s)) (\<lambda>x2.
      rbind (reward_orders (ext_view X x2 (ct_reward D)) (ct_reward D) (st_reward s)) (\<lambda>orders.
      rbind (send_all X (ct_reward D) orders x2) (\<lambda>x3. Inr (s\<lparr>st_ext := x3\<rparr>))))))"
proof -
  let ?dp = "ext_view X (st_ext s) (ct_reward D)"
  let ?entry = "reward_entry D SwapToRewardDenom ?dp (block_env t (ct_reward D))
      \<lparr>sender = ct_hub D, funds = []\<rparr> (st_reward s)"
  have own: "own D (ct_reward D)" by (simp add: own_def)
  have call: "run_msgs D X t (Suc (Suc (Suc n))) (ct_hub D)
      [sub_msg_new (Wasm_Execute (ct_reward D) (RewardExec SwapToRewardDenom) [])] s =
    (case ?entry of Inl f \<Rightarrow> Some (Inl f)
     | Inr (st', r) \<Rightarrow> run_msgs D X t (Suc (Suc n)) (ct_reward D) (messages r) (s\<lparr>st_reward := st'\<rparr>))"
    using assms(2)
    by (cases ?entry)
      (simp_all del: run_msgs.simps(3) add: run_plain enter_reward wired_def case_prod_unfold
        split: option.split sum.split)
  show ?thesis
  proof (cases "retrieve ?dp")
    case (Inl f)
    with assms(3) have "?entry = Inl f" by (auto simp: serves_swap_def Let_def split: sum.splits)
    with Inl show ?thesis by (simp del: run_msgs.simps(3) add: call)
  next
    case (Inr ms)
    show ?thesis
    proof (cases "ms = []")
      case True
      with assms(3) Inr have "rbind ?entry (\<lambda>(st', r). Inr (st', messages r)) =
          rbind (reward_orders ?dp (ct_reward D) (st_reward s)) (\<lambda>orders. Inr (st_reward s, map sub_msg_new orders))"
        by (auto simp: serves_swap_def Let_def dest!: spec [of _ "st_ext s"])
      from run_answer [OF q own assms(2) refl refl this, of t "Suc n"] show ?thesis
        by (simp del: run_msgs.simps(3) add: call Inr True)
    next
      case False
      let ?last = "\<lparr>sm_id = 1, sm_msg = last ms, sm_reply_on = Reply_Success\<rparr>"
      from assms(3) Inr False obtain r where out: "\<forall>m \<in> set ms. outgoing D m"
          and entry: "?entry = Inr (st_reward s, r)" "messages r = map sub_msg_new (butlast ms) @ [?last]"
          and reply: "rbind (reward_reply D 1 (ext_view X x (ct_reward D)) (block_env t (ct_reward D)) (st_reward s))
                (\<lambda>(st', r). Inr (st', messages r)) =
              rbind (reward_orders (ext_view X x (ct_reward D)) (ct_reward D) (st_reward s))
                (\<lambda>orders. Inr (st_reward s, map sub_msg_new orders))"
            for x
        by (auto simp: serves_swap_def Let_def rbind_eq_Inr dest!: spec [of _ "st_ext s"])
      have outs: "\<forall>m \<in> set (butlast ms). outgoing D m" "outgoing D (last ms)"
        using out False by (auto dest: in_set_butlastD)
      have all: "send_all X (ct_reward D) ms (st_ext s) =
          rbind (send_all X (ct_reward D) (butlast ms) (st_ext s)) (ext_deliver X (ct_reward D) (last ms))"
        using send_all_append [of X "ct_reward D" "butlast ms" "[last ms]" "st_ext s"] False by simp
      show ?thesis
      proof (cases "rbind (send_all X (ct_reward D) (butlast ms) (st_ext s)) (ext_deliver X (ct_reward D) (last ms))")
        case (Inl f)
        then show ?thesis
          by (auto simp del: run_msgs.simps(3) simp: call entry run_outgoing [OF q own outs(1)] \<open>retrieve ?dp = Inr ms\<close> all rbind_eq_Inl
              run_with_reply [OF q outs(2) refl] split: sum.splits)
      next
        case (Inr x2)
        then obtain x1 where x1: "send_all X (ct_reward D) (butlast ms) (st_ext s) = Inr x1"
            "ext_deliver X (ct_reward D) (last ms) x1 = Inr x2"
          by (auto simp: rbind_eq_Inr)
        show ?thesis
          using run_answer [OF q own assms(2) _ _ reply [of x2],
              where ?s1.0 = "s\<lparr>st_ext := x2\<rparr>" and x = x2 and t = t and n = n]
          by (simp del: run_msgs.simps(3) add: call entry run_outgoing [OF q own outs(1)] \<open>retrieve ?dp = Inr ms\<close> all x1 Inr
              run_with_reply [OF q outs(2) refl])
            (auto simp del: run_msgs.simps(3) split: sum.splits)
      qed
    qed
  qed
qed

section \<open>The whole round\<close>

text \<open>A wrapper whose decompound sends plain messages to the outside.\<close>

definition plain :: "response \<Rightarrow> bool" where
  "plain r \<longleftrightarrow> messages r = map sub_msg_new (msgs r)"

definition serves_decompound ::
  "('w, 'rw) contracts \<Rightarrow> 'x outside \<Rightarrow> timestamp \<Rightarrow> 'w \<Rightarrow> bool" where
  "serves_decompound D X t w \<longleftrightarrow>
     (\<forall>x w' r. token_execute D (Decompound (Some (ct_reward D))) (ext_view X x (ct_token D))
          (block_env t (ct_token D)) \<lparr>sender = ct_hub D, funds = []\<rparr> w = Inr (w', r) \<longrightarrow>
        plain r \<and> (\<forall>m \<in> set (msgs r). outgoing D m))"

theorem round_runs:
  assumes q: "quiet D X" and w: "wired D s" and dec: "serves_decompound D X t (st_token s)"
    and swap: "serves_swap D X retrieve t (st_reward s)"
  shows "call_hub D X t (Suc (Suc (Suc n))) caller UpdateGlobalIndex s =
    Some (index_round D X t retrieve s)"
proof -
  let ?h = "stamp (ct_arith D) t (st_hub s)" and ?hub = "ct_hub D" and ?tk = "ct_token D"
  let ?entry = "token_execute D (Decompound (Some (ct_reward D))) (ext_view X (st_ext s) ?tk)
      (block_env t ?tk) \<lparr>sender = ?hub, funds = []\<rparr> (st_token s)"
  let ?swap = "[sub_msg_new (Wasm_Execute (ct_reward D) (RewardExec SwapToRewardDenom) [])]"
  have own: "own D ?tk" by (simp add: own_def)
  from w obtain r where hub: "hub_execute (ct_arith D) UpdateGlobalIndex (ext_view X (st_ext s) ?hub)
        (block_env t ?hub) \<lparr>sender = caller, funds = []\<rparr> (st_hub s) = Inr (?h, r)"
      and r: "messages r = sub_msg_new (Wasm_Execute ?tk (WrapperExec (Decompound (Some (ct_reward D)))) []) # ?swap"
    by (auto simp: wired_def execute_update_global_def load_hub_config_def load_hub_state_def stamp_def
        block_env_def add_messages_def add_attributes_def response_new_def load_def)
  have call: "call_hub D X t (Suc (Suc (Suc n))) caller UpdateGlobalIndex s =
    (case (case ?entry of Inl f \<Rightarrow> Some (Inl f)
       | Inr (w', r) \<Rightarrow> run_msgs D X t (Suc (Suc n)) ?tk (messages r) (s\<lparr>st_hub := ?h, st_token := w'\<rparr>)) of
       None \<Rightarrow> None
     | Some (Inl f) \<Rightarrow> Some (Inl f)
     | Some (Inr s1) \<Rightarrow> run_msgs D X t (Suc (Suc (Suc n))) ?hub ?swap s1)"
    by (cases ?entry)
      (simp_all del: run_msgs.simps(3) hub_execute.simps add: call_hub_def hub r run_plain enter_token case_prod_unfold)
  show ?thesis
  proof (cases ?entry)
    case (Inl f)
    then show ?thesis by (simp add: call index_round_def)
  next
    case (Inr y)
    obtain w' r' where entry: "?entry = Inr (w', r')" using Inr by (cases y) simp
    with dec have plain: "messages r' = map sub_msg_new (msgs r')" "\<forall>m \<in> set (msgs r'). outgoing D m"
      by (auto simp: serves_decompound_def plain_def)
    show ?thesis
    proof (cases "send_all X ?tk (msgs r') (st_ext s)")
      case (Inl f)
      then show ?thesis
        by (simp del: run_msgs.simps(3)
            add: call entry index_round_def plain(1) orders_msgs [OF q own plain(2)])
    next
      case (Inr x1)
      let ?s1 = "s\<lparr>st_hub := ?h, st_token := w', st_ext := x1\<rparr>"
      have "wired D ?s1" using w by (auto simp: wired_def stamp_def)
      moreover have "serves_swap D X retrieve t (st_reward ?s1)" using swap by simp
      ultimately show ?thesis
        using Inr run_swap [OF q, of ?s1 retrieve t n]
        by (simp del: run_msgs.simps(3) add: call entry index_round_def plain(1) orders_msgs [OF q own plain(2)] rbind_assoc)
    qed
  qed
qed

section \<open>The two families of contracts\<close>

text \<open>The wrapper token with the reward contract that swaps at once.\<close>

definition plain_contracts ::
  "arith \<Rightarrow> 'tok cw20_base \<Rightarrow> ('raw, 'cfg) lsd_hub \<Rightarrow> addr \<Rightarrow> addr \<Rightarrow> addr \<Rightarrow>
   (('cfg, 'tok) wrapper_storage, 'z reward_storage_scheme) contracts" where
  "plain_contracts A C H hub token reward =
     \<lparr>ct_hub = hub, ct_token = token, ct_reward = reward, ct_arith = A,
      token_execute = wrapper_execute A C H, reward_entry = reward_execute,
      reward_reply = (\<lambda>reply_id dp e st. unknown_message)\<rparr>"

text \<open>The wrapper token with a yearly limit and the reward contract that retrieves first.\<close>

definition retrieving_contracts ::
  "arith \<Rightarrow> 'tok cw20_base \<Rightarrow> ('raw, 'cfg) lsd_hub \<Rightarrow> ('raw2, 'rc) execute_with_swap_reply \<Rightarrow>
   addr \<Rightarrow> addr \<Rightarrow> addr \<Rightarrow> (('cfg, 'tok) limited_storage, 'rc custom_storage) contracts" where
  "retrieving_contracts A C H T hub token reward =
     \<lparr>ct_hub = hub, ct_token = token, ct_reward = reward, ct_arith = A,
      token_execute = limited_execute A C H, reward_entry = custom_execute T,
      reward_reply = custom_reply\<rparr>"

lemma contracts_simps [simp]:
  "ct_hub (plain_contracts A C H hub token reward) = hub"
  "ct_token (plain_contracts A C H hub token reward) = token"
  "ct_reward (plain_contracts A C H hub token reward) = reward"
  "ct_arith (plain_contracts A C H hub token reward) = A"
  "token_execute (plain_contracts A C H hub token reward) = wrapper_execute A C H"
  "reward_entry (plain_contracts A C H hub token reward) = reward_execute"
  "ct_hub (retrieving_contracts A C' H' T hub token reward) = hub"
  "ct_token (retrieving_contracts A C' H' T hub token reward) = token"
  "ct_reward (retrieving_contracts A C' H' T hub token reward) = reward"
  "ct_arith (retrieving_contracts A C' H' T hub token reward) = A"
  "token_execute (retrieving_contracts A C' H' T hub token reward) = limited_execute A C' H'"
  "reward_entry (retrieving_contracts A C' H' T hub token reward) = custom_execute T"
  "reward_reply (retrieving_contracts A C' H' T hub token reward) = custom_reply"
  by (simp_all add: plain_contracts_def retrieving_contracts_def)

text \<open>An LSD that is none of the three contracts.\<close>

definition foreign_asset :: "('w, 'rw) contracts \<Rightarrow> asset_info \<Rightarrow> bool" where
  "foreign_asset D a \<longleftrightarrow> (\<forall>k. a = Token k \<longrightarrow> \<not> own D k)"

lemma foreign_transfer: "foreign_asset D a \<Longrightarrow> outgoing D (lsd_transfer a to n)"
  by (cases a) (simp_all add: foreign_asset_def)

lemma plain_simps [simp]: "plain (add_messages ms r) = plain r" "plain (add_attributes as r) = plain r"
  "plain response_new"
  by (auto simp: plain_def add_messages_def add_attributes_def response_new_def msgs_def sub_msg_new_def comp_def)

lemma decompound_plain: "execute_decompound A C H recipient dp e i st = Inr (st', r) \<Longrightarrow> plain r"
  and limited_decompound_plain: "limited_decompound A C H recipient dp e i lt = Inr (lt', r) \<Longrightarrow> plain r"
  by (auto simp: execute_decompound_def limited_decompound_def decompound_response_def rbind_eq_Inr Let_def
      split: if_splits)

context wrapper_env
begin

lemma serves_plain_decompound:
  assumes "\<And>cfg. ws_lsd_config w = Some cfg \<Longrightarrow> foreign_asset D (asset cfg)"
    and D: "D = plain_contracts A C H h tk rw"
  shows "serves_decompound D X t w"
proof (unfold serves_decompound_def, intro allI impI conjI)
  fix x w' r
  assume "token_execute D (Decompound (Some (ct_reward D))) (ext_view X x (ct_token D))
    (block_env t (ct_token D)) \<lparr>sender = ct_hub D, funds = []\<rparr> w = Inr (w', r)"
  then have run: "execute_decompound A C H (Some rw) (ext_view X x tk) (block_env t tk)
      \<lparr>sender = h, funds = []\<rparr> w = Inr (w', r)" by (simp add: D)
  then show "plain r" by (rule decompound_plain)
  from run show "\<forall>m \<in> set (msgs r). outgoing D m"
    by (rule decompound_ok) (use assms in \<open>auto simp: foreign_transfer\<close>)
qed

lemma serves_limited_decompound:
  assumes "\<And>cfg. ws_lsd_config w = Some cfg \<Longrightarrow>
    foreign_asset (retrieving_contracts A C H T h tk rw) (asset cfg)"
  shows "serves_decompound (retrieving_contracts A C H T h tk rw) X t w" (is "serves_decompound ?D X t w")
proof (unfold serves_decompound_def, intro allI impI conjI)
  fix x w' r
  assume "token_execute ?D (Decompound (Some (ct_reward ?D))) (ext_view X x (ct_token ?D))
    (block_env t (ct_token ?D)) \<lparr>sender = ct_hub ?D, funds = []\<rparr> w = Inr (w', r)"
  then have run: "limited_decompound A C H (Some rw) (ext_view X x tk) (block_env t tk)
      \<lparr>sender = h, funds = []\<rparr> w = Inr (w', r)" by simp
  then show "plain r" by (rule limited_decompound_plain)
  from run show "\<forall>m \<in> set (msgs r). outgoing ?D m"
    by (rule limited_decompound_ok) (use assms in \<open>auto simp: foreign_transfer\<close>)
qed

end

lemma swap_balances_orders:
  "rs_config st = Some c \<Longrightarrow>
   rbind (swap_balances dp e c st) (\<lambda>(st', r). Inr (st', messages r)) =
   rbind (reward_orders dp (contract_address e) st) (\<lambda>orders. Inr (st, map sub_msg_new orders))"
  by (cases "bank_all_balances dp (contract_address e)")
    (auto simp: reward_orders_def read_config_def load_def swap_balances_def Let_def
      swap_messages_of_eq query_all_cw20_balances_eq for_sale_def filter_map comp_def
      eq_commute [of "rc_reward_denom c"] add_messages_def add_attributes_def response_new_def)

lemma serves_plain_swap:
  assumes "wired (plain_contracts A C H h tk rw) s"
  shows "serves_swap (plain_contracts A C H h tk rw) X (\<lambda>dp. Inr []) t (st_reward s)"
proof -
  from assms obtain c where c: "rs_config (st_reward s) = Some c" "rc_hub_contract c = h"
    by (auto simp: wired_def)
  then show ?thesis
    by (simp add: serves_swap_def execute_swap_def read_config_def load_def swap_balances_orders [OF c(1)]
        block_env_def)
qed

text \<open>So the round of the plain family is the straight sequence, without retrieval.\<close>

lemma plain_round:
  assumes "wrapper_env A C H asset" and "wired D s" and "D = plain_contracts A C H hub token reward"
    and "ws_lsd_config (st_token s) = Some cfg" and "foreign_asset D (asset cfg)" and "quiet D X"
  shows "call_hub D X t (Suc (Suc (Suc n))) caller UpdateGlobalIndex s =
    Some (index_round D X t (\<lambda>dp. Inr []) s)"
proof (rule round_runs [OF assms(6,2)])
  show "serves_decompound D X t (st_token s)"
    by (rule wrapper_env.serves_plain_decompound [OF assms(1) _ assms(3)]) (use assms(4,5) in simp)
  show "serves_swap D X (\<lambda>dp. Inr []) t (st_reward s)"
    using serves_plain_swap assms(2,3) by blast
qed

text \<open>Retrieval messages that stay outside, whatever the outside answers.\<close>

definition retrieves_outside ::
  "('w, 'rc custom_storage) contracts \<Rightarrow> 'x outside \<Rightarrow> ('raw, 'rc) execute_with_swap_reply \<Rightarrow>
   timestamp \<Rightarrow> 'rc custom_storage \<Rightarrow> bool" where
  "retrieves_outside D X T t st \<longleftrightarrow>
     (\<forall>x ms. get_retrieve_messages T (ext_view X x (ct_reward D)) (block_env t (ct_reward D)) st = Inr ms \<longrightarrow>
        (\<forall>m \<in> set ms. outgoing D m))"

lemma serves_custom_swap:
  assumes "wired (retrieving_contracts A C H T h tk rw) s"
    and "retrieves_outside (retrieving_contracts A C H T h tk rw) X T t (st_reward s)"
  shows "serves_swap (retrieving_contracts A C H T h tk rw) X
    (\<lambda>dp. get_retrieve_messages T dp (block_env t rw) (st_reward s)) t (st_reward s)"
proof -
  from assms(1) obtain c where c: "rs_config (st_reward s) = Some c" "rc_hub_contract c = h"
    by (auto simp: wired_def)
  have last: "butlast (map sub_msg_new ms) @ [(last (map sub_msg_new ms))\<lparr>sm_id := 1, sm_reply_on := Reply_Success\<rparr>]
      = map sub_msg_new (butlast ms) @ [\<lparr>sm_id = 1, sm_msg = last ms, sm_reply_on = Reply_Success\<rparr>]"
    if "ms \<noteq> []" for ms
    using that by (simp add: map_butlast last_map sub_msg_new_def)
  show ?thesis
    using assms(2) c
    by (auto simp: serves_swap_def retrieves_outside_def execute_retrieve_normal_tokens_def
        custom_swap custom_reply_def retrieve_normal_tokens_operation_def
        read_config_def load_def Let_def swap_balances_orders [OF c(1)] block_env_def
        reply_on_last_def add_submessages_def response_new_def last split: sum.split)
qed

end
