(* ===== verification/Lsd_Flow.thy ===== *)
theory Lsd_Flow
  imports Lsd_Hub_Trait
begin

text \<open>
  The environment of a wrapper contract: what the messages it emits do to its own balance of the
  LSD token. The bank module and CW20 tokens move exactly the amount they are told to, or fail
  when the sender holds less; a failed message undoes the whole transaction.
\<close>

definition coin_total :: "string \<Rightarrow> coin list \<Rightarrow> nat" where
  "coin_total d cs = sum_list (map (\<lambda>c. unat (coin_amount c)) (filter (\<lambda>c. coin_denom c = d) cs))"

fun lsd_debit :: "asset_info \<Rightarrow> addr \<Rightarrow> cosmos_msg \<Rightarrow> nat" where
  "lsd_debit (NativeToken d) self (Bank_Send to cs) = coin_total d cs"
| "lsd_debit (NativeToken d) self (Wasm_Execute c b fs) = coin_total d fs"
| "lsd_debit (Token t) self (Wasm_Execute c (Cw20Exec (Cw20_Transfer to a)) fs) =
     (if c = t then unat a else 0)"
| "lsd_debit (Token t) self (Wasm_Execute c (Cw20Exec (Cw20_Send to a b)) fs) =
     (if c = t then unat a else 0)"
| "lsd_debit (Token t) self (Wasm_Execute c (Cw20Exec (Cw20_TransferFrom owner to a)) fs) =
     (if c = t \<and> owner = self then unat a else 0)"
| "lsd_debit (Token t) self m = 0"

fun lsd_credit :: "asset_info \<Rightarrow> addr \<Rightarrow> cosmos_msg \<Rightarrow> nat" where
  "lsd_credit (NativeToken d) self (Bank_Send to cs) = (if to = self then coin_total d cs else 0)"
| "lsd_credit (NativeToken d) self (Wasm_Execute c b fs) = (if c = self then coin_total d fs else 0)"
| "lsd_credit (Token t) self (Wasm_Execute c (Cw20Exec (Cw20_Transfer to a)) fs) =
     (if c = t \<and> to = self then unat a else 0)"
| "lsd_credit (Token t) self (Wasm_Execute c (Cw20Exec (Cw20_Send to a b)) fs) =
     (if c = t \<and> to = self then unat a else 0)"
| "lsd_credit (Token t) self (Wasm_Execute c (Cw20Exec (Cw20_TransferFrom owner to a)) fs) =
     (if c = t \<and> to = self then unat a else 0)"
| "lsd_credit (Token t) self m = 0"

text \<open>Running the messages in order on the contract's balance; \<open>None\<close> is a failed transaction.\<close>

fun lsd_run :: "asset_info \<Rightarrow> addr \<Rightarrow> cosmos_msg list \<Rightarrow> nat \<Rightarrow> nat option" where
  "lsd_run as self [] n = Some n"
| "lsd_run as self (m # ms) n =
     (if lsd_debit as self m \<le> n
      then lsd_run as self ms (n - lsd_debit as self m + lsd_credit as self m)
      else None)"

lemma coin_total_simps [simp]:
  "coin_total d [] = 0"
  "coin_total d (c # cs) = (if coin_denom c = d then unat (coin_amount c) else 0) + coin_total d cs"
  by (simp_all add: coin_total_def)

lemma lsd_attached_native: "lsd_attached (NativeToken d) i = coin_total d (funds i)"
  by (simp add: coin_total_def)

text \<open>Paying out moves the amount to another holder, and nothing when the contract pays itself.\<close>

lemma lsd_run_transfer:
  "lsd_run as self [lsd_transfer as to l] n =
     (if unat l \<le> n then Some (if to = self then n else n - unat l) else None)"
  by (cases as) auto

text \<open>Pulling from another holder brings the amount in.\<close>

lemma lsd_run_pull_token:
  "owner \<noteq> self \<Longrightarrow> lsd_run (Token t) self (lsd_pull (Token t) owner self l) n = Some (n + unat l)"
  by simp

text \<open>The receive hook of another token moves no LSD.\<close>

lemma lsd_run_receive: "lsd_run as self [Wasm_Execute c (Cw20Receive s a b) []] n = Some n"
  by (cases as) auto

text \<open>The receive hook of a token: it gives control to a contract that the caller chose.\<close>

fun hook :: "cosmos_msg \<Rightarrow> bool" where
  "hook (Wasm_Execute c (Cw20Receive s a b) fs) = (fs = [])"
| "hook m = False"

lemma hookE:
  assumes "hook m"
  obtains c s a b where "m = Wasm_Execute c (Cw20Receive s a b) []"
  using assms by (cases m rule: hook.cases) auto

lemma lsd_run_hooks: "\<forall>m \<in> set ms. hook m \<Longrightarrow> lsd_run as self ms n = Some n"
proof (induction ms)
  case (Cons m ms)
  then have "lsd_run as self [m] n = Some n" by (auto elim!: hookE simp: lsd_run_receive simp del: lsd_run.simps)
  with Cons show ?case by (auto split: if_splits)
qed simp

end
