(* ===== verification/Wrapper_System.thy ===== *)
theory Wrapper_System
  imports Wrapper_Laws Lsd_Flow
begin

text \<open>
  The wrapper contract in its environment. A world is the contract's storage, its LSD balance and
  the current exchange rate (in atomic units). A step is one of
  \<^item> a call: the handler runs in a block whose oracle reports the current rate, on a balance that
    already includes the attached coins; the messages it emits then move LSD;
  \<^item> an accrual: the exchange rate grows, as it does while nothing is slashed;
  \<^item> a gift: somebody sends LSD to the contract.
  The contract never calls itself (\<open>no_self_call\<close> below), so the caller is another account.
\<close>

record ('cfg, 'tok) world =
  wd_storage :: "('cfg, 'tok) wrapper_storage"
  wd_lsd :: nat
  wd_rate :: nat

definition vault_of :: "'tok cw20_base \<Rightarrow> ('cfg, 'tok) world \<Rightarrow> vault" where
  "vault_of C w = \<lparr>v_lsd = wd_lsd w, v_supply = token_supply C (ws_cw20 (wd_storage w))\<rparr>"

inductive wrapper_step ::
  "arith \<Rightarrow> 'tok cw20_base \<Rightarrow> ('raw, 'cfg) lsd_hub \<Rightarrow> ('cfg \<Rightarrow> asset_info) \<Rightarrow> addr \<Rightarrow>
   ('cfg, 'tok) world \<Rightarrow> ('cfg, 'tok) world \<Rightarrow> bool"
  for A C H asset self where
  call: "wrapper_execute A C H m dp e i (wd_storage w) = Inr (st', r) \<Longrightarrow>
    contract_address e = self \<Longrightarrow> sender i \<noteq> self \<Longrightarrow>
    ws_lsd_config (wd_storage w) = Some cfg \<Longrightarrow>
    (\<And>b. lsd_balance (asset cfg) dp self = Inr b \<Longrightarrow>
      unat b = wd_lsd w + lsd_attached (asset cfg) i) \<Longrightarrow>
    (\<And>q. query_exchange_rate H cfg dp e = Inr q \<Longrightarrow> atoms q = wd_rate w) \<Longrightarrow>
    lsd_run (asset cfg) self (msgs r) (wd_lsd w + lsd_attached (asset cfg) i) = Some n' \<Longrightarrow>
    wrapper_step A C H asset self w (w\<lparr>wd_storage := st', wd_lsd := n'\<rparr>)"
| accrue: "wd_rate w \<le> r' \<Longrightarrow> wrapper_step A C H asset self w (w\<lparr>wd_rate := r'\<rparr>)"
| gift: "wrapper_step A C H asset self w (w\<lparr>wd_lsd := wd_lsd w + g\<rparr>)"

inductive_cases wrapper_stepE: "wrapper_step A C H asset self w w'"

context wrapper_env
begin

text \<open>No handler addresses a wrapper message to anybody, so not to the wrapper either.\<close>

lemma no_self_call:
  assumes "wrapper_execute A C H m dp e i st = Inr (st', r)"
  shows "Wasm_Execute c (WrapperExec x) fs \<notin> set (msgs r)"
proof -
  have transfer: "Wasm_Execute c (WrapperExec x) fs \<notin> set [lsd_transfer as to l]" for as to l
    by (cases as) auto
  have pull: "Wasm_Execute c (WrapperExec x) fs \<notin> set (lsd_pull as ow s l)" for as ow s l
    by (cases as) auto
  show ?thesis
    using assms
    by (cases m)
      (auto simp: execute_transfer_def execute_send_def execute_transfer_from_def
        execute_send_from_def on_cw20_ok simp del: lsd_transfer.simps
        dest!: tok.supply_kept tok.send tok.send_from hub.deposit_msgs
        dest: transfer [simplified, THEN notE] pull [THEN notE]
        elim!: burn_ok burn_from_ok burn_all_ok mint_ok mint_with_ok decompound_ok)
qed

text \<open>
  The LSD that a deposit of \<open>a\<close> brings in: exactly so much of a token, and all that is attached of a coin.
\<close>

lemma deposit_brings:
  assumes "deposit_funds H cfg dp e i a (sender i) = Inr ms"
    and "contract_address e = self" and "sender i \<noteq> self"
    and "lsd_run (asset cfg) self ms (n + lsd_attached (asset cfg) i) = Some n'"
  obtains l where "n' = n + l"
    "case asset cfg of Token t \<Rightarrow> l = unat a
     | NativeToken d \<Rightarrow> l = lsd_attached (asset cfg) i \<and> unat a \<le> l"
  using assms(1)
proof (cases rule: hub.deposit_amount)
  case (pulled t)
  with assms(2-4) show thesis by (intro that [of "unat a"]) auto
next
  case (attached d)
  with assms(4) show thesis by (intro that [of "lsd_attached (asset cfg) i"]) auto
qed

lemma deposit_run:
  assumes "deposit_funds H cfg dp e i a (sender i) = Inr ms"
    and "lsd_run (asset cfg) self ms (n + lsd_attached (asset cfg) i) = Some n'"
    and "contract_address e = self" and "sender i \<noteq> self"
  obtains l where "unat a \<le> l" "n' = n + l"
proof -
  from assms(1,3,4,2) obtain l where "n' = n + l"
      "case asset cfg of Token t \<Rightarrow> l = unat a | NativeToken d \<Rightarrow> l = lsd_attached (asset cfg) i \<and> unat a \<le> l"
    by (rule deposit_brings)
  then show thesis by (intro that [of l]) (auto split: asset_info.splits)
qed

text \<open>Paying out after the attached coins have arrived: a receipt and then the payment.\<close>

lemma payout_steps:
  assumes "lsd_run as self [lsd_transfer as to l] (n + k) = Some n'"
    and receive: "\<And>x y z. R \<lparr>v_lsd = x, v_supply = y\<rparr> \<lparr>v_lsd = x + z, v_supply = y\<rparr>"
    and pay: "\<And>m. l' = unat l \<Longrightarrow> l' \<le> m \<Longrightarrow> m = n + k \<Longrightarrow>
      R \<lparr>v_lsd = m, v_supply = a\<rparr> \<lparr>v_lsd = m - l', v_supply = a'\<rparr>"
    and self: "to = self \<Longrightarrow> R \<lparr>v_lsd = n + k, v_supply = a\<rparr> \<lparr>v_lsd = n + k, v_supply = a'\<rparr>"
    and "l' = unat l"
  shows "R\<^sup>*\<^sup>* \<lparr>v_lsd = n, v_supply = a\<rparr> \<lparr>v_lsd = n', v_supply = a'\<rparr>"
proof -
  have "R \<lparr>v_lsd = n, v_supply = a\<rparr> \<lparr>v_lsd = n + k, v_supply = a\<rparr>" by (rule receive)
  moreover have "R \<lparr>v_lsd = n + k, v_supply = a\<rparr> \<lparr>v_lsd = n', v_supply = a'\<rparr>"
    using assms(1) pay [OF assms(5), of "n + k"] self assms(5)
    by (auto simp: lsd_run_transfer simp del: lsd_run.simps split: if_splits)
  ultimately show ?thesis by (meson r_into_rtranclp rtranclp_trans)
qed

text \<open>
  What a successful call can be, as far as the LSD and the supply are concerned: nothing but receive
  hooks, a payment to the caller against destroyed units, a deposit against new units, or a decompound.
\<close>

lemma call_cases:
  assumes ex: "wrapper_execute A C H m dp e i st = Inr (st', r)" and cfg: "ws_lsd_config st = Some cfg"
  obtains (still) "token_supply C (ws_cw20 st') = token_supply C (ws_cw20 st)" "\<forall>x \<in> set (msgs r). hook x"
  | (burnt) q l a where "query_exchange_rate H cfg dp e = Inr q" "unat l = lsd_for (atoms q) a"
      "msgs r = [lsd_transfer (asset cfg) (sender i) l]"
      "token_supply C (ws_cw20 st) = token_supply C (ws_cw20 st') + a"
  | (minted) q l a where "query_exchange_rate H cfg dp e = Inr q"
      "deposit_funds H cfg dp e i l (sender i) = Inr (msgs r)" "a * dec_unit \<le> unat l * atoms q"
      "token_supply C (ws_cw20 st') = token_supply C (ws_cw20 st) + a"
  | (skimmed) rc q b to l where "m = Decompound rc" "ws_hub_contract st = Some (sender i)"
      "token_supply C (ws_cw20 st') = token_supply C (ws_cw20 st)"
      "query_exchange_rate H cfg dp e = Inr q" "0 < atoms q"
      "lsd_balance (asset cfg) dp (contract_address e) = Inr b"
      "case rc of None \<Rightarrow> to = sender i | Some x \<Rightarrow> addr_validate dp x = Inr to"
      "msgs r = [lsd_transfer (asset cfg) to l]" "0 < unat l"
      "unat l = lsd_excess (atoms q) (unat b) (token_supply C (ws_cw20 st)) - 1"
proof (cases m)
  case (Burn a)
  with ex have "execute_burn A C H a dp e i st = Inr (st', r)" by simp
  then show thesis by (rule burn_ok) (use cfg burnt in auto)
next
  case BurnAll
  with ex have "execute_burn_all A C H dp e i st = Inr (st', r)" by simp
  then show thesis
  proof (cases rule: burn_all_ok)
    case (positive a)
    from positive(3) show thesis by (rule burn_ok) (use cfg burnt in auto)
  qed (use still in simp)
next
  case (BurnFrom ow a)
  with ex have "execute_burn_from A C H ow a dp e i st = Inr (st', r)" by simp
  then show thesis by (rule burn_from_ok) (use cfg burnt in auto)
next
  case (Mint rc a)
  with ex have "execute_mint A C H rc a dp e i st = Inr (st', r)" by simp
  then show thesis by (rule mint_ok) (use cfg lsd_for_plus_one minted in fastforce)
next
  case (MintWith rc l)
  with ex have "execute_mint_with A C H rc l dp e i st = Inr (st', r)" by simp
  then show thesis by (rule mint_with_ok) (use cfg wrapped_for_le minted in fastforce)
next
  case (Decompound rc)
  with ex have "execute_decompound A C H rc dp e i st = Inr (st', r)" by simp
  then show thesis
    by (cases rule: decompound_ok) (use Decompound cfg still skimmed in auto)
qed (use ex still in \<open>auto simp: execute_transfer_def execute_send_def execute_transfer_from_def
    execute_send_from_def on_cw20_ok dest!: tok.supply_kept tok.send tok.send_from\<close>)

text \<open>
  A call refines the abstract vault: what the handler and its messages do to the LSD balance and
  to the total supply is a sequence of vault steps at the current rate.
\<close>

lemma call_refines:
  assumes ex: "wrapper_execute A C H m dp e i st = Inr (st', r)"
    and self: "contract_address e = self" and caller: "sender i \<noteq> self"
    and cfg: "ws_lsd_config st = Some cfg"
    and bal: "\<And>b. lsd_balance (asset cfg) dp self = Inr b \<Longrightarrow>
        unat b = n + lsd_attached (asset cfg) i"
    and rt: "\<And>q. query_exchange_rate H cfg dp e = Inr q \<Longrightarrow> atoms q = rt"
    and run: "lsd_run (asset cfg) self (msgs r) (n + lsd_attached (asset cfg) i) = Some n'"
  shows "(vault_step rt)\<^sup>*\<^sup>* \<lparr>v_lsd = n, v_supply = token_supply C (ws_cw20 st)\<rparr>
    \<lparr>v_lsd = n', v_supply = token_supply C (ws_cw20 st')\<rparr>"
proof -
  let ?v = "\<lambda>x y. \<lparr>v_lsd = x, v_supply = y\<rparr>" and ?s = "token_supply C (ws_cw20 st)"
    and ?s' = "token_supply C (ws_cw20 st')" and ?k = "lsd_attached (asset cfg) i"
  have receive: "vault_step rt (?v x y) (?v (x + z) y)" for x y z
    using vault_step.receive [of rt "?v x y" z] by simp
  have deposit: "vault_step rt (?v x y) (?v (x + l) (y + a))" if "a * dec_unit \<le> l * rt" for x y l a
    using vault_step.deposit [OF that, of "?v x y"] by simp
  have redeem: "vault_step rt (?v x y) (?v (x - l) (y - a))"
    if "l * rt \<le> a * dec_unit" "l \<le> x" "a \<le> y" for x y l a
    using vault_step.redeem [OF that(1), of "?v x y"] that by simp
  have skim: "vault_step rt (?v x y) (?v (x - l) y)" if "l \<le> x" "y * dec_unit \<le> (x - l) * rt" for x y l
    using vault_step.skim [of l "?v x y" rt] that by simp
  from ex cfg show ?thesis
  proof (cases rule: call_cases)
    case still
    then have "n' = n + ?k" using run lsd_run_hooks by simp
    then show ?thesis using receive [of n ?s ?k] still(1) by simp
  next
    case (burnt q l a)
    show ?thesis
    proof (rule payout_steps [where l' = "unat l" and l = l and k = ?k and to = "sender i" and as = "asset cfg"])
      show "lsd_run (asset cfg) self [lsd_transfer (asset cfg) (sender i) l] (n + ?k) = Some n'"
        using run burnt(3) by simp
      have "unat l * rt \<le> a * dec_unit" using lsd_for_le burnt(2) rt [OF burnt(1)] by simp
      then show "vault_step rt (?v x ?s) (?v (x - unat l) ?s')" if "unat l \<le> x" for x
        using redeem [of "unat l" a x ?s] that burnt(4) by simp
    qed (use caller receive in auto)
  next
    case (minted q l a)
    obtain got where got: "unat l \<le> got" "n' = n + got"
      using deposit_run [OF minted(2) run self caller] by blast
    then have "a * dec_unit \<le> got * rt" using minted(3) rt [OF minted(1)] by (meson le_trans mult_le_mono1)
    from deposit [OF this, of n ?s] show ?thesis using got minted(4) by (simp add: r_into_rtranclp)
  next
    case (skimmed rc q b to l)
    have q: "atoms q = rt" and b: "unat b = n + ?k" using rt skimmed(4,6) bal self by auto
    have enough: "?s * dec_unit \<le> (n + ?k - unat l) * rt"
      using skim_leaves_backed [of rt "unat b" ?s "unat l"] skimmed q b by auto
    show ?thesis
    proof (rule payout_steps [where l' = "unat l" and l = l and k = ?k and to = to and as = "asset cfg"])
      show "lsd_run (asset cfg) self [lsd_transfer (asset cfg) to l] (n + ?k) = Some n'"
        using run skimmed(8) by simp
      show "vault_step rt (?v x ?s) (?v (x - unat l) ?s')" if "unat l \<le> x" "x = n + ?k" for x
        using skim [OF that(1), of ?s] enough that skimmed(3) by simp
      show "vault_step rt (?v (n + ?k) ?s) (?v (n + ?k) ?s')"
        using receive [of "n + ?k" ?s 0] skimmed(3) by simp
    qed (use receive in auto)
  qed
qed

lemma step_refines:
  assumes "wrapper_step A C H asset self w w'"
  shows "wd_rate w \<le> wd_rate w' \<and> (vault_step (wd_rate w))\<^sup>*\<^sup>* (vault_of C w) (vault_of C w')"
  using assms
proof cases
  case (call m dp e i st' r cfg n')
  then show ?thesis using call_refines [OF call(2-6) _ call(8), of "wd_rate w"] by (simp add: vault_of_def)
next
  case (gift g)
  then show ?thesis
    using vault_step.receive [of "wd_rate w" "vault_of C w" g] by (simp add: vault_of_def r_into_rtranclp)
qed (simp add: vault_of_def)

lemma vault_steps_backed: "(vault_step rt)\<^sup>*\<^sup>* v v' \<Longrightarrow> backed rt v \<Longrightarrow> backed rt v'"
  by (induction rule: rtranclp_induct) (auto intro: vault_step_backed)

lemma step_backed:
  assumes "wrapper_step A C H asset self w w'" and "backed (wd_rate w) (vault_of C w)"
  shows "backed (wd_rate w') (vault_of C w')"
  using step_refines [OF assms(1)] assms(2) vault_steps_backed backed_rate_mono by blast

lemma run_backed:
  assumes "(wrapper_step A C H asset self)\<^sup>*\<^sup>* w w'" and "backed (wd_rate w) (vault_of C w)"
  shows "backed (wd_rate w') (vault_of C w')"
  using assms by (induction rule: rtranclp_induct) (auto intro: step_backed)

end

end
