(* ===== verification/Coin_Hub.thy ===== *)
theory Coin_Hub
  imports Wrapper_Laws
begin

text \<open>
  LSD tokens that are native coins (\<open>wrapper_implementations/src/coin.rs\<close>), used by the contract
  \<open>cavern-lsd-wrapper\<close>. Their exchange rate is not known on chain and comes from a price oracle
  (\<open>basset/src/price_querier.rs\<close>).
\<close>

section \<open>The price oracle (price\_querier.rs)\<close>

record time_constraints =
  tc_block_time :: u64
  tc_valid_timeframe :: u64

definition query_price ::
  "deps \<Rightarrow> addr \<Rightarrow> string \<Rightarrow> string \<Rightarrow> time_constraints option \<Rightarrow> price_response res" where
  "query_price dp oracle_addr base quote time_constraints =
     rbind (query_as dp a_price oracle_addr (Q_Oracle (Oracle_QPrice base quote))) (\<lambda>oracle_price.
     (case time_constraints of
        None \<Rightarrow> Inr oracle_price
      | Some tc \<Rightarrow>
          rbind (or_panic (u64_sub (tc_block_time tc) (tc_valid_timeframe tc))) (\<lambda>valid_update_time.
          if pr_last_updated_base oracle_price < valid_update_time \<or>
             pr_last_updated_quote oracle_price < valid_update_time
          then generic_err ''Price is too old''
          else Inr oracle_price)))"

section \<open>The hub (coin.rs)\<close>

record stride_lsd_config_raw =
  sr_denom :: string
  sr_underlying_token_denom :: string
  sr_oracle_contract :: string

record stride_lsd_config =
  sc_denom :: string
  sc_underlying_token_denom :: string
  sc_oracle_contract :: addr

definition stride_instantiate_config ::
  "deps \<Rightarrow> stride_lsd_config_raw \<Rightarrow> stride_lsd_config res" where
  "stride_instantiate_config dp config =
     rbind (std_res (addr_validate dp (sr_oracle_contract config))) (\<lambda>oracle.
       Inr \<lparr>sc_denom = sr_denom config,
            sc_underlying_token_denom = sr_underlying_token_denom config,
            sc_oracle_contract = oracle\<rparr>)"

definition stride_query_exchange_rate ::
  "arith \<Rightarrow> stride_lsd_config \<Rightarrow> deps \<Rightarrow> env \<Rightarrow> decimal res" where
  "stride_query_exchange_rate A self dp e =
     rbind (query_price dp (sc_oracle_contract self) (sc_denom self)
              (sc_underlying_token_denom self) None) (\<lambda>p.
     rbind (std_res (case try_u128 A (atomics256 (pr_rate p)) of
                       None \<Rightarrow> Inl ConversionOverflow | Some x \<Rightarrow> Inr x)) (\<lambda>uint128_atomics.
       (case from_atomics A uint128_atomics (decimal_places256 A) of
          None \<Rightarrow> generic_err ''Decimal range exceeded''
        | Some d \<Rightarrow> Inr d)))"

definition stride_get_balance :: "stride_lsd_config \<Rightarrow> deps \<Rightarrow> env \<Rightarrow> addr \<Rightarrow> u128 res" where
  "stride_get_balance self dp e address =
     rbind (std_res (bank_balance dp address (sc_denom self))) (\<lambda>balance. Inr (coin_amount balance))"

definition stride_deposit_funds ::
  "stride_lsd_config \<Rightarrow> deps \<Rightarrow> env \<Rightarrow> message_info \<Rightarrow> u128 \<Rightarrow> addr \<Rightarrow> cosmos_msg list res" where
  "stride_deposit_funds self dp e i amount from_addr =
     (if length (funds i) \<noteq> 1 \<or> coin_denom (funds i ! 0) \<noteq> sc_denom self \<or>
         coin_amount (funds i ! 0) < amount
      then generic_err (''You need to deposit the right funds, deposited '' @ debug_coins dp (funds i)
             @ '', needed '' @ show_nat (unat amount) @ sc_denom self)
      else Inr [])"

definition stride_send_funds ::
  "stride_lsd_config \<Rightarrow> deps \<Rightarrow> env \<Rightarrow> u128 \<Rightarrow> addr \<Rightarrow> cosmos_msg list res" where
  "stride_send_funds self dp e amount to =
     Inr [Bank_Send to [\<lparr>coin_denom = sc_denom self, coin_amount = amount\<rparr>]]"

definition stride_hub :: "arith \<Rightarrow> (stride_lsd_config_raw, stride_lsd_config) lsd_hub" where
  "stride_hub A = \<lparr>
     instantiate_config = stride_instantiate_config,
     query_exchange_rate = stride_query_exchange_rate A,
     get_balance = stride_get_balance,
     deposit_funds = stride_deposit_funds,
     send_funds = stride_send_funds \<rparr>"

definition stride_asset :: "stride_lsd_config \<Rightarrow> asset_info" where
  "stride_asset c = NativeToken (sc_denom c)"

section \<open>Entry points (coin.rs, cavern-lsd-wrapper)\<close>

definition coin_instantiate ::
  "arith \<Rightarrow> 'tok cw20_base \<Rightarrow> stride_lsd_config_raw token_init_msg \<Rightarrow>
   (stride_lsd_config, 'tok, 'z) handler" where
  "coin_instantiate A C m = wrapper_instantiate C (stride_hub A) m"

definition coin_execute ::
  "arith \<Rightarrow> 'tok cw20_base \<Rightarrow> wrapper_execute_msg \<Rightarrow> (stride_lsd_config, 'tok, 'z) handler" where
  "coin_execute A C m = wrapper_execute A C (stride_hub A) m"

definition coin_query ::
  "arith \<Rightarrow> 'tok cw20_base \<Rightarrow> cw20_query_msg \<Rightarrow> deps \<Rightarrow> env \<Rightarrow>
   (stride_lsd_config, 'tok, 'z) wrapper_storage_scheme \<Rightarrow> token_info_response wrapper_answer res" where
  "coin_query A C q = wrapper_query A C (stride_hub A) q"

text \<open>\<open>contracts/cavern-lsd-wrapper\<close> deploys the crate's entry points as they are.\<close>

definition lsd_wrapper_instantiate ::
  "arith \<Rightarrow> 'tok cw20_base \<Rightarrow> stride_lsd_config_raw token_init_msg \<Rightarrow>
   (stride_lsd_config, 'tok, 'z) handler" where
  "lsd_wrapper_instantiate = coin_instantiate"

definition lsd_wrapper_execute ::
  "arith \<Rightarrow> 'tok cw20_base \<Rightarrow> wrapper_execute_msg \<Rightarrow> (stride_lsd_config, 'tok, 'z) handler" where
  "lsd_wrapper_execute = coin_execute"

definition lsd_wrapper_query ::
  "arith \<Rightarrow> 'tok cw20_base \<Rightarrow> cw20_query_msg \<Rightarrow> deps \<Rightarrow> env \<Rightarrow>
   (stride_lsd_config, 'tok, 'z) wrapper_storage_scheme \<Rightarrow> token_info_response wrapper_answer res" where
  "lsd_wrapper_query = coin_query"

section \<open>The contract of the trait\<close>

lemma stride_ops [simp]:
  "instantiate_config (stride_hub A) = stride_instantiate_config"
  "query_exchange_rate (stride_hub A) = stride_query_exchange_rate A"
  "get_balance (stride_hub A) = stride_get_balance"
  "deposit_funds (stride_hub A) = stride_deposit_funds"
  "send_funds (stride_hub A) = stride_send_funds"
  by (simp_all add: stride_hub_def)

text \<open>A deposit is accepted exactly when one coin of the right denomination and size is attached.\<close>

lemma stride_deposit_iff:
  "stride_deposit_funds c dp e i a from_addr = Inr ms \<longleftrightarrow>
    ms = [] \<and> (\<exists>k. funds i = [k] \<and> coin_denom k = sc_denom c \<and> a \<le> coin_amount k)"
  by (auto simp: stride_deposit_funds_def length_Suc_conv not_less)

interpretation stride: lsd_hub_trait "stride_hub A" stride_asset for A
proof unfold_locales
  fix c dp e i a from_addr ms d
  assume "deposit_funds (stride_hub A) c dp e i a from_addr = Inr ms"
  then show "unat a \<le> lsd_attached (stride_asset c) i"
    by (auto simp: stride_deposit_iff stride_asset_def word_le_nat_alt)
qed (auto simp: stride_send_funds_def stride_get_balance_def stride_asset_def stride_deposit_iff)

interpretation stride_wrapper: wrapper_env fixed18 ledger_cw20 "stride_hub fixed18" stride_asset
  by unfold_locales

lemma stride_rate_ok:
  assumes "decimal_arith A" and "stride_query_exchange_rate A c dp e = Inr q"
  obtains p where "wasm_smart dp (sc_oracle_contract c) (Q_Oracle (Oracle_QPrice (sc_denom c) (sc_underlying_token_denom c)))
      = Inr (A_Price p)" "atoms q = unat (atomics256 (pr_rate p))"
proof -
  from assms(2) obtain a p x where
      a: "wasm_smart dp (sc_oracle_contract c) (Q_Oracle (Oracle_QPrice (sc_denom c) (sc_underlying_token_denom c))) = Inr a"
        "a_price a = Some p"
      and x: "try_u128 A (atomics256 (pr_rate p)) = Some x"
      and q: "from_atomics A x (decimal_places256 A) = Some q"
    by (auto simp: stride_query_exchange_rate_def query_price_def res_simps)
  have "a = A_Price p" using a(2) by (cases a) auto
  with a(1) show thesis
    using x q decimal_arith.try_u128 [OF assms(1)] decimal_arith.from_atomics [OF assms(1)]
    by (intro that [of p]) (auto simp: atoms_def)
qed

end
