(* ===== verification/Steak_Hub.thy ===== *)
theory Steak_Hub
  imports Wrapper_Laws
begin

text \<open>
  LSD tokens of the Steak family (\<open>wrapper_implementations/src/steak.rs\<close>): a CW20 token with a hub
  contract that reports the exchange rate in its state. The Rust code is generic in the type of
  that state (trait \<open>LSDStateResponseTrait\<close> of \<open>external.rs\<close>); here the type parameter is a record
  with the parser and the projection. The contracts \<open>ampLuna-wrapper\<close> and \<open>bLuna-wrapper\<close> are two
  instances.
\<close>

record 't lsd_state_trait =
  ls_parse :: "answer \<Rightarrow> 't option"
  ls_rate :: "'t \<Rightarrow> decimal"

definition lsd_state_response_impl :: "lsd_state_response lsd_state_trait" where
  "lsd_state_response_impl = \<lparr>
     ls_parse = (\<lambda>a. case a of A_LsdState s \<Rightarrow> Some s | _ \<Rightarrow> None), ls_rate = ls_exchange_rate \<rparr>"

definition amp_luna_state_response_impl :: "amp_luna_state_response lsd_state_trait" where
  "amp_luna_state_response_impl = \<lparr>
     ls_parse = (\<lambda>a. case a of A_AmpLunaState s \<Rightarrow> Some s | _ \<Rightarrow> None), ls_rate = al_exchange_rate \<rparr>"

definition bluna_state_response_impl :: "bluna_state_response lsd_state_trait" where
  "bluna_state_response_impl = \<lparr>
     ls_parse = (\<lambda>a. case a of A_BLunaState s \<Rightarrow> Some s | _ \<Rightarrow> None), ls_rate = bl_exchange_rate \<rparr>"

record lsd_contracts =
  lc_hub :: addr
  lc_token :: addr

record lsd_contracts_raw =
  lr_hub :: string
  lr_token :: string

definition query_lsd_state :: "'t lsd_state_trait \<Rightarrow> deps \<Rightarrow> lsd_contracts \<Rightarrow> 't res" where
  "query_lsd_state S dp contracts = query_as dp (ls_parse S) (lc_hub contracts) (Q_Lsd Lsd_QState)"

definition steak_instantiate_config :: "deps \<Rightarrow> lsd_contracts_raw \<Rightarrow> lsd_contracts res" where
  "steak_instantiate_config dp config =
     rbind (std_res (addr_validate dp (lr_hub config))) (\<lambda>h.
     rbind (std_res (addr_validate dp (lr_token config))) (\<lambda>t.
       Inr \<lparr>lc_hub = h, lc_token = t\<rparr>))"

definition steak_query_exchange_rate ::
  "'t lsd_state_trait \<Rightarrow> lsd_contracts \<Rightarrow> deps \<Rightarrow> env \<Rightarrow> decimal res" where
  "steak_query_exchange_rate S self dp e =
     rbind (query_lsd_state S dp self) (\<lambda>lsd_state. Inr (ls_rate S lsd_state))"

definition steak_get_balance :: "lsd_contracts \<Rightarrow> deps \<Rightarrow> env \<Rightarrow> addr \<Rightarrow> u128 res" where
  "steak_get_balance self dp e address = query_as dp a_balance (lc_token self) (Q_Cw20Balance address)"

definition steak_deposit_funds ::
  "lsd_contracts \<Rightarrow> deps \<Rightarrow> env \<Rightarrow> message_info \<Rightarrow> u128 \<Rightarrow> addr \<Rightarrow> cosmos_msg list res" where
  "steak_deposit_funds self dp e i amount from_addr =
     Inr [Wasm_Execute (lc_token self)
            (Cw20Exec (Cw20_TransferFrom from_addr (contract_address e) amount)) []]"

definition steak_send_funds ::
  "lsd_contracts \<Rightarrow> deps \<Rightarrow> env \<Rightarrow> u128 \<Rightarrow> addr \<Rightarrow> cosmos_msg list res" where
  "steak_send_funds self dp e amount to =
     Inr [Wasm_Execute (lc_token self) (Cw20Exec (Cw20_Transfer to amount)) []]"

definition steak_hub :: "'t lsd_state_trait \<Rightarrow> (lsd_contracts_raw, lsd_contracts) lsd_hub" where
  "steak_hub S = \<lparr>
     instantiate_config = steak_instantiate_config,
     query_exchange_rate = steak_query_exchange_rate S,
     get_balance = steak_get_balance,
     deposit_funds = steak_deposit_funds,
     send_funds = steak_send_funds \<rparr>"

definition steak_asset :: "lsd_contracts \<Rightarrow> asset_info" where
  "steak_asset c = Token (lc_token c)"

section \<open>Entry points (steak.rs, ampLuna-wrapper, bLuna-wrapper)\<close>

definition steak_instantiate ::
  "'t lsd_state_trait \<Rightarrow> 'tok cw20_base \<Rightarrow> lsd_contracts_raw token_init_msg \<Rightarrow>
   (lsd_contracts, 'tok, 'z) handler" where
  "steak_instantiate S C m = wrapper_instantiate C (steak_hub S) m"

definition steak_execute ::
  "'t lsd_state_trait \<Rightarrow> arith \<Rightarrow> 'tok cw20_base \<Rightarrow> wrapper_execute_msg \<Rightarrow>
   (lsd_contracts, 'tok, 'z) handler" where
  "steak_execute S A C m = wrapper_execute A C (steak_hub S) m"

definition steak_query ::
  "'t lsd_state_trait \<Rightarrow> arith \<Rightarrow> 'tok cw20_base \<Rightarrow> cw20_query_msg \<Rightarrow> deps \<Rightarrow> env \<Rightarrow>
   (lsd_contracts, 'tok, 'z) wrapper_storage_scheme \<Rightarrow> token_info_response wrapper_answer res" where
  "steak_query S A C q = wrapper_query A C (steak_hub S) q"

definition amp_luna_instantiate ::
  "'tok cw20_base \<Rightarrow> lsd_contracts_raw token_init_msg \<Rightarrow> (lsd_contracts, 'tok, 'z) handler" where
  "amp_luna_instantiate = steak_instantiate amp_luna_state_response_impl"

definition amp_luna_execute ::
  "arith \<Rightarrow> 'tok cw20_base \<Rightarrow> wrapper_execute_msg \<Rightarrow> (lsd_contracts, 'tok, 'z) handler" where
  "amp_luna_execute = steak_execute amp_luna_state_response_impl"

definition amp_luna_query ::
  "arith \<Rightarrow> 'tok cw20_base \<Rightarrow> cw20_query_msg \<Rightarrow> deps \<Rightarrow> env \<Rightarrow>
   (lsd_contracts, 'tok, 'z) wrapper_storage_scheme \<Rightarrow> token_info_response wrapper_answer res" where
  "amp_luna_query = steak_query amp_luna_state_response_impl"

definition bluna_instantiate ::
  "'tok cw20_base \<Rightarrow> lsd_contracts_raw token_init_msg \<Rightarrow> (lsd_contracts, 'tok, 'z) handler" where
  "bluna_instantiate = steak_instantiate bluna_state_response_impl"

definition bluna_execute ::
  "arith \<Rightarrow> 'tok cw20_base \<Rightarrow> wrapper_execute_msg \<Rightarrow> (lsd_contracts, 'tok, 'z) handler" where
  "bluna_execute = steak_execute bluna_state_response_impl"

definition bluna_query ::
  "arith \<Rightarrow> 'tok cw20_base \<Rightarrow> cw20_query_msg \<Rightarrow> deps \<Rightarrow> env \<Rightarrow>
   (lsd_contracts, 'tok, 'z) wrapper_storage_scheme \<Rightarrow> token_info_response wrapper_answer res" where
  "bluna_query = steak_query bluna_state_response_impl"

section \<open>The contract of the trait\<close>

lemma steak_ops [simp]:
  "instantiate_config (steak_hub S) = steak_instantiate_config"
  "query_exchange_rate (steak_hub S) = steak_query_exchange_rate S"
  "get_balance (steak_hub S) = steak_get_balance"
  "deposit_funds (steak_hub S) = steak_deposit_funds"
  "send_funds (steak_hub S) = steak_send_funds"
  by (simp_all add: steak_hub_def)

interpretation steak: lsd_hub_trait "steak_hub S" steak_asset for S
  by unfold_locales
    (auto simp: steak_send_funds_def steak_get_balance_def steak_asset_def steak_deposit_funds_def)

interpretation amp_luna_wrapper:
  wrapper_env fixed18 ledger_cw20 "steak_hub amp_luna_state_response_impl" steak_asset
  by unfold_locales

interpretation bluna_wrapper:
  wrapper_env fixed18 ledger_cw20 "steak_hub bluna_state_response_impl" steak_asset
  by unfold_locales

end
