(* ===== verification/Lp_Hubs.thy ===== *)
theory Lp_Hubs
  imports Limited_System
begin

text \<open>
  The two hubs of the limited wrapper, whose tokens stand for staked liquidity-pool shares:
  \<open>contracts/amp-lp-wrapper\<close> (Eris, the rate is in the state of the staking contract) and
  \<open>contracts/spectrum-wrapper\<close> (Spectrum, the rate is the quotient of what the compounding token
  has bonded in the generator and of the shares it has issued), with the entry points of the two
  contracts.
\<close>

section \<open>amp-lp-wrapper/src/lib.rs\<close>

record amp_contracts =
  ac_token :: addr
  ac_hub :: addr

record amp_contracts_raw =
  ar_token :: string
  ar_hub :: string

definition amp_instantiate_config :: "deps \<Rightarrow> amp_contracts_raw \<Rightarrow> amp_contracts res" where
  "amp_instantiate_config dp config =
     rbind (std_res (addr_validate dp (ar_hub config))) (\<lambda>h.
     rbind (std_res (addr_validate dp (ar_token config))) (\<lambda>t.
       Inr \<lparr>ac_token = t, ac_hub = h\<rparr>))"

definition amp_query_exchange_rate :: "amp_contracts \<Rightarrow> deps \<Rightarrow> env \<Rightarrow> decimal res" where
  "amp_query_exchange_rate self dp e =
     rbind (query_as dp a_eris_state (ac_hub self) (Q_Eris (Eris_QState None)))
       (\<lambda>amp_token_state. Inr (es_exchange_rate amp_token_state))"

definition amp_get_balance :: "amp_contracts \<Rightarrow> deps \<Rightarrow> env \<Rightarrow> addr \<Rightarrow> u128 res" where
  "amp_get_balance self dp e address = query_as dp a_balance (ac_token self) (Q_Cw20Balance address)"

definition amp_deposit_funds ::
  "amp_contracts \<Rightarrow> deps \<Rightarrow> env \<Rightarrow> message_info \<Rightarrow> u128 \<Rightarrow> addr \<Rightarrow> cosmos_msg list res" where
  "amp_deposit_funds self dp e i amount from_addr =
     Inr [Wasm_Execute (ac_token self)
            (Cw20Exec (Cw20_TransferFrom from_addr (contract_address e) amount)) []]"

definition amp_send_funds ::
  "amp_contracts \<Rightarrow> deps \<Rightarrow> env \<Rightarrow> u128 \<Rightarrow> addr \<Rightarrow> cosmos_msg list res" where
  "amp_send_funds self dp e amount to =
     Inr [Wasm_Execute (ac_token self) (Cw20Exec (Cw20_Transfer to amount)) []]"

definition amph_hub :: "(amp_contracts_raw, amp_contracts) lsd_hub" where
  "amph_hub = \<lparr>
     instantiate_config = amp_instantiate_config,
     query_exchange_rate = amp_query_exchange_rate,
     get_balance = amp_get_balance,
     deposit_funds = amp_deposit_funds,
     send_funds = amp_send_funds \<rparr>"

definition amp_asset :: "amp_contracts \<Rightarrow> asset_info" where
  "amp_asset c = Token (ac_token c)"

definition amp_lp_instantiate ::
  "'tok cw20_base \<Rightarrow> amp_contracts_raw limited_init_msg \<Rightarrow> (amp_contracts, 'tok) limited_handler" where
  "amp_lp_instantiate C m = limited_instantiate C amph_hub m"

definition amp_lp_execute ::
  "arith \<Rightarrow> 'tok cw20_base \<Rightarrow> wrapper_execute_msg \<Rightarrow> (amp_contracts, 'tok) limited_handler" where
  "amp_lp_execute A C m = limited_execute A C amph_hub m"

definition amp_lp_query ::
  "arith \<Rightarrow> 'tok cw20_base \<Rightarrow> cw20_query_msg \<Rightarrow> deps \<Rightarrow> env \<Rightarrow>
   (amp_contracts, 'tok) limited_storage \<Rightarrow> token_info_response_with_limit wrapper_answer res" where
  "amp_lp_query A C q = limited_query A C amph_hub q"

section \<open>spectrum-wrapper/src/lib.rs\<close>

record spectrum_contracts =
  sp_token :: addr
  sp_underlying_token :: addr
  sp_generator :: addr

record spectrum_contracts_raw =
  spr_token :: string
  spr_generator :: string
  spr_underlying_token :: string

definition query_total_bond_share :: "deps \<Rightarrow> spectrum_contracts \<Rightarrow> u128 res" where
  "query_total_bond_share dp contracts =
     rbind (query_as dp a_ctoken_state (sp_token contracts) (Q_Spectrum Spectrum_QState))
       (\<lambda>c_token_state. Inr (ct_total_bond_share c_token_state))"

definition query_total_bond_amount :: "deps \<Rightarrow> spectrum_contracts \<Rightarrow> u128 res" where
  "query_total_bond_amount dp contracts =
     rbind (query_as dp a_user_info (sp_generator contracts)
              (Q_Spectrum (Spectrum_QUserInfo (sp_token contracts) (sp_underlying_token contracts))))
       (\<lambda>user_info. Inr (ui_bond_amount user_info))"

definition spectrum_instantiate_config ::
  "deps \<Rightarrow> spectrum_contracts_raw \<Rightarrow> spectrum_contracts res" where
  "spectrum_instantiate_config dp config =
     rbind (std_res (addr_validate dp (spr_generator config))) (\<lambda>g.
     rbind (std_res (addr_validate dp (spr_token config))) (\<lambda>t.
     rbind (std_res (addr_validate dp (spr_underlying_token config))) (\<lambda>u.
       Inr \<lparr>sp_token = t, sp_underlying_token = u, sp_generator = g\<rparr>)))"

definition spectrum_query_exchange_rate ::
  "arith \<Rightarrow> spectrum_contracts \<Rightarrow> deps \<Rightarrow> env \<Rightarrow> decimal res" where
  "spectrum_query_exchange_rate A self dp e =
     rbind (query_total_bond_share dp self) (\<lambda>total_bond_share.
     rbind (query_total_bond_amount dp self) (\<lambda>total_bond_amount.
       or_panic (from_ratio A total_bond_amount total_bond_share)))"

definition spectrum_get_balance :: "spectrum_contracts \<Rightarrow> deps \<Rightarrow> env \<Rightarrow> addr \<Rightarrow> u128 res" where
  "spectrum_get_balance self dp e address =
     query_as dp a_balance (sp_token self) (Q_Cw20Balance address)"

definition spectrum_deposit_funds ::
  "spectrum_contracts \<Rightarrow> deps \<Rightarrow> env \<Rightarrow> message_info \<Rightarrow> u128 \<Rightarrow> addr \<Rightarrow> cosmos_msg list res" where
  "spectrum_deposit_funds self dp e i amount from_addr =
     Inr [Wasm_Execute (sp_token self)
            (Cw20Exec (Cw20_TransferFrom from_addr (contract_address e) amount)) []]"

definition spectrum_send_funds ::
  "spectrum_contracts \<Rightarrow> deps \<Rightarrow> env \<Rightarrow> u128 \<Rightarrow> addr \<Rightarrow> cosmos_msg list res" where
  "spectrum_send_funds self dp e amount to =
     Inr [Wasm_Execute (sp_token self) (Cw20Exec (Cw20_Transfer to amount)) []]"

definition spectrum_hub :: "arith \<Rightarrow> (spectrum_contracts_raw, spectrum_contracts) lsd_hub" where
  "spectrum_hub A = \<lparr>
     instantiate_config = spectrum_instantiate_config,
     query_exchange_rate = spectrum_query_exchange_rate A,
     get_balance = spectrum_get_balance,
     deposit_funds = spectrum_deposit_funds,
     send_funds = spectrum_send_funds \<rparr>"

definition spectrum_asset :: "spectrum_contracts \<Rightarrow> asset_info" where
  "spectrum_asset c = Token (sp_token c)"

definition spectrum_instantiate ::
  "arith \<Rightarrow> 'tok cw20_base \<Rightarrow> spectrum_contracts_raw limited_init_msg \<Rightarrow>
   (spectrum_contracts, 'tok) limited_handler" where
  "spectrum_instantiate A C m = limited_instantiate C (spectrum_hub A) m"

definition spectrum_execute ::
  "arith \<Rightarrow> 'tok cw20_base \<Rightarrow> wrapper_execute_msg \<Rightarrow> (spectrum_contracts, 'tok) limited_handler" where
  "spectrum_execute A C m = limited_execute A C (spectrum_hub A) m"

definition spectrum_query ::
  "arith \<Rightarrow> 'tok cw20_base \<Rightarrow> cw20_query_msg \<Rightarrow> deps \<Rightarrow> env \<Rightarrow>
   (spectrum_contracts, 'tok) limited_storage \<Rightarrow> token_info_response_with_limit wrapper_answer res" where
  "spectrum_query A C q = limited_query A C (spectrum_hub A) q"

section \<open>The contract of the trait\<close>

lemma amph_ops [simp]:
  "instantiate_config amph_hub = amp_instantiate_config"
  "query_exchange_rate amph_hub = amp_query_exchange_rate"
  "get_balance amph_hub = amp_get_balance"
  "deposit_funds amph_hub = amp_deposit_funds"
  "send_funds amph_hub = amp_send_funds"
  by (simp_all add: amph_hub_def)

lemma spectrum_ops [simp]:
  "instantiate_config (spectrum_hub A) = spectrum_instantiate_config"
  "query_exchange_rate (spectrum_hub A) = spectrum_query_exchange_rate A"
  "get_balance (spectrum_hub A) = spectrum_get_balance"
  "deposit_funds (spectrum_hub A) = spectrum_deposit_funds"
  "send_funds (spectrum_hub A) = spectrum_send_funds"
  by (simp_all add: spectrum_hub_def)

interpretation amph: lsd_hub_trait amph_hub amp_asset
  by unfold_locales
    (auto simp: amp_send_funds_def amp_get_balance_def amp_asset_def amp_deposit_funds_def)

interpretation spectrum: lsd_hub_trait "spectrum_hub A" spectrum_asset for A
  by unfold_locales
    (auto simp: spectrum_send_funds_def spectrum_get_balance_def spectrum_asset_def
      spectrum_deposit_funds_def)

interpretation amp_lp_wrapper: wrapper_env fixed18 ledger_cw20 amph_hub amp_asset
  by unfold_locales

interpretation spectrum_wrapper: wrapper_env fixed18 ledger_cw20 "spectrum_hub fixed18" spectrum_asset
  by unfold_locales

text \<open>
  The Spectrum rate: what is bonded per share issued, rounded down at 18 places. With no share
  issued there is no rate.
\<close>

lemma spectrum_rate_ok:
  assumes "decimal_arith A" and "spectrum_query_exchange_rate A c dp e = Inr q"
  obtains shares info where
    "wasm_smart dp (sp_token c) (Q_Spectrum Spectrum_QState) = Inr (A_CTokenState \<lparr>ct_total_bond_share = shares\<rparr>)"
    "wasm_smart dp (sp_generator c) (Q_Spectrum (Spectrum_QUserInfo (sp_token c) (sp_underlying_token c)))
       = Inr (A_UserInfo info)"
    "shares \<noteq> 0" "atoms q = unat (ui_bond_amount info) * dec_unit div unat shares"
proof -
  from assms(2) obtain a b s info where
      a: "wasm_smart dp (sp_token c) (Q_Spectrum Spectrum_QState) = Inr a" "a_ctoken_state a = Some s"
      and b: "wasm_smart dp (sp_generator c)
          (Q_Spectrum (Spectrum_QUserInfo (sp_token c) (sp_underlying_token c))) = Inr b"
        "a_user_info b = Some info"
      and q: "from_ratio A (ui_bond_amount info) (ct_total_bond_share s) = Some q"
    by (auto simp: spectrum_query_exchange_rate_def query_total_bond_share_def
        query_total_bond_amount_def res_simps)
  have "a = A_CTokenState \<lparr>ct_total_bond_share = ct_total_bond_share s\<rparr>" "b = A_UserInfo info"
    using a(2) b(2) by (cases a, auto, cases b, auto)
  with a b q show thesis
    by (intro that [of "ct_total_bond_share s" info]) (auto simp: decimal_arith.from_ratio [OF assms(1)])
qed

end
