(* ===== verification/Scenario.thy ===== *)
theory Scenario
  imports Wrapper_System Limited_System Coin_Hub Steak_Hub Lp_Hubs Hub_Contract Custom_Reward
begin

text \<open>
  One concrete chain on which the properties are exercised: a block, three accounts, a wrapper
  deployed at \<open>''wrapper''\<close> whose LSD token is \<open>''lsd''\<close>, oracles that answer with a chosen rate, and
  routers that quote chosen prices. The arithmetic is \<open>fixed18\<close>, the token library \<open>ledger_cw20\<close>.
\<close>

definition sc_env :: "nat \<Rightarrow> env" where
  "sc_env t = \<lparr>block_time = Timestamp (word_of_nat (t * 10 ^ 9)), contract_address = ''wrapper''\<rparr>"

definition sc_info :: "addr \<Rightarrow> message_info" where
  "sc_info who = \<lparr>sender = who, funds = []\<rparr>"

text \<open>
  The chain's answers: the rate, the wrapper's LSD balance, the pool shares (for Spectrum), the
  prices of the three routers (a router without a price does not answer), the bank balance.
\<close>

record chain =
  ch_rate :: decimal
  ch_balance :: u128
  ch_prices :: "string \<Rightarrow> u128 option"
  ch_coins :: "coin list"

definition sc_smart :: "chain \<Rightarrow> addr \<Rightarrow> smart_query \<Rightarrow> std_error + answer" where
  "sc_smart ch c q =
     (case q of
        Q_Lsd q \<Rightarrow> Inr (A_AmpLunaState \<lparr>al_total_ustake = 0, al_total_uluna = 0,
            al_exchange_rate = ch_rate ch, al_unlocked_coins = [], al_unbonding = 0,
            al_available = 0, al_tvl_uluna = 0\<rparr>)
      | Q_Eris (Eris_QState u) \<Rightarrow> Inr (A_ErisState \<lparr>es_total_lp = 3000, es_total_amp_lp = 2000,
            es_exchange_rate = ch_rate ch, es_pair_contract = ''pair'', es_locked_assets = [],
            es_user_info = None\<rparr>)
      | Q_Cw20Balance who \<Rightarrow>
          (if c = ''lsd'' \<or> c = ''amp_lp'' then Inr (A_Balance (ch_balance ch))
           else if c = ''lp'' then Inr (A_Balance 7) else Inl (GenericErr ''no such token''))
      | Q_Oracle (Oracle_QPrice base quote) \<Rightarrow> Inr (A_Price \<lparr>pr_rate = Decimal256 (word_of_nat (atoms (ch_rate ch))),
            pr_last_updated_base = 0, pr_last_updated_quote = 0\<rparr>)
      | Q_Spectrum Spectrum_QState \<Rightarrow> Inr (A_CTokenState \<lparr>ct_total_bond_share = 2000\<rparr>)
      | Q_Spectrum (Spectrum_QUserInfo user lp) \<Rightarrow> Inr (A_UserInfo \<lparr>ui_bond_share = 0, ui_bond_amount = 3000,
            ui_reward_indexes = [], ui_pending_rewards = []\<rparr>)
      | Q_Spectrum (Spectrum_QRewardInfo who) \<Rightarrow> Inr (A_RewardInfo \<lparr>ri_staker_addr = who,
            ri_reward_info = \<lparr>ri_staking_token = ''lp'', ri_bond_amount = 40, ri_bond_share = 30,
              ri_deposit_amount = 0, ri_deposit_time = 0, ri_deposit_costs = []\<rparr>\<rparr>)
      | Q_Router (Router_QSimulate n ops) \<Rightarrow>
          (case ch_prices ch c of None \<Rightarrow> Inl (GenericErr ''no pool'')
           | Some p \<Rightarrow> Inr (A_Simulation \<lparr>si_amount = p\<rparr>))
      | Q_Pair \<Rightarrow> Inr (A_PairInfo ''lp'')
      | _ \<Rightarrow> Inl (GenericErr ''unknown query''))"

definition sc_deps :: "chain \<Rightarrow> deps" where
  "sc_deps ch = \<lparr>
     addr_validate = (\<lambda>s. if s = '''' then Inl (GenericErr ''empty address'') else Inr s),
     wasm_smart = sc_smart ch,
     bank_balance = (\<lambda>who d. Inr \<lparr>coin_denom = d, coin_amount = ch_balance ch\<rparr>),
     bank_all_balances = (\<lambda>who. Inr (ch_coins ch)),
     debug_coins = (\<lambda>_. ''coins'') \<rparr>"

definition sc_chain :: "nat \<Rightarrow> nat \<Rightarrow> chain" where
  "sc_chain rate bal = \<lparr>ch_rate = Decimal (word_of_nat rate), ch_balance = word_of_nat bal,
     ch_prices = (\<lambda>_. None), ch_coins = []\<rparr>"

text \<open>A token ledger in which \<open>''alice''\<close> owns the whole supply and the wrapper may mint.\<close>

definition sc_ledger :: "nat \<Rightarrow> ledger" where
  "sc_ledger n = empty_ledger\<lparr>
     lg_info := Some \<lparr>ti_name = ''wrapped'', ti_symbol = ''W'', ti_decimals = 6,
                      ti_total_supply = word_of_nat n\<rparr>,
     lg_minter := Some \<lparr>mr_minter = ''wrapper'', mr_cap = None\<rparr>,
     lg_balances := (\<lambda>a. if a = ''alice'' then word_of_nat n else 0),
     lg_allowances := (\<lambda>ow sp. if ow = ''alice'' \<and> sp = ''bob'' then (word_of_nat n, Never_Expires)
                              else (0, Never_Expires))\<rparr>"

definition sc_lsd :: lsd_contracts where
  "sc_lsd = \<lparr>lc_hub = ''lsd_hub'', lc_token = ''lsd''\<rparr>"

definition sc_storage :: "nat \<Rightarrow> (lsd_contracts, ledger) wrapper_storage" where
  "sc_storage n = \<lparr>ws_lsd_config = Some sc_lsd, ws_hub_contract = Some ''hub'',
     ws_cw20 = sc_ledger n\<rparr>"

text \<open>The ampLuna wrapper and, for the limited crate, the amp-LP wrapper.\<close>

abbreviation sc_hub :: "(lsd_contracts_raw, lsd_contracts) lsd_hub" where
  "sc_hub \<equiv> steak_hub amp_luna_state_response_impl"

definition sc_amp :: amp_contracts where
  "sc_amp = \<lparr>ac_token = ''lsd'', ac_hub = ''lsd_hub''\<rparr>"

definition sc_limited :: "decimal option \<Rightarrow> nat \<Rightarrow> (amp_contracts, ledger) limited_storage" where
  "sc_limited m n = \<lparr>ws_lsd_config = Some sc_amp, ws_hub_contract = Some ''hub'',
     ws_cw20 = sc_ledger n,
     lm_decompound_state = Some \<lparr>ds_ratio_sum = dec_zero, ds_total_seconds = 0,
       ds_last_decompound = Timestamp 0\<rparr>,
     lm_decompound_config = Some \<lparr>dc_max_decompound_ratio = m\<rparr>\<rparr>"

text \<open>A reward contract that knows two tokens.\<close>

definition sc_reward_config :: reward_config where
  "sc_reward_config = \<lparr>rc_owner = ''owner'', rc_hub_contract = ''hub'',
     rc_custody_contract = Some ''custody'', rc_reward_denom = ''uusd'',
     rc_known_cw20_tokens = [''lsd'', ''other'']\<rparr>"

definition sc_reward :: reward_storage where
  "sc_reward = \<lparr>rs_config = Some sc_reward_config, rs_state = Some reward_state_zero,
     rs_swap_config = Some \<lparr>sw_astroport_addr = ''astroport'', sw_phoenix_addr = ''phoenix'',
       sw_terraswap_addr = ''terraswap''\<rparr>\<rparr>"

definition sc_market :: chain where
  "sc_market = \<lparr>ch_rate = dec_one, ch_balance = 50,
     ch_prices = (\<lambda>r. if r = ''astroport'' then Some 10 else if r = ''terraswap'' then Some 12 else None),
     ch_coins = [\<lparr>coin_denom = ''uluna'', coin_amount = 5\<rparr>, \<lparr>coin_denom = ''uusd'', coin_amount = 50\<rparr>]\<rparr>"

lemma sc_addr_same: "addr_same (sc_deps ch)"
  by (auto simp: addr_same_def sc_deps_def split: if_splits)

text \<open>Equations that evaluate a run of the scenario.\<close>

lemmas sc_eval = sc_env_def sc_info_def sc_smart_def sc_deps_def sc_chain_def sc_ledger_def
  sc_lsd_def sc_storage_def sc_amp_def sc_limited_def

lemmas wrapper_eval = execute_burn_def execute_burn_all_def execute_burn_from_def execute_mint_def
  execute_mint_with_def execute_decompound_def decompound_messages_def compute_accrued_rewards_def
  get_current_exchange_rate_def available_rewards_def subtract_margin_def before_burn_def
  on_cw20_def read_lsd_config_def read_hub_contract_def load_def query_as_def Let_def
  wrapper_state_default_def decompound_response_def

lemmas steak_eval = steak_query_exchange_rate_def query_lsd_state_def steak_get_balance_def
  steak_deposit_funds_def steak_send_funds_def amp_luna_state_response_impl_def

lemmas amp_eval = amp_query_exchange_rate_def amp_get_balance_def amp_deposit_funds_def
  amp_send_funds_def

lemmas limited_eval = limited_burn_def limited_before_burn_def limited_burn_from_def
  limited_mint_def limited_mint_with_def limited_decompound_def limited_decompound_messages_def
  limited_compute_accrued_rewards_def limit_rewards_def next_decompound_state_def
  get_lsd_wrapper_exchange_rate_def get_expected_exchange_rate_def allowance_after_def
  seconds_until_def load_decompound_config_def load_decompound_state_def seconds_per_year_def
  u64_of_def u64_add_def u64_sub_def

lemmas reward_eval = sc_reward_def sc_reward_config_def sc_market_def sc_env_def sc_info_def
  sc_smart_def sc_deps_def read_config_def load_swap_config_def load_def query_as_def Let_def
  execute_swap_def swap_balances_def swap_messages_of_def query_all_cw20_balances_def
  query_token_balance_def narrow_def create_swap_msgs_def swap_quotes_def swap_message_types_def
  get_swap_result_for_def get_contract_address_def create_swap_message_for_def into_cosmos_msg_def
  execute_claim_rewards_def

end
