(* ===== verification/Wrapper_Props.thy ===== *)
theory Wrapper_Props
  imports Wrapper_Outcome Scenario
begin

text \<open>
  The properties of the wrapper token, stated for every implementation of its interfaces
  (\<open>wrapper_env\<close>), each with an instance on the concrete chain of \<open>Scenario\<close>, where the wrapper is
  the ampLuna contract.
\<close>

lemmas amp_luna_env = amp_luna_wrapper.wrapper_env_axioms

lemmas number_eval = quotable_def whole_fits_def fits_def dec_unit_def lsd_for_def wrapped_for_def
  lsd_excess_def decompound_amount_def uint128_def

abbreviation sc_dp :: "nat \<Rightarrow> nat \<Rightarrow> deps" where
  "sc_dp rate bal \<equiv> sc_deps (sc_chain rate bal)"

text \<open>A mint by \<open>''alice''\<close> in the scenario: 1000 units at the rate 2, with 500 LSD in the pot.\<close>

definition sc_world :: "(lsd_contracts, ledger) world" where
  "sc_world = \<lparr>wd_storage = sc_storage 1000, wd_lsd = 500, wd_rate = 2 * dec_unit\<rparr>"

lemma sc_mint_step:
  "\<exists>w. wrapper_step fixed18 ledger_cw20 sc_hub steak_asset ''wrapper'' sc_world w \<and>
    token_supply ledger_cw20 (ws_cw20 (wd_storage w)) = 2000 \<and> wd_lsd w = 1001"
proof -
  let ?dp = "sc_dp (2 * 10 ^ 18) 500" and ?e = "sc_env 5" and ?i = "sc_info ''alice''"
  obtain st' r where ex: "wrapper_execute fixed18 ledger_cw20 sc_hub (Mint ''bob'' 1000) ?dp ?e ?i
        (sc_storage 1000) = Inr (st', r)"
      and s: "token_supply ledger_cw20 (ws_cw20 st') = 2000"
      and m: "msgs r = [Wasm_Execute ''lsd'' (Cw20Exec (Cw20_TransferFrom ''alice'' ''wrapper'' 501)) []]"
    by (simp add: sc_eval wrapper_eval steak_eval fixed18_eval ledger_eval ledger_queries)
  have "wrapper_step fixed18 ledger_cw20 sc_hub steak_asset ''wrapper'' sc_world
      (sc_world\<lparr>wd_storage := st', wd_lsd := 1001\<rparr>)"
    by (rule wrapper_step.call [where dp = ?dp and e = ?e and i = ?i and r = r and m = "Mint ''bob'' 1000"
          and cfg = sc_lsd])
      (use ex m in \<open>auto simp: sc_world_def sc_eval steak_eval wrapper_eval steak_asset_def dec_unit_def
        atoms_def\<close>)
  with s show ?thesis by (intro exI [of _ "sc_world\<lparr>wd_storage := st', wd_lsd := 1001\<rparr>"]) simp
qed

text \<open>
  The wrapped token is always fully backed. Start anywhere where the LSD held is worth one
  coin per unit issued. Then along every run of messages to the contract, from any callers and
  with any amounts, with every effect of the messages the contract emits on its LSD balance, and
  with the exchange rate growing and LSD being donated in between, the LSD held stays worth at
  least one coin per unit issued.
\<close>

theorem always_fully_backed:
  assumes "wrapper_env A C H asset"
    and "(wrapper_step A C H asset self)\<^sup>*\<^sup>* w w'"
    and "token_supply C (ws_cw20 (wd_storage w)) * dec_unit \<le> wd_lsd w * wd_rate w"
  shows "token_supply C (ws_cw20 (wd_storage w')) * dec_unit \<le> wd_lsd w' * wd_rate w'"
  using wrapper_env.run_backed [OF assms(1,2)] assms(3) by (simp add: backed_def vault_of_def)

theorem always_fully_backed_witness:
  "\<exists>w. (wrapper_step fixed18 ledger_cw20 sc_hub steak_asset ''wrapper'')\<^sup>*\<^sup>* sc_world w \<and>
    token_supply ledger_cw20 (ws_cw20 (wd_storage w)) = 2000 \<and>
    2000 * dec_unit \<le> wd_lsd w * wd_rate w"
proof -
  obtain w where w: "wrapper_step fixed18 ledger_cw20 sc_hub steak_asset ''wrapper'' sc_world w"
      and s: "token_supply ledger_cw20 (ws_cw20 (wd_storage w)) = 2000"
    using sc_mint_step by blast
  have start: "token_supply ledger_cw20 (ws_cw20 (wd_storage sc_world)) * dec_unit
      \<le> wd_lsd sc_world * wd_rate sc_world"
    by (simp add: sc_world_def sc_storage_def sc_ledger_def ledger_queries)
  from w have run: "(wrapper_step fixed18 ledger_cw20 sc_hub steak_asset ''wrapper'')\<^sup>*\<^sup>* sc_world w"
    by (rule r_into_rtranclp)
  from always_fully_backed [OF amp_luna_env run start] s run
  show ?thesis by (intro exI [of _ w]) auto
qed

text \<open>
  The wrapper implements the abstract vault. Every step of the contract in its environment is,
  on the pot (LSD held, units issued), a sequence of deposits, redemptions, skims and receipts of
  the vault at the current rate; the rate itself never falls.
\<close>

theorem wrapper_refines_vault:
  assumes "wrapper_env A C H asset" and "wrapper_step A C H asset self w w'"
  shows "wd_rate w \<le> wd_rate w' \<and> (vault_step (wd_rate w))\<^sup>*\<^sup>* (vault_of C w) (vault_of C w')"
  by (rule wrapper_env.step_refines [OF assms])

theorem wrapper_refines_vault_witness:
  "\<exists>w. wrapper_step fixed18 ledger_cw20 sc_hub steak_asset ''wrapper'' sc_world w \<and>
    (vault_step (2 * dec_unit))\<^sup>*\<^sup>* \<lparr>v_lsd = 500, v_supply = 1000\<rparr> \<lparr>v_lsd = 1001, v_supply = 2000\<rparr>"
proof -
  obtain w where w: "wrapper_step fixed18 ledger_cw20 sc_hub steak_asset ''wrapper'' sc_world w"
      and s: "token_supply ledger_cw20 (ws_cw20 (wd_storage w)) = 2000" "wd_lsd w = 1001"
    using sc_mint_step by blast
  have "vault_of ledger_cw20 sc_world = \<lparr>v_lsd = 500, v_supply = 1000\<rparr>"
    by (simp add: vault_of_def sc_world_def sc_storage_def sc_ledger_def ledger_queries)
  with wrapper_refines_vault [OF amp_luna_env w] s w
  show ?thesis by (auto simp: vault_of_def sc_world_def)
qed

text \<open>
  C17. The outcome of a burn, on every branch. With a configured wrapper and a rate that can be
  read, \<open>Burn amount\<close> panics when the amount, or its quotient by the rate, is not a decimal (or the
  rate is zero); otherwise it is what the token's burn is, with one message that pays the caller
  the amount divided by the rate, rounded down.
\<close>

theorem burn_outcome:
  assumes "wrapper_env A C H asset"
    and "ws_lsd_config st = Some cfg" and "query_exchange_rate H cfg dp e = Inr q"
  shows "wrapper_execute A C H (Burn amount) dp e i st =
    (if quotable (atoms q) (unat amount)
     then rbind (cw20_burn C amount (ws_cw20 st) dp e i) (\<lambda>(t, r). Inr (st\<lparr>ws_cw20 := t\<rparr>,
       add_messages [lsd_transfer (asset cfg) (sender i)
         (uint128 (lsd_for (atoms q) (unat amount)))] r))
     else Inl Panic)"
  using wrapper_env.burn_eq [OF assms] by simp

theorem burn_outcome_witness:
  "\<exists>st. outcome (wrapper_execute fixed18 ledger_cw20 sc_hub (Burn 401) (sc_dp (2 * 10 ^ 18) 600)
      (sc_env 5) (sc_info ''alice'') (sc_storage 1000)) =
    Inr (st, [Wasm_Execute ''lsd'' (Cw20Exec (Cw20_Transfer ''alice'' 200)) []])"
proof -
  have q: "query_exchange_rate sc_hub sc_lsd (sc_dp (2 * 10 ^ 18) 600) (sc_env 5)
      = Inr (Decimal (2 * 10 ^ 18))"
    by (simp add: sc_eval steak_eval wrapper_eval)
  have cfg: "ws_lsd_config (sc_storage 1000) = Some sc_lsd" by (simp add: sc_storage_def)
  show ?thesis
    unfolding burn_outcome [OF amp_luna_env cfg q]
    by (simp add: number_eval atoms_def sc_eval ledger_eval outcome_def steak_asset_def)
qed

text \<open>
  C16. The outcome of a mint, on every branch. \<open>Mint recipient amount\<close> panics when the quotient of the
  amount by the rate, plus one, is not a decimal; otherwise it asks the hub to take that quotient,
  rounded down, plus one LSD from the caller, and then the token, in the contract's own name, to
  mint the amount; an error of either is the outcome.
\<close>

theorem mint_outcome:
  assumes "wrapper_env A C H asset"
    and "ws_lsd_config st = Some cfg" and "query_exchange_rate H cfg dp e = Inr q"
  shows "wrapper_execute A C H (Mint recipient amount) dp e i st =
    (if quotable (atoms q) (unat amount) \<and>
        fits (unat amount * dec_unit * dec_unit div atoms q + dec_unit)
     then rbind (deposit_funds H cfg dp e i (uint128 (lsd_for (atoms q) (unat amount) + 1)) (sender i))
       (\<lambda>ms. rbind (cw20_mint C recipient amount (ws_cw20 st) dp e (i\<lparr>sender := contract_address e\<rparr>))
         (\<lambda>(t, r). Inr (st\<lparr>ws_cw20 := t\<rparr>, add_messages ms r)))
     else Inl Panic)"
  using wrapper_env.mint_eq [OF assms] by simp

lemma sc_rate:
  "query_exchange_rate sc_hub sc_lsd (sc_dp (2 * 10 ^ 18) n) (sc_env t) = Inr (Decimal (2 * 10 ^ 18))"
  by (simp add: sc_eval steak_eval wrapper_eval)

lemma sc_cfg: "ws_lsd_config (sc_storage n) = Some sc_lsd"
  by (simp add: sc_storage_def)

theorem mint_outcome_witness:
  "\<exists>st. outcome (wrapper_execute fixed18 ledger_cw20 sc_hub (Mint ''bob'' 1001) (sc_dp (2 * 10 ^ 18) 600)
      (sc_env 5) (sc_info ''alice'') (sc_storage 1000)) =
    Inr (st, [Wasm_Execute ''lsd'' (Cw20Exec (Cw20_TransferFrom ''alice'' ''wrapper'' 501)) []])"
  unfolding mint_outcome [OF amp_luna_env sc_cfg sc_rate]
  by (simp add: number_eval atoms_def sc_eval steak_eval ledger_eval outcome_def)

text \<open>
  C18. The outcome of a mint with LSD, on every branch: the units minted are the LSD times the rate,
  rounded down; the hub takes exactly the LSD named.
\<close>

theorem mint_with_outcome:
  assumes "wrapper_env A C H asset"
    and "ws_lsd_config st = Some cfg" and "query_exchange_rate H cfg dp e = Inr q"
  shows "wrapper_execute A C H (MintWith recipient lsd) dp e i st =
    (if whole_fits (unat lsd) \<and> fits (unat lsd * atoms q)
     then rbind (deposit_funds H cfg dp e i lsd (sender i))
       (\<lambda>ms. rbind (cw20_mint C recipient (uint128 (wrapped_for (atoms q) (unat lsd)))
           (ws_cw20 st) dp e (i\<lparr>sender := contract_address e\<rparr>))
         (\<lambda>(t, r). Inr (st\<lparr>ws_cw20 := t\<rparr>, add_messages ms r)))
     else Inl Panic)"
  using wrapper_env.mint_with_eq [OF assms] by simp

theorem mint_with_outcome_witness:
  "\<exists>st. outcome (wrapper_execute fixed18 ledger_cw20 sc_hub (MintWith ''bob'' 7) (sc_dp (2 * 10 ^ 18) 600)
      (sc_env 5) (sc_info ''alice'') (sc_storage 1000)) =
    Inr (st, [Wasm_Execute ''lsd'' (Cw20Exec (Cw20_TransferFrom ''alice'' ''wrapper'' 7)) []]) \<and>
    token_supply ledger_cw20 (ws_cw20 st) = 1014"
  unfolding mint_with_outcome [OF amp_luna_env sc_cfg sc_rate]
  by (simp add: number_eval atoms_def sc_eval steak_eval ledger_eval outcome_def ledger_queries)

text \<open>
  C14. The outcome of a decompound asked for by the hub, on every branch. With \<open>r\<close> the rate, \<open>b\<close> the
  LSD held and \<open>s\<close> the supply, \<open>decompound_amount r b s\<close> says what leaves: nothing when the pot is not
  sufficient or has no excess, else the excess of LSD over the need less one unit, paid to the
  recipient in one message; the storage is untouched. The panics are the overflows and the case
  that the value of the margin exceeds the excess value.
\<close>

theorem decompound_outcome:
  assumes "wrapper_env A C H asset"
    and "ws_lsd_config st = Some cfg" and "query_exchange_rate H cfg dp e = Inr q"
    and "lsd_balance (asset cfg) dp (contract_address e) = Inr b"
    and "query_token_info C (ws_cw20 st) = Inr ti" and "ws_hub_contract st = Some (sender i)"
    and "opt_traverse (\<lambda>x. std_res (addr_validate dp x)) recipient = Inr to"
  shows "outcome (wrapper_execute A C H (Decompound recipient) dp e i st) =
    (case decompound_amount (atoms q) (unat b) (unat (ti_total_supply ti)) of
       None \<Rightarrow> Inl Panic
     | Some n \<Rightarrow> Inr (st, if n = 0 then [] else
         [lsd_transfer (asset cfg) (case to of None \<Rightarrow> sender i | Some a \<Rightarrow> a) (uint128 n)]))"
  using wrapper_env.decompound_eq [OF assms] by simp

theorem decompound_outcome_witness:
  "outcome (wrapper_execute fixed18 ledger_cw20 sc_hub (Decompound (Some ''reward'')) (sc_dp (2 * 10 ^ 18) 600)
      (sc_env 5) (sc_info ''hub'') (sc_storage 1000)) =
    Inr (sc_storage 1000, [Wasm_Execute ''lsd'' (Cw20Exec (Cw20_Transfer ''reward'' 99)) []])"
proof -
  let ?dp = "sc_dp (2 * 10 ^ 18) 600" and ?e = "sc_env 5" and ?i = "sc_info ''hub''"
  have b: "lsd_balance (steak_asset sc_lsd) ?dp (contract_address ?e) = Inr 600"
    by (simp add: sc_eval steak_asset_def wrapper_eval)
  obtain ti where ti: "query_token_info ledger_cw20 (ws_cw20 (sc_storage 1000)) = Inr ti"
      and s: "ti_total_supply ti = 1000"
    by (simp add: sc_eval ledger_eval)
  have hub: "ws_hub_contract (sc_storage 1000) = Some (sender ?i)" by (simp add: sc_eval)
  have to: "opt_traverse (\<lambda>x. std_res (addr_validate ?dp x)) (Some ''reward'') = Inr (Some ''reward'')"
    by (simp add: sc_eval)
  show ?thesis
    unfolding decompound_outcome [OF amp_luna_env sc_cfg sc_rate b ti hub to]
    by (simp add: number_eval atoms_def s sc_lsd_def steak_asset_def)
qed

text \<open>
  A decompound takes only what is not needed: when a call sends LSD out, its amount is positive,
  the LSD that remains is still worth one coin per unit issued, and the storage is as before.
\<close>

theorem decompound_leaves_enough:
  assumes "wrapper_env A C H asset"
    and "wrapper_execute A C H (Decompound recipient) dp e i st = Inr (st', r)"
  shows "st' = st \<and> (msgs r = [] \<or> (\<exists>cfg q b to l. ws_lsd_config st = Some cfg \<and>
    query_exchange_rate H cfg dp e = Inr q \<and>
    lsd_balance (asset cfg) dp (contract_address e) = Inr b \<and>
    msgs r = [lsd_transfer (asset cfg) to l] \<and> 0 < unat l \<and> unat l \<le> unat b \<and>
    token_supply C (ws_cw20 st) * dec_unit \<le> (unat b - unat l) * atoms q))"
proof -
  from assms(2) have "execute_decompound A C H recipient dp e i st = Inr (st', r)" by simp
  then show ?thesis
  proof (cases rule: wrapper_env.decompound_ok [OF assms(1), consumes 1, case_names idle skimmed])
    case (skimmed cfg q b to l)
    have "unat l \<le> unat b"
      using skimmed(10) lsd_excess_le [of "atoms q" "unat b" "token_supply C (ws_cw20 st)"] by simp
    moreover have "token_supply C (ws_cw20 st) * dec_unit \<le> (unat b - unat l) * atoms q"
      by (rule skim_leaves_backed) (use skimmed in auto)
    ultimately show ?thesis using skimmed by blast
  qed simp
qed

theorem decompound_leaves_enough_witness:
  "\<exists>st' r. wrapper_execute fixed18 ledger_cw20 sc_hub (Decompound None) (sc_dp (2 * 10 ^ 18) 600)
      (sc_env 5) (sc_info ''hub'') (sc_storage 1000) = Inr (st', r) \<and> st' = sc_storage 1000 \<and>
    msgs r = [Wasm_Execute ''lsd'' (Cw20Exec (Cw20_Transfer ''hub'' 99)) []]"
proof -
  obtain st' r where ex: "wrapper_execute fixed18 ledger_cw20 sc_hub (Decompound None) (sc_dp (2 * 10 ^ 18) 600)
      (sc_env 5) (sc_info ''hub'') (sc_storage 1000) = Inr (st', r)"
    and m: "msgs r = [Wasm_Execute ''lsd'' (Cw20Exec (Cw20_Transfer ''hub'' 99)) []]"
    by (simp add: sc_eval wrapper_eval steak_eval fixed18_eval ledger_eval less_decimal_def)
  from decompound_leaves_enough [OF amp_luna_env ex] ex m show ?thesis by blast
qed

text \<open>
  Only the hub may decompound: for any other caller the outcome is the error \<open>Unauthorized\<close>,
  whatever the storage, the chain and the recipient.
\<close>

theorem decompound_authorised:
  assumes "ws_hub_contract st = Some h" and "sender i \<noteq> h"
  shows "wrapper_execute A C H (Decompound recipient) dp e i st = Inl (Err Unauthorized)"
  using assms by (simp add: execute_decompound_def read_hub_contract_def)

theorem decompound_authorised_witness:
  "wrapper_execute fixed18 ledger_cw20 sc_hub (Decompound (Some ''alice'')) (sc_dp (2 * 10 ^ 18) 600)
    (sc_env 5) (sc_info ''alice'') (sc_storage 1000) = Inl (Err Unauthorized)"
  by (rule decompound_authorised [where h = "''hub''"]) (simp_all add: sc_eval)

text \<open>
  C25. Minting and burning back the same amount at an unchanged rate. With a token as LSD the wrapper
  takes exactly one LSD unit more than it pays back, so the round trip costs exactly one unit. With coins
  it keeps all that was attached, which is at least one more than it pays back: whoever attaches more than
  the quote loses the rest as well. The total supply is where it was.
\<close>

theorem mint_then_burn:
  assumes "wrapper_env A C H asset"
    and "wrapper_execute A C H (Mint recipient amount) dp e i st = Inr (st1, r1)"
    and "wrapper_execute A C H (Burn amount) dp' e' i' st1 = Inr (st2, r2)"
    and "ws_lsd_config st = Some cfg" and "query_exchange_rate H cfg dp e = Inr q"
    and "query_exchange_rate H cfg dp' e' = Inr q"
    and "contract_address e = self" and "sender i \<noteq> self" and "sender i' \<noteq> self" and "funds i' = []"
    and "lsd_run (asset cfg) self (msgs r1) (n0 + lsd_attached (asset cfg) i) = Some n1"
    and "lsd_run (asset cfg) self (msgs r2) n1 = Some n2"
  shows "\<exists>brought paid. n1 = n0 + brought \<and> n1 = n2 + unat paid \<and>
    msgs r2 = [lsd_transfer (asset cfg) (sender i') paid] \<and>
    (case asset cfg of Token t \<Rightarrow> brought = unat paid + 1
     | NativeToken d \<Rightarrow> brought = lsd_attached (asset cfg) i \<and> unat paid + 1 \<le> brought) \<and>
    token_supply C (ws_cw20 st2) = token_supply C (ws_cw20 st)"
proof -
  from assms(2) have "execute_mint A C H recipient amount dp e i st = Inr (st1, r1)" by simp
  then obtain taken t where m: "unat taken = lsd_for (atoms q) (unat amount) + 1"
      "deposit_funds H cfg dp e i taken (sender i) = Inr (msgs r1)" "st1 = st\<lparr>ws_cw20 := t\<rparr>"
      "token_supply C t = token_supply C (ws_cw20 st) + unat amount"
    using assms(4,5) by (auto elim!: wrapper_env.mint_ok [OF assms(1)])
  from assms(3) have "execute_burn A C H amount dp' e' i' st1 = Inr (st2, r2)" by simp
  then obtain paid u where p: "unat paid = lsd_for (atoms q) (unat amount)"
      "msgs r2 = [lsd_transfer (asset cfg) (sender i') paid]" "st2 = st1\<lparr>ws_cw20 := u\<rparr>"
      "token_supply C (ws_cw20 st1) = token_supply C u + unat amount"
    using assms(4,6) m(3) by (auto elim!: wrapper_env.burn_ok [OF assms(1)])
  from m(2) assms(7,8,11) obtain brought where b: "n1 = n0 + brought"
      "case asset cfg of Token t \<Rightarrow> brought = unat taken
       | NativeToken d \<Rightarrow> brought = lsd_attached (asset cfg) i \<and> unat taken \<le> brought"
    by (rule wrapper_env.deposit_brings [OF assms(1)])
  have "n1 = n2 + unat paid"
    using assms(9,12) p(2) by (auto simp: lsd_run_transfer simp del: lsd_run.simps split: if_splits)
  with b m p show ?thesis by (intro exI [of _ brought] exI [of _ paid]) (auto split: asset_info.splits)
qed

theorem mint_then_burn_witness:
  "\<exists>st1 r1 st2 r2. wrapper_execute fixed18 ledger_cw20 sc_hub (Mint ''alice'' 1001) (sc_dp (2 * 10 ^ 18) 600)
      (sc_env 5) (sc_info ''alice'') (sc_storage 1000) = Inr (st1, r1) \<and>
    wrapper_execute fixed18 ledger_cw20 sc_hub (Burn 1001) (sc_dp (2 * 10 ^ 18) 1101)
      (sc_env 6) (sc_info ''alice'') st1 = Inr (st2, r2) \<and>
    msgs r1 = [Wasm_Execute ''lsd'' (Cw20Exec (Cw20_TransferFrom ''alice'' ''wrapper'' 501)) []] \<and>
    msgs r2 = [Wasm_Execute ''lsd'' (Cw20Exec (Cw20_Transfer ''alice'' 500)) []] \<and>
    token_supply ledger_cw20 (ws_cw20 st2) = 1000"
proof -
  obtain st1 r1 st2 r2 where
      1: "wrapper_execute fixed18 ledger_cw20 sc_hub (Mint ''alice'' 1001) (sc_dp (2 * 10 ^ 18) 600)
        (sc_env 5) (sc_info ''alice'') (sc_storage 1000) = Inr (st1, r1)"
      and 2: "wrapper_execute fixed18 ledger_cw20 sc_hub (Burn 1001) (sc_dp (2 * 10 ^ 18) 1101)
        (sc_env 6) (sc_info ''alice'') st1 = Inr (st2, r2)"
      and m: "msgs r1 = [Wasm_Execute ''lsd'' (Cw20Exec (Cw20_TransferFrom ''alice'' ''wrapper'' 501)) []]"
      "msgs r2 = [Wasm_Execute ''lsd'' (Cw20Exec (Cw20_Transfer ''alice'' 500)) []]"
    by (simp add: sc_eval wrapper_eval steak_eval fixed18_eval ledger_eval)
  have issued: "token_supply ledger_cw20 (ws_cw20 (sc_storage 1000)) = 1000"
    by (simp add: sc_eval ledger_queries)
  have lsd: "steak_asset sc_lsd = Token ''lsd''" by (simp add: steak_asset_def sc_lsd_def)
  have flow: "lsd_run (steak_asset sc_lsd) ''wrapper'' (msgs r1) (600 + lsd_attached (steak_asset sc_lsd) (sc_info ''alice''))
      = Some 1101" "lsd_run (steak_asset sc_lsd) ''wrapper'' (msgs r2) 1101 = Some 601"
    by (simp_all add: lsd m)
  have "contract_address (sc_env 5) = ''wrapper''" by (simp add: sc_env_def)
  from mint_then_burn [OF amp_luna_env 1 2 sc_cfg sc_rate sc_rate this _ _ _ flow] issued
  have "token_supply ledger_cw20 (ws_cw20 st2) = 1000" by (auto simp: sc_info_def)
  with 1 2 m show ?thesis by blast
qed

text \<open>
  C26. Minting with LSD and burning what was minted, at an unchanged rate, pays back at most the
  LSD that was brought.
\<close>

theorem mint_with_then_burn:
  assumes "wrapper_env A C H asset"
    and "wrapper_execute A C H (MintWith recipient lsd) dp e i st = Inr (st1, r1)"
    and "wrapper_execute A C H (Burn amount) dp' e' i' st1 = Inr (st2, r2)"
    and "ws_lsd_config st = Some cfg" and "query_exchange_rate H cfg dp e = Inr q"
    and "query_exchange_rate H cfg dp' e' = Inr q"
    and "token_supply C (ws_cw20 st1) = token_supply C (ws_cw20 st) + unat amount"
  shows "\<exists>paid. msgs r2 = [lsd_transfer (asset cfg) (sender i') paid] \<and> unat paid \<le> unat lsd"
proof -
  from assms(2) have "execute_mint_with A C H recipient lsd dp e i st = Inr (st1, r1)" by simp
  then obtain t where m: "st1 = st\<lparr>ws_cw20 := t\<rparr>"
      "token_supply C t = token_supply C (ws_cw20 st) + wrapped_for (atoms q) (unat lsd)"
    using assms(4,5) by (auto elim!: wrapper_env.mint_with_ok [OF assms(1)])
  with assms(7) have amount: "unat amount = wrapped_for (atoms q) (unat lsd)" by simp
  from assms(3) have "execute_burn A C H amount dp' e' i' st1 = Inr (st2, r2)" by simp
  then obtain paid where paid: "unat paid = lsd_for (atoms q) (unat amount)" "0 < atoms q"
      "msgs r2 = [lsd_transfer (asset cfg) (sender i') paid]"
    using assms(4,6) m(1) by (auto elim!: wrapper_env.burn_ok [OF assms(1)])
  have "unat paid \<le> unat lsd * atoms q div atoms q"
    using wrapped_for_le [of "atoms q" "unat lsd"] by (simp only: paid amount lsd_for_def div_le_mono)
  with paid show ?thesis by (intro exI [of _ paid]) simp
qed

theorem mint_with_then_burn_witness:
  "\<exists>st1 r1 st2 r2 paid. wrapper_execute fixed18 ledger_cw20 sc_hub (MintWith ''alice'' 7)
      (sc_dp (15 * 10 ^ 17) 600) (sc_env 5) (sc_info ''alice'') (sc_storage 600) = Inr (st1, r1) \<and>
    wrapper_execute fixed18 ledger_cw20 sc_hub (Burn 10) (sc_dp (15 * 10 ^ 17) 607)
      (sc_env 6) (sc_info ''alice'') st1 = Inr (st2, r2) \<and>
    msgs r2 = [lsd_transfer (Token ''lsd'') ''alice'' paid] \<and> unat paid \<le> 7"
proof -
  obtain st1 r1 st2 r2 where
      1: "wrapper_execute fixed18 ledger_cw20 sc_hub (MintWith ''alice'' 7)
        (sc_dp (15 * 10 ^ 17) 600) (sc_env 5) (sc_info ''alice'') (sc_storage 600) = Inr (st1, r1)"
      and 2: "wrapper_execute fixed18 ledger_cw20 sc_hub (Burn 10) (sc_dp (15 * 10 ^ 17) 607)
        (sc_env 6) (sc_info ''alice'') st1 = Inr (st2, r2)"
      and s: "token_supply ledger_cw20 (ws_cw20 st1) = 610"
    by (simp add: sc_eval wrapper_eval steak_eval fixed18_eval ledger_eval ledger_queries)
  have q: "query_exchange_rate sc_hub sc_lsd (sc_dp (15 * 10 ^ 17) n) (sc_env t) = Inr (Decimal (15 * 10 ^ 17))"
    for n t by (simp add: sc_eval steak_eval wrapper_eval)
  have "token_supply ledger_cw20 (ws_cw20 st1)
      = token_supply ledger_cw20 (ws_cw20 (sc_storage 600)) + unat (10 :: u128)"
    by (simp add: s) (simp add: sc_eval ledger_queries)
  from mint_with_then_burn [OF amp_luna_env 1 2 sc_cfg q q this] 1 2
  show ?thesis by (auto simp: sc_info_def steak_asset_def sc_lsd_def)
qed

text \<open>
  The wrapper never calls a wrapper: no message of its responses is an execute message of this
  contract type, so no call of it can re-enter it.
\<close>

theorem never_calls_a_wrapper:
  assumes "wrapper_env A C H asset" and "wrapper_execute A C H m dp e i st = Inr (st', r)"
  shows "Wasm_Execute c (WrapperExec x) fs \<notin> set (msgs r)"
  by (rule wrapper_env.no_self_call [OF assms])

theorem never_calls_a_wrapper_witness:
  "\<exists>st' r. wrapper_execute fixed18 ledger_cw20 sc_hub (Send ''wrapper'' 5 (WrapperExec BurnAll))
      (sc_dp (2 * 10 ^ 18) 600) (sc_env 5) (sc_info ''alice'') (sc_storage 1000) = Inr (st', r) \<and>
    Wasm_Execute ''wrapper'' (WrapperExec BurnAll) [] \<notin> set (msgs r)"
proof -
  obtain st' r where ex: "wrapper_execute fixed18 ledger_cw20 sc_hub (Send ''wrapper'' 5 (WrapperExec BurnAll))
      (sc_dp (2 * 10 ^ 18) 600) (sc_env 5) (sc_info ''alice'') (sc_storage 1000) = Inr (st', r)"
    by (simp add: sc_eval execute_send_def on_cw20_def ledger_eval Let_def)
  from never_calls_a_wrapper [OF amp_luna_env ex] ex show ?thesis by blast
qed

text \<open>
  \<open>BurnAll\<close> closes the caller's account: afterwards the caller holds nothing, and the supply has
  fallen by exactly what the caller held.
\<close>

theorem burn_all_closes:
  assumes "wrapper_env A C H asset"
    and "wrapper_execute A C H BurnAll dp e i st = Inr (st', r)"
  shows "token_holding C (ws_cw20 st') (sender i) = 0 \<and>
    token_supply C (ws_cw20 st) = token_supply C (ws_cw20 st') + token_holding C (ws_cw20 st) (sender i)"
proof -
  from assms(2) have "execute_burn_all A C H dp e i st = Inr (st', r)" by simp
  then show ?thesis
  proof (cases rule: wrapper_env.burn_all_ok [OF assms(1), consumes 1, case_names idle positive])
    case idle
    then show ?thesis by (simp add: token_holding_def)
  next
    case (positive amount)
    from positive(3) show ?thesis
      by (rule wrapper_env.burn_ok [OF assms(1)])
        (use positive(1) in \<open>simp add: token_holding_def\<close>)
  qed
qed

theorem burn_all_closes_witness:
  "\<exists>st' r. wrapper_execute fixed18 ledger_cw20 sc_hub BurnAll (sc_dp (2 * 10 ^ 18) 600) (sc_env 5)
      (sc_info ''alice'') (sc_storage 1000) = Inr (st', r) \<and>
    token_holding ledger_cw20 (ws_cw20 st') ''alice'' = 0 \<and>
    token_supply ledger_cw20 (ws_cw20 st') = 0"
proof -
  obtain st' r where ex: "wrapper_execute fixed18 ledger_cw20 sc_hub BurnAll (sc_dp (2 * 10 ^ 18) 600)
      (sc_env 5) (sc_info ''alice'') (sc_storage 1000) = Inr (st', r)"
    by (simp add: sc_eval wrapper_eval steak_eval fixed18_eval ledger_eval)
  from burn_all_closes [OF amp_luna_env ex] ex show ?thesis
    by (auto simp: sc_info_def) (simp add: sc_eval ledger_queries)
qed

text \<open>
  C32. The rate that the contract reports tells whether it is fully backed: in an answer to
  \<open>TokenInfo\<close> with a positive supply, the exchange rate is at least one exactly when the LSD held,
  at the hub's rate, is worth one coin per unit issued.
\<close>

theorem reported_rate_means_backed:
  assumes "wrapper_env A C H asset"
    and "wrapper_query A C H Query_TokenInfo dp e st = Inr (Info_Answer info)"
    and "tr_total_supply info \<noteq> 0"
  shows "\<exists>cfg q b. ws_lsd_config st = Some cfg \<and> query_exchange_rate H cfg dp e = Inr q \<and>
    lsd_balance (asset cfg) dp (contract_address e) = Inr b \<and>
    (dec_one \<le> tr_exchange_rate info \<longleftrightarrow> unat (tr_total_supply info) * dec_unit \<le> unat b * atoms q)"
proof -
  from assms(2) obtain ti cur s where ti: "query_token_info C (ws_cw20 st) = Inr ti"
      and g: "get_current_exchange_rate A C H dp e st wrapper_state_default = Inr (cur, s)"
      and info: "tr_total_supply info = ti_total_supply ti" "tr_exchange_rate info = cur"
    by (auto simp: wrapper_query_def to_generic_def res_simps)
  from g obtain cfg where c: "ws_lsd_config st = Some cfg"
      "query_exchange_rate H cfg dp e = Inr (w_lsd_exchange_rate s)"
      "lsd_balance (asset cfg) dp (contract_address e) = Inr (w_lsd_balance s)"
      and issued: "unat (w_wlsd_supply s) = token_supply C (ws_cw20 st)"
      and worth: "atoms (w_backing_luna s) = unat (w_lsd_balance s) * atoms (w_lsd_exchange_rate s)"
      and cur: "if w_wlsd_supply s = 0 then cur = dec_one
        else atoms cur = atoms (w_backing_luna s) div unat (w_wlsd_supply s)"
    by (rule wrapper_env.current_rate_ok [OF assms(1)])
  have n: "unat (w_wlsd_supply s) = unat (tr_total_supply info)"
    using issued ti info(1) by (simp add: token_supply_def)
  with assms(3) have "w_wlsd_supply s = tr_total_supply info" by (simp add: word_unat_eq_iff)
  with cur worth assms(3)
  have atoms_cur: "atoms cur = unat (w_lsd_balance s) * atoms (w_lsd_exchange_rate s) div unat (tr_total_supply info)"
    by simp
  have "0 < unat (tr_total_supply info)" using assms(3) by (simp add: unat_gt_0)
  then have "dec_one \<le> cur \<longleftrightarrow>
      unat (tr_total_supply info) * dec_unit \<le> unat (w_lsd_balance s) * atoms (w_lsd_exchange_rate s)"
    by (simp add: decimal_le_iff atoms_cur less_eq_div_iff_mult_less_eq mult.commute)
  with c info(2) show ?thesis by blast
qed

theorem reported_rate_means_backed_witness:
  "\<exists>info. wrapper_query fixed18 ledger_cw20 sc_hub Query_TokenInfo (sc_dp (2 * 10 ^ 18) 600) (sc_env 5)
      (sc_storage 1000) = Inr (Info_Answer info) \<and> dec_one \<le> tr_exchange_rate info"
proof -
  let ?dp = "sc_dp (2 * 10 ^ 18) 600"
  obtain info where q: "wrapper_query fixed18 ledger_cw20 sc_hub Query_TokenInfo ?dp (sc_env 5)
        (sc_storage 1000) = Inr (Info_Answer info)" and s: "tr_total_supply info = 1000"
    by (simp add: wrapper_query_def to_generic_def sc_eval wrapper_eval steak_eval fixed18_eval ledger_eval)
  from s have "tr_total_supply info \<noteq> 0" by simp
  from reported_rate_means_backed [OF amp_luna_env q this] obtain r b where
      r: "query_exchange_rate sc_hub sc_lsd ?dp (sc_env 5) = Inr r"
      and b: "lsd_balance (steak_asset sc_lsd) ?dp (contract_address (sc_env 5)) = Inr b"
      and iff: "dec_one \<le> tr_exchange_rate info \<longleftrightarrow> unat (tr_total_supply info) * dec_unit \<le> unat b * atoms r"
    by (auto simp: sc_cfg)
  have "r = Decimal (2 * 10 ^ 18)" using r sc_rate [of 600 5] by simp
  moreover have "b = 600" using b by (simp add: sc_eval steak_asset_def wrapper_eval)
  ultimately have "unat (tr_total_supply info) * dec_unit \<le> unat b * atoms r"
    by (simp add: s dec_unit_def atoms_def)
  with iff q show ?thesis by auto
qed

text \<open>
  The margin of one LSD can make a decompound panic. When the excess is one LSD up to the
  rounding of its quotient, its value in coins can be less than the value of one LSD, and the
  subtraction of the margin underflows: at the rate 2.000000000000000001 with 10^18 - 1 LSD held
  against 2 * (10^18 - 2) + 1 units, the call of the hub panics, so the hub cannot update its index.
\<close>

theorem decompound_margin_panics:
  "wrapper_execute fixed18 ledger_cw20 sc_hub (Decompound None)
     (sc_dp (2 * 10 ^ 18 + 1) (10 ^ 18 - 1)) (sc_env 5) (sc_info ''hub'')
     (sc_storage (2 * (10 ^ 18 - 2) + 1)) = Inl Panic"
  by (simp add: sc_eval wrapper_eval steak_eval fixed18_eval ledger_eval less_decimal_def)

text \<open>
  C34. The coin wrapper mints only against the right coins: a successful mint came with exactly one
  coin, of the LSD's denomination, and of at least the quotient of the amount by the oracle's rate
  plus one; no message is sent.
\<close>

theorem coin_mint_needs_coins:
  assumes "wrapper_env A C (stride_hub A) stride_asset"
    and "coin_execute A C (Mint recipient amount) dp e i st = Inr (st', r)"
  shows "\<exists>cfg p k. ws_lsd_config st = Some cfg \<and>
    wasm_smart dp (sc_oracle_contract cfg) (Q_Oracle (Oracle_QPrice (sc_denom cfg) (sc_underlying_token_denom cfg)))
      = Inr (A_Price p) \<and>
    funds i = [k] \<and> coin_denom k = sc_denom cfg \<and>
    lsd_for (unat (atomics256 (pr_rate p))) (unat amount) + 1 \<le> unat (coin_amount k) \<and> msgs r = []"
proof -
  have A: "decimal_arith A" using assms(1) by (simp add: wrapper_env_def)
  from assms(2) have "execute_mint A C (stride_hub A) recipient amount dp e i st = Inr (st', r)"
    by (simp add: coin_execute_def)
  then obtain cfg q l where cfg: "ws_lsd_config st = Some cfg"
      and q: "stride_query_exchange_rate A cfg dp e = Inr q"
      and l: "unat l = lsd_for (atoms q) (unat amount) + 1"
      and d: "stride_deposit_funds cfg dp e i l (sender i) = Inr (msgs r)"
    by (auto elim!: wrapper_env.mint_ok [OF assms(1)])
  from A q obtain p where p: "wasm_smart dp (sc_oracle_contract cfg)
        (Q_Oracle (Oracle_QPrice (sc_denom cfg) (sc_underlying_token_denom cfg))) = Inr (A_Price p)"
      "atoms q = unat (atomics256 (pr_rate p))"
    by (rule stride_rate_ok)
  from d obtain k where k: "funds i = [k]" "coin_denom k = sc_denom cfg" "l \<le> coin_amount k" "msgs r = []"
    by (auto simp: stride_deposit_iff)
  from k(3) have "unat l \<le> unat (coin_amount k)" by (simp add: word_le_nat_alt)
  with cfg p k l show ?thesis by auto
qed

definition sc_coin_storage :: "(stride_lsd_config, ledger) wrapper_storage" where
  "sc_coin_storage = \<lparr>ws_lsd_config = Some \<lparr>sc_denom = ''stluna'', sc_underlying_token_denom = ''uluna'',
     sc_oracle_contract = ''oracle''\<rparr>, ws_hub_contract = Some ''hub'', ws_cw20 = sc_ledger 1000\<rparr>"

theorem coin_mint_needs_coins_witness:
  "\<exists>st' r. coin_execute fixed18 ledger_cw20 (Mint ''bob'' 1000) (sc_dp (2 * 10 ^ 18) 600) (sc_env 5)
      \<lparr>sender = ''alice'', funds = [\<lparr>coin_denom = ''stluna'', coin_amount = 501\<rparr>]\<rparr> sc_coin_storage
      = Inr (st', r) \<and> msgs r = []"
proof -
  obtain st' r where ex: "coin_execute fixed18 ledger_cw20 (Mint ''bob'' 1000) (sc_dp (2 * 10 ^ 18) 600)
      (sc_env 5) \<lparr>sender = ''alice'', funds = [\<lparr>coin_denom = ''stluna'', coin_amount = 501\<rparr>]\<rparr>
      sc_coin_storage = Inr (st', r)"
    by (simp add: coin_execute_def sc_coin_storage_def sc_eval wrapper_eval stride_query_exchange_rate_def
        query_price_def stride_deposit_funds_def fixed18_eval ledger_eval)
  from coin_mint_needs_coins [OF stride_wrapper.wrapper_env_axioms ex] ex show ?thesis by blast
qed

end
