(* ===== verification/Limited_Props.thy ===== *)
theory Limited_Props
  imports Wrapper_Props
begin

text \<open>
  The properties of the limited wrapper, for every implementation of its interfaces, each with an
  instance on the concrete chain, where the wrapper is the amp-LP contract.
\<close>

lemmas amp_lp_env = amp_lp_wrapper.wrapper_env_axioms

lemmas limited_run_eval = sc_eval wrapper_eval limited_eval amp_eval fixed18_eval ledger_eval
  less_decimal_def less_eq_timestamp_def

text \<open>The concrete contract: instantiated at second 10 with a tenth per year, 1000 units issued.\<close>

definition sc_limited_init :: "amp_contracts_raw limited_init_msg" where
  "sc_limited_init = \<lparr>tm_name = ''wrapped'', tm_symbol = ''W'', tm_decimals = 6,
     tm_initial_balances = [(''alice'', 1000)], tm_hub_contract = ''hub'',
     tm_lsd_config = \<lparr>ar_token = ''lsd'', ar_hub = ''lsd_hub''\<rparr>,
     tm_max_decompound_ratio = Some (Decimal (10 ^ 17))\<rparr>"

definition sc_limited_blank :: "(amp_contracts, ledger) limited_storage" where
  "sc_limited_blank = \<lparr>ws_lsd_config = None, ws_hub_contract = None, ws_cw20 = empty_ledger,
     lm_decompound_state = None, lm_decompound_config = None\<rparr>"

text \<open>A year after the instantiation the hub decompounds: a tenth of the LSD less the margin.\<close>

lemma sc_limited_run:
  obtains st r st' r' where
    "limited_instantiate ledger_cw20 amph_hub sc_limited_init (sc_dp (2 * 10 ^ 18) 600) (sc_env 10)
       (sc_info ''owner'') sc_limited_blank = Inr (st, r)"
    "limited_execute fixed18 ledger_cw20 amph_hub (Decompound None) (sc_dp (2 * 10 ^ 18) 600)
       (sc_env 31536010) (sc_info ''hub'') st = Inr (st', r')"
    "msgs r' = [Wasm_Execute ''lsd'' (Cw20Exec (Cw20_Transfer ''hub'' 59)) []]"
    "lm_decompound_state st' = Some \<lparr>ds_ratio_sum = Decimal 98333333333333333,
       ds_total_seconds = 31536000, ds_last_decompound = Timestamp 31536010000000000\<rparr>"
  by (simp add: limited_instantiate_def sc_limited_init_def sc_limited_blank_def
      amp_instantiate_config_def store_lsd_config_def store_hub_contract_def limited_run_eval)



text \<open>
  The clock of the accounting is right along every run: the seconds it counts plus the second
  of the instantiation are the second of the last decompound.
\<close>

theorem accounting_clock:
  assumes "wrapper_env A C H asset"
    and "limited_instantiate C H m dp e i st0 = Inr (st, r)"
    and "tm_max_decompound_ratio m = Some ratio"
    and "(limited_step A C H)\<^sup>*\<^sup>* st st'"
  shows "\<exists>ds. lm_decompound_state st' = Some ds \<and>
    unat (ds_total_seconds ds) + secs A (block_time e) = secs A (ds_last_decompound ds) \<and>
    atoms (ds_ratio_sum ds) \<le> allowance (atoms ratio) (unat (ds_total_seconds ds))"
proof -
  have "accounted A ratio (block_time e) st"
    by (rule wrapper_env.instantiate_accounted [OF assms(1-3)])
  then have "accounted A ratio (block_time e) st'"
    by (rule wrapper_env.run_accounted [OF assms(1,4)])
  then show ?thesis by (auto simp: accounted_def split: option.splits)
qed

theorem accounting_clock_witness:
  "\<exists>st r st' ds. limited_instantiate ledger_cw20 amph_hub sc_limited_init (sc_dp (2 * 10 ^ 18) 600)
      (sc_env 10) (sc_info ''owner'') sc_limited_blank = Inr (st, r) \<and>
    (limited_step fixed18 ledger_cw20 amph_hub)\<^sup>*\<^sup>* st st' \<and> lm_decompound_state st' = Some ds \<and>
    unat (ds_total_seconds ds) + 10 = 31536010"
proof -
  obtain st r st' r' where
      init: "limited_instantiate ledger_cw20 amph_hub sc_limited_init (sc_dp (2 * 10 ^ 18) 600) (sc_env 10)
        (sc_info ''owner'') sc_limited_blank = Inr (st, r)"
      and ex: "limited_execute fixed18 ledger_cw20 amph_hub (Decompound None) (sc_dp (2 * 10 ^ 18) 600)
        (sc_env 31536010) (sc_info ''hub'') st = Inr (st', r')"
      and ds: "lm_decompound_state st' = Some \<lparr>ds_ratio_sum = Decimal 98333333333333333,
        ds_total_seconds = 31536000, ds_last_decompound = Timestamp 31536010000000000\<rparr>"
    by (rule sc_limited_run)
  have run: "(limited_step fixed18 ledger_cw20 amph_hub)\<^sup>*\<^sup>* st st'"
    using limited_call [OF ex] by (rule r_into_rtranclp)
  have ratio: "tm_max_decompound_ratio sc_limited_init = Some (Decimal (10 ^ 17))"
    by (simp add: sc_limited_init_def)
  from accounting_clock [OF amp_lp_env init ratio run] ds
  have "unat (ds_total_seconds (the (lm_decompound_state st'))) + 10 = 31536010"
    by (auto simp: secs_def fixed18_def sc_env_def)
  with init run ds show ?thesis by (intro exI [of _ st] exI [of _ r] exI [of _ st']) simp
qed

text \<open>
  C21. What a limited decompound takes out. A successful call either changes nothing and sends
  nothing, or it comes later than the last one, records the time, and sends at most one transfer:
  of at most the excess of LSD less one unit, and, under a maximal ratio, of at most the share of
  the LSD held that is left of the allowance; the LSD that stays is worth one coin per unit issued.
\<close>

theorem limited_decompound_bounded:
  assumes "wrapper_env A C H asset"
    and "limited_execute A C H (Decompound recipient) dp e i st = Inr (st', r)"
  shows "st' = st \<and> msgs r = [] \<or>
    (\<exists>cfg q b l to old new. ws_lsd_config st = Some cfg \<and> query_exchange_rate H cfg dp e = Inr q \<and>
      lsd_balance (asset cfg) dp (contract_address e) = Inr b \<and>
      lm_decompound_state st = Some old \<and> st' = st\<lparr>lm_decompound_state := Some new\<rparr> \<and>
      ds_last_decompound old < block_time e \<and> ds_last_decompound new = block_time e \<and>
      msgs r = (if l = 0 then [] else [lsd_transfer (asset cfg) to l]) \<and>
      unat l \<le> lsd_excess (atoms q) (unat b) (token_supply C (ws_cw20 st)) - 1 \<and>
      (l \<noteq> 0 \<longrightarrow> token_supply C (ws_cw20 st) * dec_unit \<le> (unat b - unat l) * atoms q) \<and>
      (\<forall>m. lm_decompound_config st = Some \<lparr>dc_max_decompound_ratio = Some m\<rparr> \<longrightarrow>
        (\<exists>left. left + atoms (ds_ratio_sum old) = allowance (atoms m) (unat (ds_total_seconds new)) \<and>
          unat l \<le> left * unat b div dec_unit)))"
proof -
  from assms(2) have "limited_decompound A C H recipient dp e i st = Inr (st', r)" by simp
  then show ?thesis
  proof (cases rule: wrapper_env.limited_decompound_ok
      [OF assms(1), consumes 1, case_names idle skimmed])
    case (skimmed rw old new cfg to)
    note new = wrapper_env.next_state_ok [OF assms(1) skimmed(4)]
    from assms(1) skimmed(2) obtain cfg' q b where "ws_lsd_config st = Some cfg'"
        and c': "query_exchange_rate H cfg' dp e = Inr q" "0 < atoms q"
          "lsd_balance (asset cfg') dp (contract_address e) = Inr b" "unat b * atoms q \<noteq> 0"
        and l: "unat (al_lsd_rewards rw) \<le> lsd_excess (atoms q) (unat b) (token_supply C (ws_cw20 st)) - 1"
        and lim: "lm_decompound_config st = Some \<lparr>dc_max_decompound_ratio = None\<rparr> \<or>
          (\<exists>m ds period left. lm_decompound_config st = Some \<lparr>dc_max_decompound_ratio = Some m\<rparr> \<and>
            lm_decompound_state st = Some ds \<and> seconds_until A ds (block_time e) = Inr period \<and>
            left + atoms (ds_ratio_sum ds) = allowance (atoms m) (unat period) \<and>
            unat (al_lsd_rewards rw) \<le> left * unat b div dec_unit \<and> atoms (al_rate_decrease rw) \<le> left)"
      by (rule wrapper_env.limited_compute_ok)
    with skimmed(6) have "cfg' = cfg" by simp
    with c' have c: "query_exchange_rate H cfg dp e = Inr q" "0 < atoms q"
        "lsd_balance (asset cfg) dp (contract_address e) = Inr b" by auto
    have enough: "token_supply C (ws_cw20 st) * dec_unit \<le> (unat b - unat (al_lsd_rewards rw)) * atoms q"
      if "al_lsd_rewards rw \<noteq> 0"
    proof -
      from that have "0 < unat (al_lsd_rewards rw)" by (simp add: unat_gt_0)
      with l c(2) show ?thesis by (intro skim_leaves_backed) auto
    qed
    have left: "\<exists>left. left + atoms (ds_ratio_sum old) = allowance (atoms m) (unat (ds_total_seconds new)) \<and>
        unat (al_lsd_rewards rw) \<le> left * unat b div dec_unit"
      if "lm_decompound_config st = Some \<lparr>dc_max_decompound_ratio = Some m\<rparr>" for m
      using lim that skimmed(3) new(3) by auto
    show ?thesis
      by (rule disjI2, intro exI [of _ cfg] exI [of _ q] exI [of _ b] exI [of _ "al_lsd_rewards rw"]
          exI [of _ to] exI [of _ old] exI [of _ new])
        (use skimmed c l enough left new(1,4) in auto)
  qed simp
qed

theorem limited_decompound_bounded_witness:
  "\<exists>st r st' r' l to. limited_instantiate ledger_cw20 amph_hub sc_limited_init (sc_dp (2 * 10 ^ 18) 600)
      (sc_env 10) (sc_info ''owner'') sc_limited_blank = Inr (st, r) \<and>
    limited_execute fixed18 ledger_cw20 amph_hub (Decompound None) (sc_dp (2 * 10 ^ 18) 600)
      (sc_env 31536010) (sc_info ''hub'') st = Inr (st', r') \<and>
    msgs r' = [lsd_transfer (Token ''lsd'') to l] \<and>
    unat l \<le> lsd_excess (2 * dec_unit) 600 (token_supply ledger_cw20 (ws_cw20 st)) - 1"
proof -
  obtain st r st' r' where
      init: "limited_instantiate ledger_cw20 amph_hub sc_limited_init (sc_dp (2 * 10 ^ 18) 600) (sc_env 10)
        (sc_info ''owner'') sc_limited_blank = Inr (st, r)"
      and ex: "limited_execute fixed18 ledger_cw20 amph_hub (Decompound None) (sc_dp (2 * 10 ^ 18) 600)
        (sc_env 31536010) (sc_info ''hub'') st = Inr (st', r')"
      and m: "msgs r' = [Wasm_Execute ''lsd'' (Cw20Exec (Cw20_Transfer ''hub'' 59)) []]"
    by (rule sc_limited_run)
  have cfg: "ws_lsd_config st = Some sc_amp"
    using init
    by (auto simp: limited_instantiate_def sc_limited_init_def sc_limited_blank_def
        amp_instantiate_config_def store_lsd_config_def store_hub_contract_def limited_run_eval)
  have q: "query_exchange_rate amph_hub sc_amp (sc_dp (2 * 10 ^ 18) 600) (sc_env 31536010)
      = Inr (Decimal (2 * 10 ^ 18))"
    by (simp add: sc_eval amp_eval wrapper_eval)
  have b: "lsd_balance (amp_asset sc_amp) (sc_dp (2 * 10 ^ 18) 600) (contract_address (sc_env 31536010))
      = Inr 600"
    by (simp add: sc_eval amp_asset_def wrapper_eval)
  have "atoms (Decimal (2 * 10 ^ 18)) = 2 * dec_unit" by (simp add: atoms_def dec_unit_def)
  moreover have "amp_asset sc_amp = Token ''lsd''" by (simp add: amp_asset_def sc_amp_def)
  ultimately show ?thesis
    using limited_decompound_bounded [OF amp_lp_env ex] cfg q b m init ex
    by (auto split: if_splits)
qed

text \<open>
  Minting does not dilute. When units are outstanding, a mint takes so much LSD that the LSD
  behind each unit does not fall: with \<open>b\<close> the balance reported before and \<open>l\<close> the LSD taken,
  b / old supply is at most (b + l) / new supply.
\<close>

theorem limited_mint_fair:
  assumes "wrapper_env A C H asset"
    and "limited_execute A C H (Mint recipient amount) dp e i st = Inr (st', r)"
    and "token_supply C (ws_cw20 st) \<noteq> 0"
  shows "\<exists>cfg b l. ws_lsd_config st = Some cfg \<and>
    lsd_balance (asset cfg) dp (contract_address e) = Inr b \<and>
    deposit_funds H cfg dp e i l (sender i) = Inr (msgs r) \<and>
    unat b * token_supply C (ws_cw20 st') \<le> (unat b + unat l) * token_supply C (ws_cw20 st)"
proof -
  from assms(2) have "limited_mint A C H recipient amount dp e i st = Inr (st', r)" by simp
  then show ?thesis
    by (rule wrapper_env.limited_mint_not_diluting [OF assms(1) _ assms(3)]) blast
qed

theorem limited_mint_fair_witness:
  "\<exists>st' r l. limited_execute fixed18 ledger_cw20 amph_hub (Mint ''bob'' 100) (sc_dp (2 * 10 ^ 18) 600)
      (sc_env 5) (sc_info ''alice'') (sc_limited None 1000) = Inr (st', r) \<and>
    lsd_pull (Token ''lsd'') ''alice'' ''wrapper'' l = msgs r \<and>
    600 * token_supply ledger_cw20 (ws_cw20 st') \<le> (600 + unat l) * 1000"
proof -
  obtain st' r where ex: "limited_execute fixed18 ledger_cw20 amph_hub (Mint ''bob'' 100)
      (sc_dp (2 * 10 ^ 18) 600) (sc_env 5) (sc_info ''alice'') (sc_limited None 1000) = Inr (st', r)"
    by (simp add: limited_run_eval)
  have s: "token_supply ledger_cw20 (ws_cw20 (sc_limited None 1000)) = 1000"
    by (simp add: sc_eval ledger_queries)
  then have "token_supply ledger_cw20 (ws_cw20 (sc_limited None 1000)) \<noteq> 0" by simp
  from limited_mint_fair [OF amp_lp_env ex this] ex s show ?thesis
    by (auto simp: sc_limited_def sc_amp_def sc_info_def sc_env_def amp_asset_def amp_deposit_funds_def
        sc_deps_def sc_smart_def sc_chain_def query_as_def)
qed

text \<open>
  Minting with LSD does not dilute either: the LSD brought is at least in proportion to the
  units issued for it, so the LSD behind each unit does not fall.
\<close>

theorem limited_mint_with_fair:
  assumes "wrapper_env A C H asset"
    and "limited_execute A C H (MintWith recipient lsd) dp e i st = Inr (st', r)"
    and "token_supply C (ws_cw20 st) \<noteq> 0"
  shows "\<exists>cfg b. ws_lsd_config st = Some cfg \<and>
    lsd_balance (asset cfg) dp (contract_address e) = Inr b \<and>
    deposit_funds H cfg dp e i lsd (sender i) = Inr (msgs r) \<and>
    unat b * token_supply C (ws_cw20 st') \<le> (unat b + unat lsd) * token_supply C (ws_cw20 st)"
proof -
  from assms(2) have "limited_mint_with A C H recipient lsd dp e i st = Inr (st', r)" by simp
  then show ?thesis
    by (rule wrapper_env.limited_mint_with_not_diluting [OF assms(1) _ assms(3)]) blast
qed

theorem limited_mint_with_fair_witness:
  "\<exists>st' r. limited_execute fixed18 ledger_cw20 amph_hub (MintWith ''bob'' 60) (sc_dp (2 * 10 ^ 18) 600)
      (sc_env 5) (sc_info ''alice'') (sc_limited None 1000) = Inr (st', r) \<and>
    600 * token_supply ledger_cw20 (ws_cw20 st') \<le> 660 * 1000"
proof -
  obtain st' r where ex: "limited_execute fixed18 ledger_cw20 amph_hub (MintWith ''bob'' 60)
      (sc_dp (2 * 10 ^ 18) 600) (sc_env 5) (sc_info ''alice'') (sc_limited None 1000) = Inr (st', r)"
    by (simp add: limited_run_eval)
  have s: "token_supply ledger_cw20 (ws_cw20 (sc_limited None 1000)) = 1000"
    by (simp add: sc_eval ledger_queries)
  then have "token_supply ledger_cw20 (ws_cw20 (sc_limited None 1000)) \<noteq> 0" by simp
  from limited_mint_with_fair [OF amp_lp_env ex this] ex s show ?thesis
    by (auto simp: sc_limited_def sc_amp_def sc_env_def amp_asset_def
        sc_deps_def sc_smart_def sc_chain_def query_as_def)
qed

text \<open>
  C23. A burn of the limited wrapper pays by the share: the amount divided by the units per LSD that
  the contract quotes, rounded down. That is never less than the fair share of the pot (balance
  times amount over supply, rounded down) and, when the pot is not empty, never more than the share
  of a pot whose supply is smaller by the balance times 10^-18; the supply falls by the amount. (The
  comment in \<open>_before_burn\<close> speaks of an equivalent amount of one Luna per burned token; that is what the
  wrapper without a limit pays.)
\<close>

theorem limited_burn_share:
  assumes "wrapper_env A C H asset"
    and "limited_execute A C H (Burn amount) dp e i st = Inr (st', r)"
    and "token_supply C (ws_cw20 st) \<noteq> 0"
  shows "\<exists>cfg b l. ws_lsd_config st = Some cfg \<and>
    lsd_balance (asset cfg) dp (contract_address e) = Inr b \<and>
    msgs r = [lsd_transfer (asset cfg) (sender i) l] \<and>
    unat l = lsd_for (share_rate (unat b) (token_supply C (ws_cw20 st))) (unat amount) \<and>
    unat amount * unat b div token_supply C (ws_cw20 st) \<le> unat l \<and>
    (unat b = 0 \<or> unat l * (token_supply C (ws_cw20 st) * dec_unit - unat b) \<le> unat amount * unat b * dec_unit) \<and>
    token_supply C (ws_cw20 st) = token_supply C (ws_cw20 st') + unat amount"
proof -
  from assms(2) have "limited_burn A C H amount dp e i st = Inr (st', r)" by simp
  then show ?thesis
  proof (rule wrapper_env.limited_burn_ok [OF assms(1)])
    fix cfg b l t
    let ?s = "token_supply C (ws_cw20 st)"
    assume *: "ws_lsd_config st = Some cfg" "lsd_balance (asset cfg) dp (contract_address e) = Inr b"
      "unat l = lsd_for (share_rate (unat b) ?s) (unat amount)"
      "msgs r = [lsd_transfer (asset cfg) (sender i) l]" "st' = st\<lparr>ws_cw20 := t\<rparr>"
      "?s = token_supply C t + unat amount" "0 < share_rate (unat b) ?s"
    from burn_not_short [OF *(7) assms(3)] leave_share [OF *(3) _ assms(3)] * show ?thesis
      by (intro exI [of _ cfg] exI [of _ b] exI [of _ l]) auto
  qed
qed

theorem limited_burn_share_witness:
  "\<exists>st' r l. limited_execute fixed18 ledger_cw20 amph_hub (Burn 100) (sc_dp (2 * 10 ^ 18) 600)
      (sc_env 5) (sc_info ''alice'') (sc_limited None 1000) = Inr (st', r) \<and>
    msgs r = [lsd_transfer (Token ''lsd'') ''alice'' l] \<and> 60 \<le> unat l"
proof -
  obtain st' r where ex: "limited_execute fixed18 ledger_cw20 amph_hub (Burn 100)
      (sc_dp (2 * 10 ^ 18) 600) (sc_env 5) (sc_info ''alice'') (sc_limited None 1000) = Inr (st', r)"
    by (simp add: limited_run_eval)
  have s: "token_supply ledger_cw20 (ws_cw20 (sc_limited None 1000)) = 1000"
    by (simp add: sc_eval ledger_queries)
  then have "token_supply ledger_cw20 (ws_cw20 (sc_limited None 1000)) \<noteq> 0" by simp
  from limited_burn_share [OF amp_lp_env ex this] ex s show ?thesis
    by (auto simp: sc_limited_def sc_amp_def sc_env_def sc_info_def amp_asset_def
        sc_deps_def sc_smart_def sc_chain_def query_as_def)
qed

text \<open>
  C40. When a burn of the limited wrapper cannot be paid. The quoted units per LSD are rounded down, and
  dividing by them rounds in favour of the burner. A burn that the handler accepts asks for more LSD than
  the pot holds exactly when the amount is worth at least one LSD more than the pot at the quoted rate;
  the transaction then fails. So 10^18 units against 3 * 10^18 LSD cannot be burnt at once: the transfer
  would be of 3000000000000000003 LSD.
\<close>

theorem limited_burn_exceeds_iff:
  assumes "wrapper_env A C H asset"
    and "limited_execute A C H (Burn amount) dp e i st = Inr (st', r)"
    and "ws_lsd_config st = Some cfg" and "lsd_balance (asset cfg) dp (contract_address e) = Inr b"
  shows "\<exists>l. msgs r = [lsd_transfer (asset cfg) (sender i) l] \<and>
    (unat b < unat l \<longleftrightarrow>
      (unat b + 1) * share_rate (unat b) (token_supply C (ws_cw20 st)) \<le> unat amount * dec_unit)"
proof -
  from assms(2) have "limited_burn A C H amount dp e i st = Inr (st', r)" by simp
  then obtain l where l: "unat l = lsd_for (share_rate (unat b) (token_supply C (ws_cw20 st))) (unat amount)"
      and pos: "0 < share_rate (unat b) (token_supply C (ws_cw20 st))"
      and r: "msgs r = [lsd_transfer (asset cfg) (sender i) l]"
    using assms(3,4) by (auto elim!: wrapper_env.limited_burn_ok [OF assms(1)])
  have "unat b < unat l \<longleftrightarrow> unat b + 1 \<le> unat l" by auto
  also have "\<dots> \<longleftrightarrow> (unat b + 1) * share_rate (unat b) (token_supply C (ws_cw20 st)) \<le> unat amount * dec_unit"
    unfolding l lsd_for_def using pos by (rule less_eq_div_iff_mult_less_eq)
  finally show ?thesis using r by blast
qed

theorem limited_burn_exceeds_iff_witness:
  "\<exists>st r l. limited_execute fixed18 ledger_cw20 amph_hub (Burn (10 ^ 18)) (sc_dp (2 * 10 ^ 18) (3 * 10 ^ 18))
      (sc_env 5) (sc_info ''alice'') (sc_limited None (10 ^ 18)) = Inr (st, r) \<and>
    msgs r = [Wasm_Execute ''lsd'' (Cw20Exec (Cw20_Transfer ''alice'' l)) []] \<and>
    3 * 10 ^ 18 < unat l \<and> unat l = 3 * 10 ^ 18 + 3"
proof -
  obtain st r l where ex: "limited_execute fixed18 ledger_cw20 amph_hub (Burn (10 ^ 18))
        (sc_dp (2 * 10 ^ 18) (3 * 10 ^ 18)) (sc_env 5) (sc_info ''alice'') (sc_limited None (10 ^ 18)) = Inr (st, r)"
      and m: "msgs r = [Wasm_Execute ''lsd'' (Cw20Exec (Cw20_Transfer ''alice'' l)) []]" "unat l = 3 * 10 ^ 18 + 3"
    by (simp add: limited_run_eval)
  have cfg: "ws_lsd_config (sc_limited None (10 ^ 18)) = Some sc_amp" by (simp add: sc_limited_def)
  have b: "lsd_balance (amp_asset sc_amp) (sc_dp (2 * 10 ^ 18) (3 * 10 ^ 18)) (contract_address (sc_env 5)) =
      Inr (3 * 10 ^ 18)"
    by (simp add: sc_eval amp_asset_def wrapper_eval)
  have s: "token_supply ledger_cw20 (ws_cw20 (sc_limited None (10 ^ 18))) = 10 ^ 18"
    by (simp add: sc_eval ledger_queries)
  from limited_burn_exceeds_iff [OF amp_lp_env ex cfg b, unfolded s] m(1)
  have "3 * 10 ^ 18 < unat l" by (simp add: share_rate_def dec_unit_def amp_asset_def sc_amp_def sc_info_def)
  with ex m show ?thesis by blast
qed

text \<open>
  C39. An empty limited wrapper cannot be decompounded. When it holds no LSD and has issued nothing,
  at any rate, a decompound does not succeed, whoever asks and whatever the limit: the ratio taken
  out is a division by the worth of the pot, which is zero. So the hub's update of the global index
  fails until something is minted. (The wrapper without a limit answers with no message.)
\<close>

theorem limited_empty_decompound_fails:
  assumes "wrapper_env A C H asset"
    and "ws_lsd_config st = Some cfg" and "query_exchange_rate H cfg dp e = Inr q"
    and "lsd_balance (asset cfg) dp (contract_address e) = Inr 0"
    and "query_token_info C (ws_cw20 st) = Inr ti" and "ti_total_supply ti = 0"
  shows "limited_execute A C H (Decompound recipient) dp e i st \<noteq> Inr x"
  using wrapper_env.limited_empty_stuck [OF assms] by simp

theorem limited_empty_decompound_fails_witness:
  "limited_execute fixed18 ledger_cw20 amph_hub (Decompound None) (sc_dp (2 * 10 ^ 18) 0)
     (sc_env 5) (sc_info ''hub'') (sc_limited None 0) = Inl Panic \<and>
   (\<forall>x. limited_execute fixed18 ledger_cw20 amph_hub (Decompound None) (sc_dp (2 * 10 ^ 18) 0)
     (sc_env 5) (sc_info ''hub'') (sc_limited None 0) \<noteq> Inr x)"
proof -
  have cfg: "ws_lsd_config (sc_limited None 0) = Some sc_amp" by (simp add: sc_limited_def)
  have q: "query_exchange_rate amph_hub sc_amp (sc_dp (2 * 10 ^ 18) 0) (sc_env 5) = Inr (Decimal (2 * 10 ^ 18))"
    by (simp add: sc_eval amp_eval wrapper_eval)
  have b: "lsd_balance (amp_asset sc_amp) (sc_dp (2 * 10 ^ 18) 0) (contract_address (sc_env 5)) = Inr 0"
    by (simp add: sc_eval amp_asset_def wrapper_eval)
  obtain ti where ti: "query_token_info ledger_cw20 (ws_cw20 (sc_limited None 0)) = Inr ti"
      "ti_total_supply ti = 0"
    by (simp add: sc_eval ledger_eval)
  have "limited_execute fixed18 ledger_cw20 amph_hub (Decompound None) (sc_dp (2 * 10 ^ 18) 0)
      (sc_env 5) (sc_info ''hub'') (sc_limited None 0) = Inl Panic"
    by (simp add: limited_run_eval)
  with limited_empty_decompound_fails [OF amp_lp_env cfg q b ti] show ?thesis by blast
qed

text \<open>
  C33. The rate that the limited wrapper announces. It is the current rate when that is below one or
  when there is no limit; else it is what the rate will be once the whole allowance up to now has
  been taken out, but at least one.
\<close>

theorem expected_rate:
  assumes "wrapper_env A C H asset"
    and "get_expected_exchange_rate A C H dp e st s0 = Inr (x, s)"
    and "lm_decompound_config st = Some \<lparr>dc_max_decompound_ratio = m\<rparr>"
  shows "\<exists>cur. get_current_exchange_rate A C H dp e st s0 = Inr (cur, s) \<and>
    (if cur < dec_one then x = cur
     else case m of None \<Rightarrow> x = cur
       | Some ratio \<Rightarrow> \<exists>ds. lm_decompound_state st = Some ds \<and>
           atoms x = max dec_unit (atoms cur + atoms (ds_ratio_sum ds) -
             allowance (atoms ratio) (unat (ds_total_seconds ds) +
               (secs A (block_time e) - secs A (ds_last_decompound ds)))))"
  using assms(2)
proof (rule wrapper_env.expected_rate_ok [OF assms(1)])
  fix cur c
  assume *: "get_current_exchange_rate A C H dp e st s0 = Inr (cur, s)"
    "cur < dec_one \<Longrightarrow> x = cur" "dec_one \<le> cur \<Longrightarrow> lm_decompound_config st = Some c"
    "dec_one \<le> cur \<Longrightarrow> dc_max_decompound_ratio c = None \<Longrightarrow> x = cur"
    "\<And>m. dec_one \<le> cur \<Longrightarrow> dc_max_decompound_ratio c = Some m \<Longrightarrow>
      \<exists>ds. lm_decompound_state st = Some ds \<and>
        secs A (ds_last_decompound ds) \<le> secs A (block_time e) \<and>
        atoms x = max dec_unit (atoms cur + atoms (ds_ratio_sum ds) -
          allowance (atoms m) (unat (ds_total_seconds ds) +
            (secs A (block_time e) - secs A (ds_last_decompound ds))))"
  show ?thesis
  proof (cases "cur < dec_one")
    case False
    with *(3) assms(3) have "dc_max_decompound_ratio c = m"
      by (auto simp: not_less)
    with * False show ?thesis by (auto simp: not_less split: option.splits)
  qed (use *(1,2) in auto)
qed

theorem expected_rate_witness:
  "\<exists>x s. get_expected_exchange_rate fixed18 ledger_cw20 amph_hub (sc_dp (2 * 10 ^ 18) 600)
      (sc_env 31536000) (sc_limited (Some (Decimal (10 ^ 17))) 1000) wrapper_state_default = Inr (x, s) \<and>
    atoms x = 1100000000000000000"
proof -
  let ?st = "sc_limited (Some (Decimal (10 ^ 17))) 1000"
  obtain x s where ex: "get_expected_exchange_rate fixed18 ledger_cw20 amph_hub (sc_dp (2 * 10 ^ 18) 600)
      (sc_env 31536000) ?st wrapper_state_default = Inr (x, s)"
    by (simp add: limited_run_eval)
  have c: "lm_decompound_config ?st = Some \<lparr>dc_max_decompound_ratio = Some (Decimal (10 ^ 17))\<rparr>"
    by (simp add: sc_limited_def)
  obtain s' where "get_current_exchange_rate fixed18 ledger_cw20 amph_hub (sc_dp (2 * 10 ^ 18) 600)
      (sc_env 31536000) ?st wrapper_state_default = Inr (Decimal (12 * 10 ^ 17), s')"
    by (simp add: limited_run_eval)
  with expected_rate [OF amp_lp_env ex c] have "atoms x = max dec_unit (atoms (Decimal (12 * 10 ^ 17)) -
      allowance (atoms (Decimal (10 ^ 17))) 31536000)"
    by (auto simp: sc_limited_def secs_def fixed18_def sc_env_def less_decimal_def dec_one_def split: if_splits)
  with ex show ?thesis by (simp add: atoms_def dec_unit_def allowance_def year_seconds_def)
qed

text \<open>
  The rate of the Spectrum wrapper is what is bonded per share: the amount that the generator
  reports for the compounding token over the shares which that token has issued, rounded down at 18
  places; with no share issued there is no rate, so every message that needs one fails.
\<close>

theorem spectrum_rate:
  assumes "decimal_arith A" and "query_exchange_rate (spectrum_hub A) c dp e = Inr q"
  shows "\<exists>shares info. wasm_smart dp (sp_token c) (Q_Spectrum Spectrum_QState)
      = Inr (A_CTokenState \<lparr>ct_total_bond_share = shares\<rparr>) \<and>
    wasm_smart dp (sp_generator c) (Q_Spectrum (Spectrum_QUserInfo (sp_token c) (sp_underlying_token c)))
      = Inr (A_UserInfo info) \<and>
    shares \<noteq> 0 \<and> atoms q = unat (ui_bond_amount info) * dec_unit div unat shares"
  by (rule spectrum_rate_ok [OF assms(1) assms(2) [unfolded spectrum_ops]]) blast

theorem spectrum_rate_witness:
  "\<exists>q. query_exchange_rate (spectrum_hub fixed18) \<lparr>sp_token = ''c_token'', sp_underlying_token = ''lp'',
      sp_generator = ''generator''\<rparr> (sc_dp 1 1) (sc_env 5) = Inr q \<and> atoms q = 1500000000000000000"
proof -
  let ?c = "\<lparr>sp_token = ''c_token'', sp_underlying_token = ''lp'', sp_generator = ''generator''\<rparr>"
  obtain q where q: "query_exchange_rate (spectrum_hub fixed18) ?c (sc_dp 1 1) (sc_env 5) = Inr q"
    by (simp add: spectrum_query_exchange_rate_def query_total_bond_share_def query_total_bond_amount_def
        sc_eval query_as_def fixed18_eval)
  from spectrum_rate [OF fixed18.decimal_arith_axioms q] q show ?thesis
    by (auto simp: sc_deps_def sc_smart_def dec_unit_def)
qed

end
