(* ===== verification/Chain_Props.thy ===== *)
theory Chain_Props
  imports Index_Round Wrapper_Props Limited_Props
begin

text \<open>
  The update of the global index as one transaction of the three contracts, for the plain family (a
  closed formula) and for the family with a yearly limit and with retrieval.
\<close>

text \<open>
  C6. An update of the global index, from end to end. Anybody may ask for it. When the three
  contracts know each other, the chain answers and nobody outside calls back, the whole transaction is determined: it panics
  when the wrapper's decompound does; otherwise the wrapper sends the decompounded LSD
  (\<open>decompound_amount\<close>, nothing for 0) to the reward contract and nowhere else; then the reward
  contract sells everything that it holds after this payment and that is for sale; and the hub
  records the time. When one of these messages fails, the transaction fails with its error. Of the
  three storages only the hub's changes. Calls nest three deep.
\<close>

theorem index_update:
  assumes "wrapper_env A C H asset" and "wired D s" and "D = plain_contracts A C H hub token reward"
    and "ws_lsd_config (st_token s) = Some cfg" and "foreign_asset D (asset cfg)"
    and "ws_hub_contract (st_token s) = Some hub"
    and "query_exchange_rate H cfg (ext_view X (st_ext s) token) (block_env t token) = Inr q"
    and "lsd_balance (asset cfg) (ext_view X (st_ext s) token) token = Inr b"
    and "query_token_info C (ws_cw20 (st_token s)) = Inr ti"
    and "addr_validate (ext_view X (st_ext s) token) reward = Inr to"
    and "rs_config (st_reward s) = Some rc" and "quiet D X"
  shows "call_hub D X t (Suc (Suc (Suc n))) caller UpdateGlobalIndex s =
    Some (case decompound_amount (atoms q) (unat b) (unat (ti_total_supply ti)) of
        None \<Rightarrow> Inl Panic
      | Some k \<Rightarrow>
          rbind (send_all X token (if k = 0 then [] else [lsd_transfer (asset cfg) to (uint128 k)]) (st_ext s))
            (\<lambda>x1.
          rbind (std_res (bank_all_balances (ext_view X x1 reward) reward)) (\<lambda>balances.
          rbind (send_all X reward (concat (map (sell (ext_view X x1 reward) (rc_reward_denom rc) (st_reward s))
              (for_sale (ext_view X x1 reward) reward rc balances))) x1) (\<lambda>x2.
            Inr (s\<lparr>st_hub := stamp A t (st_hub s), st_ext := x2\<rparr>)))))"
proof -
  let ?dp = "ext_view X (st_ext s) token" and ?e = "block_env t token"
    and ?i = "\<lparr>sender = hub, funds = []\<rparr>"
  have b: "lsd_balance (asset cfg) ?dp (contract_address ?e) = Inr b"
    using assms(8) by (simp add: block_env_def)
  have hub: "ws_hub_contract (st_token s) = Some (sender ?i)" using assms(6) by simp
  have to: "opt_traverse (\<lambda>x. std_res (addr_validate ?dp x)) (Some reward) = Inr (Some to)"
    using assms(10) by simp
  note dec = wrapper_env.decompound_eq [OF assms(1,4,7) b assms(9) hub to]
  note round = plain_round [OF assms(1-5,12)]
  show ?thesis
  proof (cases "decompound_amount (atoms q) (unat b) (unat (ti_total_supply ti))")
    case None
    with dec have "execute_decompound A C H (Some reward) ?dp ?e ?i (st_token s) = Inl Panic"
      by (intro outcome_Inl) simp
    then have "index_round D X t (\<lambda>dp. Inr []) s = Inl Panic"
      by (simp add: index_round_def assms(3))
    with None show ?thesis by (simp add: round)
  next
    case (Some k)
    with dec obtain r where "execute_decompound A C H (Some reward) ?dp ?e ?i (st_token s) = Inr (st_token s, r)"
        "msgs r = (if k = 0 then [] else [lsd_transfer (asset cfg) to (uint128 k)])"
      by (auto dest!: outcome_Inr)
    with Some show ?thesis
      unfolding round index_round_def
      by (simp add: assms(3,11) reward_orders_def read_config_def load_def rbind_assoc)
  qed
qed

text \<open>
  The outside of the scenario: its state is the list of the messages that have arrived. Once
  something has arrived the reward contract holds coins, and the routers offer prices.
\<close>

definition sc_outside :: "chain \<Rightarrow> (addr \<times> cosmos_msg) list outside" where
  "sc_outside ch = \<lparr>
     ext_deliver = (\<lambda>from_addr m x. Inr (x @ [(from_addr, m)])),
     ext_view = (\<lambda>x who. sc_deps (ch\<lparr>
       ch_prices := (\<lambda>r. if r = ''astroport'' then Some 10 else if r = ''terraswap'' then Some 12 else None),
       ch_coins := (if x = [] then [] else [\<lparr>coin_denom = ''uluna'', coin_amount = 5\<rparr>])\<rparr>)),
     ext_calls = (\<lambda>from_addr m x. []), ext_reply = (\<lambda>a k x. Inr (x, []))\<rparr>"

definition sc_hub_storage :: hub_storage where
  "sc_hub_storage = \<lparr>
     hub_config_item = Some \<lparr>hc_creator = ''owner'', hc_reward_contract = Some ''reward'',
       hc_token_contract = Some ''wrapper''\<rparr>,
     hub_state_item = Some hub_state_default, hub_parameters_item = Some \<lparr>hp_reward_denom = ''uusd''\<rparr>\<rparr>"

definition sc_contracts :: "((lsd_contracts, ledger) wrapper_storage, reward_storage) contracts" where
  "sc_contracts = plain_contracts fixed18 ledger_cw20 sc_hub ''hub'' ''wrapper'' ''reward''"

definition sc_state ::
  "((lsd_contracts, ledger) wrapper_storage, reward_storage, (addr \<times> cosmos_msg) list) chain_state" where
  "sc_state = \<lparr>st_hub = sc_hub_storage, st_token = sc_storage 1000,
     st_reward = sc_reward\<lparr>rs_config := Some (sc_reward_config\<lparr>rc_known_cw20_tokens := [''other'']\<rparr>)\<rparr>,
     st_ext = []\<rparr>"

abbreviation sc_sale :: cosmos_msg where
  "sc_sale \<equiv> Wasm_Execute ''terraswap'' (RouterExec (ExecuteSwapOperations
     [TerraSwap (NativeToken ''uluna'') (NativeToken ''uusd'')] None None None))
     [\<lparr>coin_denom = ''uluna'', coin_amount = 5\<rparr>]"

text \<open>Both reward contracts of the scenario sell the coins once they have them.\<close>

lemma sc_sold:
  fixes st :: "'z reward_storage_scheme"
  assumes "rs_swap_config st = rs_swap_config sc_reward" and "x \<noteq> []"
  shows "concat (map (sell (ext_view (sc_outside ch) x self) ''uusd'' st)
      (for_sale (ext_view (sc_outside ch) x self) self (sc_reward_config\<lparr>rc_known_cw20_tokens := [''other'']\<rparr>)
        [\<lparr>coin_denom = ''uluna'', coin_amount = 5\<rparr>])) = [sc_sale]"
  using assms
  by (simp add: for_sale_def token_held_def sell_def sc_outside_def reward_eval)

lemma sc_outside_simps:
  "send_all (sc_outside ch) self ms x = Inr (x @ map (Pair self) ms)"
  "x \<noteq> [] \<Longrightarrow> bank_all_balances (ext_view (sc_outside ch) x a) a' = Inr [\<lparr>coin_denom = ''uluna'', coin_amount = 5\<rparr>]"
  by (induction ms arbitrary: x) (simp_all add: sc_outside_def sc_deps_def)

text \<open>What the scenario answers to the hub's round.\<close>

abbreviation sc_round :: "(addr \<times> cosmos_msg) list outside" where
  "sc_round \<equiv> sc_outside (sc_chain (2 * 10 ^ 18) 600)"

lemma sc_round_facts:
  "wired sc_contracts sc_state"
  "ws_lsd_config (st_token sc_state) = Some sc_lsd" "ws_hub_contract (st_token sc_state) = Some ''hub''"
  "foreign_asset sc_contracts (steak_asset sc_lsd)" "quiet sc_contracts sc_round" "st_ext sc_state = []"
  "query_exchange_rate sc_hub sc_lsd (ext_view sc_round [] ''wrapper'') (block_env t ''wrapper'')
    = Inr (Decimal (2 * 10 ^ 18))"
  "lsd_balance (steak_asset sc_lsd) (ext_view sc_round [] ''wrapper'') ''wrapper'' = Inr 600"
  "addr_validate (ext_view sc_round [] ''wrapper'') ''reward'' = Inr ''reward''"
  "rs_config (st_reward sc_state) = Some (sc_reward_config\<lparr>rc_known_cw20_tokens := [''other'']\<rparr>)"
  "\<exists>ti. query_token_info ledger_cw20 (ws_cw20 (st_token sc_state)) = Inr ti \<and> ti_total_supply ti = 1000"
proof -
  show "wired sc_contracts sc_state"
    by (auto simp: wired_def sc_contracts_def sc_state_def sc_hub_storage_def sc_reward_def
        sc_reward_config_def own_def elim: router_addr.elims)
  show "query_exchange_rate sc_hub sc_lsd (ext_view sc_round [] ''wrapper'') (block_env t ''wrapper'')
      = Inr (Decimal (2 * 10 ^ 18))"
    by (simp add: sc_outside_def sc_eval steak_eval wrapper_eval)
  show "lsd_balance (steak_asset sc_lsd) (ext_view sc_round [] ''wrapper'') ''wrapper'' = Inr 600"
    by (simp add: sc_outside_def sc_eval steak_asset_def wrapper_eval)
  show "\<exists>ti. query_token_info ledger_cw20 (ws_cw20 (st_token sc_state)) = Inr ti \<and> ti_total_supply ti = 1000"
    by (simp add: sc_state_def sc_eval ledger_eval)
qed (simp_all add: sc_state_def sc_storage_def foreign_asset_def own_def sc_contracts_def steak_asset_def
    sc_lsd_def quiet_def sc_outside_def sc_deps_def)

theorem index_update_witness:
  "\<exists>s'. call_hub sc_contracts (sc_outside (sc_chain (2 * 10 ^ 18) 600)) (Timestamp 5000000000) 3
      ''alice'' UpdateGlobalIndex sc_state = Some (Inr s') \<and>
    st_ext s' = [(''wrapper'', Wasm_Execute ''lsd'' (Cw20Exec (Cw20_Transfer ''reward'' 99)) []),
      (''reward'', sc_sale)]"
proof -
  define X where "X = sc_round"
  note facts = sc_round_facts [folded X_def]
  obtain ti where ti: "query_token_info ledger_cw20 (ws_cw20 (st_token sc_state)) = Inr ti"
      "ti_total_supply ti = 1000"
    using facts(11) by blast
  note round = index_update [OF amp_luna_env facts(1) sc_contracts_def facts(2,4,3), unfolded facts(6),
      OF facts(7,8) ti(1) facts(9,10,5)]
  have amount: "decompound_amount (atoms (Decimal (2 * 10 ^ 18))) (unat (600 :: u128)) (unat (ti_total_supply ti))
      = Some 99"
    by (simp add: ti(2) number_eval atoms_def)
  have denom: "rc_reward_denom (sc_reward_config\<lparr>rc_known_cw20_tokens := [''other'']\<rparr>) = ''uusd''"
    by (simp add: sc_reward_config_def)
  show ?thesis
    using round [where n = 0 and caller = "''alice''"]
    by (simp only: amount denom X_def [symmetric])
      (simp add: X_def sc_outside_simps sc_sold denom sc_lsd_def steak_asset_def numeral_3_eq_3 uint128_def
        sc_state_def del: send_all.simps send_all_one)
qed

text \<open>
  C7. An update of the global index in the contracts with a yearly limit and with retrieval
  (the wrappers and reward contracts of the two liquidity pools). The messages nest: the hub's call
  makes the reward contract send its retrieval messages, the last of which has a reply, and only the
  reply sells. Whatever the outside does with each message short of calling back, the transaction is the straight
  sequence \<open>index_round\<close>: the limited decompound and its payment, the retrieval as the chain stands
  after the payment, then the sale of what the contract holds after the last retrieval message. An
  error at any point is the error of the transaction.
\<close>

theorem retrieval_round:
  assumes "wrapper_env A C H asset" and "wired D s"
    and "D = retrieving_contracts A C H T hub token reward"
    and "\<And>cfg. ws_lsd_config (st_token s) = Some cfg \<Longrightarrow> foreign_asset D (asset cfg)"
    and "retrieves_outside D X T t (st_reward s)" and "quiet D X"
  shows "call_hub D X t (Suc (Suc (Suc n))) caller UpdateGlobalIndex s =
    Some (index_round D X t
      (\<lambda>dp. get_retrieve_messages T dp (block_env t reward) (st_reward s)) s)"
proof (rule round_runs [OF assms(6,2)])
  show "serves_decompound D X t (st_token s)"
    unfolding assms(3)
    by (rule wrapper_env.serves_limited_decompound [OF assms(1)]) (use assms(3,4) in simp)
  show "serves_swap D X (\<lambda>dp. get_retrieve_messages T dp (block_env t reward) (st_reward s)) t (st_reward s)"
    using serves_custom_swap assms(2,3,5) by blast
qed

text \<open>The pool's contracts in the scenario: a limited wrapper and a reward contract that retrieves.\<close>

definition sc_pool ::
  "((amp_contracts, ledger) limited_storage, amp_retrieve_config custom_storage) contracts" where
  "sc_pool = retrieving_contracts fixed18 ledger_cw20 amph_hub (amp_lp_retrieve fixed18)
     ''hub'' ''wrapper'' ''reward''"

definition sc_pool_state ::
  "((amp_contracts, ledger) limited_storage, amp_retrieve_config custom_storage,
    (addr \<times> cosmos_msg) list) chain_state" where
  "sc_pool_state = \<lparr>st_hub = sc_hub_storage, st_token = sc_limited None 1000,
     st_reward = \<lparr>rs_config = Some (sc_reward_config\<lparr>rc_known_cw20_tokens := [''other'']\<rparr>),
       rs_state = Some reward_state_zero, rs_swap_config = rs_swap_config sc_reward,
       cs_retrieve_config = Some \<lparr>arc_amp_lp_token = ''lsd'', arc_hub = ''lsd_hub'', arc_pair = ''pair''\<rparr>\<rparr>,
     st_ext = []\<rparr>"

theorem retrieval_round_witness:
  "\<exists>s'. call_hub sc_pool (sc_outside (sc_chain (2 * 10 ^ 18) 600)) (Timestamp 5000000000) 3
      ''alice'' UpdateGlobalIndex sc_pool_state = Some (Inr s') \<and>
    st_ext s' = [(''wrapper'', Wasm_Execute ''lsd'' (Cw20Exec (Cw20_Transfer ''reward'' 99)) []),
      (''reward'', Wasm_Execute ''lsd'' (Cw20Exec (Cw20_Send ''lsd_hub'' 600 (ErisHook (Eris_Unbond None)))) []),
      (''reward'', Wasm_Execute ''lp'' (Cw20Exec (Cw20_Send ''pair'' 907 (PairHook (WithdrawLiquidity [])))) []),
      (''reward'', sc_sale)]"
proof -
  define X where "X = sc_outside (sc_chain (2 * 10 ^ 18) 600)"
  let ?t = "Timestamp 5000000000" and ?rw = "st_reward sc_pool_state"
  let ?retrieve = "\<lambda>dp. get_retrieve_messages (amp_lp_retrieve fixed18) dp (block_env ?t ''reward'') ?rw"
  let ?ms = "[Wasm_Execute ''lsd'' (Cw20Exec (Cw20_Send ''lsd_hub'' 600 (ErisHook (Eris_Unbond None)))) [],
      Wasm_Execute ''lp'' (Cw20Exec (Cw20_Send ''pair'' 907 (PairHook (WithdrawLiquidity [])))) []]"
  have wired: "wired sc_pool sc_pool_state"
    by (auto simp: wired_def sc_pool_def sc_pool_state_def sc_hub_storage_def sc_reward_def
        sc_reward_config_def own_def elim: router_addr.elims)
  have quiet: "quiet sc_pool X" by (simp add: quiet_def X_def sc_outside_def)
  have foreign: "foreign_asset sc_pool (amp_asset cfg)"
    if "ws_lsd_config (st_token sc_pool_state) = Some cfg" for cfg
    using that
    by (auto simp: foreign_asset_def own_def sc_pool_def amp_asset_def sc_pool_state_def sc_limited_def sc_amp_def)
  have retrieve: "?retrieve (ext_view X x ''reward'') = Inr ?ms" for x
    by (simp add: amp_get_retrieve_messages_def amp_bond_amount_def read_retrieve_config_def fixed18_eval
        sc_pool_state_def X_def sc_outside_def sc_eval block_env_def load_def query_as_def)
  have outside: "retrieves_outside sc_pool X (amp_lp_retrieve fixed18) ?t ?rw"
    using retrieve by (auto simp: retrieves_outside_def sc_pool_def own_def)
  have decompound: "\<exists>w r. limited_decompound fixed18 ledger_cw20 amph_hub (Some ''reward'')
        (ext_view X [] ''wrapper'') (block_env ?t ''wrapper'') \<lparr>sender = ''hub'', funds = []\<rparr>
        (sc_limited None 1000) = Inr (w, r) \<and>
      msgs r = [Wasm_Execute ''lsd'' (Cw20Exec (Cw20_Transfer ''reward'' 99)) []]"
    by (simp add: X_def sc_outside_def block_env_def limited_run_eval)
  have round: "\<exists>s'. index_round sc_pool X ?t ?retrieve sc_pool_state = Inr s' \<and>
    st_ext s' = (''wrapper'', Wasm_Execute ''lsd'' (Cw20Exec (Cw20_Transfer ''reward'' 99)) []) #
      map (Pair ''reward'') ?ms @ [(''reward'', sc_sale)]"
  proof -
    from decompound obtain w r where dec: "token_execute sc_pool (Decompound (Some (ct_reward sc_pool)))
          (ext_view X (st_ext sc_pool_state) (ct_token sc_pool)) (block_env ?t (ct_token sc_pool))
          \<lparr>sender = ct_hub sc_pool, funds = []\<rparr> (st_token sc_pool_state) = Inr (w, r)"
        and r: "msgs r = [Wasm_Execute ''lsd'' (Cw20Exec (Cw20_Transfer ''reward'' 99)) []]"
      by (auto simp: sc_pool_def sc_pool_state_def)
    let ?x = "[(''wrapper'', Wasm_Execute ''lsd'' (Cw20Exec (Cw20_Transfer ''reward'' 99)) [])]"
    have sold: "reward_orders (ext_view X (?x @ map (Pair ''reward'') ?ms) ''reward'') ''reward'' ?rw = Inr [sc_sale]"
      using sc_sold [of ?rw "?x @ map (Pair ''reward'') ?ms"]
      by (simp add: reward_orders_def X_def sc_outside_simps read_config_def load_def sc_pool_state_def
          sc_reward_config_def)
    have ext: "st_ext sc_pool_state = []" "ct_token sc_pool = ''wrapper''" "ct_reward sc_pool = ''reward''"
      by (simp_all add: sc_pool_state_def sc_pool_def)
    have sent: "send_all X self ms x = Inr (x @ map (Pair self) ms)" for self ms x
      unfolding X_def by (rule sc_outside_simps)
    show ?thesis
      using sold
      by (simp add: index_round_def dec [unfolded ext] r ext retrieve [simplified] sent del: send_all.simps send_all_one)
  qed
  show ?thesis
    using retrieval_round [OF amp_lp_env wired sc_pool_def foreign outside quiet, where n = 0 and caller = "''alice''"] round
    by (auto simp: X_def numeral_3_eq_3)
qed

end
