(* ===== verification/Chain_Runs.thy ===== *)
theory Chain_Runs
  imports Chain Lsd_Flow
begin

text \<open>
  Whole transactions and what they keep. A run of the chain is any sequence of transactions (a call
  of the hub, a message from an account that is none of the contracts, with whatever the contracts
  send on, replies and failures included) and of events outside. Contracts outside may call back into
  the three contracts, the hub included, whenever a message reaches them. An invariant of the wrapper's
  storage and the outside is kept by every such run once it is kept by single deliveries and by a single
  call of the wrapper (\<open>token_keeps\<close>): the calls of the wrapper that hand control to a contract outside
  must have restored the invariant before, and the messages of the others must set nothing off. Of the
  hub's calls of the wrapper only those have to keep it that the hub, as it is configured, can ask for.
\<close>

section \<open>Messages of the wrapper\<close>

text \<open>No contract of the three answers an inert message: it goes outside or fails.\<close>

fun inert :: "cosmos_msg \<Rightarrow> bool" where
  "inert (Wasm_Execute c (WrapperExec w) fs) = False"
| "inert (Wasm_Execute c (RewardExec w) fs) = False"
| "inert (Wasm_Execute c (HubExec w) fs) = False"
| "inert m = True"

lemma hook_inert: "hook m \<Longrightarrow> inert m"
  by (auto elim: hookE)

lemma enter_inert:
  assumes "enter D X t self m s = Inr y" and "inert m"
  shows "outgoing D m"
proof (rule ccontr)
  assume out: "\<not> outgoing D m"
  then obtain c b fs where m: "m = Wasm_Execute c b fs" by (cases m) auto
  from assms out show False
    by (cases b) (auto simp: m enter_def unknown_message_def rbind_eq_Inr Let_def split: if_splits)
qed

lemma enter_inert_ok:
  assumes "enter D X t self m s = Inr (s1, who, subs)" and "inert m"
  obtains x where "outgoing D m" "ext_deliver X self m (st_ext s) = Inr x" "s1 = s\<lparr>st_ext := x\<rparr>"
    "calls_on X self m x = (who, subs)"
  using enter_inert [OF assms] assms(1) that by (auto simp: enter_outgoing rbind_eq_Inr)

text \<open>Whoever acts next, it is not one of the three.\<close>

lemma calls_on_foreign:
  assumes "calls_on X self m x = (who, subs)" and "outgoing D m" and "subs \<noteq> []"
  shows "\<not> own D who"
  using assms by (cases m) auto

section \<open>Invariants of transactions\<close>

text \<open>Coins that come with a call are delivered before it.\<close>

definition attach ::
  "'x outside \<Rightarrow> addr \<Rightarrow> message_info \<Rightarrow> 'x \<Rightarrow> 'x res" where
  "attach X to i x =
     (if funds i = [] then Inr x else ext_deliver X (sender i) (Bank_Send to (funds i)) x)"

lemma attach_call:
  "attach X to \<lparr>sender = a, funds = fs\<rparr> x = (if fs = [] then Inr x else ext_deliver X a (Bank_Send to fs) x)"
  by (simp add: attach_def)

text \<open>
  What an invariant must satisfy: every delivery from elsewhere, every hook of the wrapper and every
  reply of a contract outside keeps it; and a call of the wrapper with its messages keeps it. When the
  wrapper sends hooks, the invariant must hold before they run. Of the hub only what it asks is assumed.
\<close>

definition token_keeps ::
  "('w, 'rw) contracts \<Rightarrow> 'x outside \<Rightarrow> (wrapper_execute_msg \<Rightarrow> bool) \<Rightarrow> ('w \<Rightarrow> 'x \<Rightarrow> bool) \<Rightarrow> bool" where
  "token_keeps D X asks P \<longleftrightarrow>
     (\<forall>from_addr m x x' w. from_addr \<noteq> ct_token D \<or> hook m \<longrightarrow> ext_deliver X from_addr m x = Inr x' \<longrightarrow>
        P w x \<longrightarrow> P w x') \<and>
     (\<forall>a k x x' subs w. ext_reply X a k x = Inr (x', subs) \<longrightarrow> P w x \<longrightarrow> P w x') \<and>
     (\<forall>t i m x x1 w w' r. sender i \<noteq> ct_token D \<longrightarrow> (sender i = ct_hub D \<longrightarrow> asks m) \<longrightarrow> attach X (ct_token D) i x = Inr x1 \<longrightarrow>
        token_execute D m (ext_view X x1 (ct_token D)) (block_env t (ct_token D)) i w = Inr (w', r) \<longrightarrow>
        P w x \<longrightarrow>
        (\<forall>m' \<in> set (msgs r). hook m') \<and> P w' x1 \<or>
        (\<forall>m' \<in> set (msgs r). inert m' \<and> (\<forall>x. ext_calls X (ct_token D) m' x = [])) \<and>
        (\<forall>x2. send_all X (ct_token D) (msgs r) x1 = Inr x2 \<longrightarrow> P w' x2))"

lemmas keepsD =
  token_keeps_def [THEN iffD1, THEN conjunct1, rule_format]
  token_keeps_def [THEN iffD1, THEN conjunct2, THEN conjunct1, rule_format]
  token_keeps_def [THEN iffD1, THEN conjunct2, THEN conjunct2, rule_format]

lemma attach_keeps:
  "token_keeps D X asks P \<Longrightarrow> sender i \<noteq> ct_token D \<Longrightarrow> attach X to i x = Inr x' \<Longrightarrow> P w x \<Longrightarrow> P w x'"
  by (auto simp: attach_def dest: keepsD(1) split: if_splits)

section \<open>How a transaction runs\<close>

text \<open>A message that arrives, together with what it sets off.\<close>

lemma enter_cases:
  assumes "enter D X t self m s = Inr (s1, who, subs)"
  obtains (delivered) x where "outgoing D m" "ext_deliver X self m (st_ext s) = Inr x" "s1 = s\<lparr>st_ext := x\<rparr>"
      "calls_on X self m x = (who, subs)"
  | (token) fs b x w r where "m = Wasm_Execute (ct_token D) (WrapperExec b) fs"
      "attach X (ct_token D) \<lparr>sender = self, funds = fs\<rparr> (st_ext s) = Inr x"
      "token_execute D b (ext_view X x (ct_token D)) (block_env t (ct_token D)) \<lparr>sender = self, funds = fs\<rparr>
        (st_token s) = Inr (w, r)"
      "who = ct_token D" "subs = messages r" "s1 = s\<lparr>st_ext := x, st_token := w\<rparr>"
  | (reward) fs x rw where "attach X (ct_reward D) \<lparr>sender = self, funds = fs\<rparr> (st_ext s) = Inr x"
      "who = ct_reward D" "ct_reward D \<noteq> ct_token D" "s1 = s\<lparr>st_ext := x, st_reward := rw\<rparr>"
  | (hub) fs b x h r where "attach X (ct_hub D) \<lparr>sender = self, funds = fs\<rparr> (st_ext s) = Inr x"
      "hub_execute (ct_arith D) b (ext_view X x (ct_hub D)) (block_env t (ct_hub D)) \<lparr>sender = self, funds = fs\<rparr>
        (st_hub s) = Inr (h, r)"
      "who = ct_hub D" "subs = messages r" "s1 = s\<lparr>st_ext := x, st_hub := h\<rparr>"
proof (cases "outgoing D m")
  case True
  with assms delivered show thesis by (auto simp: enter_outgoing rbind_eq_Inr)
next
  case False
  then obtain c b fs where m: "m = Wasm_Execute c b fs" by (cases m) auto
  note e = assms [unfolded m enter_def]
  from False m have c: "c = ct_hub D \<or> c = ct_token D \<or> c = ct_reward D" by (simp add: own_def)
  consider (1) w where "c = ct_token D" "b = WrapperExec w"
    | (2) w where "c \<noteq> ct_token D" "c = ct_reward D" "b = RewardExec w"
    | (3) w where "c \<noteq> ct_token D" "c \<noteq> ct_reward D" "b = HubExec w"
    using e False m by (cases b) (auto simp: rbind_eq_Inr unknown_message_def Let_def split: if_splits)
  then show thesis
  proof cases
    case (1 w)
    with e False m obtain x a r where "m = Wasm_Execute (ct_token D) (WrapperExec w) fs"
        "attach X (ct_token D) \<lparr>sender = self, funds = fs\<rparr> (st_ext s) = Inr x"
        "token_execute D w (ext_view X x (ct_token D)) (block_env t (ct_token D)) \<lparr>sender = self, funds = fs\<rparr>
          (st_token s) = Inr (a, r)"
        "s\<lparr>st_ext := x, st_token := a\<rparr> = s1" "who = ct_token D" "messages r = subs"
      by (auto simp: attach_call rbind_eq_Inr Let_def)
    then show thesis by (intro token) auto
  next
    case (2 w)
    with e False m obtain x a where "attach X (ct_reward D) \<lparr>sender = self, funds = fs\<rparr> (st_ext s) = Inr x"
        "s\<lparr>st_ext := x, st_reward := a\<rparr> = s1" "who = ct_reward D"
      by (auto simp: attach_call rbind_eq_Inr Let_def)
    with 2 show thesis by (intro reward) auto
  next
    case (3 w)
    with e False m c obtain x h r where "attach X (ct_hub D) \<lparr>sender = self, funds = fs\<rparr> (st_ext s) = Inr x"
        "hub_execute (ct_arith D) w (ext_view X x (ct_hub D)) (block_env t (ct_hub D)) \<lparr>sender = self, funds = fs\<rparr>
          (st_hub s) = Inr (h, r)"
        "s\<lparr>st_ext := x, st_hub := h\<rparr> = s1" "who = ct_hub D" "messages r = subs"
      by (auto simp: attach_call rbind_eq_Inr Let_def)
    then show thesis by (intro hub) auto
  qed
qed

text \<open>How a list of messages succeeds.\<close>

lemma run_cons_ok:
  assumes "run_msgs D X t (Suc d) self (m # ms) s = Some (Inr s')"
  obtains (plain) s1 who subs s2 where "enter D X t self (sm_msg m) s = Inr (s1, who, subs)"
      "run_msgs D X t d who subs s1 = Some (Inr s2)" "run_msgs D X t (Suc d) self ms s2 = Some (Inr s')"
  | (replied) s1 who subs s2 s3 subs' s4 where "enter D X t self (sm_msg m) s = Inr (s1, who, subs)"
      "run_msgs D X t d who subs s1 = Some (Inr s2)" "answer_reply D X t self (sm_id m) s2 = Inr (s3, subs')"
      "run_msgs D X t d self subs' s3 = Some (Inr s4)" "run_msgs D X t (Suc d) self ms s4 = Some (Inr s')"
  | (undone) s3 subs' s4 where "answer_reply D X t self (sm_id m) s = Inr (s3, subs')"
      "run_msgs D X t d self subs' s3 = Some (Inr s4)" "run_msgs D X t (Suc d) self ms s4 = Some (Inr s')"
proof (cases "enter D X t self (sm_msg m) s")
  case (Inl f)
  with assms undone show thesis by (auto split: if_splits sum.splits option.splits)
next
  case (Inr y)
  obtain s1 who subs where y: "y = (s1, who, subs)" by (cases y) auto
  show thesis
  proof (cases "run_msgs D X t d who subs s1")
    case (Some z)
    with assms Inr y plain replied undone show thesis
      by (cases z) (auto split: if_splits sum.splits option.splits)
  qed (use assms Inr y in simp)
qed

text \<open>A reply changes the reward contract, or the outside by a reply of its own.\<close>

lemma answer_reply_ok:
  assumes "answer_reply D X t self k s = Inr (s', subs)"
  obtains (reward) rw where "s' = s\<lparr>st_reward := rw\<rparr>"
  | (foreign) x where "ext_reply X self k (st_ext s) = Inr (x, subs)" "s' = s\<lparr>st_ext := x\<rparr>"
  using assms by (auto simp: answer_reply_def unknown_message_def rbind_eq_Inr split: if_splits)

text \<open>The wrapper has no reply entry point: its messages succeed one by one.\<close>

lemma token_cons_ok:
  assumes "run_msgs D X t (Suc d) (ct_token D) (m # ms) s = Some (Inr s')"
    and "ct_token D \<noteq> ct_reward D"
  obtains s1 who subs s2 where "enter D X t (ct_token D) (sm_msg m) s = Inr (s1, who, subs)"
    "run_msgs D X t d who subs s1 = Some (Inr s2)"
    "run_msgs D X t (Suc d) (ct_token D) ms s2 = Some (Inr s')"
proof -
  have "answer_reply D X t (ct_token D) k s \<noteq> Inr y" for k s y
    using assms(2) by (simp add: answer_reply_def own_def unknown_message_def)
  then have none: "answer_reply D X t (ct_token D) k s = Inr y \<Longrightarrow> Q" for k s y Q by blast
  from assms(1) show thesis by (rule run_cons_ok) (use that none in blast)+
qed

text \<open>Messages that set nothing off are sent one after the other.\<close>

lemma run_silent:
  assumes "ct_token D \<noteq> ct_reward D"
    and "\<forall>m \<in> set ms. inert (sm_msg m) \<and> (\<forall>x. ext_calls X (ct_token D) (sm_msg m) x = [])"
    and "run_msgs D X t d (ct_token D) ms s = Some (Inr s')"
  shows "\<exists>x. send_all X (ct_token D) (map sm_msg ms) (st_ext s) = Inr x \<and> s' = s\<lparr>st_ext := x\<rparr>"
  using assms(2,3)
proof (induction ms arbitrary: s)
  case (Cons m ms)
  obtain e where d: "d = Suc e" using Cons.prems(2) by (cases d) auto
  from Cons.prems(2) [unfolded d] assms(1) obtain s1 who subs s2
    where e: "enter D X t (ct_token D) (sm_msg m) s = Inr (s1, who, subs)"
      and r: "run_msgs D X t e who subs s1 = Some (Inr s2)"
      and rest: "run_msgs D X t d (ct_token D) ms s2 = Some (Inr s')"
    unfolding d by (rule token_cons_ok)
  from e obtain x where x: "ext_deliver X (ct_token D) (sm_msg m) (st_ext s) = Inr x"
      "s1 = s\<lparr>st_ext := x\<rparr>" "calls_on X (ct_token D) (sm_msg m) x = (who, subs)"
    by (rule enter_inert_ok) (use Cons.prems(1) in auto)
  have "subs = []" using x(3) Cons.prems(1) by (cases "sm_msg m") auto
  with r x(2) have "s2 = s\<lparr>st_ext := x\<rparr>" by (cases e) auto
  with Cons.IH [OF _ rest] Cons.prems(1) x(1) show ?case by auto
qed simp

section \<open>Transactions keep an invariant\<close>

text \<open>What the hub asks of the wrapper by a list of messages.\<close>

definition hub_asks ::
  "('w, 'rw) contracts \<Rightarrow> (wrapper_execute_msg \<Rightarrow> bool) \<Rightarrow> sub_msg list \<Rightarrow> bool" where
  "hub_asks D asks ms \<longleftrightarrow>
     (\<forall>m \<in> set ms. \<forall>w fs. sm_msg m = Wasm_Execute (ct_token D) (WrapperExec w) fs \<longrightarrow> asks w)"

lemma hub_asks_simps [simp]:
  "hub_asks D asks []"
  "hub_asks D asks (m # ms) \<longleftrightarrow>
     (\<forall>w fs. sm_msg m = Wasm_Execute (ct_token D) (WrapperExec w) fs \<longrightarrow> asks w) \<and> hub_asks D asks ms"
  "hub_asks D (\<lambda>w. True) ms"
  by (auto simp: hub_asks_def)

text \<open>
  A state of the hub (\<open>I\<close>) in which it asks for nothing else, and which a call leaves as long as the
  caller is one of those who act within transactions (\<open>acts\<close>) or the hub sends anything at all.
\<close>

definition hub_keeps ::
  "('w, 'rw) contracts \<Rightarrow> (wrapper_execute_msg \<Rightarrow> bool) \<Rightarrow> (hub_storage \<Rightarrow> bool) \<Rightarrow> (addr \<Rightarrow> bool) \<Rightarrow> bool" where
  "hub_keeps D asks I acts \<longleftrightarrow>
     (\<forall>m dp e i h h' r. I h \<longrightarrow> hub_execute (ct_arith D) m dp e i h = Inr (h', r) \<longrightarrow>
        hub_asks D asks (messages r) \<and> (acts (sender i) \<or> messages r \<noteq> [] \<longrightarrow> I h'))"

lemma hub_keepsD:
  assumes "hub_keeps D asks I acts" and "I h" and "hub_execute (ct_arith D) m dp e i h = Inr (h', r)"
  shows "hub_asks D asks (messages r)" and "acts (sender i) \<or> messages r \<noteq> [] \<Longrightarrow> I h'"
  using assms unfolding hub_keeps_def by metis+

lemma hub_keeps_any: "hub_keeps D (\<lambda>w. True) (\<lambda>h. True) acts"
  by (simp add: hub_keeps_def)

locale kept_by_token =
  fixes D :: "('w, 'rw) contracts" and X :: "'x outside" and asks :: "wrapper_execute_msg \<Rightarrow> bool"
    and I :: "hub_storage \<Rightarrow> bool" and acts :: "addr \<Rightarrow> bool" and P :: "'w \<Rightarrow> 'x \<Rightarrow> bool"
  assumes keeps: "token_keeps D X asks P" and hub_kept: "hub_keeps D asks I acts"
    and hub_apart: "ct_hub D \<noteq> ct_reward D \<or> asks = (\<lambda>w. True)"
    and not_reward: "ct_token D \<noteq> ct_reward D" and not_hub: "ct_token D \<noteq> ct_hub D"
    and own_acts: "own D a \<Longrightarrow> acts a"
    and called_acts: "outgoing D m \<Longrightarrow> calls_on X a m x = (who, subs) \<Longrightarrow> subs \<noteq> [] \<Longrightarrow> acts who"
begin

abbreviation holds :: "('w, 'rw, 'x) chain_state \<Rightarrow> bool" where
  "holds s \<equiv> P (st_token s) (st_ext s)"

abbreviation good :: "('w, 'rw, 'x) chain_state \<Rightarrow> bool" where
  "good s \<equiv> holds s \<and> I (st_hub s)"

abbreviation proper :: "addr \<Rightarrow> sub_msg list \<Rightarrow> bool" where
  "proper self ms \<equiv> self \<noteq> ct_token D \<and> acts self \<and> (self = ct_hub D \<longrightarrow> hub_asks D asks ms)"

text \<open>Nobody but the hub itself sends in its name, and it has no reply entry point.\<close>

lemma proper_called:
  "outgoing D m \<Longrightarrow> calls_on X a m x = (who, subs) \<Longrightarrow> subs \<noteq> [] \<Longrightarrow> proper who subs"
  using calls_on_foreign [of X a m x who subs D] called_acts [of m a x who subs] by (auto simp: own_def)

lemma proper_reward: "proper (ct_reward D) ms"
  using hub_apart not_reward own_acts by (auto simp: own_def)

lemma proper_hub: "hub_asks D asks ms \<Longrightarrow> proper (ct_hub D) ms"
  using not_hub own_acts by (auto simp: own_def)

lemma proper_reply:
  "answer_reply D X t self k s = Inr (s', subs) \<Longrightarrow> proper self ms \<Longrightarrow> proper self subs"
  using hub_apart by (auto simp: answer_reply_def own_def unknown_message_def split: if_splits)

lemma run_nothing: "run_msgs D X t d self [] s = Some (Inr s') \<longleftrightarrow> s' = s"
  by auto

text \<open>
  Hooks of the wrapper, when what other accounts do one level deeper keeps the invariant: the contract
  that a hook calls may call back, the wrapper included.
\<close>

lemma run_hooks:
  assumes deeper: "\<And>self ms s s'. run_msgs D X t d self ms s = Some (Inr s') \<Longrightarrow> proper self ms \<Longrightarrow>
      good s \<Longrightarrow> good s'"
    and "\<forall>m \<in> set ms. hook (sm_msg m)"
    and "run_msgs D X t (Suc d) (ct_token D) ms s = Some (Inr s')" and "good s"
  shows "good s'"
  using assms(2-4)
proof (induction ms arbitrary: s)
  case (Cons m ms)
  from Cons.prems(2) not_reward obtain s1 who subs s2
    where e: "enter D X t (ct_token D) (sm_msg m) s = Inr (s1, who, subs)"
      and r: "run_msgs D X t d who subs s1 = Some (Inr s2)"
      and rest: "run_msgs D X t (Suc d) (ct_token D) ms s2 = Some (Inr s')"
    by (rule token_cons_ok)
  have hook: "hook (sm_msg m)" using Cons.prems(1) by simp
  from e hook_inert [OF hook] obtain x where out: "outgoing D (sm_msg m)"
      and x: "ext_deliver X (ct_token D) (sm_msg m) (st_ext s) = Inr x" "s1 = s\<lparr>st_ext := x\<rparr>"
      and calls: "calls_on X (ct_token D) (sm_msg m) x = (who, subs)"
    by (rule enter_inert_ok)
  have g1: "good s1" using keepsD(1) [OF keeps _ x(1)] hook Cons.prems(3) x(2) by simp
  have "good s2"
  proof (cases "subs = []")
    case True
    with r g1 show ?thesis by (simp add: run_nothing)
  next
    case False
    from deeper [OF r proper_called [OF out calls False] g1] show ?thesis .
  qed
  with Cons.IH [OF _ rest] Cons.prems(1) show ?case by simp
qed simp

text \<open>
  One message with what it sets off. The invariant of the hub may be lost only by a caller who does not
  act within transactions, and then nothing follows.
\<close>

lemma run_one:
  assumes deeper: "\<And>e self ms s s'. e \<le> d \<Longrightarrow> run_msgs D X t e self ms s = Some (Inr s') \<Longrightarrow> proper self ms \<Longrightarrow>
      good s \<Longrightarrow> good s'"
    and e: "enter D X t self m s = Inr (s1, who, subs)" and run: "run_msgs D X t d who subs s1 = Some (Inr s2)"
    and self: "self \<noteq> ct_token D" and g: "good s"
    and asked: "\<And>w fs. self = ct_hub D \<Longrightarrow> m = Wasm_Execute (ct_token D) (WrapperExec w) fs \<Longrightarrow> asks w"
  shows "holds s2 \<and> (acts self \<longrightarrow> I (st_hub s2))"
  using e
proof (cases rule: enter_cases)
  case (delivered x)
  with keepsD(1) [OF keeps _ delivered(2)] self g have g1: "good s1" by simp
  show ?thesis
  proof (cases "subs = []")
    case True
    with run g1 show ?thesis by (simp add: run_nothing)
  next
    case False
    from deeper [OF le_refl run proper_called [OF delivered(1,4) False] g1] show ?thesis by simp
  qed
next
  case (token fs b x w r)
  let ?i = "\<lparr>sender = self, funds = fs\<rparr>"
  have ms: "set (msgs r) = sm_msg ` set subs" "msgs r = map sm_msg subs" by (simp_all add: token(5) msgs_def)
  have sender: "sender ?i \<noteq> ct_token D" using self by simp
  have asked': "asks b" if "sender ?i = ct_hub D" using asked token(1) that by simp
  from g have "P (st_token s) (st_ext s)" by simp
  from keepsD(3) [OF keeps sender asked' token(2,3) this]
  consider "\<forall>m \<in> set subs. hook (sm_msg m)" "good s1"
    | "\<forall>m \<in> set subs. inert (sm_msg m) \<and> (\<forall>x. ext_calls X (ct_token D) (sm_msg m) x = [])"
      "\<And>x2. send_all X (ct_token D) (map sm_msg subs) (st_ext s1) = Inr x2 \<Longrightarrow> P (st_token s1) x2"
    unfolding ms(1) using g by (auto simp: token(6) ms(2))
  then show ?thesis
  proof cases
    case 1
    show ?thesis
    proof (cases d)
      case (Suc f)
      have "good s4" if "run_msgs D X t f other ms s3 = Some (Inr s4)" "proper other ms" "good s3"
        for other ms s3 s4
        by (rule deeper [OF _ that]) (simp add: Suc)
      from run_hooks [OF this 1(1) _ 1(2)] run Suc token(4) show ?thesis by simp
    qed (use run 1(2) in \<open>cases subs; simp\<close>)
  next
    case 2
    have "run_msgs D X t d (ct_token D) subs s1 = Some (Inr s2)" using run token(4) by simp
    from run_silent [OF not_reward 2(1) this] 2(2) g token(6) show ?thesis by auto
  qed
next
  case (reward fs x rw)
  have "good s1" using attach_keeps [OF keeps _ reward(1)] self g reward(4) by simp
  with deeper [OF le_refl run] reward(2) proper_reward show ?thesis by simp
next
  case (hub fs b x h r)
  have held: "holds s1" using attach_keeps [OF keeps _ hub(1)] self g hub(5) by simp
  from g have I: "I (st_hub s)" by simp
  note kept = hub_keepsD [OF hub_kept I hub(2)]
  show ?thesis
  proof (cases "subs = []")
    case True
    with run have "s2 = s1" by (auto simp: run_nothing)
    with held kept(2) hub(5) show ?thesis by simp
  next
    case False
    with kept(2) held hub(4,5) have "good s1" by simp
    with deeper [OF le_refl run] proper_hub [OF kept(1)] hub(3,4) show ?thesis by simp
  qed
qed

lemma run_keeps:
  "run_msgs D X t d self ms s = Some (Inr s') \<Longrightarrow> proper self ms \<Longrightarrow> good s \<Longrightarrow> good s'"
proof (induction d arbitrary: self ms s s' rule: less_induct)
  case (less d)
  have answered: "good s2"
    if "run_msgs D X t e self subs s1 = Some (Inr s2)" "d = Suc e" "proper self ms'"
      "answer_reply D X t self k s = Inr (s1, subs)" "good s" for k s s1 subs s2 e ms'
  proof -
    from that(4) have "good s1"
      by (cases rule: answer_reply_ok) (use keepsD(2) [OF keeps] that(5) in auto)
    with less.IH [OF _ that(1) proper_reply [OF that(4,3)]] that(2) show ?thesis by simp
  qed
  show ?case
  proof (cases d)
    case 0
    with less.prems show ?thesis by (cases ms) auto
  next
    case (Suc e)
    have deeper: "good s2" if "f \<le> e" "run_msgs D X t f other ms s1 = Some (Inr s2)" "proper other ms" "good s1"
      for f other ms s1 s2
      by (rule less.IH [OF _ that(2-4)]) (use that(1) Suc in simp)
    from less.prems show ?thesis unfolding Suc
    proof (induction ms arbitrary: s)
      case (Cons m ms)
      have asked: "asks w" if "self = ct_hub D" "sm_msg m = Wasm_Execute (ct_token D) (WrapperExec w) fs" for w fs
        using Cons.prems(2) that by simp
      have self: "self \<noteq> ct_token D" "acts self" and more: "proper self ms" using Cons.prems(2) by auto
      have one: "good s2" if "enter D X t self (sm_msg m) s = Inr (s1, who, subs)"
          "run_msgs D X t e who subs s1 = Some (Inr s2)" for s1 who subs s2
      proof -
        have "holds s2 \<and> (acts self \<longrightarrow> I (st_hub s2))"
          by (rule run_one [OF _ that self(1) Cons.prems(3)]) (erule deeper, assumption+, erule asked, assumption)
        with self(2) show ?thesis by simp
      qed
      from Cons.prems(1) show ?case
      proof (cases rule: run_cons_ok)
        case (plain s1 who subs s2)
        from Cons.IH [OF plain(3) more one [OF plain(1,2)]] show ?thesis .
      next
        case (replied s1 who subs s2 s3 subs' s4)
        from Cons.IH [OF replied(5) more answered [OF replied(4) Suc more replied(3) one [OF replied(1,2)]]]
        show ?thesis .
      next
        case (undone s3 subs' s4)
        from Cons.IH [OF undone(3) more answered [OF undone(2) Suc more undone(1) Cons.prems(3)]]
        show ?thesis .
      qed
    qed simp
  qed
qed

end

section \<open>Runs of the chain\<close>

text \<open>
  A step is a transaction that somebody outside starts, or a change of the outside by itself, within
  the relation \<open>E\<close>.
\<close>

inductive chain_step ::
  "('w, 'rw) contracts \<Rightarrow> 'x outside \<Rightarrow> ('x \<Rightarrow> 'x \<Rightarrow> bool) \<Rightarrow> ('w, 'rw, 'x) chain_state \<Rightarrow>
   ('w, 'rw, 'x) chain_state \<Rightarrow> bool"
  for D X E where
  ask_hub: "call_hub D X t n caller m s = Some (Inr s') \<Longrightarrow> chain_step D X E s s'"
| send_message: "\<not> own D caller \<Longrightarrow> run_msgs D X t n caller [sub_msg_new m] s = Some (Inr s') \<Longrightarrow>
    chain_step D X E s s'"
| elsewhere: "E (st_ext s) x \<Longrightarrow> chain_step D X E s (s\<lparr>st_ext := x\<rparr>)"

context kept_by_token
begin

lemma step_keeps:
  assumes "\<And>x x' w. E x x' \<Longrightarrow> P w x \<Longrightarrow> P w x'" and "I (st_hub s)"
    and "chain_step D X E s s'" and "holds s"
  shows "holds s'"
  using assms(3)
proof cases
  case (ask_hub t n caller m)
  then obtain h and r :: response
    where r: "hub_execute (ct_arith D) m (ext_view X (st_ext s) (ct_hub D)) (block_env t (ct_hub D))
        \<lparr>sender = caller, funds = []\<rparr> (st_hub s) = Inr (h, r)"
      and run: "run_msgs D X t n (ct_hub D) (messages r) (s\<lparr>st_hub := h\<rparr>) = Some (Inr s')"
    by (auto simp: call_hub_def split: sum.splits)
  note kept = hub_keepsD [OF hub_kept assms(2) r]
  show ?thesis
  proof (cases "messages r = []")
    case True
    with run assms(4) show ?thesis by (auto simp: run_nothing)
  next
    case False
    with kept(2) assms(4) run_keeps [OF run proper_hub [OF kept(1)]] show ?thesis by simp
  qed
next
  case (send_message caller t n m)
  then obtain d where n: "n = Suc d" by (cases n) auto
  with send_message(2) obtain s1 who subs where "enter D X t caller m s = Inr (s1, who, subs)"
      "run_msgs D X t d who subs s1 = Some (Inr s')"
    by (auto simp: run_plain simp del: run_msgs.simps(3) split: sum.splits option.splits)
  have "holds s' \<and> (acts caller \<longrightarrow> I (st_hub s'))"
    by (rule run_one [OF _ \<open>enter D X t caller m s = _\<close> \<open>run_msgs D X t d who subs s1 = _\<close>])
      (erule run_keeps, assumption+, use send_message(1) assms(2,4) in \<open>auto simp: own_def\<close>)
  then show ?thesis by simp
qed (use assms(1,4) in auto)

text \<open>Runs in which the hub is in such a state whenever a step is taken.\<close>

lemma chain_run_keeps:
  assumes "\<And>x x' w. E x x' \<Longrightarrow> P w x \<Longrightarrow> P w x'"
    and "(\<lambda>s s'. chain_step D X E s s' \<and> I (st_hub s))\<^sup>*\<^sup>* s s'" and "holds s"
  shows "holds s'"
  using assms(2)
proof (induction rule: rtranclp_induct)
  case (step y z)
  from step(2) have "I (st_hub y)" "chain_step D X E y z" by simp_all
  from assms(1) this step(3) show ?case by (rule step_keeps)
qed (rule assms(3))

end

end
