(* ===== verification/Instrumented.thy ===== *)
theory Instrumented
  imports Chain_Runs
begin

text \<open>
  Measuring a run. An outside can carry a record beside its own state that follows from what happens to
  it and that nothing reads: what the wrapper has sent to somebody (\<open>counting\<close>), or what falls of the
  exchange rate have cost (\<open>metered\<close>). Such a record changes nothing: the runs of a chain with it are the
  runs of the chain without it, and each of these has its record.
\<close>

section \<open>A record beside the outside\<close>

definition instrumented ::
  "(addr \<Rightarrow> cosmos_msg option \<Rightarrow> 'x \<Rightarrow> 'x \<Rightarrow> 'g \<Rightarrow> 'g) \<Rightarrow> 'x outside \<Rightarrow> ('x \<times> 'g) outside" where
  "instrumented f X = \<lparr>
     ext_deliver = (\<lambda>a m (x, g). rbind (ext_deliver X a m x) (\<lambda>x'. Inr (x', f a (Some m) x x' g))),
     ext_view = (\<lambda>(x, g). ext_view X x), ext_calls = (\<lambda>a m (x, g). ext_calls X a m x),
     ext_reply = (\<lambda>a k (x, g). rbind (ext_reply X a k x) (\<lambda>(x', subs). Inr ((x', f a None x x' g), subs)))\<rparr>"

lemma instrumented_simps [simp]:
  "ext_deliver (instrumented f X) a m (x, g) = rbind (ext_deliver X a m x) (\<lambda>x'. Inr (x', f a (Some m) x x' g))"
  "ext_view (instrumented f X) y = ext_view X (fst y)"
  "ext_calls (instrumented f X) a m y = ext_calls X a m (fst y)"
  "ext_reply (instrumented f X) a k (x, g) =
     rbind (ext_reply X a k x) (\<lambda>(x', subs). Inr ((x', f a None x x' g), subs))"
  by (simp_all add: instrumented_def split_beta)

text \<open>What happens by itself is recorded as well.\<close>

definition registered :: "('x \<Rightarrow> 'x \<Rightarrow> 'g \<Rightarrow> 'g) \<Rightarrow> ('x \<Rightarrow> 'x \<Rightarrow> bool) \<Rightarrow> 'x \<times> 'g \<Rightarrow> 'x \<times> 'g \<Rightarrow> bool" where
  "registered f E y y' \<longleftrightarrow> E (fst y) (fst y') \<and> snd y' = f (fst y) (fst y') (snd y)"

text \<open>The state without the record.\<close>

definition project :: "('w, 'rw, 'x \<times> 'g) chain_state \<Rightarrow> ('w, 'rw, 'x) chain_state" where
  "project s = \<lparr>st_hub = st_hub s, st_token = st_token s, st_reward = st_reward s, st_ext = fst (st_ext s)\<rparr>"

lemma project_same [simp]:
  "(project s)\<lparr>st_ext := fst (st_ext s)\<rparr> = project s"
  "(project s)\<lparr>st_ext := fst (st_ext s), st_token := w\<rparr> = (project s)\<lparr>st_token := w\<rparr>"
  "(project s)\<lparr>st_ext := fst (st_ext s), st_reward := rw\<rparr> = (project s)\<lparr>st_reward := rw\<rparr>"
  "(project s)\<lparr>st_ext := fst (st_ext s), st_hub := h\<rparr> = (project s)\<lparr>st_hub := h\<rparr>"
  by (simp_all add: project_def)

lemma project_simps [simp]:
  "st_hub (project s) = st_hub s" "st_token (project s) = st_token s" "st_reward (project s) = st_reward s"
  "st_ext (project s) = fst (st_ext s)"
  "project (s\<lparr>st_hub := h\<rparr>) = (project s)\<lparr>st_hub := h\<rparr>"
  "project (s\<lparr>st_token := w\<rparr>) = (project s)\<lparr>st_token := w\<rparr>"
  "project (s\<lparr>st_reward := rw\<rparr>) = (project s)\<lparr>st_reward := rw\<rparr>"
  "project (s\<lparr>st_ext := y\<rparr>) = (project s)\<lparr>st_ext := fst y\<rparr>"
  by (simp_all add: project_def)

section \<open>The record changes nothing\<close>

lemma map_rbind: "map_sum id h (rbind a k) = rbind a (\<lambda>y. map_sum id h (k y))"
  by (simp add: rbind_def split: sum.split)

lemma attach_instrumented:
  "rbind (if fs = [] then Inr (fst y) else ext_deliver X a (Bank_Send to fs) (fst y)) k =
   rbind (if fs = [] then Inr y else ext_deliver (instrumented f X) a (Bank_Send to fs) y) (\<lambda>y'. k (fst y'))"
  by (cases y) (simp add: rbind_def split: sum.split)

lemma calls_on_instrumented [simp]: "calls_on (instrumented f X) a m y = calls_on X a m (fst y)"
  by (cases m) simp_all

lemma enter_instrumented:
  "enter D X t a m (project s) = map_sum id (\<lambda>(s', c). (project s', c)) (enter D (instrumented f X) t a m s)"
proof (cases "outgoing D m")
  case True
  then show ?thesis by (cases "st_ext s") (simp add: enter_outgoing rbind_def split: sum.split)
next
  case False
  then obtain c b fs where m: "m = Wasm_Execute c b fs" by (cases m) auto
  show ?thesis
    unfolding enter_def m project_simps attach_instrumented [where f = f and y = "st_ext s"]
    using False
    by (cases b) (simp_all add: m Let_def map_rbind unknown_message_def case_prod_unfold)
qed

lemma reply_instrumented:
  "answer_reply D X t a k (project s) =
     map_sum id (\<lambda>(s', c). (project s', c)) (answer_reply D (instrumented f X) t a k s)"
  by (cases "st_ext s") (simp add: answer_reply_def unknown_message_def rbind_def split_beta split: sum.split)

lemma run_instrumented:
  "run_msgs D X t d a ms (project s) =
     map_option (map_sum id project) (run_msgs D (instrumented f X) t d a ms s)"
proof (induction d arbitrary: a ms s)
  case 0
  show ?case by (cases ms) simp_all
next
  case (Suc d)
  show ?case
  proof (induction ms arbitrary: s)
    case (Cons m ms)
    let ?Y = "instrumented f X" and ?p = "map_option (map_sum id project)"
    have answered: "(case answer_reply D X t a k (project s) of
          Inl f' \<Rightarrow> Some (Inl f')
        | Inr (s2, subs) \<Rightarrow> (case run_msgs D X t d a subs s2 of
            None \<Rightarrow> None | Some (Inl f') \<Rightarrow> Some (Inl f') | Some (Inr s3) \<Rightarrow> run_msgs D X t (Suc d) a ms s3)) =
        ?p (case answer_reply D ?Y t a k s of
          Inl f' \<Rightarrow> Some (Inl f')
        | Inr (s2, subs) \<Rightarrow> (case run_msgs D ?Y t d a subs s2 of
            None \<Rightarrow> None | Some (Inl f') \<Rightarrow> Some (Inl f') | Some (Inr s3) \<Rightarrow> run_msgs D ?Y t (Suc d) a ms s3))" for k s
    proof (cases "answer_reply D ?Y t a k s")
      case (Inr y)
      then show ?thesis
        using Cons.IH
        by (cases "run_msgs D ?Y t d a (snd y) (fst y)")
          (auto simp: reply_instrumented [where f = f] Suc.IH split_beta id_def simp del: run_msgs.simps split: sum.split)
    qed (simp add: reply_instrumented [where f = f])
    show ?case
    proof (cases "enter D ?Y t a (sm_msg m) s")
      case (Inl e)
      then show ?thesis by (simp add: enter_instrumented [where f = f] answered [unfolded id_def] id_def)
    next
      case (Inr y)
      obtain s1 who subs where y: "y = (s1, who, subs)" by (cases y) auto
      show ?thesis
      proof (cases "run_msgs D ?Y t d who subs s1")
        case (Some z)
        with Inr y Cons.IH show ?thesis
          by (cases z) (simp_all add: enter_instrumented [where f = f] Suc.IH answered [unfolded id_def] id_def)
      qed (use Inr y in \<open>simp add: enter_instrumented [where f = f] Suc.IH\<close>)
    qed
  qed simp
qed

lemma call_hub_instrumented:
  "call_hub D X t d a m (project s) =
     map_option (map_sum id project) (call_hub D (instrumented f X) t d a m s)"
  by (simp add: call_hub_def run_instrumented [where f = f, symmetric] split: sum.split)

text \<open>A step with the record is a step without it, and every step without it has one with it.\<close>

lemma step_projects:
  assumes "chain_step D (instrumented f X) (registered h E) y z"
  shows "chain_step D X E (project y) (project z)"
  using assms
proof cases
  case (ask_hub t n caller m)
  then have "call_hub D X t n caller m (project y) = Some (Inr (project z))"
    by (simp add: call_hub_instrumented [where f = f])
  then show ?thesis by (rule chain_step.ask_hub)
next
  case (send_message caller t n m)
  then have "run_msgs D X t n caller [sub_msg_new m] (project y) = Some (Inr (project z))"
    by (simp add: run_instrumented [where f = f])
  with send_message(1) show ?thesis by (rule chain_step.send_message)
next
  case (elsewhere y')
  then show ?thesis by (auto simp: registered_def intro: chain_step.elsewhere)
qed

lemma mapped_some: "map_option (map_sum id p) r = Some (Inr z) \<longleftrightarrow> (\<exists>s. r = Some (Inr s) \<and> z = p s)"
proof (cases r)
  case (Some q)
  then show ?thesis by (cases q) auto
qed simp

lemma step_lifts:
  assumes "chain_step D X E (project y) z"
  shows "\<exists>s. chain_step D (instrumented f X) (registered h E) y s \<and> z = project s"
  using assms
proof cases
  case (ask_hub t n caller m)
  then obtain s where "call_hub D (instrumented f X) t n caller m y = Some (Inr s)" "z = project s"
    unfolding call_hub_instrumented [where f = f] mapped_some by blast
  then show ?thesis by (blast intro: chain_step.ask_hub)
next
  case (send_message caller t n m)
  then obtain s where "run_msgs D (instrumented f X) t n caller [sub_msg_new m] y = Some (Inr s)" "z = project s"
    unfolding run_instrumented [where f = f] mapped_some by blast
  with send_message(1) show ?thesis by (blast intro: chain_step.send_message)
next
  case (elsewhere x)
  let ?y = "(x, h (fst (st_ext y)) x (snd (st_ext y)))"
  have "chain_step D (instrumented f X) (registered h E) y (y\<lparr>st_ext := ?y\<rparr>)"
    using elsewhere(2) by (intro chain_step.elsewhere) (simp add: registered_def)
  moreover have "z = project (y\<lparr>st_ext := ?y\<rparr>)" using elsewhere(1) by simp
  ultimately show ?thesis by blast
qed

text \<open>So are runs.\<close>

theorem run_projects:
  "(chain_step D (instrumented f X) (registered h E))\<^sup>*\<^sup>* s s' \<Longrightarrow> (chain_step D X E)\<^sup>*\<^sup>* (project s) (project s')"
  by (induction rule: rtranclp_induct) (auto dest: step_projects intro: rtranclp.rtrancl_into_rtrancl)

theorem run_lifts:
  assumes "(chain_step D X E)\<^sup>*\<^sup>* (project s) z"
  shows "\<exists>s'. (chain_step D (instrumented f X) (registered h E))\<^sup>*\<^sup>* s s' \<and> z = project s'"
  using assms
proof (induction rule: rtranclp_induct)
  case (step y z)
  then obtain s1 where s1: "(chain_step D (instrumented f X) (registered h E))\<^sup>*\<^sup>* s s1" "y = project s1" by auto
  with step_lifts [of D X E s1 z f h] step(2) show ?case by (auto intro: rtranclp.rtrancl_into_rtrancl)
qed auto

section \<open>Two records\<close>

text \<open>What \<open>self\<close> has sent, by the measure \<open>gone\<close> of a message.\<close>

definition counting :: "addr \<Rightarrow> (cosmos_msg \<Rightarrow> nat) \<Rightarrow> 'x outside \<Rightarrow> ('x \<times> nat) outside" where
  "counting self gone =
     instrumented (\<lambda>a m x x' n. case m of Some m \<Rightarrow> if a = self then n + gone m else n | None \<Rightarrow> n)"

definition counted :: "('x \<Rightarrow> 'x \<Rightarrow> bool) \<Rightarrow> 'x \<times> nat \<Rightarrow> 'x \<times> nat \<Rightarrow> bool" where
  "counted = registered (\<lambda>x x' n. n)"

text \<open>What \<open>held\<close> has lost in worth, in atoms: whenever the rate falls, by its fall for each unit.\<close>

definition metered :: "('x \<Rightarrow> nat) \<Rightarrow> ('x \<Rightarrow> nat) \<Rightarrow> 'x outside \<Rightarrow> ('x \<times> nat) outside" where
  "metered held rate = instrumented (\<lambda>a m x x' lost. lost + held x * (rate x - rate x'))"

definition slashed :: "('x \<Rightarrow> nat) \<Rightarrow> ('x \<Rightarrow> nat) \<Rightarrow> ('x \<Rightarrow> 'x \<Rightarrow> bool) \<Rightarrow> 'x \<times> nat \<Rightarrow> 'x \<times> nat \<Rightarrow> bool" where
  "slashed held rate = registered (\<lambda>x x' lost. lost + held x * (rate x - rate x'))"

lemma counting_simps [simp]:
  "ext_deliver (counting self gone X) a m (x, n) =
     rbind (ext_deliver X a m x) (\<lambda>x'. Inr (x', if a = self then n + gone m else n))"
  "ext_view (counting self gone X) y = ext_view X (fst y)"
  "ext_calls (counting self gone X) a m y = ext_calls X a m (fst y)"
  "ext_reply (counting self gone X) a k (x, n) = rbind (ext_reply X a k x) (\<lambda>(x', subs). Inr ((x', n), subs))"
  by (simp_all add: counting_def)

lemma metered_simps [simp]:
  "ext_deliver (metered held rate X) a m (x, l) =
     rbind (ext_deliver X a m x) (\<lambda>x'. Inr (x', l + held x * (rate x - rate x')))"
  "ext_view (metered held rate X) y = ext_view X (fst y)"
  "ext_calls (metered held rate X) a m y = ext_calls X a m (fst y)"
  "ext_reply (metered held rate X) a k (x, l) =
     rbind (ext_reply X a k x) (\<lambda>(x', subs). Inr ((x', l + held x * (rate x - rate x')), subs))"
  by (simp_all add: metered_def)

lemma counted_iff: "counted E y y' \<longleftrightarrow> E (fst y) (fst y') \<and> snd y' = snd y"
  by (simp add: counted_def registered_def)

lemma slashed_iff:
  "slashed held rate E y y' \<longleftrightarrow>
     E (fst y) (fst y') \<and> snd y' = snd y + held (fst y) * (rate (fst y) - rate (fst y'))"
  by (simp add: slashed_def registered_def)

text \<open>The runs of a metered chain are those of the chain.\<close>

lemma metered_runs:
  "(chain_step D (metered held rate X) (slashed held rate E))\<^sup>*\<^sup>* s s' \<Longrightarrow>
     (chain_step D X E)\<^sup>*\<^sup>* (project s) (project s')"
  "(chain_step D X E)\<^sup>*\<^sup>* (project s) z \<Longrightarrow>
     \<exists>s'. (chain_step D (metered held rate X) (slashed held rate E))\<^sup>*\<^sup>* s s' \<and> z = project s'"
  "(chain_step D (counting self gone X) (counted E))\<^sup>*\<^sup>* s s' \<Longrightarrow> (chain_step D X E)\<^sup>*\<^sup>* (project s) (project s')"
  "(chain_step D X E)\<^sup>*\<^sup>* (project s) z \<Longrightarrow>
     \<exists>s'. (chain_step D (counting self gone X) (counted E))\<^sup>*\<^sup>* s s' \<and> z = project s'"
  unfolding metered_def slashed_def counting_def counted_def by (rule run_projects run_lifts; assumption)+

end
