(* ===== verification/Limited_Vault.thy ===== *)
theory Limited_Vault
  imports Limited_System Wrapper_System
begin

text \<open>
  The limited wrapper against its abstract specification: a pot of LSD of which every unit is a share.
  Joining must not lower the LSD per unit of those who are in; leaving pays the quoted amount, which is
  at most the share; and what is skimmed leaves the units covered at the LSD's own rate \<open>r\<close>. The
  quote is the share up to the rounding of the quoted rate, which is in favour of whoever leaves: with
  less than 10^9 LSD in the pot it never exceeds the share.
\<close>

section \<open>The pot of shares\<close>

inductive share_step :: "nat \<Rightarrow> vault \<Rightarrow> vault \<Rightarrow> bool" for r :: nat where
  open_pot: "v_supply v = 0 \<Longrightarrow> a \<le> l \<Longrightarrow>
    share_step r v (v\<lparr>v_lsd := v_lsd v + l, v_supply := a\<rparr>)"
| join: "v_supply v \<noteq> 0 \<Longrightarrow> v_lsd v * (v_supply v + a) \<le> (v_lsd v + l) * v_supply v \<Longrightarrow>
    share_step r v (v\<lparr>v_lsd := v_lsd v + l, v_supply := v_supply v + a\<rparr>)"
| leave: "0 < share_rate (v_lsd v) (v_supply v) \<Longrightarrow> l = lsd_for (share_rate (v_lsd v) (v_supply v)) a \<Longrightarrow>
    l \<le> v_lsd v \<Longrightarrow> a \<le> v_supply v \<Longrightarrow> l * v_supply v \<le> a * v_lsd v \<Longrightarrow>
    share_step r v (v\<lparr>v_lsd := v_lsd v - l, v_supply := v_supply v - a\<rparr>)"
| skim_share: "l \<le> v_lsd v \<Longrightarrow> v_supply v * dec_unit \<le> (v_lsd v - l) * r \<Longrightarrow>
    share_step r v (v\<lparr>v_lsd := v_lsd v - l\<rparr>)"
| receive_share: "share_step r v (v\<lparr>v_lsd := v_lsd v + l\<rparr>)"

inductive_cases share_stepE: "share_step r v v'"

text \<open>Attached coins already count as a part of the pot when the rate is quoted.\<close>

lemma join_share:
  assumes "a * dec_unit \<le> l * share_rate (n + k) s" and "s \<noteq> 0" and "l \<le> got"
    and "k = 0 \<or> got = k"
  shows "n * (s + a) \<le> (n + got) * s"
proof -
  from share_not_diluted [OF assms(1,2)] have "(n + k) * a \<le> l * s"
    by (simp add: algebra_simps)
  also have "\<dots> \<le> got * s" using assms(3) by simp
  finally have "n * a \<le> got * s" by (simp add: add_mult_distrib)
  then show ?thesis by (simp add: algebra_simps)
qed

text \<open>Paying the quoted amount out of a small pot is a \<open>leave\<close>.\<close>

lemma quote_at_most_share:
  assumes "p < 10 ^ 9" and "p \<noteq> 0" and "s \<noteq> 0" and "l = lsd_for (share_rate p s) a" and "l \<le> p"
  shows "l * s \<le> a * p"
proof (cases "l = 0")
  case False
  have "s * dec_unit < (share_rate p s + 1) * p"
    using div_mult_upper [of p "s * dec_unit"] assms(2,3) by (simp add: share_rate_def)
  then have "l * (s * dec_unit) < l * ((share_rate p s + 1) * p)" using False by simp
  also have "\<dots> = l * share_rate p s * p + l * p" by (simp add: algebra_simps)
  also have "\<dots> \<le> a * dec_unit * p + p * p"
    using lsd_for_le [of "share_rate p s" a] assms(4,5) by (intro add_mono mult_le_mono1) simp_all
  also have "\<dots> < a * dec_unit * p + dec_unit"
  proof -
    have "p * p < 10 ^ 9 * 10 ^ 9" using assms(1) by (intro mult_strict_mono) simp_all
    then show ?thesis by (simp add: dec_unit_def)
  qed
  finally have "l * s * dec_unit < (a * p + 1) * dec_unit" by (simp add: algebra_simps)
  then have "l * s < a * p + 1" by (simp only: mult_less_cancel2)
  then show ?thesis by simp
qed simp

lemma leave_step:
  assumes "l = lsd_for (share_rate p s) a" and "0 < share_rate p s" and "l \<le> p" and "a \<le> s"
    and "p < 10 ^ 9"
  shows "share_step r \<lparr>v_lsd = p, v_supply = s\<rparr> \<lparr>v_lsd = p - l, v_supply = s - a\<rparr>"
proof -
  have "l * s \<le> a * p"
  proof (cases "s = 0 \<or> p = 0")
    case True
    with assms(3) show ?thesis by auto
  next
    case False
    with assms show ?thesis by (intro quote_at_most_share) simp_all
  qed
  with assms(1-4) share_step.leave [of "\<lparr>v_lsd = p, v_supply = s\<rparr>" l a r] show ?thesis by simp
qed

text \<open>A covered pot stays covered.\<close>

lemma share_step_backed:
  assumes "share_step r v v'" and "dec_unit \<le> r" and "backed r v"
  shows "backed r v'"
  using assms(1)
proof cases
  case (open_pot a l)
  have "a * dec_unit \<le> (v_lsd v + l) * r" using open_pot(3) assms(2) by (intro mult_le_mono) simp_all
  then show ?thesis by (simp add: backed_def open_pot(1))
next
  case (join a l)
  let ?n = "v_lsd v" and ?s = "v_supply v"
  have "?s * ((?s + a) * dec_unit) \<le> (?s + a) * (?n * r)"
    using mult_le_mono2 [of "?s * dec_unit" "?n * r" "?s + a"] assms(3) by (simp add: backed_def ac_simps)
  also have "\<dots> \<le> ?s * ((?n + l) * r)"
    using mult_le_mono1 [OF join(3), of r] by (simp add: ac_simps)
  finally show ?thesis using join(2) by (simp add: backed_def join(1))
next
  case (leave l a)
  let ?n = "v_lsd v" and ?s = "v_supply v"
  show ?thesis
  proof (cases "?s = 0")
    case False
    have share: "?n * (?s - a) \<le> (?n - l) * ?s"
      using leave(6) by (simp add: diff_mult_distrib diff_mult_distrib2 ac_simps)
    have "?s * ((?s - a) * dec_unit) \<le> (?s - a) * (?n * r)"
      using mult_le_mono2 [of "?s * dec_unit" "?n * r" "?s - a"] assms(3) by (simp add: backed_def ac_simps)
    also have "\<dots> \<le> ?s * ((?n - l) * r)"
      using mult_le_mono1 [OF share, of r] by (simp add: ac_simps)
    finally show ?thesis using False by (simp add: backed_def leave(1))
  qed (simp add: backed_def leave(1))
qed (use assms(3) in \<open>auto simp: backed_def add_mult_distrib\<close>)

lemma share_steps_backed:
  "(share_step r)\<^sup>*\<^sup>* v v' \<Longrightarrow> dec_unit \<le> r \<Longrightarrow> backed r v \<Longrightarrow> backed r v'"
  by (induction rule: rtranclp_induct) (auto intro: share_step_backed)

section \<open>The calls of the contract\<close>

context wrapper_env
begin

lemma limited_burn_all_ok:
  assumes "limited_burn_all A C H dp e i st = Inr (st', r)"
  obtains (idle) "st' = st" "msgs r = []"
  | (positive) amount where "limited_burn A C H amount dp e i st = Inr (st', r)"
  using assms by (auto simp: limited_burn_all_def rbind_eq_Inr split: if_splits)

text \<open>How much a deposit brings in, beside what was attached.\<close>

lemma deposit_got:
  assumes "deposit_funds H cfg dp e i a (sender i) = Inr ms"
    and "lsd_run (asset cfg) self ms (n + lsd_attached (asset cfg) i) = Some n'"
    and "contract_address e = self" and "sender i \<noteq> self"
  obtains l where "unat a \<le> l" "n' = n + l" "lsd_attached (asset cfg) i = 0 \<or> l = lsd_attached (asset cfg) i"
  using assms(1)
proof (cases rule: hub.deposit_amount)
  case (pulled t)
  with assms(2-4) show thesis by (intro that [of "unat a"]) auto
next
  case (attached d)
  with assms(2) show thesis by (intro that [of "lsd_attached (asset cfg) i"]) auto
qed

lemma limited_call_refines:
  assumes ex: "limited_execute A C H m dp e i st = Inr (st', r)"
    and self: "contract_address e = self" and caller: "sender i \<noteq> self"
    and cfg: "ws_lsd_config st = Some cfg"
    and bal: "\<And>b. lsd_balance (asset cfg) dp self = Inr b \<Longrightarrow>
        unat b = n + lsd_attached (asset cfg) i"
    and rt: "\<And>q. query_exchange_rate H cfg dp e = Inr q \<Longrightarrow> atoms q = rt"
    and small: "\<And>b. lsd_balance (asset cfg) dp self = Inr b \<Longrightarrow> unat b < 10 ^ 9"
    and run: "lsd_run (asset cfg) self (msgs r) (n + lsd_attached (asset cfg) i) = Some n'"
  shows "(share_step rt)\<^sup>*\<^sup>* \<lparr>v_lsd = n, v_supply = token_supply C (ws_cw20 st)\<rparr>
    \<lparr>v_lsd = n', v_supply = token_supply C (ws_cw20 st')\<rparr>"
proof -
  let ?v = "\<lambda>x y. \<lparr>v_lsd = x, v_supply = y\<rparr>" and ?s = "token_supply C (ws_cw20 st)"
    and ?s' = "token_supply C (ws_cw20 st')" and ?k = "lsd_attached (asset cfg) i"
  have receive: "share_step rt (?v x y) (?v (x + z) y)" for x y z
    using share_step.receive_share [of rt "?v x y" z] by simp
  have still: ?thesis if "?s' = ?s" "n' = n + ?k"
    using receive [of n ?s ?k] that by simp
  have burnt: ?thesis
    if l: "unat l = lsd_for (share_rate (n + ?k) ?s) a" and low: "n + ?k < 10 ^ 9" and pos: "0 < share_rate (n + ?k) ?s"
      and ms: "msgs r = [lsd_transfer (asset cfg) (sender i) l]" and s: "?s = ?s' + a" for l a
  proof (rule payout_steps [where l' = "unat l" and l = l and k = ?k and to = "sender i" and as = "asset cfg"])
    show "lsd_run (asset cfg) self [lsd_transfer (asset cfg) (sender i) l] (n + ?k) = Some n'"
      using run ms by simp
    show "share_step rt (?v x ?s) (?v (x - unat l) ?s')" if "unat l \<le> x" "x = n + ?k" for x
      using leave_step [OF l pos _ _ low, of rt] that s by simp
  qed (use caller receive in auto)
  have minted: ?thesis
    if d: "deposit_funds H cfg dp e i l (sender i) = Inr (msgs r)"
      and worth: "a * dec_unit \<le> unat l * share_rate (n + ?k) ?s" and s: "?s' = ?s + a" for l a
  proof -
    obtain got where got: "unat l \<le> got" "n' = n + got" "?k = 0 \<or> got = ?k"
      using deposit_got [OF d run self caller] by blast
    have "share_step rt (?v n ?s) (?v (n + got) (?s + a))"
    proof (cases "?s = 0")
      case True
      with worth have "a \<le> unat l" by (simp add: share_rate_def)
      with got(1) have "a \<le> got" by simp
      with True share_step.open_pot [of "?v n ?s" a got rt] show ?thesis by simp
    next
      case False
      from join_share [OF worth False got(1,3)] False share_step.join [of "?v n ?s" a got rt]
      show ?thesis by simp
    qed
    with got s show ?thesis by (simp add: r_into_rtranclp)
  qed
  show ?thesis
  proof (cases m)
    case (Burn a)
    with ex have "limited_burn A C H a dp e i st = Inr (st', r)" by simp
    then show ?thesis by (rule limited_burn_ok) (use cfg bal small self burnt in fastforce)
  next
    case BurnAll
    with ex have "limited_burn_all A C H dp e i st = Inr (st', r)" by simp
    then show ?thesis
    proof (cases rule: limited_burn_all_ok)
      case idle
      then show ?thesis using run still by simp
    next
      case (positive a)
      then show ?thesis by (rule limited_burn_ok) (use cfg bal small self burnt in fastforce)
    qed
  next
    case (BurnFrom ow a)
    with ex have "limited_burn_from A C H ow a dp e i st = Inr (st', r)" by simp
    then show ?thesis by (rule limited_burn_from_ok) (use cfg bal small self burnt in fastforce)
  next
    case (Mint rc a)
    with ex have "limited_mint A C H rc a dp e i st = Inr (st', r)" by simp
    then show ?thesis
      by (rule limited_mint_ok) (use cfg bal self lsd_for_plus_one minted in fastforce)
  next
    case (MintWith rc l)
    with ex have "limited_mint_with A C H rc l dp e i st = Inr (st', r)" by simp
    then show ?thesis
      by (rule limited_mint_with_ok) (use cfg bal self wrapped_for_le minted in fastforce)
  next
    case (Decompound rc)
    with ex have "limited_decompound A C H rc dp e i st = Inr (st', r)" by simp
    then show ?thesis
    proof (cases rule: limited_decompound_ok)
      case idle
      then show ?thesis using run still by simp
    next
      case (skimmed rw old new cfg' to)
      let ?l = "al_lsd_rewards rw"
      have cfg': "cfg' = cfg" and same: "?s' = ?s" using skimmed cfg by auto
      show ?thesis
      proof (cases "?l = 0")
        case True
        then show ?thesis using run still same skimmed(8) by simp
      next
        case False
        from skimmed(2) obtain q b where q: "0 < atoms q" "query_exchange_rate H cfg dp e = Inr q"
            and b: "lsd_balance (asset cfg) dp (contract_address e) = Inr b"
            and le: "unat ?l \<le> lsd_excess (atoms q) (unat b) ?s - 1"
          by (rule limited_compute_ok) (use cfg in auto)
        have "0 < unat ?l" using False by (simp add: unat_gt_0)
        with le have excess: "0 < lsd_excess (atoms q) (unat b) ?s" by simp
        have enough: "?s * dec_unit \<le> (n + ?k - unat ?l) * rt"
          using skim_leaves_backed [OF q(1) excess le] rt [OF q(2)] bal b self by simp
        show ?thesis
        proof (rule payout_steps [where l' = "unat ?l" and l = ?l and k = ?k and to = to and as = "asset cfg"])
          show "lsd_run (asset cfg) self [lsd_transfer (asset cfg) to ?l] (n + ?k) = Some n'"
            using run skimmed(8) cfg' False by simp
          show "share_step rt (?v x ?s) (?v (x - unat ?l) ?s')" if "unat ?l \<le> x" "x = n + ?k" for x
            using share_step.skim_share [of "unat ?l" "?v x ?s" rt] enough that same by simp
          show "share_step rt (?v (n + ?k) ?s) (?v (n + ?k) ?s')"
            using receive [of "n + ?k" ?s 0] same by simp
        qed (use receive in auto)
      qed
    qed
  qed (use ex run still in \<open>auto simp: execute_transfer_def execute_send_def execute_transfer_from_def
      execute_send_from_def on_cw20_ok lsd_run_receive simp del: lsd_run.simps(2)
      dest!: tok.supply_kept tok.send tok.send_from\<close>)
qed

end

end
