(* ===== verification/Pot_Contract.thy ===== *)
theory Pot_Contract
  imports Instrumented Limited_Vault
begin

text \<open>
  Wrappers as pots across whole transactions. The locale \<open>pot_contract\<close> is what the chain needs to know
  of a wrapper: a property \<open>J\<close> of its pot (the LSD it holds, the units it has issued, the rate, what falls
  of the rate have cost so far) that each of its calls keeps with the messages that it sends, these
  being either all movements of its LSD or all receive hooks. From this and from an outside that moves
  LSD honestly, every run of the chain keeps \<open>J\<close>. Some of the LSD that leaves may still be counted
  (\<open>gone\<close>), and only calls of a certain kind may be considered (\<open>admits\<close>). Both wrappers are such
  contracts: the plain one for what it lacks to one coin per unit, the limited one for being backed.
\<close>

section \<open>An honest outside\<close>

text \<open>The messages by which a wrapper moves the LSD that it holds or is given.\<close>

definition moves :: "asset_info \<Rightarrow> cosmos_msg \<Rightarrow> bool" where
  "moves as m \<longleftrightarrow> (\<exists>to l. m = lsd_transfer as to l) \<or> (\<exists>ow to l. m \<in> set (lsd_pull as ow to l))"

lemma moves_inert: "moves as m \<Longrightarrow> inert m"
  by (cases as) (auto simp: moves_def)

lemma moves_intros: "moves as (lsd_transfer as to l)" "m \<in> set (lsd_pull as ow to l) \<Longrightarrow> moves as m"
  by (auto simp: moves_def)

text \<open>What may happen outside: nobody takes LSD from the wrapper, and the rate moves within \<open>may\<close>.\<close>

definition spares :: "(nat \<Rightarrow> nat \<Rightarrow> bool) \<Rightarrow> ('x \<Rightarrow> nat) \<Rightarrow> ('x \<Rightarrow> nat) \<Rightarrow> 'x \<Rightarrow> 'x \<Rightarrow> bool" where
  "spares may lsd rate x x' \<longleftrightarrow> lsd x \<le> lsd x' \<and> may (rate x) (rate x')"

text \<open>
  What is asked of the outside: when the wrapper moves its LSD, the token and the bank do as they
  promise (\<open>lsd_debit\<close>, \<open>lsd_credit\<close>), at an unchanged rate and without calling anybody; every other
  delivery spares the wrapper, and coins sent to it arrive; the wrapper reads its own balance and the
  rate. Nothing is asked of the messages that contracts outside send in their turn.
\<close>

definition honest_outside ::
  "('w, 'rw) contracts \<Rightarrow> 'x outside \<Rightarrow> ('cfg \<Rightarrow> deps \<Rightarrow> env \<Rightarrow> decimal res) \<Rightarrow> asset_info \<Rightarrow> 'cfg \<Rightarrow>
   ('x \<Rightarrow> nat) \<Rightarrow> ('x \<Rightarrow> nat) \<Rightarrow> (nat \<Rightarrow> nat \<Rightarrow> bool) \<Rightarrow> bool" where
  "honest_outside D X Q as cfg lsd rate may \<longleftrightarrow>
     (\<forall>m x. moves as m \<longrightarrow> ext_calls X (ct_token D) m x = []) \<and>
     (\<forall>m x x'. moves as m \<longrightarrow> ext_deliver X (ct_token D) m x = Inr x' \<longrightarrow>
        rate x' = rate x \<and> lsd_debit as (ct_token D) m \<le> lsd x \<and>
        lsd x' = lsd x - lsd_debit as (ct_token D) m + lsd_credit as (ct_token D) m) \<and>
     (\<forall>from_addr m x x'. from_addr \<noteq> ct_token D \<or> hook m \<longrightarrow> ext_deliver X from_addr m x = Inr x' \<longrightarrow>
        spares may lsd rate x x' \<and>
        (\<forall>cs. m = Bank_Send (ct_token D) cs \<longrightarrow> lsd x + lsd_credit as (ct_token D) m \<le> lsd x')) \<and>
     (\<forall>a k x x' subs. ext_reply X a k x = Inr (x', subs) \<longrightarrow> spares may lsd rate x x') \<and>
     (\<forall>x b. lsd_balance as (ext_view X x (ct_token D)) (ct_token D) = Inr b \<longrightarrow> unat b = lsd x) \<and>
     (\<forall>x t q. Q cfg (ext_view X x (ct_token D)) (block_env t (ct_token D)) = Inr q \<longrightarrow> atoms q = rate x)"

lemma honestD:
  assumes "honest_outside D X Q as cfg lsd rate may"
  shows "moves as m \<Longrightarrow> ext_calls X (ct_token D) m x = []"
    and "moves as m \<Longrightarrow> ext_deliver X (ct_token D) m x = Inr x' \<Longrightarrow>
      rate x' = rate x \<and> lsd_debit as (ct_token D) m \<le> lsd x \<and>
      lsd x' = lsd x - lsd_debit as (ct_token D) m + lsd_credit as (ct_token D) m"
    and "from_addr \<noteq> ct_token D \<or> hook m \<Longrightarrow> ext_deliver X from_addr m x = Inr x' \<Longrightarrow>
      spares may lsd rate x x' \<and>
      (\<forall>cs. m = Bank_Send (ct_token D) cs \<longrightarrow> lsd x + lsd_credit as (ct_token D) m \<le> lsd x')"
    and "ext_reply X a k x = Inr (x', subs) \<Longrightarrow> spares may lsd rate x x'"
    and "lsd_balance as (ext_view X x (ct_token D)) (ct_token D) = Inr b \<Longrightarrow> unat b = lsd x"
    and "Q cfg (ext_view X x (ct_token D)) (block_env t (ct_token D)) = Inr q \<Longrightarrow> atoms q = rate x"
  using assms unfolding honest_outside_def by blast+

text \<open>Only what the wrapper itself reads matters.\<close>

lemma honest_viewed:
  assumes "honest_outside D X Q as cfg lsd rate may"
    and "\<And>x b. lsd_balance as (V x (ct_token D)) (ct_token D) = Inr b \<Longrightarrow> unat b = lsd x"
    and "\<And>x t q. Q cfg (V x (ct_token D)) (block_env t (ct_token D)) = Inr q \<Longrightarrow> atoms q = rate x"
  shows "honest_outside D (X\<lparr>ext_view := V\<rparr>) Q as cfg lsd rate may"
proof -
  note old = assms(1) [unfolded honest_outside_def]
  have same: "ext_deliver (X\<lparr>ext_view := V\<rparr>) = ext_deliver X" "ext_calls (X\<lparr>ext_view := V\<rparr>) = ext_calls X"
      "ext_reply (X\<lparr>ext_view := V\<rparr>) = ext_reply X" "ext_view (X\<lparr>ext_view := V\<rparr>) = V"
    by simp_all
  show ?thesis
    unfolding honest_outside_def same
    by (intro conjI old [THEN conjunct1] old [THEN conjunct2, THEN conjunct1]
        old [THEN conjunct2, THEN conjunct2, THEN conjunct1]
        old [THEN conjunct2, THEN conjunct2, THEN conjunct2, THEN conjunct1]; use assms(2,3) in blast)
qed

lemma honest_sends:
  assumes "honest_outside D X Q as cfg lsd rate may"
  shows "\<forall>m \<in> set ms. moves as m \<Longrightarrow> send_all X (ct_token D) ms x = Inr x' \<Longrightarrow>
    rate x' = rate x \<and> lsd_run as (ct_token D) ms (lsd x) = Some (lsd x')"
proof (induction ms arbitrary: x)
  case (Cons m ms)
  from Cons.prems(2) obtain y where y: "ext_deliver X (ct_token D) m x = Inr y" "send_all X (ct_token D) ms y = Inr x'"
    by (auto simp: rbind_eq_Inr simp del: send_all_one)
  have "moves as m" using Cons.prems(1) by simp
  from Cons.IH [OF _ y(2)] Cons.prems(1) honestD(2) [OF assms this y(1)] show ?case by auto
qed simp

text \<open>
  LSD that the wrapper has sent and that is still counted: \<open>gone\<close> says how much of a message of the
  wrapper is, and \<open>paid\<close> is the total so far, which nothing else changes.
\<close>

definition counts ::
  "('w, 'rw) contracts \<Rightarrow> 'x outside \<Rightarrow> asset_info \<Rightarrow> (asset_info \<Rightarrow> cosmos_msg \<Rightarrow> nat) \<Rightarrow> ('x \<Rightarrow> nat) \<Rightarrow> bool"
  where
  "counts D X as gone paid \<longleftrightarrow>
     (\<forall>m x x'. moves as m \<longrightarrow> ext_deliver X (ct_token D) m x = Inr x' \<longrightarrow> paid x' = paid x + gone as m) \<and>
     (\<forall>from_addr m x x'. from_addr \<noteq> ct_token D \<or> hook m \<longrightarrow> ext_deliver X from_addr m x = Inr x' \<longrightarrow>
        paid x' = paid x) \<and>
     (\<forall>a k x x' subs. ext_reply X a k x = Inr (x', subs) \<longrightarrow> paid x' = paid x)"

lemma countsD:
  assumes "counts D X as gone paid"
  shows "moves as m \<Longrightarrow> ext_deliver X (ct_token D) m x = Inr x' \<Longrightarrow> paid x' = paid x + gone as m"
    and "from_addr \<noteq> ct_token D \<or> hook m \<Longrightarrow> ext_deliver X from_addr m x = Inr x' \<Longrightarrow> paid x' = paid x"
    and "ext_reply X a k x = Inr (x', subs) \<Longrightarrow> paid x' = paid x"
  using assms unfolding counts_def by blast+

lemma counts_sends:
  assumes "counts D X as gone paid"
  shows "\<forall>m \<in> set ms. moves as m \<Longrightarrow> send_all X (ct_token D) ms x = Inr x' \<Longrightarrow>
    paid x' = paid x + sum_list (map (gone as) ms)"
proof (induction ms arbitrary: x)
  case (Cons m ms)
  from Cons.prems(2) obtain y where y: "ext_deliver X (ct_token D) m x = Inr y" "send_all X (ct_token D) ms y = Inr x'"
    by (auto simp: rbind_eq_Inr simp del: send_all_one)
  have "moves as m" using Cons.prems(1) by simp
  from Cons.IH [OF _ y(2)] Cons.prems(1) countsD(1) [OF assms this y(1)] show ?case by simp
qed simp

lemma counts_nothing: "counts D X as (\<lambda>as m. 0) (\<lambda>x. 0)"
  by (simp add: counts_def)

text \<open>
  What falls of the rate have cost: \<open>lost\<close> grows by the fall for each LSD counted, whenever the rate
  falls, and by nothing else.
\<close>

definition meters ::
  "('w, 'rw) contracts \<Rightarrow> 'x outside \<Rightarrow> asset_info \<Rightarrow> ('x \<Rightarrow> nat) \<Rightarrow> ('x \<Rightarrow> nat) \<Rightarrow> ('x \<Rightarrow> nat) \<Rightarrow> bool"
  where
  "meters D X as held rate lost \<longleftrightarrow>
     (\<forall>m x x'. moves as m \<longrightarrow> ext_deliver X (ct_token D) m x = Inr x' \<longrightarrow> lost x' = lost x) \<and>
     (\<forall>from_addr m x x'. from_addr \<noteq> ct_token D \<or> hook m \<longrightarrow> ext_deliver X from_addr m x = Inr x' \<longrightarrow>
        lost x' = lost x + held x * (rate x - rate x')) \<and>
     (\<forall>a k x x' subs. ext_reply X a k x = Inr (x', subs) \<longrightarrow> lost x' = lost x + held x * (rate x - rate x'))"

lemma metersD:
  assumes "meters D X as held rate lost"
  shows "moves as m \<Longrightarrow> ext_deliver X (ct_token D) m x = Inr x' \<Longrightarrow> lost x' = lost x"
    and "from_addr \<noteq> ct_token D \<or> hook m \<Longrightarrow> ext_deliver X from_addr m x = Inr x' \<Longrightarrow>
      lost x' = lost x + held x * (rate x - rate x')"
    and "ext_reply X a k x = Inr (x', subs) \<Longrightarrow> lost x' = lost x + held x * (rate x - rate x')"
  using assms unfolding meters_def by blast+

lemma meters_sends:
  assumes "meters D X as held rate lost"
  shows "\<forall>m \<in> set ms. moves as m \<Longrightarrow> send_all X (ct_token D) ms x = Inr x' \<Longrightarrow> lost x' = lost x"
proof (induction ms arbitrary: x)
  case (Cons m ms)
  from Cons.prems(2) obtain y where y: "ext_deliver X (ct_token D) m x = Inr y" "send_all X (ct_token D) ms y = Inr x'"
    by (auto simp: rbind_eq_Inr simp del: send_all_one)
  have "moves as m" using Cons.prems(1) by simp
  from Cons.IH [OF _ y(2)] Cons.prems(1) metersD(1) [OF assms this y(1)] show ?case by simp
qed simp

text \<open>Without falls nothing is lost; otherwise the record beside the outside is such a meter.\<close>

lemma meters_gain:
  assumes "honest_outside D X Q as cfg lsd rate (\<le>)"
  shows "meters D X as held rate (\<lambda>x. 0)"
  unfolding meters_def using honestD(3,4) [OF assms] by (auto simp: spares_def)

lemma metered_meters:
  assumes "honest_outside D X Q as cfg lsd rate may"
  shows "meters D (metered held rate X) as (\<lambda>y. held (fst y)) (\<lambda>y. rate (fst y)) snd"
  unfolding meters_def split_paired_All using honestD(2) [OF assms] by (auto simp: rbind_eq_Inr)

lemma metered_honest:
  assumes "honest_outside D X Q as cfg lsd rate may"
  shows "honest_outside D (metered held rate' X) Q as cfg (\<lambda>y. lsd (fst y)) (\<lambda>y. rate (fst y)) may"
  unfolding honest_outside_def split_paired_All
  using honestD [OF assms] by (fastforce simp: rbind_eq_Inr spares_def)

lemma counting_honest:
  assumes "honest_outside D X Q as cfg lsd rate may"
  shows "honest_outside D (counting self gone X) Q as cfg (\<lambda>y. lsd (fst y)) (\<lambda>y. rate (fst y)) may"
  unfolding honest_outside_def split_paired_All
  using honestD [OF assms] by (fastforce simp: rbind_eq_Inr spares_def)

lemma counting_counts:
  assumes "\<And>m. hook m \<Longrightarrow> gone as m = 0"
  shows "counts D (counting (ct_token D) (gone as) X) as gone snd"
  unfolding counts_def split_paired_All using assms by (auto simp: rbind_eq_Inr)

lemma metered_counts:
  "counts D X as gone paid \<Longrightarrow> counts D (metered held rate X) as gone (\<lambda>y. paid (fst y))"
  unfolding counts_def split_paired_All by (fastforce simp: rbind_eq_Inr)

section \<open>The contract of a wrapper with the chain\<close>

locale pot_contract =
  fixes ex :: "wrapper_execute_msg \<Rightarrow> deps \<Rightarrow> env \<Rightarrow> message_info \<Rightarrow> 'w \<Rightarrow> ('w \<times> response) res"
    and rate_of :: "'cfg \<Rightarrow> deps \<Rightarrow> env \<Rightarrow> decimal res" and asset :: "'cfg \<Rightarrow> asset_info"
    and config :: "'w \<Rightarrow> 'cfg option" and issued :: "'w \<Rightarrow> nat"
    and J :: "nat \<Rightarrow> nat \<Rightarrow> nat \<Rightarrow> nat \<Rightarrow> bool" and may :: "nat \<Rightarrow> nat \<Rightarrow> bool"
    and admits :: "'cfg \<Rightarrow> addr \<Rightarrow> deps \<Rightarrow> addr \<Rightarrow> wrapper_execute_msg \<Rightarrow> bool"
    and gone :: "asset_info \<Rightarrow> cosmos_msg \<Rightarrow> nat" and total :: "nat \<Rightarrow> nat \<Rightarrow> nat"
  assumes call: "ex m dp e i w = Inr (w', r) \<Longrightarrow> contract_address e = self \<Longrightarrow> sender i \<noteq> self \<Longrightarrow>
      admits cfg self dp (sender i) m \<Longrightarrow> config w = Some cfg \<Longrightarrow>
      (\<And>b. lsd_balance (asset cfg) dp self = Inr b \<Longrightarrow> unat b = n + lsd_attached (asset cfg) i) \<Longrightarrow>
      (\<And>q. rate_of cfg dp e = Inr q \<Longrightarrow> atoms q = rt) \<Longrightarrow>
      lsd_run (asset cfg) self (msgs r) (n + lsd_attached (asset cfg) i) = Some n' \<Longrightarrow>
      J (total n g) (issued w) rt L \<Longrightarrow>
      J (total n' (g + sum_list (map (gone (asset cfg)) (msgs r)))) (issued w') rt L"
    and drift: "J n k rt L \<Longrightarrow> n \<le> n' \<Longrightarrow> may rt rt' \<Longrightarrow> J n' k rt' (L + n * (rt - rt'))"
    and config_kept: "ex m dp e i w = Inr (w', r) \<Longrightarrow> config w' = config w"
    and sends: "ex m dp e i w = Inr (w', r) \<Longrightarrow> config w = Some cfg \<Longrightarrow>
      (\<forall>m \<in> set (msgs r). hook m) \<or> (\<forall>m \<in> set (msgs r). moves (asset cfg) m)"
    and hooks_free: "hook x \<Longrightarrow> gone as x = 0"
    and total_mono: "n \<le> n' \<Longrightarrow> total n g \<le> total n' g"

text \<open>Such a contract on a chain: an honest outside, and calls that are admitted.\<close>

locale pot_on_chain = pot_contract ex rate_of asset config issued J may admits gone total
  for ex :: "wrapper_execute_msg \<Rightarrow> deps \<Rightarrow> env \<Rightarrow> message_info \<Rightarrow> 'w \<Rightarrow> ('w \<times> response) res"
    and rate_of :: "'cfg \<Rightarrow> deps \<Rightarrow> env \<Rightarrow> decimal res" and asset config issued J may admits gone total +
  fixes D :: "('w, 'rw) contracts" and X :: "'x outside" and asks :: "wrapper_execute_msg \<Rightarrow> bool"
    and cfg :: 'cfg and lsd rate paid lost :: "'x \<Rightarrow> nat"
  assumes tok: "token_execute D = ex"
    and hon: "honest_outside D X rate_of (asset cfg) cfg lsd rate may"
    and cnt: "counts D X (asset cfg) gone paid"
    and met: "meters D X (asset cfg) (\<lambda>x. total (lsd x) (paid x)) rate lost"
    and admitted: "(a = ct_hub D \<Longrightarrow> asks m) \<Longrightarrow> admits cfg (ct_token D) (ext_view X x (ct_token D)) a m"
begin

abbreviation held :: "'x \<Rightarrow> nat" where
  "held x \<equiv> total (lsd x) (paid x)"

definition kept :: "'w \<Rightarrow> 'x \<Rightarrow> bool" where
  "kept w x \<longleftrightarrow> config w = Some cfg \<and> J (held x) (issued w) (rate x) (lost x)"

lemma kept_spared:
  assumes "kept w x" and "spares may lsd rate x x'" and "paid x' = paid x"
    and "lost x' = lost x + held x * (rate x - rate x')"
  shows "kept w x'"
proof -
  have "held x \<le> held x'" using assms(2,3) total_mono by (simp add: spares_def)
  with drift [of "held x" "issued w" "rate x" "lost x" "held x'" "rate x'"] assms show ?thesis
    by (simp add: kept_def spares_def)
qed

text \<open>The coins of a call have arrived, and its handler runs on the pot without them.\<close>

lemma attached:
  assumes i: "sender i \<noteq> ct_token D" and "attach X (ct_token D) i x = Inr x'"
    and J: "J (held x) k (rate x) (lost x)"
  obtains n where "lsd x' = n + lsd_attached (asset cfg) i" "J (total n (paid x')) k (rate x') (lost x')"
proof (cases "funds i = []")
  case True
  with assms(2) J that [of "lsd x"] show thesis by (cases "asset cfg") (auto simp: attach_def)
next
  case False
  let ?m = "Bank_Send (ct_token D) (funds i)"
  from False assms(2) have sent: "ext_deliver X (sender i) ?m x = Inr x'" by (simp add: attach_def)
  from honestD(3) [OF hon _ sent] i have sp: "spares may lsd rate x x'"
      and got: "lsd x + lsd_credit (asset cfg) (ct_token D) ?m \<le> lsd x'"
    by simp_all
  have "lsd_credit (asset cfg) (ct_token D) ?m = lsd_attached (asset cfg) i"
    by (cases "asset cfg") (auto simp: coin_total_def)
  with got obtain n where n: "lsd x' = n + lsd_attached (asset cfg) i" "lsd x \<le> n"
    by (metis add_le_imp_le_right le_add_diff_inverse2 le_add2 le_trans)
  from sp have "may (rate x) (rate x')" by (simp add: spares_def)
  moreover have "held x \<le> total n (paid x')" using n(2) countsD(2) [OF cnt _ sent] i by (simp add: total_mono)
  ultimately have "J (total n (paid x')) k (rate x') (lost x + held x * (rate x - rate x'))"
    using J by (intro drift)
  with that [OF n(1)] metersD(2) [OF met _ sent] i show thesis by simp
qed

text \<open>A call with its messages, delivered to an honest outside, keeps the pot.\<close>

lemma call_keeps:
  assumes i: "sender i \<noteq> ct_token D" and asked: "sender i = ct_hub D \<longrightarrow> asks m"
    and att: "attach X (ct_token D) i x = Inr x1"
    and run: "ex m (ext_view X x1 (ct_token D)) (block_env t (ct_token D)) i w = Inr (w', r)"
    and old: "kept w x"
    and x2: "rate x2 = rate x1" "lsd_run (asset cfg) (ct_token D) (msgs r) (lsd x1) = Some (lsd x2)"
      "paid x2 = paid x1 + sum_list (map (gone (asset cfg)) (msgs r))" "lost x2 = lost x1"
  shows "kept w' x2"
proof -
  from old have cfg: "config w = Some cfg" and J: "J (held x) (issued w) (rate x) (lost x)"
    by (simp_all add: kept_def)
  from i att J obtain n where n: "lsd x1 = n + lsd_attached (asset cfg) i"
      and J1: "J (total n (paid x1)) (issued w) (rate x1) (lost x1)"
    by (rule attached)
  have "J (total (lsd x2) (paid x1 + sum_list (map (gone (asset cfg)) (msgs r)))) (issued w') (rate x1) (lost x1)"
    by (rule call [OF run _ i admitted [OF asked [rule_format]] cfg _ _ _ J1])
      (use honestD(5,6) [OF hon] n x2 in \<open>auto simp: block_env_def\<close>)
  with config_kept [OF run] cfg x2(1,3,4) show ?thesis by (simp add: kept_def)
qed

lemma pot_kept: "token_keeps D X asks kept"
  unfolding token_keeps_def
proof (intro conjI allI impI)
  show "kept w x'"
    if "from_addr \<noteq> ct_token D \<or> hook m" "ext_deliver X from_addr m x = Inr x'" "kept w x"
    for from_addr m x x' w
    using that(3) honestD(3) [OF hon that(1,2), THEN conjunct1] countsD(2) [OF cnt that(1,2)]
      metersD(2) [OF met that(1,2)]
    by (rule kept_spared)
  show "kept w x'"
    if "ext_reply X a k x = Inr (x', subs)" "kept w x" for a k x x' subs w
    using that(2) honestD(4) [OF hon that(1)] countsD(3) [OF cnt that(1)] metersD(3) [OF met that(1)]
    by (rule kept_spared)
next
  fix t i m x x1 w w' r
  let ?tk = "ct_token D"
  assume i: "sender i \<noteq> ?tk" and asked: "sender i = ct_hub D \<longrightarrow> asks m" and att: "attach X ?tk i x = Inr x1"
    and old: "kept w x"
    and "token_execute D m (ext_view X x1 ?tk) (block_env t ?tk) i w = Inr (w', r)"
  then have run: "ex m (ext_view X x1 ?tk) (block_env t ?tk) i w = Inr (w', r)" by (simp add: tok)
  note keeps = call_keeps [OF i asked att run old]
  consider (hooks) "\<forall>m \<in> set (msgs r). hook m" | (transfers) "\<forall>m \<in> set (msgs r). moves (asset cfg) m"
    using sends [OF run] old by (auto simp: kept_def)
  then show "(\<forall>m' \<in> set (msgs r). hook m') \<and> kept w' x1 \<or>
      (\<forall>m' \<in> set (msgs r). inert m' \<and> (\<forall>x. ext_calls X ?tk m' x = [])) \<and>
      (\<forall>x2. send_all X ?tk (msgs r) x1 = Inr x2 \<longrightarrow> kept w' x2)"
  proof cases
    case hooks
    then have "map (gone (asset cfg)) (msgs r) = map (\<lambda>m. 0) (msgs r)" by (simp add: hooks_free)
    then have "sum_list (map (gone (asset cfg)) (msgs r)) = 0" by (simp only: sum_list_0)
    with keeps [OF refl lsd_run_hooks [OF hooks]] hooks show ?thesis by simp
  next
    case transfers
    have "kept w' x2" if "send_all X ?tk (msgs r) x1 = Inr x2" for x2
      by (rule keeps)
        (use honest_sends [OF hon transfers that] counts_sends [OF cnt transfers that]
          meters_sends [OF met transfers that] in simp_all)
    with transfers honestD(1) [OF hon] moves_inert show ?thesis by blast
  qed
qed

text \<open>Every run of the chain keeps the pot.\<close>

theorem runs_keep:
  assumes "hub_keeps D asks I acts" and "\<And>a. own D a \<Longrightarrow> acts a"
    and "\<And>m a x who subs. outgoing D m \<Longrightarrow> calls_on X a m x = (who, subs) \<Longrightarrow> subs \<noteq> [] \<Longrightarrow> acts who"
    and "ct_token D \<noteq> ct_reward D" and "ct_token D \<noteq> ct_hub D"
    and "ct_hub D \<noteq> ct_reward D \<or> asks = (\<lambda>w. True)"
    and "\<And>x x'. E x x' \<Longrightarrow>
      spares may lsd rate x x' \<and> paid x' = paid x \<and> lost x' = lost x + held x * (rate x - rate x')"
    and "(\<lambda>s s'. chain_step D X E s s' \<and> I (st_hub s))\<^sup>*\<^sup>* s s'" and "config (st_token s) = Some cfg"
    and "J (held (st_ext s)) (issued (st_token s)) (rate (st_ext s)) (lost (st_ext s))"
  shows "J (held (st_ext s')) (issued (st_token s')) (rate (st_ext s')) (lost (st_ext s'))"
proof -
  have by_token: "kept_by_token D X asks I acts kept"
    by unfold_locales (use pot_kept assms(1-6) in auto)
  have start: "kept (st_token s) (st_ext s)" using assms(9,10) by (simp add: kept_def)
  have E: "kept w x'" if "E x x'" "kept w x" for x x' w
    using kept_spared [OF that(2)] assms(7) [OF that(1)] by blast
  have "kept (st_token s') (st_ext s')"
    by (rule kept_by_token.chain_run_keeps [OF by_token E assms(8) start])
  then show ?thesis by (simp add: kept_def)
qed

end

text \<open>Pots of which only the LSD held counts, whatever the hub asks.\<close>

locale whole_pot = pot_contract ex rate_of asset config issued J may admits "\<lambda>as m. 0" "\<lambda>n g. n"
  for ex :: "wrapper_execute_msg \<Rightarrow> deps \<Rightarrow> env \<Rightarrow> message_info \<Rightarrow> 'w \<Rightarrow> ('w \<times> response) res"
    and rate_of :: "'cfg \<Rightarrow> deps \<Rightarrow> env \<Rightarrow> decimal res" and asset config issued J may admits
begin

lemma on_chain:
  assumes "token_execute D = ex" and "honest_outside D X rate_of (asset cfg) cfg lsd rate may"
    and "meters D X (asset cfg) lsd rate lost"
    and "\<And>a m x. admits cfg (ct_token D) (ext_view X x (ct_token D)) a m"
  shows "pot_on_chain ex rate_of asset config issued J may admits (\<lambda>as m. 0) (\<lambda>n g. n)
    D X (\<lambda>w. True) cfg lsd rate (\<lambda>x. 0) lost"
  by (intro pot_on_chain.intro pot_contract_axioms pot_on_chain_axioms.intro)
    (use assms counts_nothing in auto)

theorem whole_runs:
  fixes D :: "('w, 'rw) contracts"
  assumes "token_execute D = ex" and "ct_token D \<noteq> ct_reward D" and "ct_token D \<noteq> ct_hub D"
    and "honest_outside D X rate_of (asset cfg) cfg lsd rate may"
    and "meters D X (asset cfg) lsd rate lost"
    and "\<And>a m x. admits cfg (ct_token D) (ext_view X x (ct_token D)) a m"
    and "\<And>x x'. E x x' \<Longrightarrow> spares may lsd rate x x' \<and> lost x' = lost x + lsd x * (rate x - rate x')"
    and "(chain_step D X E)\<^sup>*\<^sup>* s s'" and "config (st_token s) = Some cfg"
    and "J (lsd (st_ext s)) (issued (st_token s)) (rate (st_ext s)) (lost (st_ext s))"
  shows "J (lsd (st_ext s')) (issued (st_token s')) (rate (st_ext s')) (lost (st_ext s'))"
proof -
  have "(\<lambda>s s'. chain_step D X E s s' \<and> (\<lambda>h. True) (st_hub s))\<^sup>*\<^sup>* s s'" using assms(8) by simp
  from pot_on_chain.runs_keep [OF on_chain [OF assms(1,4,5,6)] hub_keeps_any [where acts = "\<lambda>a. True"]
      _ _ assms(2,3) _ _ this assms(9,10)] assms(7)
  show ?thesis by simp
qed

text \<open>The same while the rate does not fall.\<close>

theorem steady_runs:
  fixes D :: "('w, 'rw) contracts"
  assumes "may = (\<le>)" and "token_execute D = ex" and "ct_token D \<noteq> ct_reward D" and "ct_token D \<noteq> ct_hub D"
    and "honest_outside D X rate_of (asset cfg) cfg lsd rate (\<le>)"
    and "\<And>a m x. admits cfg (ct_token D) (ext_view X x (ct_token D)) a m"
    and "\<And>x x'. E x x' \<Longrightarrow> spares (\<le>) lsd rate x x'"
    and "(chain_step D X E)\<^sup>*\<^sup>* s s'" and "config (st_token s) = Some cfg"
    and "J (lsd (st_ext s)) (issued (st_token s)) (rate (st_ext s)) 0"
  shows "J (lsd (st_ext s')) (issued (st_token s')) (rate (st_ext s')) 0"
  by (rule whole_runs [where lost = "\<lambda>x. 0" and lsd = lsd and rate = rate and s = s and s' = s',
        OF assms(2-4) _ meters_gain [OF assms(5)] assms(6) _ assms(8-10)])
    (use assms(1,5,7) in \<open>auto simp: spares_def\<close>)

end

section \<open>Both wrappers are pots\<close>

context wrapper_env
begin

lemma wrapper_sends:
  assumes "wrapper_execute A C H m dp e i st = Inr (st', r)" and "ws_lsd_config st = Some cfg"
  shows "(\<forall>m \<in> set (msgs r). hook m) \<or> (\<forall>m \<in> set (msgs r). moves (asset cfg) m)"
  using assms
proof (cases rule: call_cases)
  case (minted q l a)
  then show ?thesis by (auto simp: moves_intros dest!: hub.deposit_msgs)
qed (auto simp: moves_intros simp del: lsd_transfer.simps)

lemma limited_sends:
  assumes "limited_execute A C H m dp e i st = Inr (st', r)" and "ws_lsd_config st = Some cfg"
  shows "(\<forall>m \<in> set (msgs r). hook m) \<or> (\<forall>m \<in> set (msgs r). moves (asset cfg) m)"
  using assms
  by (cases m)
    (auto simp: execute_transfer_def execute_send_def execute_transfer_from_def
      execute_send_from_def on_cw20_ok moves_intros simp del: lsd_transfer.simps
      dest!: tok.supply_kept tok.send tok.send_from hub.deposit_msgs
      elim!: limited_burn_ok limited_burn_from_ok limited_burn_all_ok limited_mint_ok limited_mint_with_ok
        limited_decompound_ok split: if_splits)

end

text \<open>
  The plain wrapper lacks no more than \<open>lack\<close> and what falls of the rate have cost, however the rate
  moves. The limited one is covered at a rate of at least one, while the rate does not fall and it never
  reads a balance of 10^9 or more.
\<close>

definition lacks_at_most :: "nat \<Rightarrow> nat \<Rightarrow> nat \<Rightarrow> nat \<Rightarrow> nat \<Rightarrow> bool" where
  "lacks_at_most lack n k rt L \<longleftrightarrow> backed_upto (lack + L) rt \<lparr>v_lsd = n, v_supply = k\<rparr>"

definition covered_at_one :: "nat \<Rightarrow> nat \<Rightarrow> nat \<Rightarrow> nat \<Rightarrow> bool" where
  "covered_at_one n k rt L \<longleftrightarrow> dec_unit \<le> rt \<and> backed rt \<lparr>v_lsd = n, v_supply = k\<rparr>"

definition small_pot :: "('cfg \<Rightarrow> asset_info) \<Rightarrow> 'cfg \<Rightarrow> addr \<Rightarrow> deps \<Rightarrow> bool" where
  "small_pot asset cfg self dp \<longleftrightarrow> (\<forall>b. lsd_balance (asset cfg) dp self = Inr b \<longrightarrow> unat b < 10 ^ 9)"

lemma lacks_drift:
  assumes "lacks_at_most lack n k rt L" and "n \<le> n'"
  shows "lacks_at_most lack n' k rt' (L + n * (rt - rt'))"
proof -
  have "backed_upto (lack + L + n * (rt - rt')) rt' \<lparr>v_lsd = n, v_supply = k\<rparr>"
    using backed_upto_drift [of "lack + L" rt "\<lparr>v_lsd = n, v_supply = k\<rparr>" rt'] assms(1)
    by (simp add: lacks_at_most_def)
  moreover have "n * rt' \<le> n' * rt'" using assms(2) by simp
  ultimately show ?thesis unfolding lacks_at_most_def backed_upto_def vault.select_convs by linarith
qed

lemma covered_drift:
  assumes "covered_at_one n k rt L" and "n \<le> n'" and "rt \<le> rt'"
  shows "covered_at_one n' k rt' L'"
proof -
  have "n * rt \<le> n' * rt'" using assms(2,3) by (rule mult_le_mono)
  with assms show ?thesis by (auto simp: covered_at_one_def backed_def)
qed

sublocale wrapper_env \<subseteq> plain: whole_pot "wrapper_execute A C H" "query_exchange_rate H" asset
  ws_lsd_config "\<lambda>w. token_supply C (ws_cw20 w)" "lacks_at_most lack" may "\<lambda>cfg self dp a m. True" for lack may
proof unfold_locales
  show "lacks_at_most lack n' (token_supply C (ws_cw20 w')) rt L"
    if "wrapper_execute A C H m dp e i w = Inr (w', r)" "contract_address e = self" "sender i \<noteq> self"
      "ws_lsd_config w = Some cfg"
      "\<And>b. lsd_balance (asset cfg) dp self = Inr b \<Longrightarrow> unat b = n + lsd_attached (asset cfg) i"
      "\<And>q. query_exchange_rate H cfg dp e = Inr q \<Longrightarrow> atoms q = rt"
      "lsd_run (asset cfg) self (msgs r) (n + lsd_attached (asset cfg) i) = Some n'"
      "lacks_at_most lack n (token_supply C (ws_cw20 w)) rt L"
    for m dp e i r self cfg n rt n' L and w w' :: "('cfg, 'tok, 'z) wrapper_storage_scheme"
    using vault_steps_upto [OF call_refines [OF that(1-7)]] that(8) by (simp add: lacks_at_most_def)
  show "ws_lsd_config w' = ws_lsd_config w" if "wrapper_execute A C H m dp e i w = Inr (w', r)"
    for m dp e i r and w w' :: "('cfg, 'tok, 'z) wrapper_storage_scheme"
    using execute_frame [OF that] by auto
qed (rule lacks_drift wrapper_sends refl; assumption)+

sublocale wrapper_env \<subseteq> limited: whole_pot "limited_execute A C H" "query_exchange_rate H" asset
  ws_lsd_config "\<lambda>w. token_supply C (ws_cw20 w)" covered_at_one "(\<le>)" "\<lambda>cfg self dp a m. small_pot asset cfg self dp"
proof unfold_locales
  show "covered_at_one n' (token_supply C (ws_cw20 w')) rt L"
    if "limited_execute A C H m dp e i w = Inr (w', r)" "contract_address e = self" "sender i \<noteq> self"
      "small_pot asset cfg self dp" "ws_lsd_config w = Some cfg"
      "\<And>b. lsd_balance (asset cfg) dp self = Inr b \<Longrightarrow> unat b = n + lsd_attached (asset cfg) i"
      "\<And>q. query_exchange_rate H cfg dp e = Inr q \<Longrightarrow> atoms q = rt"
      "lsd_run (asset cfg) self (msgs r) (n + lsd_attached (asset cfg) i) = Some n'"
      "covered_at_one n (token_supply C (ws_cw20 w)) rt L"
    for m dp e i r self cfg n rt n' L and w w' :: "('cfg, 'tok) limited_storage"
    using share_steps_backed [OF limited_call_refines [OF that(1-3,5-7) _ that(8)]] that(4,9)
    by (simp add: covered_at_one_def small_pot_def)
  show "ws_lsd_config w' = ws_lsd_config w" if "limited_execute A C H m dp e i w = Inr (w', r)" for m dp e i w w' r
    using limited_frame [OF that] by simp
qed (rule covered_drift limited_sends refl; assumption)+

text \<open>Their runs, with the environment as a hypothesis.\<close>

context wrapper_env
begin

lemmas plain_pot = plain.whole_pot_axioms

lemmas limited_pot = limited.whole_pot_axioms

lemmas plain_runs = plain.whole_runs

lemmas plain_steady_runs = plain.steady_runs

lemmas limited_runs = limited.steady_runs

end

end
