(* ===== verification/Transactions.thy ===== *)
theory Transactions
  imports Chain_Props Pot_Contract
begin

text \<open>
  What whole transactions do to a wrapper, on a chain where anybody may send anything, contracts
  outside may call back at every point, and the rate of the LSD moves: the plain wrapper stays backed
  while the rate does not fall, lacks no more than what slashing destroyed when it does, and a small
  limited wrapper stays backed too.
\<close>

section \<open>The plain wrapper\<close>

text \<open>
  C1. Whole transactions keep the wrapper backed, re-entrant ones included. On a chain with any hub and
  any reward contract beside the wrapper, after any sequence of transactions (calls of the hub, messages
  from anybody to anybody, with the messages that the contracts send on, the calls that contracts outside
  make back into the three, the replies and the failures these catch), and with anything happening
  outside that neither takes LSD from the wrapper nor lowers the rate, the LSD that the wrapper holds is
  worth at least one coin per unit issued, if it was at the start.
\<close>

theorem transactions_keep_backing:
  fixes D :: "(('cfg, 'tok, 'z) wrapper_storage_scheme, 'rw) contracts"
  assumes "wrapper_env A C H asset" and "token_execute D = wrapper_execute A C H"
    and "ct_token D \<noteq> ct_reward D" and "ct_token D \<noteq> ct_hub D"
    and "honest_outside D X (query_exchange_rate H) (asset cfg) cfg lsd rate (\<le>)"
    and "\<And>x x'. E x x' \<Longrightarrow> spares (\<le>) lsd rate x x'"
    and "(chain_step D X E)\<^sup>*\<^sup>* s s'" and "ws_lsd_config (st_token s) = Some cfg"
    and "token_supply C (ws_cw20 (st_token s)) * dec_unit \<le> lsd (st_ext s) * rate (st_ext s)"
  shows "token_supply C (ws_cw20 (st_token s')) * dec_unit \<le> lsd (st_ext s') * rate (st_ext s')"
proof -
  have "lacks_at_most 0 (lsd (st_ext s)) (token_supply C (ws_cw20 (st_token s))) (rate (st_ext s)) 0"
    using assms(9) by (simp add: lacks_at_most_def backed_def)
  from wrapper_env.plain_steady_runs [OF assms(1) refl assms(2-5) TrueI assms(6-8) this]
  show ?thesis by (simp add: lacks_at_most_def backed_def)
qed

text \<open>
  C2. Slashing and the plain wrapper. Along any run of transactions, re-entrant ones included, while the
  rate moves in either direction, what the wrapper lacks to one coin per unit grows by no more than what
  the falls of the rate took from it. \<open>L\<close> is exactly that, measured along this run: at every event that
  lowers the rate, its fall times the LSD that the wrapper holds at that moment (\<open>metered\<close>, \<open>slashed\<close>;
  the measure changes nothing, by \<open>metered_runs\<close>). Nothing that a caller does adds to the loss.
\<close>

theorem slashing_shortfall:
  fixes D :: "(('cfg, 'tok, 'z) wrapper_storage_scheme, 'rw) contracts"
  assumes "wrapper_env A C H asset" and "token_execute D = wrapper_execute A C H"
    and "ct_token D \<noteq> ct_reward D" and "ct_token D \<noteq> ct_hub D"
    and "honest_outside D X (query_exchange_rate H) (asset cfg) cfg lsd rate (\<lambda>r r'. True)"
    and "\<And>x x'. E x x' \<Longrightarrow> spares (\<lambda>r r'. True) lsd rate x x'"
    and "(chain_step D (metered lsd rate X) (slashed lsd rate E))\<^sup>*\<^sup>* s s'"
    and "ws_lsd_config (st_token s) = Some cfg" and "st_ext s = (x, 0)" and "st_ext s' = (x', L)"
    and "token_supply C (ws_cw20 (st_token s)) * dec_unit \<le> lsd x * rate x + lack"
  shows "token_supply C (ws_cw20 (st_token s')) * dec_unit \<le> lsd x' * rate x' + lack + L"
proof -
  have start: "lacks_at_most lack (lsd (fst (st_ext s))) (token_supply C (ws_cw20 (st_token s)))
      (rate (fst (st_ext s))) (snd (st_ext s))"
    using assms(9,11) by (simp add: lacks_at_most_def backed_upto_def)
  have "lacks_at_most lack (lsd (fst (st_ext s'))) (token_supply C (ws_cw20 (st_token s')))
      (rate (fst (st_ext s'))) (snd (st_ext s'))"
    by (rule wrapper_env.plain_runs [OF assms(1-4) metered_honest [OF assms(5)] metered_meters [OF assms(5)]
          TrueI _ assms(7,8) start])
      (use assms(6) in \<open>auto simp: slashed_iff spares_def\<close>)
  with assms(10) show ?thesis by (simp add: lacks_at_most_def backed_upto_def add.assoc)
qed

section \<open>The limited wrapper\<close>

text \<open>
  C5. Whole transactions keep a small limited wrapper backed, re-entrant ones included. While an LSD is
  worth at least one coin, its rate does not fall, and the wrapper never reads an LSD balance of 10^9 or
  more, the LSD that the limited wrapper holds is worth at least one coin per unit issued after any run of
  transactions, if it was at the start: whoever joins pays the share price, whoever leaves gets no more
  than the share, and a skim leaves every unit covered. (In larger pots the rounding of the quoted share
  price, in favour of whoever leaves, can pay more than the share.)
\<close>

theorem limited_transactions_keep_backing:
  fixes D :: "(('cfg, 'tok) limited_storage, 'rw) contracts"
  assumes "wrapper_env A C H asset" and "token_execute D = limited_execute A C H"
    and "ct_token D \<noteq> ct_reward D" and "ct_token D \<noteq> ct_hub D"
    and "honest_outside D X (query_exchange_rate H) (asset cfg) cfg lsd rate (\<le>)"
    and "\<And>x b. lsd_balance (asset cfg) (ext_view X x (ct_token D)) (ct_token D) = Inr b \<Longrightarrow> unat b < 10 ^ 9"
    and "\<And>x x'. E x x' \<Longrightarrow> spares (\<le>) lsd rate x x'"
    and "(chain_step D X E)\<^sup>*\<^sup>* s s'" and "ws_lsd_config (st_token s) = Some cfg"
    and "dec_unit \<le> rate (st_ext s)"
    and "token_supply C (ws_cw20 (st_token s)) * dec_unit \<le> lsd (st_ext s) * rate (st_ext s)"
  shows "token_supply C (ws_cw20 (st_token s')) * dec_unit \<le> lsd (st_ext s') * rate (st_ext s')"
proof -
  have start: "covered_at_one (lsd (st_ext s)) (token_supply C (ws_cw20 (st_token s))) (rate (st_ext s)) 0"
    using assms(10,11) by (simp add: covered_at_one_def backed_def)
  have small: "small_pot asset cfg (ct_token D) (ext_view X x (ct_token D))" for x
    using assms(6) by (simp add: small_pot_def)
  from wrapper_env.limited_runs [OF assms(1) refl assms(2-5) small assms(7-9) start]
  show ?thesis by (simp add: covered_at_one_def backed_def)
qed

section \<open>A chain with a caller that calls back\<close>

text \<open>
  The state of the outside: the LSD that the wrapper holds and its rate. The contract \<open>''dex''\<close> burns
  whatever the wrapper tells it that it has received.
\<close>

fun sc_dex_calls :: "addr \<Rightarrow> cosmos_msg \<Rightarrow> sub_msg list" where
  "sc_dex_calls a (Wasm_Execute c (Cw20Receive s n b) fs) =
     (if a = ''wrapper'' \<and> c = ''dex'' then [sub_msg_new (Wasm_Execute a (WrapperExec (Burn n)) [])] else [])"
| "sc_dex_calls a m = []"

definition sc_dex_outside :: "(u128 \<times> u128) outside" where
  "sc_dex_outside = \<lparr>
     ext_deliver = (\<lambda>from_addr m (n, r).
       let out = (if from_addr = ''wrapper'' then lsd_debit (Token ''lsd'') ''wrapper'' m else 0);
           n' = unat n - out + lsd_credit (Token ''lsd'') ''wrapper'' m
       in if out \<le> unat n \<and> n' < 2 ^ 128 then Inr (word_of_nat n', r) else Inl Panic),
     ext_view = (\<lambda>(n, r) who. sc_deps (sc_chain (unat r) (unat n))),
     ext_calls = (\<lambda>a m x. sc_dex_calls a m),
     ext_reply = (\<lambda>a k x. Inr (x, []))\<rparr>"

abbreviation sc_lsd_of :: "u128 \<times> u128 \<Rightarrow> nat" where "sc_lsd_of x \<equiv> unat (fst x)"

abbreviation sc_rate_of :: "u128 \<times> u128 \<Rightarrow> nat" where "sc_rate_of x \<equiv> unat (snd x)"

lemma sc_dex_deliver:
  assumes "ext_deliver sc_dex_outside from_addr m x = Inr x'"
  shows "(if from_addr = ''wrapper'' then lsd_debit (Token ''lsd'') ''wrapper'' m else 0) \<le> sc_lsd_of x \<and>
    sc_lsd_of x' = sc_lsd_of x - (if from_addr = ''wrapper'' then lsd_debit (Token ''lsd'') ''wrapper'' m else 0) +
      lsd_credit (Token ''lsd'') ''wrapper'' m \<and> snd x' = snd x"
proof -
  have small: "n < 2 ^ 128 \<Longrightarrow> unat (word_of_nat n :: u128) = n" for n
    by (rule unat_of_nat_bounded) simp
  from assms show ?thesis
    unfolding sc_dex_outside_def outside.select_convs Let_def
    by (cases x) (auto simp: small [simplified] simp del: of_nat_add of_nat_diff split: if_splits)
qed

lemma sc_dex_quiet: "moves (Token ''lsd'') m \<Longrightarrow> sc_dex_calls a m = []"
  by (auto simp: moves_def)

lemma sc_dex_honest:
  assumes "reflp may"
    and rate: "\<And>(n :: u128) (r :: u128) t q. Q cfg (sc_deps (sc_chain (unat r) (unat n))) (block_env t ''wrapper'') = Inr q \<Longrightarrow>
      atoms q = unat r"
    and token: "ct_token D = ''wrapper''"
  shows "honest_outside D sc_dex_outside Q (Token ''lsd'') cfg sc_lsd_of sc_rate_of may"
proof -
  have view: "ext_view sc_dex_outside x who = sc_deps (sc_chain (sc_rate_of x) (sc_lsd_of x))" for x who
    by (cases x) (simp add: sc_dex_outside_def)
  have kept: "may r r" for r using assms(1) by (simp add: reflp_def)
  show ?thesis
    unfolding honest_outside_def token view
  proof (intro conjI allI impI)
    show "ext_calls sc_dex_outside ''wrapper'' m x = []" if "moves (Token ''lsd'') m" for m x
      using sc_dex_quiet [OF that] by (simp add: sc_dex_outside_def)
    show "atoms q = sc_rate_of x"
      if "Q cfg (sc_deps (sc_chain (sc_rate_of x) (sc_lsd_of x))) (block_env t ''wrapper'') = Inr q" for x t q
      using rate [OF that] .
    show "unat b = sc_lsd_of x"
      if "lsd_balance (Token ''lsd'') (sc_deps (sc_chain (sc_rate_of x) (sc_lsd_of x))) ''wrapper'' = Inr b" for x b
      using that by (auto simp: sc_eval wrapper_eval)
    show "spares may sc_lsd_of sc_rate_of x x'" if "ext_reply sc_dex_outside a k x = Inr (x', subs)"
      for a k x x' subs
      using that kept by (simp add: sc_dex_outside_def spares_def)
    show "spares may sc_lsd_of sc_rate_of x x'"
      if "from_addr \<noteq> ''wrapper'' \<or> hook m" "ext_deliver sc_dex_outside from_addr m x = Inr x'" for from_addr m x x'
      using sc_dex_deliver [OF that(2)] that(1) kept by (auto simp: spares_def elim!: hookE)
  qed (use sc_dex_deliver in \<open>fastforce elim!: hookE\<close>)+
qed

definition sc_dex_at :: "'x \<Rightarrow> ((lsd_contracts, ledger) wrapper_storage, reward_storage, 'x) chain_state" where
  "sc_dex_at x = \<lparr>st_hub = sc_hub_storage, st_token = sc_storage 1000, st_reward = sc_reward, st_ext = x\<rparr>"

definition sc_dex_pool ::
  "((amp_contracts, ledger) limited_storage, amp_retrieve_config custom_storage, u128 \<times> u128) chain_state" where
  "sc_dex_pool = \<lparr>st_hub = sc_hub_storage, st_token = sc_limited None 1000,
     st_reward = st_reward sc_pool_state, st_ext = (500, 2000000000000000000)\<rparr>"

abbreviation sc_dex_state ::
  "((lsd_contracts, ledger) wrapper_storage, reward_storage, u128 \<times> u128) chain_state" where
  "sc_dex_state \<equiv> sc_dex_at (500, 2000000000000000000)"

text \<open>Alice sends 400 units to the contract, which burns them within the same transaction.\<close>

abbreviation sc_send :: cosmos_msg where
  "sc_send \<equiv> Wasm_Execute ''wrapper'' (WrapperExec (Send ''dex'' 400 (Opaque []))) []"

abbreviation sc_told :: cosmos_msg where
  "sc_told \<equiv> Wasm_Execute ''dex'' (Cw20Receive ''alice'' 400 (Opaque [])) []"

abbreviation sc_paid :: cosmos_msg where
  "sc_paid \<equiv> Wasm_Execute ''lsd'' (Cw20Exec (Cw20_Transfer ''dex'' 200)) []"

text \<open>An outside in which this can happen, from \<open>x\<close> to \<open>x'\<close>.\<close>

definition sc_serves :: "'x outside \<Rightarrow> 'x \<Rightarrow> 'x \<Rightarrow> bool" where
  "sc_serves X x x' \<longleftrightarrow> ext_view X x ''wrapper'' = sc_deps (sc_chain 2000000000000000000 500) \<and>
     ext_deliver X ''wrapper'' sc_told x = Inr x \<and>
     ext_calls X ''wrapper'' sc_told x = [sub_msg_new (Wasm_Execute ''wrapper'' (WrapperExec (Burn 400)) [])] \<and>
     ext_deliver X ''wrapper'' sc_paid x = Inr x' \<and> ext_calls X ''wrapper'' sc_paid x' = []"

lemma sc_callback_run:
  fixes D :: "('w, 'rw) contracts" and s :: "('w, 'rw, 'x) chain_state"
  assumes D: "ct_token D = ''wrapper''" "\<not> own D ''dex''" "\<not> own D ''lsd''"
    and send: "token_execute D (Send ''dex'' 400 (Opaque [])) (sc_deps (sc_chain 2000000000000000000 500)) (block_env t ''wrapper'')
        \<lparr>sender = ''alice'', funds = []\<rparr> (st_token s) = Inr (w1, r1)" "messages r1 = [sub_msg_new sc_told]"
    and burn: "token_execute D (Burn 400) (sc_deps (sc_chain 2000000000000000000 500)) (block_env t ''wrapper'')
        \<lparr>sender = ''dex'', funds = []\<rparr> w1 = Inr (w2, r2)" "messages r2 = [sub_msg_new sc_paid]"
    and s: "sc_serves X (st_ext s) x'"
  shows "run_msgs D X t 4 ''alice'' [sub_msg_new sc_send] s = Some (Inr (s\<lparr>st_token := w2, st_ext := x'\<rparr>))"
proof -
  let ?burn = "Wasm_Execute ''wrapper'' (WrapperExec (Burn 400)) []"
  note X = s [unfolded sc_serves_def]
  have e1: "enter D X t ''alice'' sc_send s = Inr (s\<lparr>st_token := w1\<rparr>, ''wrapper'', [sub_msg_new sc_told])"
    using enter_token [of D X t "''alice''" "Send ''dex'' 400 (Opaque [])" s]
    by (simp add: D X send)
  have e2: "enter D X t ''wrapper'' sc_told (s\<lparr>st_token := w1\<rparr>)
      = Inr (s\<lparr>st_token := w1\<rparr>, ''dex'', [sub_msg_new ?burn])"
    by (simp add: enter_outgoing D X)
  have e3: "enter D X t ''dex'' ?burn (s\<lparr>st_token := w1\<rparr>)
      = Inr (s\<lparr>st_token := w2\<rparr>, ''wrapper'', [sub_msg_new sc_paid])"
    using enter_token [of D X t "''dex''" "Burn 400" "s\<lparr>st_token := w1\<rparr>"]
    by (simp add: D X burn)
  have e4: "enter D X t ''wrapper'' sc_paid (s\<lparr>st_token := w2\<rparr>)
      = Inr (s\<lparr>st_token := w2, st_ext := x'\<rparr>, ''lsd'', [])"
    by (simp add: enter_outgoing D X)
  have four: "(4 :: nat) = Suc (Suc (Suc (Suc 0)))" by simp
  show ?thesis
    unfolding four by (simp del: run_msgs.simps(3) add: run_plain e1 e2 e3 e4)
qed

lemma sc_dex_serves: "sc_serves sc_dex_outside (500, 2000000000000000000) (300, 2000000000000000000)"
  by (simp add: sc_serves_def sc_dex_outside_def)

lemma sc_metered_serves:
  "sc_serves (metered sc_lsd_of sc_rate_of sc_dex_outside) ((500, 2000000000000000000), 0) ((300, 2000000000000000000), 0)"
  using sc_dex_serves by (simp add: sc_serves_def)

text \<open>An outside that does not answer the wrapper once it would have to report a balance of 10^9.\<close>

definition sc_deaf :: deps where
  "sc_deaf = (sc_deps (sc_chain 0 0))\<lparr>wasm_smart := (\<lambda>c q. Inl (GenericErr ''no answer'')),
     bank_balance := (\<lambda>who d. Inl (GenericErr ''no answer''))\<rparr>"

definition sc_capped :: "(u128 \<times> u128) outside" where
  "sc_capped = sc_dex_outside\<lparr>ext_view := (\<lambda>x who.
     if sc_lsd_of x < 10 ^ 9 then ext_view sc_dex_outside x who else sc_deaf)\<rparr>"

lemma sc_capped_small:
  assumes "lsd_balance (amp_asset sc_amp) (ext_view sc_capped x a) b = Inr n"
  shows "unat n < 10 ^ 9"
proof (cases "sc_lsd_of x < 10 ^ 9")
  case True
  with assms show ?thesis
    by (cases x) (auto simp: sc_capped_def sc_dex_outside_def amp_asset_def sc_eval wrapper_eval)
next
  case False
  with assms show ?thesis by (simp add: sc_capped_def sc_deaf_def sc_deps_def amp_asset_def sc_amp_def wrapper_eval)
qed

lemma sc_capped_serves: "sc_serves sc_capped (500, 2000000000000000000) (300, 2000000000000000000)"
  using sc_dex_serves by (simp add: sc_serves_def sc_capped_def)

section \<open>The instances\<close>

lemma sc_contracts_are:
  "ct_token sc_contracts = ''wrapper''" "ct_hub sc_contracts = ''hub''" "ct_reward sc_contracts = ''reward''"
  "token_execute sc_contracts = wrapper_execute fixed18 ledger_cw20 sc_hub"
  "ct_token sc_pool = ''wrapper''" "ct_hub sc_pool = ''hub''" "ct_reward sc_pool = ''reward''"
  "token_execute sc_pool = limited_execute fixed18 ledger_cw20 amph_hub"
  by (simp_all add: sc_contracts_def sc_pool_def)

lemma sc_dex_plain_honest:
  "reflp may \<Longrightarrow> honest_outside sc_contracts sc_dex_outside (query_exchange_rate sc_hub) (steak_asset sc_lsd)
    sc_lsd sc_lsd_of sc_rate_of may"
  unfolding steak_asset_def
  by (simp add: sc_lsd_def, rule sc_dex_honest)
    (auto simp: sc_contracts_are sc_eval steak_eval wrapper_eval atoms_def)

lemma sc_dex_limited_honest:
  "reflp may \<Longrightarrow> honest_outside sc_pool sc_dex_outside (query_exchange_rate amph_hub) (amp_asset sc_amp)
    sc_amp sc_lsd_of sc_rate_of may"
  unfolding amp_asset_def
  by (simp add: sc_amp_def, rule sc_dex_honest)
    (auto simp: sc_contracts_are sc_eval amp_eval wrapper_eval atoms_def)

lemma sc_capped_honest:
  "honest_outside sc_pool sc_capped (query_exchange_rate amph_hub) (amp_asset sc_amp) sc_amp sc_lsd_of sc_rate_of (\<le>)"
proof -
  have deaf: "lsd_balance (amp_asset sc_amp) sc_deaf a \<noteq> Inr b" "query_exchange_rate amph_hub sc_amp sc_deaf e \<noteq> Inr q"
    for a b e q
    by (simp_all add: sc_deaf_def sc_deps_def sc_amp_def amp_asset_def amp_eval wrapper_eval)
  have "honest_outside sc_pool sc_dex_outside (query_exchange_rate amph_hub) (amp_asset sc_amp) sc_amp sc_lsd_of
      sc_rate_of (\<le>)"
    by (rule sc_dex_limited_honest) (simp add: reflp_def)
  then show ?thesis
    unfolding sc_capped_def
    by (rule honest_viewed) (use honestD(5,6) [OF \<open>honest_outside _ _ _ _ _ _ _ _\<close>] deaf in \<open>auto split: if_splits\<close>)
qed

definition sc_shared :: ledger where
  "sc_shared = (sc_ledger 1000)\<lparr>lg_balances := (lg_balances (sc_ledger 1000))(''alice'' := 600, ''dex'' := 400)\<rparr>"

lemma sc_plain_send:
  "\<exists>r. wrapper_execute fixed18 ledger_cw20 sc_hub (Send ''dex'' 400 (Opaque [])) dp e
      \<lparr>sender = ''alice'', funds = []\<rparr> (sc_storage 1000) = Inr ((sc_storage 1000)\<lparr>ws_cw20 := sc_shared\<rparr>, r) \<and>
    messages r = [sub_msg_new (Wasm_Execute ''dex'' (Cw20Receive ''alice'' 400 (Opaque [])) [])]"
  by (simp add: execute_send_def on_cw20_def sc_storage_def sc_shared_def sc_ledger_def ledger_eval
      response_new_def add_messages_def)

lemma sc_limited_send:
  "\<exists>r. limited_execute fixed18 ledger_cw20 amph_hub (Send ''dex'' 400 (Opaque [])) dp e
      \<lparr>sender = ''alice'', funds = []\<rparr> (sc_limited None 1000) = Inr ((sc_limited None 1000)\<lparr>ws_cw20 := sc_shared\<rparr>, r) \<and>
    messages r = [sub_msg_new (Wasm_Execute ''dex'' (Cw20Receive ''alice'' 400 (Opaque [])) [])]"
  by (simp add: execute_send_def on_cw20_def sc_limited_def sc_shared_def sc_ledger_def ledger_eval
      response_new_def add_messages_def)

lemma sc_plain_burn:
  "\<exists>w r. wrapper_execute fixed18 ledger_cw20 sc_hub (Burn 400) (sc_deps (sc_chain 2000000000000000000 500))
      (block_env t ''wrapper'') \<lparr>sender = ''dex'', funds = []\<rparr> ((sc_storage 1000)\<lparr>ws_cw20 := sc_shared\<rparr>) = Inr (w, r) \<and>
    messages r = [sub_msg_new (Wasm_Execute ''lsd'' (Cw20Exec (Cw20_Transfer ''dex'' 200)) [])] \<and>
    token_supply ledger_cw20 (ws_cw20 w) = 600"
  by (simp add: sc_shared_def sc_eval wrapper_eval steak_eval fixed18_eval ledger_eval ledger_queries
      block_env_def add_messages_def response_new_def)

lemma sc_limited_burn:
  "\<exists>w r. limited_execute fixed18 ledger_cw20 amph_hub (Burn 400) (sc_deps (sc_chain 2000000000000000000 500))
      (block_env t ''wrapper'') \<lparr>sender = ''dex'', funds = []\<rparr> ((sc_limited None 1000)\<lparr>ws_cw20 := sc_shared\<rparr>) = Inr (w, r) \<and>
    messages r = [sub_msg_new (Wasm_Execute ''lsd'' (Cw20Exec (Cw20_Transfer ''dex'' 200)) [])] \<and>
    token_supply ledger_cw20 (ws_cw20 w) = 600"
  by (simp add: sc_shared_def limited_run_eval ledger_queries block_env_def add_messages_def response_new_def)

text \<open>The slashed outside: the rate falls by a quarter.\<close>

definition sc_slash :: "u128 \<times> u128 \<Rightarrow> u128 \<times> u128 \<Rightarrow> bool" where
  "sc_slash x x' \<longleftrightarrow> x' = (fst x, 1500000000000000000)"

lemma sc_slash_spares: "sc_slash x x' \<Longrightarrow> spares (\<lambda>r r'. True) sc_lsd_of sc_rate_of x x'"
  by (simp add: sc_slash_def spares_def)

lemma sc_plain_callback:
  assumes X: "sc_serves X x x'"
  obtains w where "run_msgs sc_contracts X t 4 ''alice'' [sub_msg_new sc_send] (sc_dex_at x) =
      Some (Inr ((sc_dex_at x)\<lparr>st_token := w, st_ext := x'\<rparr>))"
    "token_supply ledger_cw20 (ws_cw20 w) = 600"
proof -
  from sc_plain_send sc_plain_burn [of t] obtain r1 w r2
    where send: "wrapper_execute fixed18 ledger_cw20 sc_hub (Send ''dex'' 400 (Opaque []))
        (sc_deps (sc_chain 2000000000000000000 500)) (block_env t ''wrapper'') \<lparr>sender = ''alice'', funds = []\<rparr>
        (sc_storage 1000) = Inr ((sc_storage 1000)\<lparr>ws_cw20 := sc_shared\<rparr>, r1)"
      and r1: "messages r1 = [sub_msg_new (Wasm_Execute ''dex'' (Cw20Receive ''alice'' 400 (Opaque [])) [])]"
      and burn: "wrapper_execute fixed18 ledger_cw20 sc_hub (Burn 400) (sc_deps (sc_chain 2000000000000000000 500))
        (block_env t ''wrapper'') \<lparr>sender = ''dex'', funds = []\<rparr> ((sc_storage 1000)\<lparr>ws_cw20 := sc_shared\<rparr>)
        = Inr (w, r2)"
      and r2: "messages r2 = [sub_msg_new (Wasm_Execute ''lsd'' (Cw20Exec (Cw20_Transfer ''dex'' 200)) [])]"
      and w: "token_supply ledger_cw20 (ws_cw20 w) = 600"
    by blast
  have "run_msgs sc_contracts X t 4 ''alice'' [sub_msg_new sc_send] (sc_dex_at x) =
      Some (Inr ((sc_dex_at x)\<lparr>st_token := w, st_ext := x'\<rparr>))"
    by (rule sc_callback_run [OF _ _ _ _ r1 _ r2])
      (use send burn X in \<open>simp_all add: sc_contracts_are own_def sc_dex_at_def\<close>)
  then show thesis using w by (rule that)
qed

lemma sc_limited_callback:
  obtains w where "run_msgs sc_pool sc_capped t 4 ''alice'' [sub_msg_new sc_send] sc_dex_pool =
      Some (Inr (sc_dex_pool\<lparr>st_token := w, st_ext := (300, 2000000000000000000)\<rparr>))"
    "token_supply ledger_cw20 (ws_cw20 w) = 600"
proof -
  from sc_limited_send sc_limited_burn [of t] obtain r1 w r2
    where send: "limited_execute fixed18 ledger_cw20 amph_hub (Send ''dex'' 400 (Opaque []))
        (sc_deps (sc_chain 2000000000000000000 500)) (block_env t ''wrapper'') \<lparr>sender = ''alice'', funds = []\<rparr>
        (sc_limited None 1000) = Inr ((sc_limited None 1000)\<lparr>ws_cw20 := sc_shared\<rparr>, r1)"
      and r1: "messages r1 = [sub_msg_new (Wasm_Execute ''dex'' (Cw20Receive ''alice'' 400 (Opaque [])) [])]"
      and burn: "limited_execute fixed18 ledger_cw20 amph_hub (Burn 400) (sc_deps (sc_chain 2000000000000000000 500))
        (block_env t ''wrapper'') \<lparr>sender = ''dex'', funds = []\<rparr> ((sc_limited None 1000)\<lparr>ws_cw20 := sc_shared\<rparr>)
        = Inr (w, r2)"
      and r2: "messages r2 = [sub_msg_new (Wasm_Execute ''lsd'' (Cw20Exec (Cw20_Transfer ''dex'' 200)) [])]"
      and w: "token_supply ledger_cw20 (ws_cw20 w) = 600"
    by blast
  have "run_msgs sc_pool sc_capped t 4 ''alice'' [sub_msg_new sc_send] sc_dex_pool =
      Some (Inr (sc_dex_pool\<lparr>st_token := w, st_ext := (300, 2000000000000000000)\<rparr>))"
    by (rule sc_callback_run [OF _ _ _ _ r1 _ r2])
      (use send burn sc_capped_serves in \<open>simp_all add: sc_contracts_are own_def sc_dex_pool_def\<close>)
  then show thesis using w by (rule that)
qed

lemma sc_dex_start:
  "st_ext (sc_dex_at x) = x" "st_ext sc_dex_pool = (500, 2000000000000000000)"
  "token_supply ledger_cw20 (ws_cw20 (st_token (sc_dex_at x))) = 1000"
  "token_supply ledger_cw20 (ws_cw20 (st_token sc_dex_pool)) = 1000"
  "ws_lsd_config (st_token (sc_dex_at x)) = Some sc_lsd" "ws_lsd_config (st_token sc_dex_pool) = Some sc_amp"
  by (simp_all add: sc_dex_at_def sc_dex_pool_def sc_storage_def sc_limited_def sc_ledger_def ledger_queries)

theorem transactions_keep_backing_witness:
  "\<exists>s. run_msgs sc_contracts sc_dex_outside (Timestamp 5000000000) 4 ''alice'' [sub_msg_new sc_send]
      sc_dex_state = Some (Inr s) \<and>
    token_supply ledger_cw20 (ws_cw20 (st_token s)) = 600 \<and> st_ext s = (300, 2000000000000000000) \<and>
    600 * dec_unit \<le> 300 * 2000000000000000000"
proof -
  obtain w where run: "run_msgs sc_contracts sc_dex_outside (Timestamp 5000000000) 4 ''alice''
        [sub_msg_new sc_send] sc_dex_state =
        Some (Inr (sc_dex_state\<lparr>st_token := w, st_ext := (300, 2000000000000000000)\<rparr>))"
      and w: "token_supply ledger_cw20 (ws_cw20 w) = 600"
    using sc_dex_serves by (rule sc_plain_callback)
  let ?s = "sc_dex_state\<lparr>st_token := w, st_ext := (300, 2000000000000000000)\<rparr>"
  have start: "(chain_step sc_contracts sc_dex_outside (=))\<^sup>*\<^sup>* sc_dex_state ?s"
    by (rule r_into_rtranclp, rule chain_step.send_message [OF _ run]) (simp add: own_def sc_contracts_are)
  have honest: "honest_outside sc_contracts sc_dex_outside (query_exchange_rate sc_hub) (steak_asset sc_lsd)
      sc_lsd sc_lsd_of sc_rate_of (\<le>)"
    by (rule sc_dex_plain_honest) (simp add: reflp_def)
  have "token_supply ledger_cw20 (ws_cw20 (st_token ?s)) * dec_unit \<le> sc_lsd_of (st_ext ?s) * sc_rate_of (st_ext ?s)"
    by (rule transactions_keep_backing [OF amp_luna_env sc_contracts_are(4) _ _ honest _ start sc_dex_start(5)])
      (simp_all add: sc_contracts_are spares_def sc_dex_start dec_unit_def)
  with run w show ?thesis by auto
qed

theorem slashing_shortfall_witness:
  "\<exists>s. (chain_step sc_contracts (metered sc_lsd_of sc_rate_of sc_dex_outside) (slashed sc_lsd_of sc_rate_of sc_slash))\<^sup>*\<^sup>*
      (sc_dex_at ((500, 2000000000000000000), 0)) s \<and>
    st_ext s = ((300, 1500000000000000000), 300 * 500000000000000000) \<and>
    token_supply ledger_cw20 (ws_cw20 (st_token s)) = 600 \<and>
    600 * dec_unit \<le> 300 * 1500000000000000000 + 0 + 300 * 500000000000000000"
proof -
  let ?X = "metered sc_lsd_of sc_rate_of sc_dex_outside" and ?E = "slashed sc_lsd_of sc_rate_of sc_slash"
    and ?x = "((500, 2000000000000000000), 0) :: (u128 \<times> u128) \<times> nat"
    and ?x' = "((300, 1500000000000000000), 300 * 500000000000000000) :: (u128 \<times> u128) \<times> nat"
  obtain w where run: "run_msgs sc_contracts ?X (Timestamp 5000000000) 4 ''alice'' [sub_msg_new sc_send]
        (sc_dex_at ?x) = Some (Inr ((sc_dex_at ?x)\<lparr>st_token := w, st_ext := ((300, 2000000000000000000), 0)\<rparr>))"
      and w: "token_supply ledger_cw20 (ws_cw20 w) = 600"
    using sc_metered_serves by (rule sc_plain_callback)
  let ?s = "(sc_dex_at ?x)\<lparr>st_token := w, st_ext := ((300, 2000000000000000000), 0 :: nat)\<rparr>"
  have "chain_step sc_contracts ?X ?E (sc_dex_at ?x) ?s"
    by (rule chain_step.send_message [OF _ run]) (simp add: own_def sc_contracts_are)
  moreover have "chain_step sc_contracts ?X ?E ?s (?s\<lparr>st_ext := ?x'\<rparr>)"
    by (rule chain_step.elsewhere) (simp add: slashed_iff sc_slash_def)
  ultimately have start: "(chain_step sc_contracts ?X ?E)\<^sup>*\<^sup>* (sc_dex_at ?x) (?s\<lparr>st_ext := ?x'\<rparr>)"
    by (meson converse_rtranclp_into_rtranclp r_into_rtranclp)
  have honest: "honest_outside sc_contracts sc_dex_outside (query_exchange_rate sc_hub) (steak_asset sc_lsd)
      sc_lsd sc_lsd_of sc_rate_of (\<lambda>r r'. True)"
    by (rule sc_dex_plain_honest) (simp add: reflp_def)
  have "st_ext (?s\<lparr>st_ext := ?x'\<rparr>) = ?x'" by simp
  from slashing_shortfall [OF amp_luna_env sc_contracts_are(4) _ _ honest sc_slash_spares start sc_dex_start(5)
      sc_dex_start(1) this, of 0]
  have "600 * dec_unit \<le> 300 * 1500000000000000000 + 0 + 300 * 500000000000000000"
    by (simp add: sc_contracts_are sc_dex_start w dec_unit_def)
  with start w show ?thesis by (intro exI conjI) (assumption, simp_all)
qed

theorem limited_transactions_keep_backing_witness:
  "\<exists>s. run_msgs sc_pool sc_capped (Timestamp 5000000000) 4 ''alice'' [sub_msg_new sc_send] sc_dex_pool = Some (Inr s) \<and>
    token_supply ledger_cw20 (ws_cw20 (st_token s)) = 600 \<and> st_ext s = (300, 2000000000000000000) \<and>
    600 * dec_unit \<le> 300 * 2000000000000000000"
proof -
  obtain w where run: "run_msgs sc_pool sc_capped (Timestamp 5000000000) 4 ''alice'' [sub_msg_new sc_send] sc_dex_pool =
        Some (Inr (sc_dex_pool\<lparr>st_token := w, st_ext := (300, 2000000000000000000)\<rparr>))"
      and w: "token_supply ledger_cw20 (ws_cw20 w) = 600"
    by (rule sc_limited_callback)
  let ?s = "sc_dex_pool\<lparr>st_token := w, st_ext := (300, 2000000000000000000)\<rparr>"
  have start: "(chain_step sc_pool sc_capped (=))\<^sup>*\<^sup>* sc_dex_pool ?s"
    by (rule r_into_rtranclp, rule chain_step.send_message [OF _ run]) (simp add: own_def sc_contracts_are)
  have small: "unat b < 10 ^ 9"
    if "lsd_balance (amp_asset sc_amp) (ext_view sc_capped x (ct_token sc_pool)) (ct_token sc_pool) = Inr b" for x b
    by (rule sc_capped_small [OF that])
  have "token_supply ledger_cw20 (ws_cw20 (st_token ?s)) * dec_unit \<le> sc_lsd_of (st_ext ?s) * sc_rate_of (st_ext ?s)"
    by (rule limited_transactions_keep_backing [OF amp_lp_env sc_contracts_are(8) _ _ sc_capped_honest small _ start
          sc_dex_start(6)])
      (simp_all add: sc_contracts_are spares_def sc_dex_start dec_unit_def)
  with run w show ?thesis by auto
qed

text \<open>The contracts of the scenario are pots, and the general lemmas on transactions apply to them.\<close>

interpretation amp_luna_pot: whole_pot "wrapper_execute fixed18 ledger_cw20 sc_hub"
  "query_exchange_rate sc_hub" steak_asset ws_lsd_config "\<lambda>w. token_supply ledger_cw20 (ws_cw20 w)"
  "lacks_at_most lack" may "\<lambda>cfg self dp a m. True" for lack may
  by (rule wrapper_env.plain_pot [OF amp_luna_env])

interpretation amp_lp_pot: whole_pot "limited_execute fixed18 ledger_cw20 amph_hub"
  "query_exchange_rate amph_hub" amp_asset ws_lsd_config "\<lambda>w. token_supply ledger_cw20 (ws_cw20 w)"
  covered_at_one "(\<le>)" "\<lambda>cfg self dp a m. small_pot amp_asset cfg self dp"
  by (rule wrapper_env.limited_pot [OF amp_lp_env])

interpretation sc_plain_chain: pot_on_chain "wrapper_execute fixed18 ledger_cw20 sc_hub"
  "query_exchange_rate sc_hub" steak_asset ws_lsd_config "\<lambda>w. token_supply ledger_cw20 (ws_cw20 w)"
  "lacks_at_most lack" "(\<le>)" "\<lambda>cfg self dp a m. True" "\<lambda>as m. 0" "\<lambda>n g. n" sc_contracts sc_dex_outside
  "\<lambda>w. True" sc_lsd sc_lsd_of sc_rate_of "\<lambda>x. 0" "\<lambda>x. 0" for lack
proof -
  have honest: "honest_outside sc_contracts sc_dex_outside (query_exchange_rate sc_hub) (steak_asset sc_lsd)
      sc_lsd sc_lsd_of sc_rate_of (\<le>)"
    by (rule sc_dex_plain_honest) (simp add: reflp_def)
  show "pot_on_chain (wrapper_execute fixed18 ledger_cw20 sc_hub) (query_exchange_rate sc_hub) steak_asset
      ws_lsd_config (\<lambda>w. token_supply ledger_cw20 (ws_cw20 w)) (lacks_at_most lack) (\<le>) (\<lambda>cfg self dp a m. True)
      (\<lambda>as m. 0) (\<lambda>n g. n) sc_contracts sc_dex_outside (\<lambda>w. True) sc_lsd sc_lsd_of sc_rate_of (\<lambda>x. 0) (\<lambda>x. 0)"
    by (rule amp_luna_pot.on_chain [OF sc_contracts_are(4) honest meters_gain [OF honest] TrueI])
qed

interpretation sc_plain_kept: kept_by_token sc_contracts sc_dex_outside "\<lambda>w. True" "\<lambda>h. True" "\<lambda>a. True"
  "sc_plain_chain.kept lack" for lack
  by unfold_locales (use sc_plain_chain.pot_kept in \<open>simp_all add: sc_contracts_are hub_keeps_any\<close>)

end
