(* ===== verification/Custody.thy ===== *)
theory Custody
  imports Transactions
begin

text \<open>
  Where the yield goes. A plain wrapper pays LSD out in two ways: to whoever destroys units, and, on a
  decompound, to the address that the hub names. When the hub names the reward contract, the LSD that the
  wrapper holds together with what it has sent to the reward contract is a pot from which nothing is
  skimmed: its surplus over the units issued never falls by more than what falls of the rate took from
  it, whatever anybody sends to anybody, re-entrantly or not. So the yield is in the wrapper or has gone
  to the reward contract.
\<close>

section \<open>A pot that nobody skims\<close>

inductive custody_step :: "nat \<Rightarrow> vault \<Rightarrow> vault \<Rightarrow> bool" for r :: nat where
  custody_in: "a * dec_unit \<le> l * r \<Longrightarrow>
    custody_step r v (v\<lparr>v_lsd := v_lsd v + l, v_supply := v_supply v + a\<rparr>)"
| custody_out: "l * r \<le> a * dec_unit \<Longrightarrow> l \<le> v_lsd v \<Longrightarrow> a \<le> v_supply v \<Longrightarrow>
    custody_step r v (v\<lparr>v_lsd := v_lsd v - l, v_supply := v_supply v - a\<rparr>)"
| custody_gift: "custody_step r v (v\<lparr>v_lsd := v_lsd v + l\<rparr>)"

text \<open>What the pot is worth over one coin per unit, in atoms; a shortfall when negative.\<close>

definition surplus :: "nat \<Rightarrow> vault \<Rightarrow> int" where
  "surplus r v = int (v_lsd v * r) - int (v_supply v * dec_unit)"

lemma custody_step_surplus:
  assumes "custody_step r v v'"
  shows "surplus r v \<le> surplus r v'"
  using assms
proof cases
  case (custody_in a l)
  then have "int (a * dec_unit) \<le> int (l * r)" by (simp only: of_nat_le_iff)
  then show ?thesis by (simp add: surplus_def custody_in(1) add_mult_distrib del: of_nat_mult)
next
  case (custody_out l a)
  have "int ((v_lsd v - l) * r) = int (v_lsd v * r) - int (l * r)"
    using mult_le_mono1 [OF custody_out(3), of r] by (simp add: diff_mult_distrib of_nat_diff)
  moreover have "int ((v_supply v - a) * dec_unit) = int (v_supply v * dec_unit) - int (a * dec_unit)"
    using mult_le_mono1 [OF custody_out(4), of dec_unit] by (simp add: diff_mult_distrib of_nat_diff)
  moreover have "int (l * r) \<le> int (a * dec_unit)" using custody_out(2) by (simp only: of_nat_le_iff)
  ultimately show ?thesis by (simp add: surplus_def custody_out(1) del: of_nat_mult)
qed (simp add: surplus_def add_mult_distrib)

lemma surplus_drift: "surplus r v \<le> surplus r' v + int (v_lsd v * (r - r'))"
proof -
  have "v_lsd v * r \<le> v_lsd v * r' + v_lsd v * (r - r')"
    unfolding add_mult_distrib2 [symmetric] by (intro mult_le_mono2) simp
  then have "int (v_lsd v * r) \<le> int (v_lsd v * r') + int (v_lsd v * (r - r'))" by linarith
  then show ?thesis by (simp add: surplus_def del: of_nat_mult)
qed

lemma custody_steps_surplus: "(custody_step r)\<^sup>*\<^sup>* v v' \<Longrightarrow> surplus r v \<le> surplus r v'"
  by (induction rule: rtranclp_induct) (auto dest: custody_step_surplus)

text \<open>The surplus has not fallen below \<open>c\<close> by more than falls of the rate have cost.\<close>

definition surplus_kept :: "int \<Rightarrow> nat \<Rightarrow> nat \<Rightarrow> nat \<Rightarrow> nat \<Rightarrow> bool" where
  "surplus_kept c n k r L \<longleftrightarrow> c \<le> surplus r \<lparr>v_lsd = n, v_supply = k\<rparr> + int L"

lemma surplus_more: "n \<le> n' \<Longrightarrow> surplus r \<lparr>v_lsd = n, v_supply = k\<rparr> \<le> surplus r \<lparr>v_lsd = n', v_supply = k\<rparr>"
  using mult_le_mono1 [of n n' r] unfolding surplus_def vault.select_convs by linarith

lemma surplus_kept_drift:
  assumes "surplus_kept c n k r L" and "n \<le> n'"
  shows "surplus_kept c n' k r' (L + n * (r - r'))"
  using assms(1) surplus_drift [of r "\<lparr>v_lsd = n, v_supply = k\<rparr>" r'] surplus_more [OF assms(2), of r' k]
  by (simp add: surplus_kept_def)

section \<open>What the hub asks for\<close>

text \<open>The hub names no reward contract but \<open>rw\<close>; then this is all it asks of a wrapper.\<close>

definition names_reward :: "addr \<Rightarrow> hub_storage \<Rightarrow> bool" where
  "names_reward rw h \<longleftrightarrow>
     (\<forall>c a. hub_config_item h = Some c \<longrightarrow> hc_reward_contract c = Some a \<longrightarrow> a = rw)"

definition pays_reward :: "addr \<Rightarrow> wrapper_execute_msg \<Rightarrow> bool" where
  "pays_reward rw m \<longleftrightarrow> (\<forall>rc. m = Decompound rc \<longrightarrow> rc = Some rw)"

text \<open>Whoever may change that is an account of its own: neither one of the three nor a contract that calls on.\<close>

definition account :: "('w, 'rw) contracts \<Rightarrow> 'x outside \<Rightarrow> addr \<Rightarrow> bool" where
  "account D X a \<longleftrightarrow> \<not> own D a \<and> (\<forall>from_addr b fs x. ext_calls X from_addr (Wasm_Execute a b fs) x = [])"

definition managed_by :: "(addr \<Rightarrow> bool) \<Rightarrow> hub_storage \<Rightarrow> bool" where
  "managed_by acc h \<longleftrightarrow> (\<forall>c. hub_config_item h = Some c \<longrightarrow> acc (hc_creator c))"

lemma account_acts: "own D a \<Longrightarrow> \<not> account D X a"
  by (simp add: account_def)

lemma account_called:
  assumes "calls_on X a m x = (who, subs)" and "subs \<noteq> []"
  shows "\<not> account D X who"
  using assms by (cases m) (auto simp: account_def)

lemma reward_named_kept:
  "hub_keeps D (pays_reward rw) (\<lambda>h. names_reward rw h \<and> managed_by acc h) (\<lambda>a. \<not> acc a)"
  unfolding hub_keeps_def
proof (intro allI impI)
  fix m dp e i h h' and r :: response
  assume I: "names_reward rw h \<and> managed_by acc h" and run: "hub_execute (ct_arith D) m dp e i h = Inr (h', r)"
  have asks: "hub_asks D (pays_reward rw) (messages r)"
    if "\<And>c w fs. Wasm_Execute c (WrapperExec w) fs \<in> set (msgs r) \<Longrightarrow> pays_reward rw w"
    unfolding hub_asks_def using that by (force simp: msgs_def)
  show "hub_asks D (pays_reward rw) (messages r) \<and>
      (\<not> acc (sender i) \<or> messages r \<noteq> [] \<longrightarrow> names_reward rw h' \<and> managed_by acc h')"
  proof (cases m)
    case UpdateGlobalIndex
    with run have "execute_update_global (ct_arith D) dp e i h = Inr (h', r)" by simp
    then show ?thesis
      by (rule execute_update_global_ok)
        (use I in \<open>auto intro!: asks simp: names_reward_def managed_by_def pays_reward_def\<close>)
  next
    case (Hub_UpdateConfig ow rc tk)
    with run have "hub_update_config ow rc tk dp e i h = Inr (h', r)" by simp
    then obtain c where c: "hub_config_item h = Some c" "sender i = hc_creator c" and r: "msgs r = []"
      by (rule hub_update_config_ok)
    from I c have "acc (sender i)" by (simp add: managed_by_def)
    moreover from r have "messages r = []" by (simp add: msgs_def)
    ultimately show ?thesis by simp
  qed
qed

section \<open>The wrapper and the reward contract as one pot\<close>

text \<open>What is considered: calls of other accounts, of the hub only what pays the reward contract.\<close>

definition pays_admits :: "addr \<Rightarrow> addr \<Rightarrow> addr \<Rightarrow> deps \<Rightarrow> addr \<Rightarrow> wrapper_execute_msg \<Rightarrow> bool" where
  "pays_admits hub rw self dp a m \<longleftrightarrow> self \<noteq> rw \<and> addr_same dp \<and> (a = hub \<longrightarrow> pays_reward rw m)"

definition config_under :: "addr \<Rightarrow> ('cfg, 'tok, 'z) wrapper_storage_scheme \<Rightarrow> 'cfg option" where
  "config_under hub w = (if ws_hub_contract w = Some hub then ws_lsd_config w else None)"

lemma credit_hooks: "hook m \<Longrightarrow> lsd_credit as a m = 0"
  by (cases as) (auto elim!: hookE)

lemma credit_transfer: "lsd_credit as a (lsd_transfer as to l) = (if to = a then unat l else 0)"
  by (cases as) auto

context wrapper_env
begin

lemma call_custody:
  assumes ex: "wrapper_execute A C H m dp e i st = Inr (st', r)"
    and self: "contract_address e = self" and caller: "sender i \<noteq> self"
    and ok: "pays_admits hub rw self dp (sender i) m" and st: "config_under hub st = Some cfg"
    and bal: "\<And>b. lsd_balance (asset cfg) dp self = Inr b \<Longrightarrow> unat b = n + lsd_attached (asset cfg) i"
    and rt: "\<And>q. query_exchange_rate H cfg dp e = Inr q \<Longrightarrow> atoms q = rt"
    and run: "lsd_run (asset cfg) self (msgs r) (n + lsd_attached (asset cfg) i) = Some n'"
  shows "(custody_step rt)\<^sup>*\<^sup>* \<lparr>v_lsd = n + g, v_supply = token_supply C (ws_cw20 st)\<rparr>
    \<lparr>v_lsd = n' + (g + sum_list (map (lsd_credit (asset cfg) rw) (msgs r))),
     v_supply = token_supply C (ws_cw20 st')\<rparr>"
proof -
  let ?v = "\<lambda>x y. \<lparr>v_lsd = x, v_supply = y\<rparr>" and ?s = "token_supply C (ws_cw20 st)"
    and ?s' = "token_supply C (ws_cw20 st')" and ?k = "lsd_attached (asset cfg) i"
    and ?c = "sum_list (map (lsd_credit (asset cfg) rw) (msgs r))"
  have gift: "custody_step rt (?v x y) (?v (x + z) y)" for x y z
    using custody_step.custody_gift [of rt "?v x y" z] by simp
  have kept: ?thesis if "n' + (g + ?c) = n + g + ?k" "?s' = ?s"
    unfolding that using gift [of "n + g" ?s ?k] by (rule r_into_rtranclp)
  from st have cfg: "ws_lsd_config st = Some cfg" and hub: "ws_hub_contract st = Some hub"
    by (simp_all add: config_under_def split: if_splits)
  from ok have rw: "self \<noteq> rw" and addr: "addr_same dp" and asks: "sender i = hub \<Longrightarrow> pays_reward rw m"
    by (simp_all add: pays_admits_def)
  from ex cfg show ?thesis
  proof (cases rule: call_cases)
    case still
    then have "map (lsd_credit (asset cfg) rw) (msgs r) = map (\<lambda>m. 0) (msgs r)" by (simp add: credit_hooks)
    then have "?c = 0" by (simp only: sum_list_0)
    moreover have "n' = n + ?k" using run still(2) lsd_run_hooks by simp
    ultimately have "n' + (g + ?c) = n + g + ?k" by simp
    then show ?thesis using still(1) by (rule kept)
  next
    case (burnt q l a)
    from run burnt(3) caller have n': "unat l \<le> n + ?k" "n' = n + ?k - unat l"
      by (auto simp: lsd_run_transfer simp del: lsd_run.simps split: if_splits)
    have c: "?c \<le> unat l" using burnt(3) by (simp add: credit_transfer)
    have "(unat l - ?c) * rt \<le> unat l * rt" by simp
    also have "\<dots> \<le> a * dec_unit" using lsd_for_le burnt(2) rt [OF burnt(1)] by simp
    finally have "custody_step rt (?v (n + g + ?k) ?s) (?v (n + g + ?k - (unat l - ?c)) ?s')"
      using custody_step.custody_out [of "unat l - ?c" rt a "?v (n + g + ?k) ?s"] n'(1) burnt(4) by simp
    moreover have "n + g + ?k - (unat l - ?c) = n' + (g + ?c)" using n' c by simp
    ultimately show ?thesis using gift [of "n + g" ?s ?k] by (metis r_into_rtranclp rtranclp_trans)
  next
    case (minted q l a)
    obtain got where got: "unat l \<le> got" "n' = n + got"
      using deposit_run [OF minted(2) run self caller] by blast
    have "?c = 0"
      using minted(2) by (cases rule: hub.deposit_amount) (use rw self in auto)
    then have all: "n' + (g + ?c) = n + g + got" using got(2) by linarith
    have "a * dec_unit \<le> got * rt"
      using got(1) minted(3) rt [OF minted(1)] by (meson le_trans mult_le_mono1)
    from custody_step.custody_in [OF this, of "?v (n + g) ?s"] show ?thesis
      unfolding all minted(4) by (simp add: r_into_rtranclp)
  next
    case (skimmed rc q b to l)
    from skimmed(2) hub have "sender i = hub" by simp
    with asks skimmed(1) have "rc = Some rw" by (simp add: pays_reward_def)
    with skimmed(7) addr have to: "to = rw" by (auto dest: addr_sameD)
    from run skimmed(8) to rw have "unat l \<le> n + ?k" "n' = n + ?k - unat l"
      by (auto simp: lsd_run_transfer simp del: lsd_run.simps split: if_splits)
    moreover have "?c = unat l" using skimmed(8) to by (simp add: credit_transfer)
    ultimately have "n' + (g + ?c) = n + g + ?k" by simp
    then show ?thesis using skimmed(3) by (rule kept)
  qed
qed

end

sublocale wrapper_env \<subseteq> custody: pot_contract "wrapper_execute A C H" "query_exchange_rate H" asset
  "config_under hub" "\<lambda>w. token_supply C (ws_cw20 w)" "surplus_kept c" may "\<lambda>cfg. pays_admits hub rw"
  "\<lambda>as. lsd_credit as rw" "(+)" for hub rw c may
proof unfold_locales
  show "surplus_kept c (n' + (g + sum_list (map (lsd_credit (asset cfg) rw) (msgs r)))) (token_supply C (ws_cw20 w')) rt L"
    if "wrapper_execute A C H m dp e i w = Inr (w', r)" "contract_address e = self" "sender i \<noteq> self"
      "pays_admits hub rw self dp (sender i) m" "config_under hub w = Some cfg"
      "\<And>b. lsd_balance (asset cfg) dp self = Inr b \<Longrightarrow> unat b = n + lsd_attached (asset cfg) i"
      "\<And>q. query_exchange_rate H cfg dp e = Inr q \<Longrightarrow> atoms q = rt"
      "lsd_run (asset cfg) self (msgs r) (n + lsd_attached (asset cfg) i) = Some n'"
      "surplus_kept c (n + g) (token_supply C (ws_cw20 w)) rt L"
    for m dp e i r self cfg n rt n' g L and w w' :: "('cfg, 'tok, 'z) wrapper_storage_scheme"
    using custody_steps_surplus [OF call_custody [OF that(1-8), of g]] that(9) by (simp add: surplus_kept_def)
  show "config_under hub w' = config_under hub w" if "wrapper_execute A C H m dp e i w = Inr (w', r)"
    for m dp e i r and w w' :: "('cfg, 'tok, 'z) wrapper_storage_scheme"
    using execute_frame [OF that] by (auto simp: config_under_def)
  show "(\<forall>m \<in> set (msgs r). hook m) \<or> (\<forall>m \<in> set (msgs r). moves (asset cfg) m)"
    if "wrapper_execute A C H m dp e i w = Inr (w', r)" "config_under hub w = Some cfg"
    for m dp e i r cfg and w w' :: "('cfg, 'tok, 'z) wrapper_storage_scheme"
    using wrapper_sends [OF that(1)] that(2) by (simp add: config_under_def split: if_splits)
qed (rule surplus_kept_drift credit_hooks add_le_mono1; assumption)+

section \<open>Whole transactions\<close>

text \<open>
  The outside with two records beside it: what the wrapper has sent to the reward contract, and what
  falls of the rate have cost of this and of the LSD that the wrapper holds.
\<close>

definition rewards_metered ::
  "('w, 'rw) contracts \<Rightarrow> asset_info \<Rightarrow> ('x \<Rightarrow> nat) \<Rightarrow> ('x \<Rightarrow> nat) \<Rightarrow> 'x outside \<Rightarrow> (('x \<times> nat) \<times> nat) outside" where
  "rewards_metered D as lsd rate X = metered (\<lambda>y. lsd (fst y) + snd y) (\<lambda>y. rate (fst y))
     (counting (ct_token D) (lsd_credit as (ct_reward D)) X)"

definition rewards_slashed ::
  "('x \<Rightarrow> nat) \<Rightarrow> ('x \<Rightarrow> nat) \<Rightarrow> ('x \<Rightarrow> 'x \<Rightarrow> bool) \<Rightarrow> (('x \<times> nat) \<times> nat) \<Rightarrow> (('x \<times> nat) \<times> nat) \<Rightarrow> bool" where
  "rewards_slashed lsd rate E = slashed (\<lambda>y. lsd (fst y) + snd y) (\<lambda>y. rate (fst y)) (counted E)"

lemma rewards_honest:
  assumes "honest_outside D X Q as cfg lsd rate may"
  shows "honest_outside D (rewards_metered D as lsd rate X) Q as cfg (\<lambda>z. lsd (fst (fst z))) (\<lambda>z. rate (fst (fst z))) may"
  unfolding rewards_metered_def by (rule metered_honest, rule counting_honest, rule assms)

lemma rewards_counted:
  "counts D (rewards_metered D as lsd rate X) as (\<lambda>as. lsd_credit as (ct_reward D)) (\<lambda>z. snd (fst z))"
  unfolding rewards_metered_def by (rule metered_counts, rule counting_counts, rule credit_hooks)

lemma rewards_meters:
  assumes "honest_outside D X Q as cfg lsd rate may"
  shows "meters D (rewards_metered D as lsd rate X) as (\<lambda>z. lsd (fst (fst z)) + snd (fst z))
    (\<lambda>z. rate (fst (fst z))) snd"
  unfolding rewards_metered_def by (rule metered_meters, rule counting_honest, rule assms)

lemma rewards_simps [simp]:
  "ext_view (rewards_metered D as lsd rate X) z = ext_view X (fst (fst z))"
  "ext_calls (rewards_metered D as lsd rate X) a m z = ext_calls X a m (fst (fst z))"
  by (simp_all add: rewards_metered_def)

lemma rewards_account: "account D X a \<Longrightarrow> account D (rewards_metered D as lsd rate X) a"
  by (simp add: account_def)

lemma rewards_slashed_iff:
  "rewards_slashed lsd rate E ((x, p), L) ((x', p'), L') \<longleftrightarrow>
     E x x' \<and> p' = p \<and> L' = L + (lsd x + p) * (rate x - rate x')"
  by (auto simp: rewards_slashed_def slashed_iff counted_iff)

context wrapper_env
begin

lemma custody_on_chain:
  fixes D :: "(('cfg, 'tok, 'z) wrapper_storage_scheme, 'rw) contracts"
  assumes "token_execute D = wrapper_execute A C H" and "ct_token D \<noteq> ct_reward D"
    and "honest_outside D X (query_exchange_rate H) (asset cfg) cfg lsd rate may"
    and "\<And>x. addr_same (ext_view X x (ct_token D))"
  shows "pot_on_chain (wrapper_execute A C H) (query_exchange_rate H) asset (config_under (ct_hub D))
    (\<lambda>w. token_supply C (ws_cw20 w)) (surplus_kept c) may (\<lambda>cfg. pays_admits (ct_hub D) (ct_reward D))
    (\<lambda>as. lsd_credit as (ct_reward D)) (+) D (rewards_metered D (asset cfg) lsd rate X) (pays_reward (ct_reward D))
    cfg (\<lambda>z. lsd (fst (fst z))) (\<lambda>z. rate (fst (fst z))) (\<lambda>z. snd (fst z)) snd"
  by (intro pot_on_chain.intro custody.pot_contract_axioms pot_on_chain_axioms.intro
      rewards_honest rewards_counted rewards_meters assms(1,3))
    (use assms in \<open>auto simp: pays_admits_def\<close>)

lemmas custody_pot = custody.pot_contract_axioms

lemmas custody_runs = pot_on_chain.runs_keep [OF custody_on_chain]

end

text \<open>
  C3. The yield goes to the reward contract and nowhere else. Take the LSD that a plain wrapper holds
  together with all that it has sent to the reward contract. Along any run of transactions, re-entrant
  ones included, with the hub called within them as well, in which the hub names that reward contract and
  is managed by an account without code whenever a transaction starts, the surplus of this LSD over one
  coin per unit, at the rate of the moment, falls by no more than what the falls of the rate took from it
  (\<open>L\<close>, measured along the run: at every event that lowers the rate, its fall times this LSD).
  No caller, hub or contract outside can make the wrapper give the yield to anybody else.
\<close>

theorem yield_reaches_rewards:
  fixes D :: "(('cfg, 'tok, 'z) wrapper_storage_scheme, 'rw) contracts"
  assumes "wrapper_env A C H asset" and "token_execute D = wrapper_execute A C H"
    and "ct_token D \<noteq> ct_reward D" and "ct_token D \<noteq> ct_hub D" and "ct_hub D \<noteq> ct_reward D"
    and "honest_outside D X (query_exchange_rate H) (asset cfg) cfg lsd rate (\<lambda>r r'. True)"
    and "\<And>x. addr_same (ext_view X x (ct_token D))"
    and "\<And>x x'. E x x' \<Longrightarrow> spares (\<lambda>r r'. True) lsd rate x x'"
    and "(\<lambda>s s'. chain_step D (rewards_metered D (asset cfg) lsd rate X) (rewards_slashed lsd rate E) s s' \<and>
      names_reward (ct_reward D) (st_hub s) \<and> managed_by (account D X) (st_hub s))\<^sup>*\<^sup>* s s'"
    and "ws_lsd_config (st_token s) = Some cfg" and "ws_hub_contract (st_token s) = Some (ct_hub D)"
    and "st_ext s = ((x, p), 0)" and "st_ext s' = ((x', p'), L)"
  shows "surplus (rate x) \<lparr>v_lsd = lsd x + p, v_supply = token_supply C (ws_cw20 (st_token s))\<rparr> \<le>
    surplus (rate x') \<lparr>v_lsd = lsd x' + p', v_supply = token_supply C (ws_cw20 (st_token s'))\<rparr> + int L"
proof -
  let ?X = "rewards_metered D (asset cfg) lsd rate X" and ?E = "rewards_slashed lsd rate E"
    and ?c = "surplus (rate x) \<lparr>v_lsd = lsd x + p, v_supply = token_supply C (ws_cw20 (st_token s))\<rparr>"
  have cfg: "config_under (ct_hub D) (st_token s) = Some cfg" using assms(10,11) by (simp add: config_under_def)
  have start: "surplus_kept ?c (lsd (fst (fst (st_ext s))) + snd (fst (st_ext s)))
      (token_supply C (ws_cw20 (st_token s))) (rate (fst (fst (st_ext s)))) (snd (st_ext s))"
    by (simp add: surplus_kept_def assms(12))
  have called: "\<not> account D X who" if "calls_on ?X a m z = (who, subs)" "subs \<noteq> []" for a m z who subs
    using account_called [OF that, of D] rewards_account by blast
  have E: "spares (\<lambda>r r'. True) (\<lambda>z. lsd (fst (fst z))) (\<lambda>z. rate (fst (fst z))) z z' \<and> snd (fst z') = snd (fst z) \<and>
      snd z' = snd z + (lsd (fst (fst z)) + snd (fst z)) * (rate (fst (fst z)) - rate (fst (fst z')))"
    if "?E z z'" for z z'
    using that assms(8) by (cases z; cases z') (auto simp: rewards_slashed_iff spares_def)
  have "surplus_kept ?c (lsd (fst (fst (st_ext s'))) + snd (fst (st_ext s')))
      (token_supply C (ws_cw20 (st_token s'))) (rate (fst (fst (st_ext s')))) (snd (st_ext s'))"
    by (rule wrapper_env.custody_runs [OF assms(1-3,6,7) reward_named_kept account_acts called assms(3,4)
          _ E assms(9) cfg start])
      (use assms(5) in auto)
  with assms(13) show ?thesis by (simp add: surplus_kept_def)
qed

section \<open>An update of the index, and then slashing\<close>

text \<open>The rate, the LSD of the wrapper, what it has sent to the reward contract, and what has been lost.\<close>

abbreviation sc_rewards :: "(((u128 \<times> u128) \<times> nat) \<times> nat) outside" where
  "sc_rewards \<equiv> rewards_metered sc_contracts (steak_asset sc_lsd) sc_lsd_of sc_rate_of sc_dex_outside"

lemma sc_rewards_deliver:
  "ext_deliver sc_rewards a m ((x, p), L) = rbind (ext_deliver sc_dex_outside a m x) (\<lambda>x'.
     Inr ((x', if a = ''wrapper'' then p + lsd_credit (Token ''lsd'') ''reward'' m else p),
       L + (sc_lsd_of x + p) * (sc_rate_of x - sc_rate_of x')))"
  by (simp add: rewards_metered_def sc_contracts_are steak_asset_def sc_lsd_def rbind_def split: sum.split)

definition sc_full ::
  "((lsd_contracts, ledger) wrapper_storage, reward_storage, ((u128 \<times> u128) \<times> nat) \<times> nat) chain_state" where
  "sc_full = \<lparr>st_hub = sc_hub_storage, st_token = sc_storage 1000, st_reward = st_reward sc_state,
     st_ext = (((600, 2000000000000000000), 0), 0)\<rparr>"

lemma sc_skim:
  "\<exists>r. wrapper_execute fixed18 ledger_cw20 sc_hub (Decompound (Some ''reward'')) (sc_deps (sc_chain 2000000000000000000 600))
      (block_env t ''wrapper'') \<lparr>sender = ''hub'', funds = []\<rparr> (sc_storage 1000) = Inr (sc_storage 1000, r) \<and>
    messages r = [sub_msg_new (Wasm_Execute ''lsd'' (Cw20Exec (Cw20_Transfer ''reward'' 99)) [])]"
  by (simp add: sc_eval wrapper_eval steak_eval fixed18_eval ledger_eval ledger_queries
      block_env_def add_messages_def add_attributes_def response_new_def less_decimal_def)

lemma sc_nothing_to_sell:
  "\<exists>r. reward_execute SwapToRewardDenom (sc_deps (sc_chain rt n)) (block_env t ''reward'')
      \<lparr>sender = ''hub'', funds = []\<rparr> (st_reward sc_state) = Inr (st_reward sc_state, r) \<and> messages r = []"
  by (simp add: sc_state_def sc_chain_def reward_eval block_env_def add_messages_def add_attributes_def response_new_def)

text \<open>The hub's update hands 99 LSD of 600 to the reward contract, which has nothing to sell.\<close>

lemma sc_update_run:
  "\<exists>h. call_hub sc_contracts sc_rewards t 3 ''alice'' UpdateGlobalIndex sc_full =
    Some (Inr (sc_full\<lparr>st_hub := h, st_ext := (((501, 2000000000000000000), 99), 0)\<rparr>)) \<and>
    hub_config_item h = hub_config_item sc_hub_storage"
proof -
  let ?X = sc_rewards and ?dp = "sc_deps (sc_chain 2000000000000000000 600)"
  let ?skim = "Wasm_Execute ''wrapper'' (WrapperExec (Decompound (Some ''reward''))) []"
    and ?pay = "Wasm_Execute ''lsd'' (Cw20Exec (Cw20_Transfer ''reward'' 99)) []"
    and ?swap = "Wasm_Execute ''reward'' (RewardExec SwapToRewardDenom) []"
  obtain r1 where skim: "wrapper_execute fixed18 ledger_cw20 sc_hub (Decompound (Some ''reward'')) ?dp
        (block_env t ''wrapper'') \<lparr>sender = ''hub'', funds = []\<rparr> (sc_storage 1000) = Inr (sc_storage 1000, r1)"
      "messages r1 = [sub_msg_new ?pay]"
    using sc_skim by blast
  obtain r2 where sold: "reward_execute SwapToRewardDenom (sc_deps (sc_chain 2000000000000000000 501))
        (block_env t ''reward'') \<lparr>sender = ''hub'', funds = []\<rparr> (st_reward sc_state) = Inr (st_reward sc_state, r2)"
      "messages r2 = []"
    using sc_nothing_to_sell by blast
  have entry: "reward_entry sc_contracts = reward_execute" by (simp add: sc_contracts_def)
  have own: "\<not> own sc_contracts ''lsd''" by (simp add: own_def sc_contracts_are)
  have view: "ext_view ?X (((n, r), p), L) a = sc_deps (sc_chain (unat r) (unat n))" for n r p L a
    by (simp add: sc_dex_outside_def)
  obtain h r0 where hub: "hub_execute (ct_arith sc_contracts) UpdateGlobalIndex (ext_view ?X (st_ext sc_full) ''hub'')
        (block_env t ''hub'') \<lparr>sender = ''alice'', funds = []\<rparr> (st_hub sc_full) = Inr (h, r0)"
      "messages r0 = [sub_msg_new ?skim, sub_msg_new ?swap]" "hub_config_item h = hub_config_item sc_hub_storage"
    by (simp add: sc_full_def sc_hub_storage_def execute_update_global_def load_hub_config_def load_hub_state_def
        load_def Let_def add_messages_def add_attributes_def response_new_def)
  define s1 where "s1 = sc_full\<lparr>st_hub := h\<rparr>"
  have s1: "st_token s1 = sc_storage 1000" "st_ext s1 = (((600, 2000000000000000000), 0), 0)"
      "st_reward s1 = st_reward sc_state"
    by (simp_all add: s1_def sc_full_def)
  then have same: "s1\<lparr>st_token := sc_storage 1000\<rparr> = s1"
      "s1\<lparr>st_reward := st_reward sc_state, st_ext := x\<rparr> = s1\<lparr>st_ext := x\<rparr>" for x
    by simp_all
  let ?x2 = "(((501, 2000000000000000000), 99), 0) :: ((u128 \<times> u128) \<times> nat) \<times> nat"
  have e1: "enter sc_contracts ?X t ''hub'' ?skim s1 = Inr (s1, ''wrapper'', [sub_msg_new ?pay])"
    using enter_token [of sc_contracts ?X t "''hub''" "Decompound (Some ''reward'')" s1]
    by (simp add: sc_contracts_are s1 view skim same del: rewards_simps wrapper_execute.simps)
  have e2: "enter sc_contracts ?X t ''wrapper'' ?pay s1 = Inr (s1\<lparr>st_ext := ?x2\<rparr>, ''lsd'', [])"
    by (simp add: enter_outgoing own s1 sc_rewards_deliver) (simp add: sc_dex_outside_def)
  have e3: "enter sc_contracts ?X t ''hub'' ?swap (s1\<lparr>st_ext := ?x2\<rparr>) = Inr (s1\<lparr>st_ext := ?x2\<rparr>, ''reward'', [])"
    using enter_reward [of sc_contracts ?X t "''hub''" SwapToRewardDenom "s1\<lparr>st_ext := ?x2\<rparr>"]
    by (simp add: entry sc_contracts_are s1 view sold same del: rewards_simps reward_execute.simps)
  have "run_msgs sc_contracts ?X t 3 ''hub'' [sub_msg_new ?skim, sub_msg_new ?swap] s1 =
      Some (Inr (s1\<lparr>st_ext := ?x2\<rparr>))"
    unfolding numeral_3_eq_3 by (simp del: run_msgs.simps(3) add: run_plain e1 e2 e3)
  then show ?thesis
    using hub by (auto simp: call_hub_def sc_contracts_are s1_def simp del: hub_execute.simps)
qed

text \<open>Then the rate falls by a quarter: of 600 LSD, 99 of them sent on, half a coin each is lost.\<close>

theorem yield_reaches_rewards_witness:
  "\<exists>h. call_hub sc_contracts sc_rewards (Timestamp 5000000000) 3 ''alice'' UpdateGlobalIndex sc_full =
      Some (Inr (sc_full\<lparr>st_hub := h, st_ext := (((501, 2000000000000000000), 99), 0)\<rparr>)) \<and>
    surplus 2000000000000000000 \<lparr>v_lsd = 600, v_supply = 1000\<rparr> = 200 * 1000000000000000000 \<and>
    surplus 2000000000000000000 \<lparr>v_lsd = 600, v_supply = 1000\<rparr> \<le>
      surplus 1500000000000000000 \<lparr>v_lsd = 501 + 99, v_supply = 1000\<rparr> + int (600 * 500000000000000000)"
proof -
  let ?E = "rewards_slashed sc_lsd_of sc_rate_of sc_slash"
  obtain h where run: "call_hub sc_contracts sc_rewards (Timestamp 5000000000) 3 ''alice'' UpdateGlobalIndex sc_full =
      Some (Inr (sc_full\<lparr>st_hub := h, st_ext := (((501, 2000000000000000000), 99), 0)\<rparr>))"
      and h: "hub_config_item h = hub_config_item sc_hub_storage"
    using sc_update_run by blast
  let ?s = "sc_full\<lparr>st_hub := h, st_ext := (((501, 2000000000000000000), 99 :: nat), 0 :: nat)\<rparr>"
  let ?x' = "(((501, 1500000000000000000), 99), 600 * 500000000000000000) :: ((u128 \<times> u128) \<times> nat) \<times> nat"
  let ?s' = "?s\<lparr>st_ext := ?x'\<rparr>"
  have "sc_dex_calls a (Wasm_Execute ''owner'' b fs) = []" for a b fs by (cases b) simp_all
  then have acc: "account sc_contracts sc_dex_outside ''owner''"
    by (simp add: account_def own_def sc_contracts_are sc_dex_outside_def split_beta)
  then have named: "names_reward (ct_reward sc_contracts) (st_hub sc_full) \<and>
      managed_by (account sc_contracts sc_dex_outside) (st_hub sc_full)"
      "names_reward (ct_reward sc_contracts) (st_hub ?s) \<and> managed_by (account sc_contracts sc_dex_outside) (st_hub ?s)"
    by (simp_all add: names_reward_def managed_by_def sc_full_def h sc_hub_storage_def sc_contracts_are)
  have "chain_step sc_contracts sc_rewards ?E ?s ?s'"
    by (rule chain_step.elsewhere) (simp add: rewards_slashed_iff sc_slash_def)
  with chain_step.ask_hub [OF run] named [THEN conjunct1] named [THEN conjunct2]
  have steps: "(\<lambda>s s'. chain_step sc_contracts sc_rewards ?E s s' \<and> names_reward (ct_reward sc_contracts) (st_hub s) \<and>
      managed_by (account sc_contracts sc_dex_outside) (st_hub s))\<^sup>*\<^sup>* sc_full ?s'"
    by (intro converse_rtranclp_into_rtranclp [where b = ?s, OF _ r_into_rtranclp] conjI)
  have honest: "honest_outside sc_contracts sc_dex_outside (query_exchange_rate sc_hub) (steak_asset sc_lsd)
      sc_lsd sc_lsd_of sc_rate_of (\<lambda>r r'. True)"
    by (rule sc_dex_plain_honest) (simp add: reflp_def)
  have valid: "addr_same (ext_view sc_dex_outside x (ct_token sc_contracts))" for x
    by (cases x) (simp add: sc_dex_outside_def sc_addr_same)
  have ends: "st_ext sc_full = (((600, 2000000000000000000), 0), 0)" "st_ext ?s' = ?x'"
    by (simp_all add: sc_full_def)
  have "surplus 2000000000000000000 \<lparr>v_lsd = 600, v_supply = 1000\<rparr> \<le>
      surplus 1500000000000000000 \<lparr>v_lsd = 501 + 99, v_supply = 1000\<rparr> + int (600 * 500000000000000000)"
    using yield_reaches_rewards [OF amp_luna_env sc_contracts_are(4) _ _ _ honest valid sc_slash_spares steps _ _ ends]
    by (simp add: sc_contracts_are sc_full_def sc_storage_def sc_ledger_def ledger_queries)
  with run show ?thesis by (auto simp: surplus_def dec_unit_def)
qed

text \<open>The scenario as a chain of this kind.\<close>

interpretation sc_custody_pot: pot_contract "wrapper_execute fixed18 ledger_cw20 sc_hub" "query_exchange_rate sc_hub"
  steak_asset "config_under ''hub''" "\<lambda>w. token_supply ledger_cw20 (ws_cw20 w)" "surplus_kept c" may
  "\<lambda>cfg. pays_admits ''hub'' ''reward''" "\<lambda>as. lsd_credit as ''reward''" "(+)" for c may
  by (rule wrapper_env.custody_pot [OF amp_luna_env])

end
