(* ===== verification/Limited_Outcome.thy ===== *)
theory Limited_Outcome
  imports Limited_Laws Wrapper_Outcome
begin

text \<open>
  The complete outcome of the limited wrapper's own operations, errors included, in the style of
  \<open>Wrapper_Outcome\<close>: minting and burning at the share of the pot, and the decompound with its
  limit, its accounting and the order in which it fails.
\<close>

section \<open>The share of the pot\<close>

lemma share_rate_0 [simp]: "share_rate 0 s = dec_unit" "share_rate b 0 = dec_unit"
  by (simp_all add: share_rate_def)

lemma fits_dec_unit [simp]: "fits dec_unit"
  by (simp add: fits_def dec_unit_def)

lemma dec_nat_unit [simp]: "dec_nat dec_unit = dec_one"
  by (simp add: dec_nat_def dec_one_def dec_unit_def)

context decimal_arith
begin

lemma from_ratio_eq:
  "from_ratio A n d = (if d \<noteq> 0 \<and> fits (unat n * dec_unit div unat d)
     then Some (dec_nat (unat n * dec_unit div unat d)) else None)"
proof (cases "d = 0")
  case True
  then have "from_ratio A n d \<noteq> Some q" for q by (simp add: from_ratio)
  with True show ?thesis by (cases "from_ratio A n d") auto
next
  case False
  then have "from_ratio A n d = (if fits (unat n * dec_unit div unat d)
      then Some (dec_nat (unat n * dec_unit div unat d)) else None)"
    by (intro decimal_exhausted) (simp add: from_ratio)
  with False show ?thesis by simp
qed

lemma d_times_eq:
  "d_times A x n = (if fits (atoms x * unat n div dec_unit)
     then Some (uint128 (atoms x * unat n div dec_unit)) else None)"
  by (rule u128_exhausted) (rule d_times)

end

text \<open>Burning and minting: as for the wrapper token, at the share instead of the LSD's rate.\<close>

definition share_quotable :: "nat \<Rightarrow> nat \<Rightarrow> bool" where
  "share_quotable r a \<longleftrightarrow> fits r \<and> quotable r a"

context wrapper_env
begin

lemma share_rate_eq:
  assumes "ws_lsd_config st = Some cfg"
    and "lsd_balance (asset cfg) dp (contract_address e) = Inr b"
    and "query_token_info C (ws_cw20 st) = Inr ti"
  shows "get_lsd_wrapper_exchange_rate A C H dp e st =
    (if fits (share_rate (unat b) (unat (ti_total_supply ti)))
     then Inr (dec_nat (share_rate (unat b) (unat (ti_total_supply ti)))) else Inl Panic)"
  using assms
  by (auto simp: get_lsd_wrapper_exchange_rate_def read_lsd_config_def hub.get_balance share_rate_def
      num.from_ratio_eq unat_zero_iff)

lemma limited_before_burn_eq:
  assumes "ws_lsd_config st = Some cfg"
    and "lsd_balance (asset cfg) dp (contract_address e) = Inr b"
    and "query_token_info C (ws_cw20 st) = Inr ti"
  defines "r \<equiv> share_rate (unat b) (unat (ti_total_supply ti))"
  shows "limited_before_burn A C H amount dp e i st =
    (if share_quotable r (unat amount)
     then Inr [lsd_transfer (asset cfg) (sender i) (uint128 (lsd_for r (unat amount)))]
     else Inl Panic)"
  using assms(1) share_rate_eq [OF assms(1-3)]
  by (simp add: limited_before_burn_def read_lsd_config_def num.whole_quotient num.d_times_one_eq
      share_quotable_def quotable_def quotient_whole hub.send_funds r_def)

lemma limited_burn_eq:
  assumes "ws_lsd_config st = Some cfg"
    and "lsd_balance (asset cfg) dp (contract_address e) = Inr b"
    and "query_token_info C (ws_cw20 st) = Inr ti"
  defines "r \<equiv> share_rate (unat b) (unat (ti_total_supply ti))"
  shows "limited_burn A C H amount dp e i st =
    (if share_quotable r (unat amount)
     then rbind (cw20_burn C amount (ws_cw20 st) dp e i) (\<lambda>(t, rsp). Inr (st\<lparr>ws_cw20 := t\<rparr>,
       add_messages [lsd_transfer (asset cfg) (sender i) (uint128 (lsd_for r (unat amount)))] rsp))
     else Inl Panic)"
  unfolding r_def
  by (simp add: limited_burn_def limited_before_burn_eq [OF assms(1-3)] on_cw20_def rbind_assoc
      case_prod_unfold)

lemma limited_mint_eq:
  assumes "ws_lsd_config st = Some cfg"
    and "lsd_balance (asset cfg) dp (contract_address e) = Inr b"
    and "query_token_info C (ws_cw20 st) = Inr ti"
  defines "r \<equiv> share_rate (unat b) (unat (ti_total_supply ti))"
  shows "limited_mint A C H recipient amount dp e i st =
    (if share_quotable r (unat amount) \<and> fits (unat amount * dec_unit * dec_unit div r + dec_unit)
     then rbind (deposit_funds H cfg dp e i (uint128 (lsd_for r (unat amount) + 1)) (sender i))
       (\<lambda>ms. rbind (cw20_mint C recipient amount (ws_cw20 st) dp e (i\<lparr>sender := contract_address e\<rparr>))
         (\<lambda>(t, rsp). Inr (st\<lparr>ws_cw20 := t\<rparr>, add_messages ms rsp)))
     else Inl Panic)"
  using assms(1) share_rate_eq [OF assms(1-3)]
  by (simp add: limited_mint_def read_lsd_config_def num.whole_quotient num.d_times_one_eq
      num.d_add_eq share_quotable_def quotable_def div_add_self2 quotient_whole on_cw20_def rbind_assoc
      case_prod_unfold r_def)

lemma limited_mint_with_eq:
  assumes "ws_lsd_config st = Some cfg"
    and "lsd_balance (asset cfg) dp (contract_address e) = Inr b"
    and "query_token_info C (ws_cw20 st) = Inr ti"
  defines "r \<equiv> share_rate (unat b) (unat (ti_total_supply ti))"
  shows "limited_mint_with A C H recipient lsd dp e i st =
    (if fits r \<and> fits (wrapped_for r (unat lsd))
     then rbind (deposit_funds H cfg dp e i lsd (sender i))
       (\<lambda>ms. rbind (cw20_mint C recipient (uint128 (wrapped_for r (unat lsd)))
           (ws_cw20 st) dp e (i\<lparr>sender := contract_address e\<rparr>))
         (\<lambda>(t, rsp). Inr (st\<lparr>ws_cw20 := t\<rparr>, add_messages ms rsp)))
     else Inl Panic)"
  using assms(1) share_rate_eq [OF assms(1-3)]
  by (simp add: limited_mint_with_def read_lsd_config_def num.d_times_eq num.u_mul_one_eq
      wrapped_for_def on_cw20_def rbind_assoc case_prod_unfold r_def mult.commute)

end

section \<open>Decompounding\<close>

text \<open>The seconds that the allowance counts; \<open>None\<close> when the 64-bit arithmetic panics.\<close>

definition counted_seconds :: "arith \<Rightarrow> decompound_state \<Rightarrow> timestamp \<Rightarrow> nat option" where
  "counted_seconds A ds now =
     (let t = unat (ds_total_seconds ds) + secs A now in
      if t < 2 ^ 64 \<and> secs A (ds_last_decompound ds) \<le> t then Some (t - secs A (ds_last_decompound ds))
      else None)"

text \<open>
  The limit on what may leave: \<open>luna\<close> coins worth of \<open>n\<close> LSD, when the pot holds \<open>b\<close> LSD at the rate
  \<open>r\<close>, \<open>taken\<close> is the ratio already taken and \<open>p\<close> the seconds counted.
\<close>

definition take_limit ::
  "nat option \<Rightarrow> nat \<Rightarrow> nat option \<Rightarrow> nat \<Rightarrow> nat \<Rightarrow> nat \<Rightarrow> nat \<Rightarrow> (nat \<times> nat) res" where
  "take_limit yearly taken p r b luna n =
     (case yearly of
        None \<Rightarrow> Inr (luna, n)
      | Some m \<Rightarrow>
          (case p of
             None \<Rightarrow> Inl Panic
           | Some seconds \<Rightarrow>
               if \<not> fits (allowance m seconds) then Inl Panic
               else if allowance m seconds < taken then generic_err limit_error
               else
                 let x = allowance m seconds - taken in
                 if \<not> fits (x * (b * r) div dec_unit) \<or> \<not> fits (x * b div dec_unit) then Inl Panic
                 else Inr (min luna (x * (b * r) div dec_unit div dec_unit), min n (x * b div dec_unit))))"

definition take_margin :: "nat \<Rightarrow> nat \<Rightarrow> nat \<Rightarrow> (nat \<times> nat) res" where
  "take_margin r luna n =
     (if n = 0 then Inr (luna, 0)
      else if luna < r div dec_unit then Inl Panic
      else Inr (luna - r div dec_unit, n - 1))"

text \<open>How many LSD go, and the ratio that is recorded for them.\<close>

definition limited_taken ::
  "nat option \<Rightarrow> nat \<Rightarrow> nat option \<Rightarrow> nat \<Rightarrow> nat \<Rightarrow> nat \<Rightarrow> nat \<Rightarrow> (nat \<times> nat) res" where
  "limited_taken yearly taken p r b luna n =
     rbind (take_limit yearly taken p r b luna n) (\<lambda>(luna', n').
     rbind (take_margin r luna' n') (\<lambda>(luna'', n'').
       if quotable (b * r) luna'' then Inr (n'', luna'' * dec_unit * dec_unit div (b * r))
       else Inl Panic))"

text \<open>
  What a decompound takes: nothing when the tokens are not covered; else so many LSD and the ratio
  that the accounting records for them.
\<close>

definition limited_amount ::
  "nat option \<Rightarrow> nat \<Rightarrow> nat option \<Rightarrow> nat \<Rightarrow> nat \<Rightarrow> nat \<Rightarrow> (nat \<times> nat) option res" where
  "limited_amount yearly taken p r b s =
     (if \<not> whole_fits b \<or> \<not> fits (b * r) then Inl Panic
      else if s \<noteq> 0 \<and> b * r div s < dec_unit then Inr None
      else if \<not> quotable r s then Inl Panic
      else
        rbind (limited_taken yearly taken p r b (wrapped_for r b - s) (lsd_excess r b s))
          (\<lambda>y. Inr (Some y)))"

text \<open>The entry that a decompound leaves in the accounting, and when it is refused.\<close>

definition recorded ::
  "arith \<Rightarrow> timestamp \<Rightarrow> decompound_state \<Rightarrow> nat \<Rightarrow> decompound_state res" where
  "recorded A now ds decrease =
     (if now \<le> ds_last_decompound ds then generic_err ''Can't decompound too often''
      else if \<not> fits (atoms (ds_ratio_sum ds) + decrease) then Inl Panic
      else case counted_seconds A ds now of
        None \<Rightarrow> Inl Panic
      | Some p \<Rightarrow> Inr \<lparr>ds_ratio_sum = dec_nat (atoms (ds_ratio_sum ds) + decrease),
                       ds_total_seconds = word_of_nat p, ds_last_decompound = now\<rparr>)"

lemma fits_min [simp]: "fits n \<Longrightarrow> fits (min m n)" "fits m \<Longrightarrow> fits (min m n)"
  by (auto intro: fits_le)

lemma uint128_min: "fits m \<Longrightarrow> fits n \<Longrightarrow> min (uint128 m) (uint128 n) = uint128 (min m n)"
  by (simp add: word_unat_eq_iff unat_min_u128)

lemma allowance_step_fits: "fits (unat (n :: u64) * dec_unit div year_seconds)"
proof -
  have "unat n < 2 ^ 64" using unat_less_2p [of n] by simp
  then have "unat n * dec_unit < 2 ^ 64 * dec_unit" by (simp add: dec_unit_def)
  also have "\<dots> < 2 ^ 128" by (simp add: dec_unit_def)
  finally show ?thesis by (intro fits_div) (simp add: fits_def)
qed

context decimal_arith
begin

lemma d_checked_sub_eq:
  "d_checked_sub A x y = (if atoms y \<le> atoms x then Some (dec_nat (atoms x - atoms y)) else None)"
proof (cases "atoms y \<le> atoms x")
  case True
  moreover have "fits (atoms x - atoms y)" by (rule fits_le [OF fits_atoms [of x]]) simp
  ultimately show ?thesis by (simp add: d_checked_sub)
next
  case False
  then have "d_checked_sub A x y \<noteq> Some c" for c by (simp add: d_checked_sub)
  with False show ?thesis by (cases "d_checked_sub A x y") auto
qed

end

context wrapper_env
begin

lemma allowance_after_eq:
  "allowance_after A m n =
    (if fits (allowance (atoms m) (unat n)) then Inr (dec_nat (allowance (atoms m) (unat n))) else Inl Panic)"
proof -
  have u: "unat (ucast n :: u128) = unat n" "unat (ucast seconds_per_year :: u128) = year_seconds"
    by (simp_all add: seconds_per_year_def year_seconds_def)
  show ?thesis
    using allowance_step_fits [of n]
    by (simp add: allowance_after_def num.from_ratio_eq num.d_mul_eq u allowance_def seconds_per_year_def
        year_seconds_def)
qed

lemma seconds_until_eq:
  "seconds_until A ds now =
    (case counted_seconds A ds now of None \<Rightarrow> Inl Panic | Some p \<Rightarrow> Inr (word_of_nat p))"
proof (cases "u64_add (ds_total_seconds ds) (ts_seconds A now)")
  case None
  then have "\<not> unat (ds_total_seconds ds) + unat (ts_seconds A now) < 2 ^ 64"
    by (auto simp: u64_add_def u64_of_def split: if_splits)
  with None show ?thesis by (simp add: seconds_until_def counted_seconds_def secs_def Let_def)
next
  case (Some w)
  then have w: "unat w = unat (ds_total_seconds ds) + unat (ts_seconds A now)"
    by (simp add: num_laws)
  moreover have "unat w < 2 ^ 64" using unat_less_2p [of w] by simp
  moreover have "w - l = word_of_nat (unat w - unat l)" if "unat l \<le> unat w" for l
    using that u64_sub_eq_Some [of w l "w - l"] unat_of_nat_bounded [of "unat w - unat l", where 'a = 64]
      unat_less_2p [of w] by (simp add: word_unat_eq_iff u64_sub_def)
  ultimately show ?thesis
    using Some by (auto simp: seconds_until_def counted_seconds_def secs_def Let_def u64_sub_def)
qed

text \<open>The counted seconds are a 64-bit number.\<close>

lemma counted_seconds_word: "counted_seconds A ds now = Some p \<Longrightarrow> unat (word_of_nat p :: u64) = p"
  by (rule unat_of_nat_bounded) (auto simp: counted_seconds_def Let_def split: if_splits)

lemma limit_rewards_eq:
  assumes "lm_decompound_config st = Some \<lparr>dc_max_decompound_ratio = yearly\<rparr>"
    and "lm_decompound_state st = Some ds" and "fits luna" and "fits n" and "fits (unat b * atoms q)"
  shows "limit_rewards A e st (pot_state q b s) (uint128 luna) (uint128 n) =
    rbind (take_limit (map_option atoms yearly) (atoms (ds_ratio_sum ds)) (counted_seconds A ds (block_time e))
        (atoms q) (unat b) luna n)
      (\<lambda>(l, n'). Inr (uint128 l, uint128 n'))"
proof (cases yearly)
  case None
  with assms show ?thesis by (simp add: limit_rewards_def load_decompound_config_def load_def take_limit_def)
next
  case (Some m)
  show ?thesis
  proof (cases "counted_seconds A ds (block_time e)")
    case None
    with Some assms show ?thesis
      by (simp add: limit_rewards_def load_decompound_config_def load_decompound_state_def load_def
          take_limit_def seconds_until_eq)
  next
    case p: (Some p)
    have div: "fits (x * (unat b * atoms q) div dec_unit) \<Longrightarrow>
        fits (x * (unat b * atoms q) div dec_unit div dec_unit)" for x
      by (rule fits_div)
    have le: "fits (allowance (atoms m) p) \<Longrightarrow> fits (allowance (atoms m) p - k)" for k
      by (erule fits_le) simp
    show ?thesis
      using Some p assms
      by (auto simp: limit_rewards_def load_decompound_config_def load_decompound_state_def load_def
          take_limit_def seconds_until_eq allowance_after_eq counted_seconds_word [OF p] Let_def
          num.d_checked_sub_eq num.d_mul_eq num.d_times_one_eq num.d_times_eq le uint128_min div)
  qed
qed

lemma take_limit_fits:
  assumes "take_limit yearly taken p r b luna n = Inr (l, n')" and "fits luna" and "fits n"
  shows "fits l" and "fits n'"
  using assms by (auto simp: take_limit_def Let_def split: option.splits if_splits)

lemma take_margin_fits:
  assumes "take_margin r luna n = Inr (l, n')" and "fits luna" and "fits n"
  shows "fits l" and "fits n'"
  using assms fits_le [of luna "luna - r div dec_unit"] fits_le [of n "n - 1"]
  by (auto simp: take_margin_def split: if_splits)

lemma take_margin_eq:
  assumes "fits luna" and "fits n"
  shows "subtract_margin A q (uint128 luna) (uint128 n) =
    rbind (take_margin (atoms q) luna n) (\<lambda>(l, n'). Inr (uint128 l, uint128 n'))"
  using margin_eq [OF assms, of q] by (auto simp: take_margin_def)

text \<open>What remains to be computed once the tokens are known to be covered.\<close>

lemma limited_taken_eq:
  assumes "lm_decompound_config st = Some \<lparr>dc_max_decompound_ratio = yearly\<rparr>"
    and "lm_decompound_state st = Some ds" and "fits luna" and "fits n" and "fits (unat b * atoms q)"
  shows "rbind (limit_rewards A e st (pot_state q b s) (uint128 luna) (uint128 n)) (\<lambda>(luna', to_decompound').
      rbind (subtract_margin A q luna' to_decompound') (\<lambda>(l, d).
      rbind (or_panic (from_ratio A l 1)) (\<lambda>dec_l.
      rbind (or_panic (d_div A dec_l (dec_nat (unat b * atoms q)))) (\<lambda>rate_decrease.
      rbind (or_panic (u_mul A d 1)) (\<lambda>d1. Inr (unat d1, atoms rate_decrease)))))) =
    limited_taken (map_option atoms yearly) (atoms (ds_ratio_sum ds)) (counted_seconds A ds (block_time e))
      (atoms q) (unat b) luna n"
proof (cases "take_limit (map_option atoms yearly) (atoms (ds_ratio_sum ds))
    (counted_seconds A ds (block_time e)) (atoms q) (unat b) luna n")
  case (Inl f)
  then show ?thesis by (simp add: limit_rewards_eq [OF assms] limited_taken_def)
next
  case (Inr y)
  obtain l n' where lim: "take_limit (map_option atoms yearly) (atoms (ds_ratio_sum ds))
      (counted_seconds A ds (block_time e)) (atoms q) (unat b) luna n = Inr (l, n')"
    using Inr by (cases y) simp
  note f = take_limit_fits [OF lim assms(3,4)]
  show ?thesis
  proof (cases "take_margin (atoms q) l n'")
    case (Inl f')
    with f lim show ?thesis by (simp add: limit_rewards_eq [OF assms] limited_taken_def take_margin_eq)
  next
    case (Inr z)
    obtain l' n'' where m: "take_margin (atoms q) l n' = Inr (l', n'')" using Inr by (cases z) simp
    note f' = take_margin_fits [OF m f]
    show ?thesis
      using f f' lim m assms(5)
      by (auto simp: limit_rewards_eq [OF assms] limited_taken_def take_margin_eq num.whole_quotient num.u_mul_one_eq
          quotable_def)
  qed
qed

lemma limited_compute_eq:
  assumes "ws_lsd_config st = Some cfg" and "query_exchange_rate H cfg dp e = Inr q"
    and "lsd_balance (asset cfg) dp (contract_address e) = Inr b"
    and "query_token_info C (ws_cw20 st) = Inr ti"
    and "lm_decompound_config st = Some \<lparr>dc_max_decompound_ratio = yearly\<rparr>"
    and "lm_decompound_state st = Some ds"
  shows "rbind (limited_compute_accrued_rewards A C H dp e st)
      (\<lambda>rw. Inr (unat (al_lsd_rewards rw), atoms (al_rate_decrease rw))) =
    rbind (limited_amount (map_option atoms yearly) (atoms (ds_ratio_sum ds))
        (counted_seconds A ds (block_time e)) (atoms q) (unat b) (unat (ti_total_supply ti)))
      (\<lambda>x. case x of None \<Rightarrow> generic_err no_rewards | Some y \<Rightarrow> Inr y)"
proof -
  define s where "s = unat (ti_total_supply ti)"
  note rate = current_rate_eq [OF assms(1-4)] and low = current_rate_low [of b q "ti_total_supply ti"]
  show ?thesis
  proof (cases "whole_fits (unat b) \<and> fits (unat b * atoms q)")
    case False
    with rate show ?thesis by (auto simp: limited_compute_accrued_rewards_def limited_amount_def)
  next
    case fit: True
    show ?thesis
    proof (cases "s \<noteq> 0 \<and> unat b * atoms q div s < dec_unit")
      case True
      with fit rate low show ?thesis
        by (simp add: limited_compute_accrued_rewards_def limited_amount_def s_def)
    next
      case False
      then have covered: "unat (ti_total_supply ti) * dec_unit \<le> unat b * atoms q"
        using covered_iff [of s "unat b * atoms q"] by (simp only: s_def simp_thms)
      have above: "\<not> current_rate q b (ti_total_supply ti) < dec_one"
        using low fit False by (simp only: s_def simp_thms)
      have "fits (wrapped_for (atoms q) (unat b))" using fit fits_div by (simp add: wrapped_for_def)
      then have f: "fits (wrapped_for (atoms q) (unat b) - s)" "fits (lsd_excess (atoms q) (unat b) s)"
        by (auto intro: fits_le [OF _ diff_le_self] fits_le [OF fits_unat lsd_excess_le])
      show ?thesis
      proof (cases "quotable (atoms q) s")
        case quot: True
        have bo: "fits (unat b * atoms q)" using fit by simp
        have "rbind (limited_compute_accrued_rewards A C H dp e st)
            (\<lambda>rw. Inr (unat (al_lsd_rewards rw), atoms (al_rate_decrease rw))) =
          rbind (limit_rewards A e st (pot_state q b (ti_total_supply ti))
              (uint128 (wrapped_for (atoms q) (unat b) - s)) (uint128 (lsd_excess (atoms q) (unat b) s)))
            (\<lambda>(luna', to_decompound').
          rbind (subtract_margin A q luna' to_decompound') (\<lambda>(l, d).
          rbind (or_panic (from_ratio A l 1)) (\<lambda>dec_l.
          rbind (or_panic (d_div A dec_l (dec_nat (unat b * atoms q)))) (\<lambda>rate_decrease.
          rbind (or_panic (u_mul A d 1)) (\<lambda>d1. Inr (unat d1, atoms rate_decrease))))))"
          using fit rate above available_eq [OF covered] quot
          by (simp add: limited_compute_accrued_rewards_def s_def rbind_assoc case_prod_unfold)
        also note limited_taken_eq [OF assms(5,6) f bo]
        finally show ?thesis
          using fit False quot by (auto simp: limited_amount_def s_def rbind_assoc rbind_return)
      qed (use False fit rate above available_eq [OF covered] in
        \<open>auto simp: limited_compute_accrued_rewards_def limited_amount_def s_def\<close>)
    qed
  qed
qed

lemma limited_amount_fails:
  "limited_amount yearly taken p r b s \<noteq> generic_err no_rewards"
  by (auto simp: limited_amount_def limited_taken_def take_limit_def take_margin_def limit_error_def
      no_rewards_def rbind_eq_Inl Let_def split: option.splits if_splits)

lemma next_state_eq:
  "next_decompound_state A e rw ds = recorded A (block_time e) ds (atoms (al_rate_decrease rw))"
  by (simp add: next_decompound_state_def recorded_def num.d_add_eq seconds_until_eq split: option.split)

lemma limited_decompound_eq:
  assumes "ws_lsd_config st = Some cfg" and "query_exchange_rate H cfg dp e = Inr q"
    and "lsd_balance (asset cfg) dp (contract_address e) = Inr b"
    and "query_token_info C (ws_cw20 st) = Inr ti"
    and "lm_decompound_config st = Some \<lparr>dc_max_decompound_ratio = yearly\<rparr>"
    and "lm_decompound_state st = Some ds" and "ws_hub_contract st = Some (sender i)"
    and "opt_traverse (\<lambda>x. std_res (addr_validate dp x)) recipient = Inr to"
  shows "outcome (limited_decompound A C H recipient dp e i st) =
    rbind (limited_amount (map_option atoms yearly) (atoms (ds_ratio_sum ds))
        (counted_seconds A ds (block_time e)) (atoms q) (unat b) (unat (ti_total_supply ti)))
      (\<lambda>x. case x of
         None \<Rightarrow> Inr (st, [])
       | Some (n, decrease) \<Rightarrow>
           rbind (recorded A (block_time e) ds decrease) (\<lambda>ds'.
             Inr (st\<lparr>lm_decompound_state := Some ds'\<rparr>, if n = 0 then [] else
               [lsd_transfer (asset cfg) (case to of None \<Rightarrow> sender i | Some a \<Rightarrow> a) (uint128 n)])))"
    (is "?out = rbind ?amount ?f")
proof -
  let ?to = "case to of None \<Rightarrow> sender i | Some a \<Rightarrow> a"
  note c = limited_compute_eq [OF assms(1-6)]
  have out: "?out = rbind (limited_decompound_messages A C H cfg ?to dp e st) (\<lambda>(st', ms, rw). Inr (st', ms))"
    using assms(1,7,8)
    by (simp add: limited_decompound_def read_hub_contract_def read_lsd_config_def Let_def outcome_def
        rbind_assoc case_prod_unfold decompound_response_def load_def)
  show ?thesis
  proof (cases "limited_compute_accrued_rewards A C H dp e st")
    case (Inl f)
    show ?thesis
    proof (cases "f = Err (Std (GenericErr no_rewards))")
      case True
      with c Inl have "?amount = Inr None"
        using limited_amount_fails by (auto simp: rbind_def split: sum.splits option.splits)
      with True Inl show ?thesis by (simp add: out limited_decompound_messages_def)
    next
      case False
      with c Inl have "?amount = Inl f" by (auto simp: rbind_def split: sum.splits option.splits)
      with False Inl show ?thesis
        by (auto simp: out limited_decompound_messages_def split: failure.split)
    qed
  next
    case (Inr rw)
    with c have "?amount = Inr (Some (unat (al_lsd_rewards rw), atoms (al_rate_decrease rw)))"
      by (auto simp: rbind_def split: sum.splits option.splits)
    with Inr assms(6) show ?thesis
      by (auto simp: out limited_decompound_messages_def load_decompound_state_def load_def next_state_eq
          hub.send_funds rbind_assoc unat_zero_iff uint128_def Let_def)
  qed
qed

end

end
