(* ===== verification/Limited_Env_Props.thy ===== *)
theory Limited_Env_Props
  imports Limited_Props Limited_Vault Limited_Outcome
begin

text \<open>
  The limited wrapper in its environment and against the wrapper without a limit: the bound up to which
  every burn can be paid, the complete outcome of a decompound, and the agreement of the two wrappers
  when no limit is set.
\<close>

lemma share_bound:
  fixes b l s :: nat
  assumes "l * (s - b) \<le> b * s" and "b * (b + 1) < s"
  shows "l \<le> b"
proof (rule ccontr)
  assume "\<not> l \<le> b"
  then have "(b + 1) * (s - b) \<le> l * (s - b)" by (intro mult_le_mono1) simp
  also have "\<dots> \<le> b * s" by (rule assms(1))
  finally have "(b + 1) * s \<le> b * s + b * (b + 1)"
    by (simp only: diff_mult_distrib2) (simp add: ac_simps)
  then have "s \<le> b * (b + 1)" by (simp add: add_mult_distrib)
  with assms(2) show False by simp
qed

text \<open>
  C24. How far every burn of the limited wrapper can be paid. The quoted units per LSD are rounded down,
  in favour of whoever burns; yet with \<open>b\<close> LSD in the pot, \<open>b\<close> positive, no burn of any amount asks for
  more LSD than the pot holds as long as b (b + 1) is below the supply times 10^18: when there is
  about one LSD per unit, up to 10^18 of them.
\<close>

theorem limited_burn_payable:
  assumes "wrapper_env A C H asset"
    and "limited_execute A C H (Burn amount) dp e i st = Inr (st', r)"
    and "ws_lsd_config st = Some cfg" and "lsd_balance (asset cfg) dp (contract_address e) = Inr b"
    and "b \<noteq> 0" and "unat b * (unat b + 1) < token_supply C (ws_cw20 st) * dec_unit"
  shows "\<exists>l. msgs r = [lsd_transfer (asset cfg) (sender i) l] \<and> unat l \<le> unat b"
proof -
  let ?s = "token_supply C (ws_cw20 st)"
  from assms(2) have "limited_burn A C H amount dp e i st = Inr (st', r)" by simp
  then obtain l t where l: "unat l = lsd_for (share_rate (unat b) ?s) (unat amount)"
      and ms: "msgs r = [lsd_transfer (asset cfg) (sender i) l]"
      and s: "?s = token_supply C t + unat amount"
    by (rule wrapper_env.limited_burn_ok [OF assms(1)]) (use assms(3,4) in auto)
  have "?s \<noteq> 0" using assms(6) by (intro notI) simp
  moreover have "unat b \<noteq> 0" using assms(5) by (simp add: unat_eq_0)
  ultimately have *: "?s \<noteq> 0" "unat b \<noteq> 0" by simp_all
  from leave_share [OF l *(2,1)] have "unat l * (?s * dec_unit - unat b) \<le> unat amount * unat b * dec_unit" .
  also have "\<dots> \<le> ?s * unat b * dec_unit" using s by (intro mult_le_mono1) simp
  finally have paid: "unat l * (?s * dec_unit - unat b) \<le> unat b * (?s * dec_unit)" by (simp only: ac_simps)
  have "unat l \<le> unat b" by (rule share_bound [OF paid assms(6)])
  with ms show ?thesis by blast
qed

theorem limited_burn_payable_witness:
  "\<exists>st' r l. limited_execute fixed18 ledger_cw20 amph_hub (Burn 1000) (sc_dp (2 * 10 ^ 18) 600)
      (sc_env 5) (sc_info ''alice'') (sc_limited None 1000) = Inr (st', r) \<and>
    msgs r = [lsd_transfer (Token ''lsd'') ''alice'' l] \<and> unat l \<le> 600"
proof -
  obtain st' r where ex: "limited_execute fixed18 ledger_cw20 amph_hub (Burn 1000)
      (sc_dp (2 * 10 ^ 18) 600) (sc_env 5) (sc_info ''alice'') (sc_limited None 1000) = Inr (st', r)"
    by (simp add: limited_run_eval)
  have cfg: "ws_lsd_config (sc_limited None 1000) = Some sc_amp" by (simp add: sc_limited_def)
  have b: "lsd_balance (amp_asset sc_amp) (sc_dp (2 * 10 ^ 18) 600) (contract_address (sc_env 5)) = Inr 600"
    by (simp add: sc_eval amp_asset_def wrapper_eval)
  have "unat (600 :: u128) * (unat (600 :: u128) + 1)
      < token_supply ledger_cw20 (ws_cw20 (sc_limited None 1000)) * dec_unit"
    by (simp add: sc_eval ledger_queries dec_unit_def)
  from limited_burn_payable [OF amp_lp_env ex cfg b _ this] ex show ?thesis
    by (auto simp: amp_asset_def sc_amp_def sc_info_def)
qed

text \<open>
  C15. The outcome of a limited decompound asked for by the hub, on every branch. \<open>limited_amount\<close>
  says what leaves and which ratio is booked for it: nothing when the pot does not cover the units;
  else the excess cut down to what is left of the allowance, less the margin. Then the accounting
  refuses a second decompound in the same block (error, nothing is sent) or gets its new entry, and
  one transfer goes to the recipient (none for the amount 0). Every overflow is a panic.
\<close>

theorem limited_decompound_outcome:
  assumes "wrapper_env A C H asset"
    and "ws_lsd_config st = Some cfg" and "query_exchange_rate H cfg dp e = Inr q"
    and "lsd_balance (asset cfg) dp (contract_address e) = Inr b"
    and "query_token_info C (ws_cw20 st) = Inr ti"
    and "lm_decompound_config st = Some \<lparr>dc_max_decompound_ratio = yearly\<rparr>"
    and "lm_decompound_state st = Some ds" and "ws_hub_contract st = Some (sender i)"
    and "opt_traverse (\<lambda>x. std_res (addr_validate dp x)) recipient = Inr to"
  shows "outcome (limited_execute A C H (Decompound recipient) dp e i st) =
    rbind (limited_amount (map_option atoms yearly) (atoms (ds_ratio_sum ds))
        (counted_seconds A ds (block_time e)) (atoms q) (unat b) (unat (ti_total_supply ti)))
      (\<lambda>x. case x of
         None \<Rightarrow> Inr (st, [])
       | Some (n, decrease) \<Rightarrow>
           rbind (recorded A (block_time e) ds decrease) (\<lambda>ds'.
             Inr (st\<lparr>lm_decompound_state := Some ds'\<rparr>, if n = 0 then [] else
               [lsd_transfer (asset cfg) (case to of None \<Rightarrow> sender i | Some a \<Rightarrow> a) (uint128 n)])))"
  using wrapper_env.limited_decompound_eq [OF assms] by simp

lemma sc_limited_reads:
  "ws_lsd_config (sc_limited m n) = Some sc_amp"
  "query_exchange_rate amph_hub sc_amp (sc_dp (2 * 10 ^ 18) k) (sc_env t) = Inr (Decimal (2 * 10 ^ 18))"
  "lsd_balance (amp_asset sc_amp) (sc_dp (2 * 10 ^ 18) 600) (contract_address (sc_env t)) = Inr 600"
  "lm_decompound_config (sc_limited m n) = Some \<lparr>dc_max_decompound_ratio = m\<rparr>"
  "lm_decompound_state (sc_limited m n) = Some \<lparr>ds_ratio_sum = dec_zero, ds_total_seconds = 0,
     ds_last_decompound = Timestamp 0\<rparr>"
  "ws_hub_contract (sc_limited m n) = Some (sender (sc_info ''hub''))"
  by (simp_all add: sc_limited_def sc_eval amp_eval amp_asset_def wrapper_eval)

lemma sc_limited_supply:
  obtains ti where "query_token_info ledger_cw20 (ws_cw20 (sc_limited m 1000)) = Inr ti"
    "ti_total_supply ti = 1000"
  by (simp add: sc_eval ledger_eval)

lemma sc_recipient:
  "opt_traverse (\<lambda>x. std_res (addr_validate (sc_dp r n) x)) (Some ''reward'') = Inr (Some ''reward'')"
  by (simp add: sc_eval)

text \<open>Half a year at a tenth per year: thirty of the hundred LSD of excess may go, less the margin.\<close>

theorem limited_decompound_outcome_witness:
  "\<exists>st. outcome (limited_execute fixed18 ledger_cw20 amph_hub (Decompound (Some ''reward''))
      (sc_dp (2 * 10 ^ 18) 600) (sc_env 15768000) (sc_info ''hub'') (sc_limited (Some (Decimal (10 ^ 17))) 1000)) =
    Inr (st, [Wasm_Execute ''lsd'' (Cw20Exec (Cw20_Transfer ''reward'' 29)) []])"
proof -
  obtain ti where ti: "query_token_info ledger_cw20 (ws_cw20 (sc_limited (Some (Decimal (10 ^ 17))) 1000)) = Inr ti"
      "ti_total_supply ti = 1000"
    by (rule sc_limited_supply)
  have p: "counted_seconds fixed18 \<lparr>ds_ratio_sum = dec_zero, ds_total_seconds = 0,
      ds_last_decompound = Timestamp 0\<rparr> (block_time (sc_env 15768000)) = Some 15768000"
    by (simp add: counted_seconds_def secs_def fixed18_def sc_env_def)
  have new: "recorded fixed18 (block_time (sc_env 15768000)) \<lparr>ds_ratio_sum = dec_zero, ds_total_seconds = 0,
      ds_last_decompound = Timestamp 0\<rparr> 48333333333333333 = Inr \<lparr>ds_ratio_sum = Decimal 48333333333333333,
      ds_total_seconds = 15768000, ds_last_decompound = block_time (sc_env 15768000)\<rparr>"
    unfolding recorded_def p
    by (simp add: number_eval dec_nat_def atoms_def dec_zero_def sc_env_def less_eq_timestamp_def)
  have atoms: "atoms dec_zero = 0" "map_option atoms (Some (Decimal (10 ^ 17))) = Some (10 ^ 17)"
      "atoms (Decimal (2 * 10 ^ 18)) = 2 * 10 ^ 18"
    by (simp_all add: atoms_def dec_zero_def)
  have amount: "limited_amount (Some (10 ^ 17)) 0 (Some 15768000) (2 * 10 ^ 18) 600 1000
      = Inr (Some (29, 48333333333333333))"
    by (simp add: limited_amount_def limited_taken_def take_limit_def take_margin_def number_eval
        allowance_def year_seconds_def Let_def)
  show ?thesis
    unfolding limited_decompound_outcome [OF amp_lp_env sc_limited_reads(1-3) ti(1) sc_limited_reads(4-6)
      sc_recipient]
    by (simp add: ti(2) p new amount [simplified] atoms [simplified] uint128_def amp_asset_def sc_amp_def)
qed

text \<open>
  The accounting of a reachable limited wrapper does not block it: the seconds since the instantiation
  can be counted in 64 bits, and what was taken is within the allowance for them.
\<close>

lemma allowance_mono: "n \<le> n' \<Longrightarrow> allowance m n \<le> allowance m n'"
  unfolding allowance_def by (intro div_le_mono mult_le_mono) simp_all

lemma limited_amount_error:
  assumes "limited_amount yearly taken (Some p) r b s = Inl f" and "f \<noteq> Panic"
  obtains m where "yearly = Some m" "allowance m p < taken"
  using assms
  by (auto simp: limited_amount_def limited_taken_def take_limit_def take_margin_def rbind_eq_Inl Let_def
      split: option.splits if_splits)

context wrapper_env
begin

lemma secs_mono: "t \<le> t' \<Longrightarrow> secs A t \<le> secs A t'"
  unfolding secs_def num.ts_seconds
  by (intro div_le_mono) (simp add: less_eq_timestamp_def word_le_nat_alt)

lemma secs_small: "secs A t + secs A t' < 2 ^ 64"
proof -
  have "secs A t < 2 ^ 35" for t
    unfolding secs_def num.ts_seconds using unat_less_2p [of "nanos t"]
    by (simp add: less_mult_imp_div_less)
  from add_strict_mono [OF this [of t] this [of t']] show ?thesis by simp
qed

lemma accounted_allows:
  assumes "accounted A m t0 st" and "lm_decompound_state st = Some ds" and "ds_last_decompound ds \<le> now"
  shows "counted_seconds A ds now = Some (secs A now - secs A t0)"
    and "atoms (ds_ratio_sum ds) \<le> allowance (atoms m) (secs A now - secs A t0)"
proof -
  from assms(1,2) have clock: "unat (ds_total_seconds ds) + secs A t0 = secs A (ds_last_decompound ds)"
      and taken: "atoms (ds_ratio_sum ds) \<le> allowance (atoms m) (unat (ds_total_seconds ds))"
    by (auto simp: accounted_def)
  have last: "secs A (ds_last_decompound ds) \<le> secs A now" by (rule secs_mono [OF assms(3)])
  then have "unat (ds_total_seconds ds) + secs A now < 2 ^ 64"
    using clock secs_small [of "ds_last_decompound ds" now] by simp
  with clock last show "counted_seconds A ds now = Some (secs A now - secs A t0)"
    by (simp add: counted_seconds_def Let_def)
  have "unat (ds_total_seconds ds) \<le> secs A now - secs A t0" using clock last by simp
  from allowance_mono [OF this, of "atoms m"] taken
  show "atoms (ds_ratio_sum ds) \<le> allowance (atoms m) (secs A now - secs A t0)" by simp
qed

lemma accounted_since:
  assumes "accounted A m t0 st" and "lm_decompound_state st = Some ds" and "ds_last_decompound ds \<le> now"
  shows "secs A t0 \<le> secs A now"
  using assms secs_mono [OF assms(3)] by (auto simp: accounted_def)

end

text \<open>
  C10. The yearly limit never locks a limited wrapper. In every state that an instantiated wrapper
  reaches, and at any time not before its last decompound, the 64-bit count of seconds succeeds and is the
  number of seconds since the instantiation; what was taken is within the allowance for them; so the
  error of the accounting (a negative rest of the allowance) cannot occur, and when the rate, the
  balance, the supply and the recipient can be read, the only error that a decompound by the hub returns
  is the one for a second decompound in the same block. (A panic remains possible for amounts that leave
  128 bits.)
\<close>

theorem limit_never_locks:
  assumes "wrapper_env A C H asset"
    and "limited_instantiate C H m dp0 e0 i0 st0 = Inr (st1, r)" and "tm_max_decompound_ratio m = Some ratio"
    and "(limited_step A C H)\<^sup>*\<^sup>* st1 st"
    and "ws_lsd_config st = Some cfg" and "query_exchange_rate H cfg dp e = Inr q"
    and "lsd_balance (asset cfg) dp (contract_address e) = Inr b"
    and "query_token_info C (ws_cw20 st) = Inr ti" and "ws_hub_contract st = Some (sender i)"
    and "opt_traverse (\<lambda>x. std_res (addr_validate dp x)) recipient = Inr to"
    and "lm_decompound_state st = Some ds" and "ds_last_decompound ds \<le> block_time e"
  shows "\<exists>p. seconds_until A ds (block_time e) = Inr p \<and>
    unat p + secs A (block_time e0) = secs A (block_time e) \<and>
    atoms (ds_ratio_sum ds) \<le> allowance (atoms ratio) (unat p) \<and>
    (\<forall>err. outcome (limited_execute A C H (Decompound recipient) dp e i st) = Inl (Err err) \<longrightarrow>
      err = Std (GenericErr ''Can't decompound too often'') \<and> block_time e = ds_last_decompound ds)"
proof -
  have inv: "accounted A ratio (block_time e0) st"
    by (rule wrapper_env.run_accounted [OF assms(1,4) wrapper_env.instantiate_accounted [OF assms(1-3)]])
  then have config: "lm_decompound_config st = Some \<lparr>dc_max_decompound_ratio = Some ratio\<rparr>"
    by (simp add: accounted_def)
  note allows = wrapper_env.accounted_allows [OF assms(1) inv assms(11,12)]
  let ?n = "secs A (block_time e) - secs A (block_time e0)" and ?p = "word_of_nat (secs A (block_time e) - secs A (block_time e0)) :: u64"
  have p: "unat ?p = ?n" by (rule wrapper_env.counted_seconds_word [OF assms(1) allows(1)])
  have counted: "seconds_until A ds (block_time e) = Inr ?p"
    by (simp add: wrapper_env.seconds_until_eq [OF assms(1)] allows(1))
  have since: "secs A (block_time e0) \<le> secs A (block_time e)"
    by (rule wrapper_env.accounted_since [OF assms(1) inv assms(11,12)])
  let ?amount = "limited_amount (Some (atoms ratio)) (atoms (ds_ratio_sum ds))
    (counted_seconds A ds (block_time e)) (atoms q) (unat b) (unat (ti_total_supply ti))"
  note out = wrapper_env.limited_decompound_eq [OF assms(1,5-8) config assms(11,9,10)]
  have only: "err = Std (GenericErr ''Can't decompound too often'') \<and> block_time e = ds_last_decompound ds"
    if err: "outcome (limited_execute A C H (Decompound recipient) dp e i st) = Inl (Err err)" for err
  proof -
    have "?amount \<noteq> Inl (Err err)"
      unfolding allows(1) using allows(2) by (auto elim!: limited_amount_error)
    with out err obtain decrease where "recorded A (block_time e) ds decrease = Inl (Err err)"
      by (auto simp: rbind_eq_Inl split: option.splits)
    then show ?thesis
      using assms(12) by (auto simp: recorded_def split: if_splits option.splits)
  qed
  show ?thesis using counted p since allows(2) only by (intro exI [of _ ?p]) simp
qed

lemma sc_limited_twice:
  obtains st r st' r' ti where
    "limited_instantiate ledger_cw20 amph_hub sc_limited_init (sc_dp (2 * 10 ^ 18) 600) (sc_env 10)
       (sc_info ''owner'') sc_limited_blank = Inr (st, r)"
    "limited_execute fixed18 ledger_cw20 amph_hub (Decompound None) (sc_dp (2 * 10 ^ 18) 600)
       (sc_env 31536010) (sc_info ''hub'') st = Inr (st', r')"
    "lm_decompound_state st' = Some \<lparr>ds_ratio_sum = Decimal 98333333333333333,
       ds_total_seconds = 31536000, ds_last_decompound = block_time (sc_env 31536010)\<rparr>"
    "ws_lsd_config st' = Some sc_amp" "ws_hub_contract st' = Some ''hub''"
    "query_token_info ledger_cw20 (ws_cw20 st') = Inr ti" "ti_total_supply ti = 1000"
    "outcome (limited_execute fixed18 ledger_cw20 amph_hub (Decompound None) (sc_dp (2 * 10 ^ 18) 541)
       (sc_env 31536010) (sc_info ''hub'') st') = generic_err ''Can't decompound too often''"
  by (simp add: limited_instantiate_def sc_limited_init_def sc_limited_blank_def outcome_def
      amp_instantiate_config_def store_lsd_config_def store_hub_contract_def limited_run_eval)

theorem limit_never_locks_witness:
  "\<exists>st r st' r' ds. limited_instantiate ledger_cw20 amph_hub sc_limited_init (sc_dp (2 * 10 ^ 18) 600)
      (sc_env 10) (sc_info ''owner'') sc_limited_blank = Inr (st, r) \<and>
    limited_execute fixed18 ledger_cw20 amph_hub (Decompound None) (sc_dp (2 * 10 ^ 18) 600)
      (sc_env 31536010) (sc_info ''hub'') st = Inr (st', r') \<and> lm_decompound_state st' = Some ds \<and>
    (\<exists>p. seconds_until fixed18 ds (block_time (sc_env 31536010)) = Inr p \<and> unat p = 31536000) \<and>
    outcome (limited_execute fixed18 ledger_cw20 amph_hub (Decompound None) (sc_dp (2 * 10 ^ 18) 541)
      (sc_env 31536010) (sc_info ''hub'') st') = generic_err ''Can't decompound too often''"
proof -
  obtain st r st' r' ti where
      init: "limited_instantiate ledger_cw20 amph_hub sc_limited_init (sc_dp (2 * 10 ^ 18) 600) (sc_env 10)
        (sc_info ''owner'') sc_limited_blank = Inr (st, r)"
      and ex: "limited_execute fixed18 ledger_cw20 amph_hub (Decompound None) (sc_dp (2 * 10 ^ 18) 600)
        (sc_env 31536010) (sc_info ''hub'') st = Inr (st', r')"
      and ds: "lm_decompound_state st' = Some \<lparr>ds_ratio_sum = Decimal 98333333333333333,
        ds_total_seconds = 31536000, ds_last_decompound = block_time (sc_env 31536010)\<rparr>"
      and cfg: "ws_lsd_config st' = Some sc_amp" and hub: "ws_hub_contract st' = Some ''hub''"
      and ti: "query_token_info ledger_cw20 (ws_cw20 st') = Inr ti"
      and again: "outcome (limited_execute fixed18 ledger_cw20 amph_hub (Decompound None) (sc_dp (2 * 10 ^ 18) 541)
        (sc_env 31536010) (sc_info ''hub'') st') = generic_err ''Can't decompound too often''"
    by (rule sc_limited_twice)
  have run: "(limited_step fixed18 ledger_cw20 amph_hub)\<^sup>*\<^sup>* st st'"
    using limited_call [OF ex] by (rule r_into_rtranclp)
  have ratio: "tm_max_decompound_ratio sc_limited_init = Some (Decimal (10 ^ 17))"
    by (simp add: sc_limited_init_def)
  have b: "lsd_balance (amp_asset sc_amp) (sc_dp (2 * 10 ^ 18) 541) (contract_address (sc_env 31536010)) = Inr 541"
    by (simp add: sc_eval amp_asset_def wrapper_eval)
  have sender: "ws_hub_contract st' = Some (sender (sc_info ''hub''))" by (simp add: hub sc_info_def)
  have to: "opt_traverse (\<lambda>x. std_res (addr_validate (sc_dp (2 * 10 ^ 18) 541) x)) None = Inr None" by simp
  from limit_never_locks [OF amp_lp_env init ratio run cfg sc_limited_reads(2) b ti sender to ds]
  obtain p where "seconds_until fixed18 \<lparr>ds_ratio_sum = Decimal 98333333333333333,
        ds_total_seconds = 31536000, ds_last_decompound = block_time (sc_env 31536010)\<rparr>
        (block_time (sc_env 31536010)) = Inr p"
      and "unat p + secs fixed18 (block_time (sc_env 10)) = secs fixed18 (block_time (sc_env 31536010))"
    by auto
  moreover from this(2) have "unat p = 31536000" by (simp add: secs_def fixed18_def sc_env_def)
  ultimately show ?thesis using init ex again ds by blast
qed

text \<open>Without a limit, what leaves is what the plain wrapper lets go.\<close>

lemma limited_amount_unlimited:
  "limited_amount None taken p r b s = Inl Panic
    \<or> limited_amount None taken p r b s = Inr None \<and> decompound_amount r b s = Some 0
    \<or> (\<exists>n x. limited_amount None taken p r b s = Inr (Some (n, x)) \<and> decompound_amount r b s = Some n)"
proof (cases "whole_fits b \<and> fits (b * r) \<and> \<not> (s \<noteq> 0 \<and> b * r div s < dec_unit) \<and> quotable r s")
  case False
  then consider "\<not> whole_fits b \<or> \<not> fits (b * r)"
    | "whole_fits b \<and> fits (b * r)" "s \<noteq> 0 \<and> b * r div s < dec_unit"
    | "whole_fits b \<and> fits (b * r)" "\<not> (s \<noteq> 0 \<and> b * r div s < dec_unit)" "\<not> quotable r s"
    by blast
  then show ?thesis by cases (simp_all only: limited_amount_def decompound_amount_def if_True if_False simp_thms)
next
  case True
  let ?luna = "wrapped_for r b - s" and ?n = "lsd_excess r b s"
  have amount: "limited_amount None taken p r b s =
      rbind (rbind (take_margin r ?luna ?n) (\<lambda>(l, n). if quotable (b * r) l
        then Inr (n, l * dec_unit * dec_unit div (b * r)) else Inl Panic)) (\<lambda>y. Inr (Some y))"
    using True by (simp only: limited_amount_def limited_taken_def take_limit_def) simp
  have plain: "decompound_amount r b s = (if ?n = 0 then Some 0
      else if ?luna < r div dec_unit then None else Some (?n - 1))"
    using True by (simp only: decompound_amount_def) simp
  consider "?n = 0" | "?n \<noteq> 0" "?luna < r div dec_unit" | "?n \<noteq> 0" "\<not> ?luna < r div dec_unit" by blast
  then show ?thesis unfolding amount plain take_margin_def by cases simp_all
qed

lemma recorded_fails:
  assumes "recorded A now ds decrease = Inl f"
  shows "f = Panic \<or> Inl f = (generic_err ''Can't decompound too often'' :: decompound_state res)"
  using assms by (auto simp: recorded_def split: if_splits option.splits)

text \<open>
  C19. A limited wrapper without a limit decompounds as the plain wrapper does. On the same storage and
  chain, when the limited one succeeds, the plain one sends exactly the same messages; when the plain
  one succeeds, the limited one either sends the same or refuses: by a panic of its accounting, or
  with the error that a decompound in the same block is too often.
\<close>

theorem unlimited_agrees:
  assumes "wrapper_env A C H asset"
    and "ws_lsd_config st = Some cfg" and "query_exchange_rate H cfg dp e = Inr q"
    and "lsd_balance (asset cfg) dp (contract_address e) = Inr b"
    and "query_token_info C (ws_cw20 st) = Inr ti"
    and "lm_decompound_config st = Some \<lparr>dc_max_decompound_ratio = None\<rparr>"
    and "lm_decompound_state st = Some ds" and "ws_hub_contract st = Some (sender i)"
    and "opt_traverse (\<lambda>x. std_res (addr_validate dp x)) recipient = Inr to"
  shows "case outcome (limited_execute A C H (Decompound recipient) dp e i st) of
      Inr (st', ms) \<Rightarrow> outcome (wrapper_execute A C H (Decompound recipient) dp e i st) = Inr (st, ms)
    | Inl f \<Rightarrow> f = Panic \<or> Inl f = (generic_err ''Can't decompound too often'' :: unit res)"
proof -
  let ?amount = "limited_amount None (atoms (ds_ratio_sum ds)) (counted_seconds A ds (block_time e))
    (atoms q) (unat b) (unat (ti_total_supply ti))"
  note lim = wrapper_env.limited_decompound_eq [OF assms]
    and plain = wrapper_env.decompound_eq [OF assms(1-5,8,9)]
  consider "?amount = Inl Panic"
    | "?amount = Inr None" "decompound_amount (atoms q) (unat b) (unat (ti_total_supply ti)) = Some 0"
    | n x where "?amount = Inr (Some (n, x))"
        "decompound_amount (atoms q) (unat b) (unat (ti_total_supply ti)) = Some n"
    using limited_amount_unlimited by blast
  then show ?thesis
  proof cases
    case 3
    then show ?thesis
      using lim plain recorded_fails [of A "block_time e" ds x]
      by (cases "recorded A (block_time e) ds x") auto
  qed (use lim plain in auto)
qed

theorem unlimited_agrees_witness:
  "\<exists>st'. outcome (limited_execute fixed18 ledger_cw20 amph_hub (Decompound (Some ''reward''))
      (sc_dp (2 * 10 ^ 18) 600) (sc_env 5) (sc_info ''hub'') (sc_limited None 1000)) =
      Inr (st', [Wasm_Execute ''lsd'' (Cw20Exec (Cw20_Transfer ''reward'' 99)) []]) \<and>
    outcome (wrapper_execute fixed18 ledger_cw20 amph_hub (Decompound (Some ''reward''))
      (sc_dp (2 * 10 ^ 18) 600) (sc_env 5) (sc_info ''hub'') (sc_limited None 1000)) =
      Inr (sc_limited None 1000, [Wasm_Execute ''lsd'' (Cw20Exec (Cw20_Transfer ''reward'' 99)) []])"
proof -
  obtain ti where ti: "query_token_info ledger_cw20 (ws_cw20 (sc_limited None 1000)) = Inr ti"
    by (rule sc_limited_supply)
  obtain st' where "outcome (limited_execute fixed18 ledger_cw20 amph_hub (Decompound (Some ''reward''))
      (sc_dp (2 * 10 ^ 18) 600) (sc_env 5) (sc_info ''hub'') (sc_limited None 1000)) =
      Inr (st', [Wasm_Execute ''lsd'' (Cw20Exec (Cw20_Transfer ''reward'' 99)) []])"
    by (simp add: outcome_def limited_run_eval)
  with unlimited_agrees [OF amp_lp_env sc_limited_reads(1-3) ti sc_limited_reads(4-6) sc_recipient, of 5]
  show ?thesis by (auto simp del: limited_execute.simps wrapper_execute.simps)
qed

end
