(* ===== verification/Decompound_Live.thy ===== *)
theory Decompound_Live
  imports Wrapper_Props Limited_Env_Props
begin

text \<open>
  When decompounds succeed. The complete outcomes of \<open>Wrapper_Outcome\<close> and \<open>Limited_Outcome\<close> leave room
  for panics at every operation; here it is shown that, for amounts within 128 bits, the only excess of
  LSD for which the margin can make a decompound panic is an excess of exactly one unit, and that both
  wrappers pay out their yield in all other cases.
\<close>

section \<open>The margin\<close>

lemma excess_bound:
  assumes "0 < r" and "0 < n" and "n \<le> lsd_excess r b s"
  shows "s * dec_unit + n * r < b * r + r"
proof -
  let ?q = "s * dec_unit * dec_unit div r"
  have "n * dec_unit \<le> lsd_excess r b s * dec_unit" using assms(3) by (rule mult_le_mono1)
  also have "\<dots> \<le> b * dec_unit - ?q" by (simp add: lsd_excess_def)
  finally have "n * dec_unit \<le> b * dec_unit - ?q" .
  moreover have "0 < n * dec_unit" using assms(2) dec_unit_pos(1) by simp
  ultimately have q: "?q + n * dec_unit \<le> b * dec_unit" by linarith
  have "s * dec_unit * dec_unit < (?q + 1) * r" using div_mult_upper [OF assms(1)] by simp
  then have "s * dec_unit * dec_unit + n * dec_unit * r < (?q + n * dec_unit + 1) * r"
    by (simp add: add_mult_distrib)
  also have "\<dots> \<le> (b * dec_unit + dec_unit) * r"
    using q dec_unit_pos(1) by (intro mult_le_mono1 add_mono) (simp_all add: Suc_leI)
  finally have "(s * dec_unit + n * r) * dec_unit < (b * r + r) * dec_unit"
    by (simp only: add_mult_distrib add_mult_distrib2 ac_simps)
  then show ?thesis using mult_less_cancel2 by blast
qed

text \<open>An excess of two units is worth more than the margin of one, in spite of all rounding.\<close>

lemma excess_worth:
  assumes "0 < r" and "2 \<le> lsd_excess r b s"
  shows "s * dec_unit + r \<le> b * r"
  using excess_bound [OF assms(1) _ assms(2)] by simp

lemma margin_worth:
  assumes "0 < r" and "2 \<le> lsd_excess r b s"
  shows "r div dec_unit \<le> wrapped_for r b - s"
proof -
  have "(r + s * dec_unit) div dec_unit \<le> wrapped_for r b"
    unfolding wrapped_for_def using excess_worth [OF assms] by (intro div_le_mono) simp
  moreover have "(r + s * dec_unit) div dec_unit = r div dec_unit + s" by simp
  ultimately show ?thesis by simp
qed

lemma excess_covered:
  assumes "0 < r" and "lsd_excess r b s \<noteq> 0" and "s \<noteq> 0"
  shows "dec_unit \<le> b * r div s"
  using excess_bound [OF assms(1), of 1 b s] assms(2,3) by (simp add: less_eq_div_iff_mult_less_eq mult.commute)

text \<open>A supply that is covered can be quoted.\<close>

lemma covered_quotable:
  assumes "whole_fits b" and "fits (b * r)" and "r \<noteq> 0" and "s * dec_unit \<le> b * r"
  shows "quotable r s"
proof -
  have "s * dec_unit * dec_unit div r \<le> b * r * dec_unit div r"
    using assms(4) by (intro div_le_mono mult_le_mono1)
  also have "\<dots> = b * dec_unit" using assms(3) by (simp add: mult.commute mult.left_commute)
  finally show ?thesis
    using assms fits_le by (auto simp: quotable_def whole_fits_def)
qed

lemma not_low: "\<not> (s \<noteq> 0 \<and> b * r div s < dec_unit) \<Longrightarrow> s * dec_unit \<le> b * r"
  using covered_iff [of s "b * r"] by blast

lemma decompound_amount_live:
  assumes "whole_fits b" and "fits (b * r)" and "r \<noteq> 0" and "lsd_excess r b s \<noteq> 1"
  shows "decompound_amount r b s = Some (lsd_excess r b s - 1)"
proof (cases "s \<noteq> 0 \<and> b * r div s < dec_unit")
  case True
  have "lsd_excess r b s = 0" using excess_covered [of r b s] True assms(3) by auto
  with True assms show ?thesis by (simp add: decompound_amount_def)
next
  case False
  have "quotable r s" by (rule covered_quotable [OF assms(1-3) not_low [OF False]])
  moreover have "\<not> wrapped_for r b - s < r div dec_unit" if "lsd_excess r b s \<noteq> 0"
    using margin_worth [of r b s] that assms(3,4) by fastforce
  ultimately show ?thesis using False assms by (auto simp: decompound_amount_def)
qed

text \<open>The one case that is left: an excess of one unit whose worth was rounded below the margin.\<close>

lemma decompound_amount_none:
  assumes "whole_fits b" and "fits (b * r)" and "r \<noteq> 0"
  shows "decompound_amount r b s = None \<longleftrightarrow>
    lsd_excess r b s = 1 \<and> wrapped_for r b - s < r div dec_unit"
proof (cases "lsd_excess r b s = 1")
  case False
  with decompound_amount_live [OF assms False] show ?thesis by simp
next
  case True
  then have "\<not> (s \<noteq> 0 \<and> b * r div s < dec_unit)" using excess_covered [of r b s] assms(3) by auto
  with covered_quotable [OF assms not_low [OF this]] True assms(1,2) show ?thesis
    by (simp add: decompound_amount_def)
qed

section \<open>The limited amount\<close>

lemma limited_margin_live:
  assumes "0 < r" and "n \<noteq> 1" and "n = lsd_excess r b s"
  shows "\<exists>l \<le> min (wrapped_for r b - s) (x * (b * r) div dec_unit div dec_unit).
    take_margin r (min (wrapped_for r b - s) (x * (b * r) div dec_unit div dec_unit))
      (min n (x * b div dec_unit)) = Inr (l, min n (x * b div dec_unit) - 1)"
proof (cases "min n (x * b div dec_unit) = 0")
  case True
  then show ?thesis by (auto simp: take_margin_def)
next
  case False
  then have n: "2 \<le> n" and "1 \<le> x * b div dec_unit" using assms(2) by auto
  then have "dec_unit \<le> x * b" using dec_unit_pos(1) by (metis div_less not_le not_one_le_zero)
  then have "dec_unit * r \<le> x * (b * r)" by (metis mult.assoc mult_le_mono1)
  then have "r \<le> x * (b * r) div dec_unit"
    using dec_unit_pos(1) by (simp add: less_eq_div_iff_mult_less_eq mult.commute)
  then have "r div dec_unit \<le> x * (b * r) div dec_unit div dec_unit" by (rule div_le_mono)
  moreover have "r div dec_unit \<le> wrapped_for r b - s" using margin_worth [OF assms(1)] n assms(3) by simp
  ultimately show ?thesis using False by (auto simp: take_margin_def)
qed

lemma limited_amount_live:
  assumes "whole_fits b" and "fits (b * r)" and "b * r \<noteq> 0" and "lsd_excess r b s \<noteq> 1"
    and "fits a" and "taken \<le> a" and "a = allowance m p"
    and "fits (a * (b * r) div dec_unit)" and "fits (a * b div dec_unit)"
  obtains (nothing_due) "limited_amount (Some m) taken (Some p) r b s = Inr None" "lsd_excess r b s = 0"
  | (due) x where "limited_amount (Some m) taken (Some p) r b s =
      Inr (Some (min (lsd_excess r b s) ((a - taken) * b div dec_unit) - 1, x))" "taken + x \<le> a"
proof (cases "s \<noteq> 0 \<and> b * r div s < dec_unit")
  case True
  have "lsd_excess r b s = 0" using excess_covered [of r b s] True assms(3) by auto
  with True assms nothing_due show thesis by (simp add: limited_amount_def)
next
  case False
  let ?x = "a - taken" and ?n = "lsd_excess r b s"
  have r: "0 < r" using assms(3) by simp
  have quot: "quotable r s"
    using assms(3) by (intro covered_quotable [OF assms(1,2) _ not_low [OF False]]) simp
  have le: "?x * y div dec_unit \<le> a * y div dec_unit" for y by (intro div_le_mono mult_le_mono1) simp
  have "fits (?x * (b * r) div dec_unit)" "fits (?x * b div dec_unit)"
    by (rule fits_le [OF assms(8) le]) (rule fits_le [OF assms(9) le])
  then have lim: "take_limit (Some m) taken (Some p) r b (wrapped_for r b - s) ?n =
      Inr (min (wrapped_for r b - s) (?x * (b * r) div dec_unit div dec_unit), min ?n (?x * b div dec_unit))"
    using assms(5,6) by (simp add: take_limit_def Let_def flip: assms(7))
  from limited_margin_live [OF r assms(4) refl, of ?x] obtain l
    where le: "l \<le> min (wrapped_for r b - s) (?x * (b * r) div dec_unit div dec_unit)"
      and margin: "take_margin r (min (wrapped_for r b - s) (?x * (b * r) div dec_unit div dec_unit))
        (min ?n (?x * b div dec_unit)) = Inr (l, min ?n (?x * b div dec_unit) - 1)"
    by blast
  then have l: "l \<le> wrapped_for r b" "l \<le> ?x * (b * r) div dec_unit div dec_unit" by (auto intro: le_trans [OF _ diff_le_self])
  have worth: "l * dec_unit \<le> b * r" using l(1) wrapped_for_le [of r b] by (meson le_trans mult_le_mono1)
  have "quotable (b * r) l"
  proof -
    have "l * dec_unit * dec_unit div (b * r) \<le> b * r * dec_unit div (b * r)"
      using worth by (intro div_le_mono mult_le_mono1)
    also have "\<dots> = dec_unit" using assms(3) by simp
    finally have "fits (l * dec_unit * dec_unit div (b * r))" by (rule fits_le [OF fits_dec_unit])
    then show ?thesis using fits_le [OF assms(2) worth] assms(3) by (simp add: quotable_def whole_fits_def)
  qed
  then have "limited_amount (Some m) taken (Some p) r b s =
      Inr (Some (min ?n (?x * b div dec_unit) - 1, l * dec_unit * dec_unit div (b * r)))"
    using False quot assms(1,2) by (simp add: limited_amount_def limited_taken_def lim margin)
  moreover have "taken + l * dec_unit * dec_unit div (b * r) \<le> a"
    using rate_of_part [OF l(2)] assms(6) by simp
  ultimately show thesis by (rule due)
qed

section \<open>Both wrappers pay out\<close>

text \<open>
  C11. The yield of a wrapper can be collected. When the LSD held and their worth fit into 128-bit
  decimals and the rate is positive, a decompound asked for by the hub succeeds, and pays the excess of
  LSD over the need, less one unit, to the recipient (nothing without an excess), unless the excess is
  exactly one unit: that is the only case in which the margin can make it panic.
\<close>

theorem decompound_succeeds:
  assumes "wrapper_env A C H asset"
    and "ws_lsd_config st = Some cfg" and "query_exchange_rate H cfg dp e = Inr q"
    and "lsd_balance (asset cfg) dp (contract_address e) = Inr b"
    and "query_token_info C (ws_cw20 st) = Inr ti" and "ws_hub_contract st = Some (sender i)"
    and "opt_traverse (\<lambda>x. std_res (addr_validate dp x)) recipient = Inr to"
    and "unat b * dec_unit < 2 ^ 128" and "unat b * atoms q < 2 ^ 128" and "atoms q \<noteq> 0"
    and "k = lsd_excess (atoms q) (unat b) (unat (ti_total_supply ti))" and "k \<noteq> 1"
  shows "outcome (wrapper_execute A C H (Decompound recipient) dp e i st) =
    Inr (st, if k \<le> 1 then [] else
      [lsd_transfer (asset cfg) (case to of None \<Rightarrow> sender i | Some a \<Rightarrow> a) (uint128 (k - 1))])"
proof -
  have "decompound_amount (atoms q) (unat b) (unat (ti_total_supply ti)) = Some (k - 1)"
    unfolding assms(11)
    by (rule decompound_amount_live) (use assms(8-12) in \<open>simp_all add: whole_fits_def fits_def\<close>)
  then show ?thesis
    using wrapper_env.decompound_eq [OF assms(1-7)] by (auto simp: not_le)
qed

theorem decompound_succeeds_witness:
  "outcome (wrapper_execute fixed18 ledger_cw20 sc_hub (Decompound (Some ''reward'')) (sc_dp (2 * 10 ^ 18) 600)
      (sc_env 5) (sc_info ''hub'') (sc_storage 1000)) =
    Inr (sc_storage 1000, [Wasm_Execute ''lsd'' (Cw20Exec (Cw20_Transfer ''reward'' 99)) []])"
proof -
  let ?dp = "sc_dp (2 * 10 ^ 18) 600" and ?e = "sc_env 5" and ?i = "sc_info ''hub''"
  have b: "lsd_balance (steak_asset sc_lsd) ?dp (contract_address ?e) = Inr 600"
    by (simp add: sc_eval steak_asset_def wrapper_eval)
  obtain ti where ti: "query_token_info ledger_cw20 (ws_cw20 (sc_storage 1000)) = Inr ti"
      and s: "ti_total_supply ti = 1000"
    by (simp add: sc_eval ledger_eval)
  have hub: "ws_hub_contract (sc_storage 1000) = Some (sender ?i)" by (simp add: sc_eval)
  have to: "opt_traverse (\<lambda>x. std_res (addr_validate ?dp x)) (Some ''reward'') = Inr (Some ''reward'')"
    by (simp add: sc_eval)
  have k: "100 = lsd_excess (atoms (Decimal (2 * 10 ^ 18))) (unat (600 :: u128)) (unat (ti_total_supply ti))"
    by (simp add: s atoms_def lsd_excess_def dec_unit_def)
  have "outcome (wrapper_execute fixed18 ledger_cw20 sc_hub (Decompound (Some ''reward'')) ?dp ?e ?i
      (sc_storage 1000)) = Inr (sc_storage 1000, if (100 :: nat) \<le> 1 then [] else
      [lsd_transfer (steak_asset sc_lsd) (case Some ''reward'' of None \<Rightarrow> sender ?i | Some a \<Rightarrow> a)
        (uint128 (100 - 1))])"
    by (rule decompound_succeeds [OF amp_luna_env sc_cfg sc_rate b ti hub to _ _ _ k])
      (simp_all add: atoms_def dec_unit_def)
  then show ?thesis by (simp add: sc_lsd_def steak_asset_def uint128_def)
qed

text \<open>
  C12. When the margin makes a decompound panic. With amounts within 128-bit decimals and a positive
  rate, a decompound asked for by the hub panics exactly when the excess is one unit of LSD and the
  coins that the LSD held are worth beyond the supply are fewer than one unit of LSD is worth, both
  rounded down: then the subtraction of the margin underflows, and with it the hub cannot update its
  index. At the rate 2.000000000000000001 with 10^18 - 1 LSD against 2 * (10^18 - 2) + 1 units it happens.
\<close>

theorem decompound_panics_iff:
  assumes "wrapper_env A C H asset"
    and "ws_lsd_config st = Some cfg" and "query_exchange_rate H cfg dp e = Inr q"
    and "lsd_balance (asset cfg) dp (contract_address e) = Inr b"
    and "query_token_info C (ws_cw20 st) = Inr ti" and "ws_hub_contract st = Some (sender i)"
    and "opt_traverse (\<lambda>x. std_res (addr_validate dp x)) recipient = Inr to"
    and "unat b * dec_unit < 2 ^ 128" and "unat b * atoms q < 2 ^ 128" and "atoms q \<noteq> 0"
  shows "outcome (wrapper_execute A C H (Decompound recipient) dp e i st) = Inl Panic \<longleftrightarrow>
    lsd_excess (atoms q) (unat b) (unat (ti_total_supply ti)) = 1 \<and>
    unat b * atoms q div dec_unit - unat (ti_total_supply ti) < atoms q div dec_unit"
proof -
  have "whole_fits (unat b)" "fits (unat b * atoms q)" using assms(8,9) by (simp_all add: whole_fits_def fits_def)
  note none = decompound_amount_none [OF this assms(10), unfolded wrapped_for_def]
  show ?thesis
    unfolding none [symmetric] using wrapper_env.decompound_eq [OF assms(1-7)] by (auto split: option.splits)
qed

theorem decompound_panics_iff_witness:
  "outcome (wrapper_execute fixed18 ledger_cw20 sc_hub (Decompound (Some ''reward''))
     (sc_dp (2 * 10 ^ 18 + 1) (10 ^ 18 - 1)) (sc_env 5) (sc_info ''hub'')
     (sc_storage (2 * (10 ^ 18 - 2) + 1))) = Inl Panic"
proof -
  let ?dp = "sc_dp (2 * 10 ^ 18 + 1) (10 ^ 18 - 1)" and ?e = "sc_env 5" and ?i = "sc_info ''hub''"
    and ?st = "sc_storage (2 * (10 ^ 18 - 2) + 1)"
  have q: "query_exchange_rate sc_hub sc_lsd ?dp ?e = Inr (Decimal (2 * 10 ^ 18 + 1))"
    by (simp add: sc_eval steak_eval wrapper_eval)
  have b: "lsd_balance (steak_asset sc_lsd) ?dp (contract_address ?e) = Inr 999999999999999999"
    by (simp add: sc_eval steak_asset_def wrapper_eval)
  obtain ti where ti: "query_token_info ledger_cw20 (ws_cw20 ?st) = Inr ti"
      and s: "ti_total_supply ti = 1999999999999999997"
    by (simp add: sc_eval ledger_eval)
  have hub: "ws_hub_contract ?st = Some (sender ?i)" by (simp add: sc_eval)
  have to: "opt_traverse (\<lambda>x. std_res (addr_validate ?dp x)) (Some ''reward'') = Inr (Some ''reward'')"
    by (simp add: sc_eval)
  have "outcome (wrapper_execute fixed18 ledger_cw20 sc_hub (Decompound (Some ''reward'')) ?dp ?e ?i ?st) = Inl Panic \<longleftrightarrow>
    lsd_excess (atoms (Decimal (2 * 10 ^ 18 + 1))) (unat (999999999999999999 :: u128)) (unat (ti_total_supply ti)) = 1 \<and>
    unat (999999999999999999 :: u128) * atoms (Decimal (2 * 10 ^ 18 + 1)) div dec_unit - unat (ti_total_supply ti)
      < atoms (Decimal (2 * 10 ^ 18 + 1)) div dec_unit"
    by (rule decompound_panics_iff [OF amp_luna_env sc_cfg q b ti hub to])
      (simp_all add: atoms_def dec_unit_def)
  then show ?thesis by (simp add: s atoms_def lsd_excess_def dec_unit_def del: wrapper_execute.simps)
qed

text \<open>
  C13. The yield of a limited wrapper can be collected, in every state that an instantiated wrapper
  reaches. At a later time than the last decompound, with \<open>a\<close> the allowance for the time since the
  instantiation, when the amounts fit into 128-bit decimals and the excess is not exactly one unit, a
  decompound asked for by the hub succeeds and pays the excess of LSD, or the part of the LSD held that
  the rest of the allowance is if this is less, less one unit, to the recipient.
\<close>

theorem limited_decompound_succeeds:
  assumes "wrapper_env A C H asset"
    and "limited_instantiate C H m dp0 e0 i0 st0 = Inr (st1, r)" and "tm_max_decompound_ratio m = Some ratio"
    and "(limited_step A C H)\<^sup>*\<^sup>* st1 st"
    and "ws_lsd_config st = Some cfg" and "query_exchange_rate H cfg dp e = Inr q"
    and "lsd_balance (asset cfg) dp (contract_address e) = Inr b"
    and "query_token_info C (ws_cw20 st) = Inr ti" and "ws_hub_contract st = Some (sender i)"
    and "opt_traverse (\<lambda>x. std_res (addr_validate dp x)) recipient = Inr to"
    and "lm_decompound_state st = Some ds" and "ds_last_decompound ds < block_time e"
    and "a = allowance (atoms ratio) (secs A (block_time e) - secs A (block_time e0))"
    and "fits a" and "fits (a * (unat b * atoms q) div dec_unit)" and "fits (a * unat b div dec_unit)"
    and "fits (unat b * dec_unit)" and "fits (unat b * atoms q)" and "unat b * atoms q \<noteq> 0"
    and "lsd_excess (atoms q) (unat b) (unat (ti_total_supply ti)) \<noteq> 1"
    and "k = min (lsd_excess (atoms q) (unat b) (unat (ti_total_supply ti)))
      ((a - atoms (ds_ratio_sum ds)) * unat b div dec_unit)"
  shows "\<exists>st'. outcome (limited_execute A C H (Decompound recipient) dp e i st) =
    Inr (st', if k \<le> 1 then [] else
      [lsd_transfer (asset cfg) (case to of None \<Rightarrow> sender i | Some x \<Rightarrow> x) (uint128 (k - 1))])"
proof -
  have inv: "accounted A ratio (block_time e0) st"
    by (rule wrapper_env.run_accounted [OF assms(1,4) wrapper_env.instantiate_accounted [OF assms(1-3)]])
  then have config: "lm_decompound_config st = Some \<lparr>dc_max_decompound_ratio = Some ratio\<rparr>"
    by (simp add: accounted_def)
  have later: "ds_last_decompound ds \<le> block_time e" using assms(12) by simp
  note allows = wrapper_env.accounted_allows [OF assms(1) inv assms(11) later]
  note out = wrapper_env.limited_decompound_eq
    [OF assms(1,5-8) config assms(11,9,10)]
  have taken: "atoms (ds_ratio_sum ds) \<le> a" using allows(2) assms(13) by simp
  have whole: "whole_fits (unat b)" using assms(17) by (simp add: whole_fits_def)
  from whole assms(18-20,14) taken assms(13,15,16) show ?thesis
  proof (cases rule: limited_amount_live)
    case nothing_due
    then show ?thesis using assms(21) by (simp add: out allows(1))
  next
    case (due x)
    have "fits (atoms (ds_ratio_sum ds) + x)" using due(2) assms(14) fits_le by blast
    then obtain ds' where "recorded A (block_time e) ds x = Inr ds'"
      using assms(12) by (simp add: recorded_def allows(1) not_le)
    then show ?thesis using due(1) assms(21) by (auto simp: out allows(1) not_le)
  qed
qed

text \<open>Two years after its instantiation, and one year after a first decompound, the wrapper pays again.\<close>

theorem limited_decompound_succeeds_witness:
  "\<exists>st r st' r' st''. limited_instantiate ledger_cw20 amph_hub sc_limited_init (sc_dp (2 * 10 ^ 18) 600)
      (sc_env 10) (sc_info ''owner'') sc_limited_blank = Inr (st, r) \<and>
    limited_execute fixed18 ledger_cw20 amph_hub (Decompound None) (sc_dp (2 * 10 ^ 18) 600)
      (sc_env 31536010) (sc_info ''hub'') st = Inr (st', r') \<and>
    outcome (limited_execute fixed18 ledger_cw20 amph_hub (Decompound None) (sc_dp (2 * 10 ^ 18) 600)
      (sc_env 63072010) (sc_info ''hub'') st') =
    Inr (st'', [Wasm_Execute ''lsd'' (Cw20Exec (Cw20_Transfer ''hub'' 60)) []])"
proof -
  let ?dp = "sc_dp (2 * 10 ^ 18) 600" and ?e = "sc_env 63072010"
  obtain st r st' r' ti where
      init: "limited_instantiate ledger_cw20 amph_hub sc_limited_init (sc_dp (2 * 10 ^ 18) 600) (sc_env 10)
        (sc_info ''owner'') sc_limited_blank = Inr (st, r)"
      and ex: "limited_execute fixed18 ledger_cw20 amph_hub (Decompound None) (sc_dp (2 * 10 ^ 18) 600)
        (sc_env 31536010) (sc_info ''hub'') st = Inr (st', r')"
      and ds: "lm_decompound_state st' = Some \<lparr>ds_ratio_sum = Decimal 98333333333333333,
        ds_total_seconds = 31536000, ds_last_decompound = block_time (sc_env 31536010)\<rparr>"
      and cfg: "ws_lsd_config st' = Some sc_amp" and hub: "ws_hub_contract st' = Some ''hub''"
      and ti: "query_token_info ledger_cw20 (ws_cw20 st') = Inr ti" "ti_total_supply ti = 1000"
    by (rule sc_limited_twice)
  have run: "(limited_step fixed18 ledger_cw20 amph_hub)\<^sup>*\<^sup>* st st'"
    using limited_call [OF ex] by (rule r_into_rtranclp)
  have ratio: "tm_max_decompound_ratio sc_limited_init = Some (Decimal (10 ^ 17))"
    by (simp add: sc_limited_init_def)
  have b: "lsd_balance (amp_asset sc_amp) ?dp (contract_address ?e) = Inr 600" by (rule sc_limited_reads)
  have sender: "ws_hub_contract st' = Some (sender (sc_info ''hub''))" by (simp add: hub sc_info_def)
  have to: "opt_traverse (\<lambda>x. std_res (addr_validate ?dp x)) None = Inr None" by simp
  have a: "200000000000000000 = allowance (atoms (Decimal (10 ^ 17)))
      (secs fixed18 (block_time ?e) - secs fixed18 (block_time (sc_env 10)))"
    by (simp add: allowance_def atoms_def year_seconds_def dec_unit_def secs_def fixed18_def sc_env_def)
  have later: "block_time (sc_env 31536010) < block_time ?e"
    by (simp add: sc_env_def less_timestamp_def)
  have excess: "lsd_excess (atoms (Decimal (2 * 10 ^ 18))) (unat (600 :: u128)) (unat (ti_total_supply ti)) = 100"
    by (simp add: ti(2) atoms_def lsd_excess_def dec_unit_def)
  have excess2: "lsd_excess 2000000000000000000 600 (unat (ti_total_supply ti)) = 100"
    by (simp add: ti(2) lsd_excess_def dec_unit_def)
  have k: "61 = min (lsd_excess (atoms (Decimal (2 * 10 ^ 18))) (unat (600 :: u128)) (unat (ti_total_supply ti)))
      ((200000000000000000 - atoms (ds_ratio_sum \<lparr>ds_ratio_sum = Decimal 98333333333333333,
        ds_total_seconds = 31536000, ds_last_decompound = block_time (sc_env 31536010)\<rparr>)) * unat (600 :: u128) div dec_unit)"
    unfolding excess by (simp add: atoms_def dec_unit_def)
  have "\<exists>st''. outcome (limited_execute fixed18 ledger_cw20 amph_hub (Decompound None) ?dp ?e (sc_info ''hub'') st') =
      Inr (st'', if (61 :: nat) \<le> 1 then [] else
        [lsd_transfer (amp_asset sc_amp) (case None of None \<Rightarrow> sender (sc_info ''hub'') | Some x \<Rightarrow> x) (uint128 (61 - 1))])"
    by (rule limited_decompound_succeeds [OF amp_lp_env init ratio run cfg sc_limited_reads(2) b ti(1) sender to ds _ a
        _ _ _ _ _ _ _ k])
      (simp_all add: later excess2 fits_def atoms_def dec_unit_def)
  then obtain st'' where "outcome (limited_execute fixed18 ledger_cw20 amph_hub (Decompound None) ?dp ?e
      (sc_info ''hub'') st') = Inr (st'', [Wasm_Execute ''lsd'' (Cw20Exec (Cw20_Transfer ''hub'' 60)) []])"
    by (auto simp: uint128_def amp_asset_def sc_amp_def sc_info_def simp del: limited_execute.simps)
  with init ex show ?thesis by blast
qed

end
