(* ===== verification/Redemption.thy ===== *)
theory Redemption
  imports Decompound_Live
begin

text \<open>
  Leaving a plain wrapper. However the holders leave, in whatever order and for whatever amounts, a
  backed wrapper pays each of them the same quote: its burns fail only when the token's own do. So
  there is nothing to gain from leaving first.
\<close>

section \<open>Sequences of burns\<close>

text \<open>The units that a call destroys when it is a burn, and what it does to the token.\<close>

fun burnt :: "wrapper_execute_msg \<Rightarrow> u128 option" where
  "burnt (Burn a) = Some a"
| "burnt (BurnFrom ow a) = Some a"
| "burnt m = None"

fun token_burns ::
  "'tok cw20_base \<Rightarrow> deps \<Rightarrow> env \<Rightarrow> (addr \<times> wrapper_execute_msg) list \<Rightarrow> 'tok \<Rightarrow> 'tok res" where
  "token_burns C dp e [] tok = Inr tok"
| "token_burns C dp e ((who, m) # ms) tok =
     rbind (case m of Burn a \<Rightarrow> cw20_burn C a tok dp e \<lparr>sender = who, funds = []\<rparr>
            | BurnFrom ow a \<Rightarrow> cw20_burn_from C ow a tok dp e \<lparr>sender = who, funds = []\<rparr>
            | _ \<Rightarrow> Inl Panic)
       (\<lambda>(t, r). token_burns C dp e ms t)"

text \<open>
  The same calls to the wrapper, each with its payment: a call that fails is its error, a payment of
  more LSD than there are is a failure (here \<open>None\<close>).
\<close>

fun calls_run ::
  "arith \<Rightarrow> 'tok cw20_base \<Rightarrow> ('raw, 'cfg) lsd_hub \<Rightarrow> asset_info \<Rightarrow> addr \<Rightarrow> deps \<Rightarrow> env \<Rightarrow>
   (addr \<times> wrapper_execute_msg) list \<Rightarrow> ('cfg, 'tok, 'z) wrapper_storage_scheme \<Rightarrow> nat \<Rightarrow>
   (('cfg, 'tok, 'z) wrapper_storage_scheme \<times> nat) res option" where
  "calls_run A C H as self dp e [] st n = Some (Inr (st, n))"
| "calls_run A C H as self dp e ((who, m) # ms) st n =
     (case wrapper_execute A C H m dp e \<lparr>sender = who, funds = []\<rparr> st of
        Inl f \<Rightarrow> Some (Inl f)
      | Inr (st', r) \<Rightarrow>
          (case lsd_run as self (msgs r) n of
             None \<Rightarrow> None
           | Some n' \<Rightarrow> calls_run A C H as self dp e ms st' n'))"

definition quoted :: "nat \<Rightarrow> (addr \<times> wrapper_execute_msg) list \<Rightarrow> nat" where
  "quoted r ms = sum_list (map (\<lambda>(who, m). case burnt m of None \<Rightarrow> 0 | Some a \<Rightarrow> lsd_for r (unat a)) ms)"

lemma quoted_simps [simp]:
  "quoted r [] = 0"
  "burnt m = Some a \<Longrightarrow> quoted r ((who, m) # ms) = lsd_for r (unat a) + quoted r ms"
  by (simp_all add: quoted_def)

lemma quotable_mono: "quotable r s \<Longrightarrow> a \<le> s \<Longrightarrow> quotable r a"
  unfolding quotable_def whole_fits_def
  by (meson div_le_mono fits_le mult_le_mono1)

text \<open>A backed pot covers the quote of any part of the supply, and is backed after it.\<close>

lemma quote_covered:
  assumes "r \<noteq> 0" and "backed r \<lparr>v_lsd = n, v_supply = s + a\<rparr>"
  shows "lsd_for r a \<le> n" and "backed r \<lparr>v_lsd = n - lsd_for r a, v_supply = s\<rparr>"
proof -
  have need: "(s + a) * dec_unit \<le> n * r" using assms(2) by (simp add: backed_def)
  then have "lsd_for r a * r \<le> n * r" using lsd_for_le [of r a] unfolding add_mult_distrib by linarith
  with assms(1) show "lsd_for r a \<le> n" by simp
  then show "backed r \<lparr>v_lsd = n - lsd_for r a, v_supply = s\<rparr>"
    using need lsd_for_le [of r a] by (simp add: backed_def add_mult_distrib diff_mult_distrib)
qed

context wrapper_env
begin

lemma burn_call:
  assumes "ws_lsd_config st = Some cfg" and "query_exchange_rate H cfg dp e = Inr q"
    and "burnt m = Some a" and "quotable (atoms q) (unat a)"
  shows "wrapper_execute A C H m dp e i st =
    rbind (case m of Burn a \<Rightarrow> cw20_burn C a (ws_cw20 st) dp e i
           | BurnFrom ow a \<Rightarrow> cw20_burn_from C ow a (ws_cw20 st) dp e i
           | _ \<Rightarrow> Inl Panic)
      (\<lambda>(t, r). Inr (st\<lparr>ws_cw20 := t\<rparr>,
        add_messages [lsd_transfer (asset cfg) (sender i) (uint128 (lsd_for (atoms q) (unat a)))] r))"
  using assms(3,4) burn_eq [OF assms(1,2)] burn_from_eq [OF assms(1,2)] by (cases m) auto

text \<open>A burn that the token allows is paid, and leaves a backed pot.\<close>

lemma burn_paid:
  assumes "burnt m = Some a" and "quotable (atoms q) (unat a)" and "sender i \<noteq> self"
    and "backed (atoms q) \<lparr>v_lsd = n, v_supply = token_supply C tok\<rparr>"
    and "(case m of Burn a \<Rightarrow> cw20_burn C a tok dp e i
          | BurnFrom ow a \<Rightarrow> cw20_burn_from C ow a tok dp e i | _ \<Rightarrow> Inl Panic) = Inr (t, r)"
  shows "lsd_run as self (msgs (add_messages
      [lsd_transfer as (sender i) (uint128 (lsd_for (atoms q) (unat a)))] r)) n =
      Some (n - lsd_for (atoms q) (unat a)) \<and>
    lsd_for (atoms q) (unat a) \<le> n \<and>
    backed (atoms q) \<lparr>v_lsd = n - lsd_for (atoms q) (unat a), v_supply = token_supply C t\<rparr>"
proof -
  from assms(1,5) have total: "token_supply C tok = token_supply C t + unat a" and r: "msgs r = []"
    by (cases m; auto dest: tok.burn tok.burn_from)+
  from assms(2) have "atoms q \<noteq> 0" and "fits (lsd_for (atoms q) (unat a))"
    by (simp_all add: quotable_def quotable_lsd_for)
  with quote_covered [of "atoms q" n "token_supply C t" "unat a"] assms(3,4) r show ?thesis
    by (simp add: lsd_run_transfer total del: lsd_run.simps lsd_transfer.simps)
qed

lemma burns_run:
  assumes q: "query_exchange_rate H cfg dp e = Inr q"
    and ms: "\<forall>(who, m) \<in> set ms. who \<noteq> self \<and> (\<exists>a. burnt m = Some a \<and> quotable (atoms q) (unat a))"
    and st: "ws_lsd_config st = Some cfg"
    and n: "backed (atoms q) \<lparr>v_lsd = n, v_supply = token_supply C (ws_cw20 st)\<rparr>"
  shows "calls_run A C H (asset cfg) self dp e ms st n =
    Some (rbind (token_burns C dp e ms (ws_cw20 st)) (\<lambda>t. Inr (st\<lparr>ws_cw20 := t\<rparr>, n - quoted (atoms q) ms)))"
  using ms st n
proof (induction ms arbitrary: st n)
  case (Cons p ms)
  obtain who m where p: "p = (who, m)" by (cases p)
  obtain a where a: "burnt m = Some a" "quotable (atoms q) (unat a)" and who: "who \<noteq> self"
    using Cons.prems(1) by (auto simp: p)
  let ?i = "\<lparr>sender = who, funds = []\<rparr>" and ?l = "lsd_for (atoms q) (unat a)"
  let ?tok = "case m of Burn a \<Rightarrow> cw20_burn C a (ws_cw20 st) dp e ?i
      | BurnFrom ow a \<Rightarrow> cw20_burn_from C ow a (ws_cw20 st) dp e ?i | _ \<Rightarrow> Inl Panic"
  note call = burn_call [OF Cons.prems(2) q a, of ?i]
  show ?case
  proof (cases ?tok)
    case (Inl f)
    then show ?thesis by (simp add: p call del: wrapper_execute.simps)
  next
    case (Inr y)
    obtain t r where tr: "?tok = Inr (t, r)" using Inr by (cases y) simp
    have "sender ?i \<noteq> self" using who by simp
    from burn_paid [OF a this Cons.prems(3) tr, of "asset cfg"]
    have paid: "lsd_run (asset cfg) self (msgs (add_messages
          [lsd_transfer (asset cfg) who (uint128 ?l)] r)) n = Some (n - ?l)"
        and rest: "backed (atoms q) \<lparr>v_lsd = n - ?l, v_supply = token_supply C (ws_cw20 (st\<lparr>ws_cw20 := t\<rparr>))\<rparr>"
      by simp_all
    have "ws_lsd_config (st\<lparr>ws_cw20 := t\<rparr>) = Some cfg" using Cons.prems(2) by simp
    from Cons.IH [OF _ this rest] Cons.prems(1) show ?thesis
      using tr paid a(1) by (simp add: p call del: wrapper_execute.simps)
  qed
qed simp

end

section \<open>Everybody can leave\<close>

text \<open>
  C4. No run on the wrapper. Take a backed wrapper whose LSD and their worth are within 128-bit decimals,
  and any sequence of burns, from one's own units or from an allowance, of no more units than are
  issued, by any accounts in any order. Call after call the wrapper pays, and everybody gets the amount
  divided by the rate, rounded down, whoever left before: the sequence ends with the LSD less the sum of
  these quotes, unless the token itself refuses one of the burns, whose error then is the result.
  No burn panics, and no payment finds too little LSD.
\<close>

theorem everyone_can_leave:
  assumes "wrapper_env A C H asset"
    and "ws_lsd_config st = Some cfg" and "query_exchange_rate H cfg dp e = Inr q" and "atoms q \<noteq> 0"
    and "whole_fits n" and "fits (n * atoms q)"
    and "token_supply C (ws_cw20 st) * dec_unit \<le> n * atoms q"
    and "\<forall>(who, m) \<in> set ms. who \<noteq> self \<and>
      (\<exists>a. burnt m = Some a \<and> unat a \<le> token_supply C (ws_cw20 st))"
  shows "calls_run A C H (asset cfg) self dp e ms st n =
    Some (rbind (token_burns C dp e ms (ws_cw20 st)) (\<lambda>t. Inr (st\<lparr>ws_cw20 := t\<rparr>, n - quoted (atoms q) ms)))"
proof (rule wrapper_env.burns_run [OF assms(1,3) _ assms(2)])
  have "quotable (atoms q) (token_supply C (ws_cw20 st))"
    by (rule covered_quotable [OF assms(5,6,4,7)])
  note part = quotable_mono [OF this]
  show "\<forall>(who, m) \<in> set ms. who \<noteq> self \<and> (\<exists>a. burnt m = Some a \<and> quotable (atoms q) (unat a))"
    using assms(8) by (auto dest!: bspec intro!: part)
  show "backed (atoms q) \<lparr>v_lsd = n, v_supply = token_supply C (ws_cw20 st)\<rparr>"
    using assms(7) by (simp add: backed_def)
qed

theorem everyone_can_leave_witness:
  "\<exists>t. calls_run fixed18 ledger_cw20 sc_hub (Token ''lsd'') ''wrapper'' (sc_dp (2 * 10 ^ 18) 500) (sc_env 5)
      [(''alice'', Burn 401), (''bob'', BurnFrom ''alice'' 599)] (sc_storage 1000) 500 =
      Some (Inr ((sc_storage 1000)\<lparr>ws_cw20 := t\<rparr>, 1)) \<and> token_supply ledger_cw20 t = 0"
proof -
  have q: "query_exchange_rate sc_hub sc_lsd (sc_dp (2 * 10 ^ 18) 500) (sc_env 5) = Inr (Decimal (2 * 10 ^ 18))"
    by (simp add: sc_eval steak_eval wrapper_eval)
  have cfg: "ws_lsd_config (sc_storage 1000) = Some sc_lsd" by (simp add: sc_storage_def)
  let ?ms = "[(''alice'', Burn 401), (''bob'', BurnFrom ''alice'' 599)]"
  have issued: "token_supply ledger_cw20 (ws_cw20 (sc_storage 1000)) = 1000"
    by (simp add: sc_storage_def sc_ledger_def ledger_queries)
  have "calls_run fixed18 ledger_cw20 sc_hub (steak_asset sc_lsd) ''wrapper'' (sc_dp (2 * 10 ^ 18) 500) (sc_env 5)
      ?ms (sc_storage 1000) 500 =
      Some (rbind (token_burns ledger_cw20 (sc_dp (2 * 10 ^ 18) 500) (sc_env 5) ?ms (ws_cw20 (sc_storage 1000)))
        (\<lambda>t. Inr ((sc_storage 1000)\<lparr>ws_cw20 := t\<rparr>, 500 - quoted (atoms (Decimal (2 * 10 ^ 18))) ?ms)))"
    by (rule everyone_can_leave [OF amp_luna_env cfg q]) (simp_all add: issued number_eval atoms_def)
  moreover have "\<exists>t. token_burns ledger_cw20 (sc_dp (2 * 10 ^ 18) 500) (sc_env 5) ?ms (ws_cw20 (sc_storage 1000)) = Inr t \<and>
      token_supply ledger_cw20 t = 0"
    by (simp add: sc_eval ledger_eval ledger_queries)
  moreover have "quoted (atoms (Decimal (2 * 10 ^ 18))) ?ms = 499"
    by (simp add: quoted_def number_eval atoms_def)
  moreover have "steak_asset sc_lsd = Token ''lsd''" by (simp add: steak_asset_def sc_lsd_def)
  ultimately show ?thesis by auto
qed

end
