(* ===== verification/Index_Live.thy ===== *)
theory Index_Live
  imports Chain_Props Decompound_Live
begin

text \<open>
  An update of the global index goes through: the conditions under which the decompound pays, the
  delivery of its payment and the sale of what the reward contract then holds, as one transaction.
\<close>

text \<open>Orders that are accepted one by one are accepted together.\<close>

lemma send_all_accepted:
  assumes "\<And>m x. m \<in> set ms \<Longrightarrow> \<exists>x'. ext_deliver X self m x = Inr x'"
  shows "\<exists>x'. send_all X self ms x = Inr x'"
  using assms
proof (induction ms arbitrary: x)
  case (Cons m ms)
  obtain y where "ext_deliver X self m x = Inr y" using Cons.prems by force
  with Cons.IH [of y] Cons.prems show ?case by (auto simp del: send_all_one)
qed simp

text \<open>
  C8. Anybody can bring the yield to the reward contract. When the contracts of the plain family know
  each other, amounts and rate are within 128-bit decimals, the excess is not exactly one unit of LSD,
  nobody outside calls back, and the outside accepts the payment and the orders, then \<open>UpdateGlobalIndex\<close>
  by any account succeeds: the excess less one unit (nothing without an excess) is sent to the reward
  contract, everything that it then holds and that is for sale is sold, and the storages of the wrapper
  and of the reward contract are unchanged.
\<close>

theorem index_update_succeeds:
  assumes "wrapper_env A C H asset" and "wired D s" and "D = plain_contracts A C H hub token reward"
    and "ws_lsd_config (st_token s) = Some cfg" and "foreign_asset D (asset cfg)"
    and "ws_hub_contract (st_token s) = Some hub"
    and "query_exchange_rate H cfg (ext_view X (st_ext s) token) (block_env t token) = Inr q"
    and "lsd_balance (asset cfg) (ext_view X (st_ext s) token) token = Inr b"
    and "query_token_info C (ws_cw20 (st_token s)) = Inr ti"
    and "addr_validate (ext_view X (st_ext s) token) reward = Inr to" and "quiet D X"
    and "unat b * dec_unit < 2 ^ 128" and "unat b * atoms q < 2 ^ 128" and "atoms q \<noteq> 0"
    and "k = lsd_excess (atoms q) (unat b) (unat (ti_total_supply ti))" and "k \<noteq> 1"
    and "\<exists>x. send_all X token (if k \<le> 1 then [] else [lsd_transfer (asset cfg) to (uint128 (k - 1))]) (st_ext s) = Inr x"
    and "\<And>x. \<exists>balances. bank_all_balances (ext_view X x reward) reward = Inr balances"
    and "\<And>m x. outgoing D m \<Longrightarrow> \<exists>x'. ext_deliver X reward m x = Inr x'"
  shows "\<exists>x1 x2 orders. call_hub D X t (Suc (Suc (Suc n))) caller UpdateGlobalIndex s =
      Some (Inr (s\<lparr>st_hub := stamp A t (st_hub s), st_ext := x2\<rparr>)) \<and>
    send_all X token (if k \<le> 1 then [] else [lsd_transfer (asset cfg) to (uint128 (k - 1))]) (st_ext s) = Inr x1 \<and>
    reward_orders (ext_view X x1 reward) reward (st_reward s) = Inr orders \<and>
    send_all X reward orders x1 = Inr x2"
proof -
  let ?dp = "ext_view X (st_ext s) token" and ?e = "block_env t token" and ?i = "\<lparr>sender = hub, funds = []\<rparr>"
  let ?ms = "if k \<le> 1 then [] else [lsd_transfer (asset cfg) to (uint128 (k - 1))]"
  have b: "lsd_balance (asset cfg) ?dp (contract_address ?e) = Inr b" using assms(8) by (simp add: block_env_def)
  have to: "opt_traverse (\<lambda>x. std_res (addr_validate ?dp x)) (Some reward) = Inr (Some to)"
    using assms(10) by simp
  have "decompound_amount (atoms q) (unat b) (unat (ti_total_supply ti)) = Some (k - 1)"
    unfolding assms(15)
    by (rule decompound_amount_live) (use assms(12-16) in \<open>simp_all add: whole_fits_def fits_def\<close>)
  then have "outcome (execute_decompound A C H (Some reward) ?dp ?e ?i (st_token s)) = Inr (st_token s, ?ms)"
    using wrapper_env.decompound_eq [OF assms(1,4,7) b assms(9) _ to, of ?i] assms(6) by (simp add: not_le)
  then obtain r where dec: "execute_decompound A C H (Some reward) ?dp ?e ?i (st_token s) = Inr (st_token s, r)"
      "msgs r = ?ms"
    by (auto dest!: outcome_Inr)
  obtain x1 where x1: "send_all X token ?ms (st_ext s) = Inr x1" using assms(17) by blast
  from assms(2) obtain rc where rc: "rs_config (st_reward s) = Some rc" by (auto simp: wired_def)
  obtain balances where "bank_all_balances (ext_view X x1 reward) reward = Inr balances" using assms(18) by blast
  with rc obtain orders where orders: "reward_orders (ext_view X x1 reward) reward (st_reward s) = Inr orders"
    by (simp add: reward_orders_def read_config_def load_def)
  obtain x2 where x2: "send_all X reward orders x1 = Inr x2"
    using send_all_accepted [of orders X reward x1] assms(19) orders_outgoing [OF assms(2) orders] by blast
  have "index_round D X t (\<lambda>dp. Inr []) s = Inr (s\<lparr>st_hub := stamp A t (st_hub s), st_ext := x2\<rparr>)"
    using dec x1 orders x2 by (simp add: index_round_def assms(3) del: send_all_one)
  with plain_round [OF assms(1-5,11)] x1 orders x2 show ?thesis by simp
qed

theorem index_update_succeeds_witness:
  "\<exists>s'. call_hub sc_contracts (sc_outside (sc_chain (2 * 10 ^ 18) 600)) (Timestamp 5000000000) 3
      ''bob'' UpdateGlobalIndex sc_state = Some (Inr s') \<and> st_token s' = sc_storage 1000 \<and>
    hd (st_ext s') = (''wrapper'', Wasm_Execute ''lsd'' (Cw20Exec (Cw20_Transfer ''reward'' 99)) [])"
proof -
  define X where "X = sc_round"
  note facts = sc_round_facts [folded X_def]
  obtain ti where ti: "query_token_info ledger_cw20 (ws_cw20 (st_token sc_state)) = Inr ti"
      "ti_total_supply ti = 1000"
    using facts(11) by blast
  have k: "100 = lsd_excess (atoms (Decimal (2 * 10 ^ 18))) (unat (600 :: u128)) (unat (ti_total_supply ti))"
    by (simp add: ti(2) atoms_def lsd_excess_def dec_unit_def)
  have pay: "lsd_transfer (steak_asset sc_lsd) ''reward'' (uint128 99) =
      Wasm_Execute ''lsd'' (Cw20Exec (Cw20_Transfer ''reward'' 99)) []"
    by (simp add: sc_lsd_def steak_asset_def uint128_def)
  have sent: "send_all X self ms x = Inr (x @ map (Pair self) ms)" for self ms x
    unfolding X_def by (rule sc_outside_simps)
  have bank: "\<exists>balances. bank_all_balances (ext_view X x a) a = Inr balances" for x a
    by (simp add: X_def sc_outside_def sc_deps_def)
  have takes: "\<exists>x'. ext_deliver X a m x = Inr x'" for a m x
    by (simp add: X_def sc_outside_def)
  have "\<exists>x1 x2 orders. call_hub sc_contracts X (Timestamp 5000000000) (Suc (Suc (Suc 0))) ''bob'' UpdateGlobalIndex sc_state =
      Some (Inr (sc_state\<lparr>st_hub := stamp fixed18 (Timestamp 5000000000) (st_hub sc_state), st_ext := x2\<rparr>)) \<and>
    send_all X ''wrapper'' (if (100 :: nat) \<le> 1 then []
      else [lsd_transfer (steak_asset sc_lsd) ''reward'' (uint128 (100 - 1))]) (st_ext sc_state) = Inr x1 \<and>
    reward_orders (ext_view X x1 ''reward'') ''reward'' (st_reward sc_state) = Inr orders \<and>
    send_all X ''reward'' orders x1 = Inr x2"
    by (rule index_update_succeeds [OF amp_luna_env facts(1) sc_contracts_def facts(2,4,3) _ _ ti(1) _ facts(5) _ _ _ k])
      (use facts(6-9) bank takes in \<open>simp_all add: sent atoms_def dec_unit_def\<close>)
  then obtain orders where call: "call_hub sc_contracts X (Timestamp 5000000000) (Suc (Suc (Suc 0))) ''bob''
        UpdateGlobalIndex sc_state = Some (Inr (sc_state\<lparr>st_hub := stamp fixed18 (Timestamp 5000000000)
          (st_hub sc_state), st_ext := (''wrapper'', lsd_transfer (steak_asset sc_lsd) ''reward'' (uint128 99)) #
          map (Pair ''reward'') orders\<rparr>))"
    by (auto simp: sent facts(6) simp del: send_all.simps send_all_one)
  show ?thesis
    unfolding numeral_3_eq_3 X_def [symmetric] call by (simp add: pay) (simp add: sc_state_def)
qed

end
