(* ===== verification/Storage_Props.thy ===== *)
theory Storage_Props
  imports Limited_Props
begin

text \<open>
  What the storages hold along every run. After an instantiation, and after any sequence of messages
  and migrations from anybody, every storage item that the handlers load is there, and the items
  that no message changes are what the instantiation wrote.
\<close>

section \<open>The hub\<close>

inductive hub_step :: "arith \<Rightarrow> hub_storage \<Rightarrow> hub_storage \<Rightarrow> bool" for A :: arith where
  hub_call: "hub_execute A m dp e i st = Inr (st', r) \<Longrightarrow> hub_step A st st'"
| hub_migration: "hub_migrate dp e i st = Inr (st', r) \<Longrightarrow> hub_step A st st'"

inductive_simps hub_step_simps: "hub_step A st st'"

text \<open>The hub of a given denomination: its state differs from the initial one in the time only.\<close>

definition hub_typed :: "string \<Rightarrow> hub_storage \<Rightarrow> bool" where
  "hub_typed denom st \<longleftrightarrow>
     (\<exists>c t. st = \<lparr>hub_config_item = Some c,
        hub_state_item = Some \<lparr>hs_exchange_rate = dec_one, hs_total_bond_amount = 0,
          hs_last_index_modification = t, hs_prev_hub_balance = 0\<rparr>,
        hub_parameters_item = Some \<lparr>hp_reward_denom = denom\<rparr>\<rparr>)"

lemma hub_instantiate_typed:
  "hub_instantiate A m dp e i st0 = Inr (st, r) \<Longrightarrow> hub_typed (hi_reward_denom m) st"
  by (cases st0) (auto simp: hub_instantiate_def hub_typed_def hub_state_default_def)

lemma hub_execute_typed:
  assumes "hub_execute A m dp e i st = Inr (st', r)" and "hub_typed denom st"
  shows "hub_typed denom st'"
proof (cases m)
  case UpdateGlobalIndex
  with assms(1) have "execute_update_global A dp e i st = Inr (st', r)" by simp
  then show ?thesis by (rule execute_update_global_ok) (use assms(2) in \<open>auto simp: hub_typed_def\<close>)
next
  case (Hub_UpdateConfig ow rw tk)
  with assms(1) have "hub_update_config ow rw tk dp e i st = Inr (st', r)" by simp
  then show ?thesis by (rule hub_update_config_ok) (use assms(2) in \<open>auto simp: hub_typed_def\<close>)
qed

lemma hub_step_typed: "hub_step A st st' \<Longrightarrow> hub_typed denom st \<Longrightarrow> hub_typed denom st'"
  by (auto simp: hub_step_simps hub_migrate_def intro: hub_execute_typed)

text \<open>
  C29. The hub's storage keeps its type along every run. After an instantiation, and after any
  sequence of messages and migrations, all three items are there, so no query fails; the reward
  denomination is the one given at the instantiation, and the state still is the initial one except
  for the time of the last update (the exchange rate one, both amounts zero: no message of this
  contract changes them).
\<close>

theorem hub_storage_typed:
  assumes "hub_instantiate A m dp e i st0 = Inr (st, r)" and "(hub_step A)\<^sup>*\<^sup>* st st'"
  shows "\<exists>c t. hub_query Hub_QueryConfig st'
        = Inr (Hub_ConfigResponse (hc_creator c) (hc_reward_contract c) (hc_token_contract c)) \<and>
      hub_query Hub_QueryState st' = Inr (Hub_StateResponse dec_one 0 t 0) \<and>
      hub_query Hub_QueryParameters st' = Inr (Hub_Parameters \<lparr>hp_reward_denom = hi_reward_denom m\<rparr>) \<and>
      (hub_config_item st' = Some c)"
proof -
  from assms(2) have "hub_typed (hi_reward_denom m) st'"
    by (induction rule: rtranclp_induct) (use hub_instantiate_typed [OF assms(1)] hub_step_typed in auto)
  then show ?thesis by (auto simp: hub_typed_def load_hub_config_def load_hub_state_def load_def)
qed

theorem hub_storage_typed_witness:
  "\<exists>st r st' r'. hub_instantiate fixed18 \<lparr>hi_reward_denom = ''uusd''\<rparr> (sc_dp 1 1) (sc_env 5) (sc_info ''owner'')
      \<lparr>hub_config_item = None, hub_state_item = None, hub_parameters_item = None\<rparr> = Inr (st, r) \<and>
    hub_execute fixed18 (Hub_UpdateConfig None (Some ''reward'') None) (sc_dp 1 1) (sc_env 9)
      (sc_info ''owner'') st = Inr (st', r') \<and>
    hub_query Hub_QueryParameters st' = Inr (Hub_Parameters \<lparr>hp_reward_denom = ''uusd''\<rparr>)"
proof -
  let ?st0 = "\<lparr>hub_config_item = None, hub_state_item = None, hub_parameters_item = None\<rparr>"
  obtain st r st' r' where
      init: "hub_instantiate fixed18 \<lparr>hi_reward_denom = ''uusd''\<rparr> (sc_dp 1 1) (sc_env 5) (sc_info ''owner'') ?st0 = Inr (st, r)"
      and ex: "hub_execute fixed18 (Hub_UpdateConfig None (Some ''reward'') None) (sc_dp 1 1) (sc_env 9)
        (sc_info ''owner'') st = Inr (st', r')"
    by (simp add: hub_instantiate_def hub_update_config_def update_hub_field_def update_hub_config_def
        load_hub_config_def load_def Let_def sc_info_def sc_deps_def)
  from ex have "(hub_step fixed18)\<^sup>*\<^sup>* st st'" by (blast intro: hub_step.hub_call)
  from hub_storage_typed [OF init this] init ex show ?thesis by auto
qed

section \<open>The wrapper token\<close>

inductive token_step ::
  "arith \<Rightarrow> 'tok cw20_base \<Rightarrow> ('raw, 'cfg) lsd_hub \<Rightarrow> ('cfg, 'tok) wrapper_storage \<Rightarrow>
   ('cfg, 'tok) wrapper_storage \<Rightarrow> bool"
  for A :: arith and C :: "'tok cw20_base" and H :: "('raw, 'cfg) lsd_hub" where
  token_call: "wrapper_execute A C H m dp e i st = Inr (st', r) \<Longrightarrow> token_step A C H st st'"
| token_migration: "wrapper_migrate dp e i st = Inr (st', r) \<Longrightarrow> token_step A C H st st'"

inductive_simps token_step_simps: "token_step A C H st st'"

context wrapper_env
begin

lemma token_step_frame: "token_step A C H st st' \<Longrightarrow> \<exists>t. st' = st\<lparr>ws_cw20 := t\<rparr>"
  unfolding token_step_simps wrapper_migrate_def
  by (auto dest: execute_frame intro: exI [of _ "ws_cw20 st"])

lemma token_run_frame: "(token_step A C H)\<^sup>*\<^sup>* st st' \<Longrightarrow> \<exists>t. st' = st\<lparr>ws_cw20 := t\<rparr>"
proof (induction rule: rtranclp_induct)
  case base
  show ?case by (rule exI [of _ "ws_cw20 st"]) simp
next
  case (step s s')
  then obtain t t' where "s = st\<lparr>ws_cw20 := t\<rparr>" "s' = s\<lparr>ws_cw20 := t'\<rparr>"
    using token_step_frame by blast
  then show ?case by (intro exI [of _ t']) simp
qed

lemma wrapper_instantiate_ok:
  assumes "wrapper_instantiate C H m dp e i st0 = Inr (st, r)"
  obtains cfg hub where "instantiate_config H dp (tm_lsd_config m) = Inr cfg"
    "addr_validate dp (tm_hub_contract m) = Inr hub"
    "ws_lsd_config st = Some cfg" "ws_hub_contract st = Some hub"
  using assms
  by (auto simp: wrapper_instantiate_def rbind_eq_Inr map_err_eq_Inr on_cw20_ok Let_def
      store_lsd_config_def store_hub_contract_def std_res_eq_Inr)

end

text \<open>
  C27. The configuration of a wrapper is fixed for its lifetime. After an instantiation, and after any
  sequence of messages and migrations, the LSD configuration and the hub are the ones that the
  instantiation checked and stored: no caller, not even the hub, can exchange the LSD that backs the
  token, or the contract that may decompound it.
\<close>

theorem wrapper_storage_typed:
  assumes "wrapper_env A C H asset"
    and "wrapper_instantiate C H m dp e i st0 = Inr (st, r)" and "(token_step A C H)\<^sup>*\<^sup>* st st'"
  shows "\<exists>cfg hub. instantiate_config H dp (tm_lsd_config m) = Inr cfg \<and>
    addr_validate dp (tm_hub_contract m) = Inr hub \<and>
    read_lsd_config st' = Inr cfg \<and> read_hub_contract st' = Inr hub"
proof -
  from wrapper_env.token_run_frame [OF assms(1,3)] obtain t where "st' = st\<lparr>ws_cw20 := t\<rparr>" ..
  moreover from assms(1,2) obtain cfg hub where "instantiate_config H dp (tm_lsd_config m) = Inr cfg"
      "addr_validate dp (tm_hub_contract m) = Inr hub"
      "ws_lsd_config st = Some cfg" "ws_hub_contract st = Some hub"
    by (rule wrapper_env.wrapper_instantiate_ok)
  ultimately show ?thesis by (simp add: read_lsd_config_def read_hub_contract_def)
qed

text \<open>The concrete contract: instantiated by \<open>''owner''\<close> with 1000 units, then a mint.\<close>

definition sc_wrapper_init :: "lsd_contracts_raw token_init_msg" where
  "sc_wrapper_init = \<lparr>tm_name = ''wrapped'', tm_symbol = ''W'', tm_decimals = 6,
     tm_initial_balances = [(''alice'', 1000)], tm_hub_contract = ''hub'',
     tm_lsd_config = \<lparr>lr_hub = ''lsd_hub'', lr_token = ''lsd''\<rparr>\<rparr>"

theorem wrapper_storage_typed_witness:
  "\<exists>st r st' r'. wrapper_instantiate ledger_cw20 sc_hub sc_wrapper_init (sc_dp (2 * 10 ^ 18) 600) (sc_env 5)
      (sc_info ''owner'') \<lparr>ws_lsd_config = None, ws_hub_contract = None, ws_cw20 = empty_ledger\<rparr> = Inr (st, r) \<and>
    wrapper_execute fixed18 ledger_cw20 sc_hub (Mint ''bob'' 100) (sc_dp (2 * 10 ^ 18) 600) (sc_env 9)
      (sc_info ''alice'') st = Inr (st', r') \<and>
    read_lsd_config st' = Inr sc_lsd \<and> read_hub_contract st' = Inr ''hub''"
proof -
  let ?dp = "sc_dp (2 * 10 ^ 18) 600"
    and ?st0 = "\<lparr>ws_lsd_config = None, ws_hub_contract = None, ws_cw20 = empty_ledger\<rparr>"
  obtain st r st' r' where
      init: "wrapper_instantiate ledger_cw20 sc_hub sc_wrapper_init ?dp (sc_env 5) (sc_info ''owner'') ?st0
        = Inr (st, r)"
      and ex: "wrapper_execute fixed18 ledger_cw20 sc_hub (Mint ''bob'' 100) ?dp (sc_env 9) (sc_info ''alice'') st
        = Inr (st', r')"
    by (simp add: wrapper_instantiate_def sc_wrapper_init_def steak_instantiate_config_def
        store_lsd_config_def store_hub_contract_def sc_eval wrapper_eval steak_eval fixed18_eval ledger_eval)
  from ex have "(token_step fixed18 ledger_cw20 sc_hub)\<^sup>*\<^sup>* st st'" by (blast intro: token_step.token_call)
  from wrapper_storage_typed [OF amp_luna_env init this] init ex show ?thesis
    by (auto simp: sc_wrapper_init_def steak_instantiate_config_def sc_lsd_def sc_deps_def)
qed

end
