(* ===== verification/Reward_Props.thy ===== *)
theory Reward_Props
  imports Scenario Reward_Holders
begin

text \<open>
  The properties of the reward contracts and of their configuration: the choice of the router, the
  swap, the claim, who may do what, the retrieval with its reply, and the listing of holders.
\<close>

definition sc_uluna :: asset where
  "sc_uluna = \<lparr>as_amount = 5, as_info = NativeToken ''uluna''\<rparr>"

lemma sc_quotes:
  "get_swap_result_for (sc_deps sc_market) a d Mt_Astroport sc_reward = Inr 10"
  "get_swap_result_for (sc_deps sc_market) a d Mt_TerraSwap sc_reward = Inr 12"
  by (simp_all add: reward_eval)

text \<open>
  C22. The best router wins. Making the swap messages for an asset never fails. Either no router
  that answers offers anything, and there is no message; or there is exactly one, which sells the
  whole asset for the reward denomination on a router whose quote is positive and at least the
  quote of every other router that answers, the last in the list among equals.
\<close>

theorem best_router:
  "(create_swap_msgs dp a d st = Inr [] \<and>
      (\<forall>mt p. get_swap_result_for dp a d mt st = Inr p \<longrightarrow> p = 0)) \<or>
   (\<exists>c mt p. rs_swap_config st = Some c \<and> create_swap_msgs dp a d st = Inr [swap_order c a d mt] \<and>
      get_swap_result_for dp a d mt st = Inr p \<and> p \<noteq> 0 \<and>
      (\<forall>mt' p'. get_swap_result_for dp a d mt' st = Inr p' \<longrightarrow>
        p' < p \<or> p' = p \<and> router_rank mt' \<le> router_rank mt))"
  by (rule create_swap_msgs_cases [of dp a d st]) blast+

theorem best_router_witness:
  "create_swap_msgs (sc_deps sc_market) sc_uluna ''uusd'' sc_reward =
    Inr [Wasm_Execute ''terraswap'' (RouterExec (ExecuteSwapOperations
      [TerraSwap (NativeToken ''uluna'') (NativeToken ''uusd'')] None None None))
      [\<lparr>coin_denom = ''uluna'', coin_amount = 5\<rparr>]]"
proof -
  have "\<not> (\<forall>mt p. get_swap_result_for (sc_deps sc_market) sc_uluna ''uusd'' mt sc_reward = Inr p \<longrightarrow> p = 0)"
  proof
    assume "\<forall>mt p. get_swap_result_for (sc_deps sc_market) sc_uluna ''uusd'' mt sc_reward = Inr p \<longrightarrow> p = 0"
    with sc_quotes(1) have "(10 :: u128) = 0" by blast
    then show False by simp
  qed
  with best_router [of "sc_deps sc_market" sc_uluna "''uusd''" sc_reward] obtain c mt p where
      c: "rs_swap_config sc_reward = Some c"
      and m: "create_swap_msgs (sc_deps sc_market) sc_uluna ''uusd'' sc_reward = Inr [swap_order c sc_uluna ''uusd'' mt]"
      and p: "get_swap_result_for (sc_deps sc_market) sc_uluna ''uusd'' mt sc_reward = Inr p"
      and best: "\<forall>mt' p'. get_swap_result_for (sc_deps sc_market) sc_uluna ''uusd'' mt' sc_reward = Inr p' \<longrightarrow>
        p' < p \<or> p' = p \<and> router_rank mt' \<le> router_rank mt"
    by blast
  have "12 \<le> p" using best sc_quotes(2) [of sc_uluna "''uusd''"] by fastforce
  with p have "mt = Mt_TerraSwap"
    by (cases mt) (simp_all add: sc_quotes, simp_all add: reward_eval sc_uluna_def)
  with m c show ?thesis by (simp add: swap_order_def sc_uluna_def Let_def) (auto simp: sc_reward_def)
qed

text \<open>
  C28. The hub's swap request is carried out. When the hub asks and the bank answers, the call
  succeeds, leaves the storage, and its messages are the orders, in this sequence, for every coin of
  the contract that is not of the reward denomination and for every known token of which it holds
  something; a token contract that does not answer counts as nothing held.
\<close>

theorem swap_carried_out:
  assumes "rs_config st = Some c" and "sender i = rc_hub_contract c"
    and "bank_all_balances dp (contract_address e) = Inr balances"
  shows "\<exists>r. reward_execute SwapToRewardDenom dp e i st = Inr (st, r) \<and>
    msgs r = concat (map (\<lambda>a. projr (create_swap_msgs dp a (rc_reward_denom c) st))
      (for_sale dp (contract_address e) c balances))"
  by (rule execute_swap_total [OF assms]) (auto simp: sell_def cong: map_cong)

theorem swap_carried_out_witness:
  "\<exists>r. reward_execute SwapToRewardDenom (sc_deps sc_market) (sc_env 5) (sc_info ''hub'') sc_reward
      = Inr (sc_reward, r) \<and>
    msgs r = [Wasm_Execute ''terraswap'' (RouterExec (ExecuteSwapOperations
        [TerraSwap (NativeToken ''uluna'') (NativeToken ''uusd'')] None None None))
        [\<lparr>coin_denom = ''uluna'', coin_amount = 5\<rparr>],
      Wasm_Execute ''lsd'' (Cw20Exec (Cw20_Send ''terraswap'' 50 (RouterExec (ExecuteSwapOperations
        [TerraSwap (Token ''lsd'') (NativeToken ''uusd'')] None None None)))) []]"
proof -
  have c: "rs_config sc_reward = Some sc_reward_config" by (simp add: sc_reward_def)
  have i: "sender (sc_info ''hub'') = rc_hub_contract sc_reward_config"
    by (simp add: sc_info_def sc_reward_config_def)
  have b: "bank_all_balances (sc_deps sc_market) (contract_address (sc_env 5)) = Inr (ch_coins sc_market)"
    by (simp add: sc_deps_def)
  from swap_carried_out [OF c i b] show ?thesis
    by (elim exE conjE) (simp add: for_sale_def token_held_def reward_eval)
qed

text \<open>
  C37. Who may do what. On a configured reward contract a swap request from anybody but the hub, a
  configuration update from anybody but the owner, and a claim from anybody but the custody contract
  are refused with the error \<open>unauthorized\<close>.
\<close>

theorem reward_authorisation:
  assumes "rs_config st = Some c" and "rs_swap_config st = Some s"
    and "rc_custody_contract c = Some custody" and "addr_validate dp custody = Inr a"
  shows "(sender i \<noteq> rc_hub_contract c \<longrightarrow>
      reward_execute SwapToRewardDenom dp e i st = generic_err ''unauthorized'') \<and>
    (sender i \<noteq> rc_owner c \<longrightarrow>
      reward_execute (Reward_UpdateConfig ow cu kt as ph ts) dp e i st = generic_err ''unauthorized'') \<and>
    (sender i \<noteq> a \<longrightarrow>
      reward_execute (ClaimRewards recipient) dp e i st = generic_err ''unauthorized'')"
  using assms
  by (auto simp: execute_swap_def set_custody_contract_def execute_claim_rewards_def read_config_def
      load_swap_config_def)

theorem reward_authorisation_witness:
  "reward_execute SwapToRewardDenom (sc_deps sc_market) (sc_env 5) (sc_info ''alice'') sc_reward
     = generic_err ''unauthorized'' \<and>
   reward_execute (ClaimRewards None) (sc_deps sc_market) (sc_env 5) (sc_info ''alice'') sc_reward
     = generic_err ''unauthorized''"
proof -
  have 1: "rs_config sc_reward = Some sc_reward_config" by (simp add: sc_reward_def)
  obtain s where 2: "rs_swap_config sc_reward = Some s" by (simp add: sc_reward_def)
  have 3: "rc_custody_contract sc_reward_config = Some ''custody''" by (simp add: sc_reward_config_def)
  have 4: "addr_validate (sc_deps sc_market) ''custody'' = Inr ''custody''" by (simp add: sc_deps_def)
  have "sender (sc_info ''alice'') \<noteq> rc_hub_contract sc_reward_config"
    "sender (sc_info ''alice'') \<noteq> ''custody''"
    by (simp_all add: sc_info_def sc_reward_config_def)
  with reward_authorisation [OF 1 2 3 4] show ?thesis by blast
qed

text \<open>
  C36. A claim pays out everything: a successful claim comes from the custody contract, finds a
  positive balance of the reward denomination, and sends exactly this balance to the recipient, the
  caller when none is named.
\<close>

theorem claim_pays_all:
  assumes "reward_execute (ClaimRewards recipient) dp e i st = Inr (st', r)"
  shows "\<exists>c custody to k. rs_config st = Some c \<and> rc_custody_contract c = Some custody \<and>
    addr_validate dp custody = Inr (sender i) \<and>
    (case recipient of None \<Rightarrow> to = sender i | Some x \<Rightarrow> addr_validate dp x = Inr to) \<and>
    bank_balance dp (contract_address e) (rc_reward_denom c) = Inr k \<and> coin_amount k \<noteq> 0 \<and>
    st' = st \<and> msgs r = [Bank_Send to [k]]"
proof -
  from assms have "execute_claim_rewards recipient dp e i st = Inr (st', r)" by simp
  then show ?thesis by (elim execute_claim_rewards_ok) blast
qed

theorem claim_pays_all_witness:
  "\<exists>st' r. reward_execute (ClaimRewards (Some ''alice'')) (sc_deps sc_market) (sc_env 5)
      (sc_info ''custody'') sc_reward = Inr (st', r) \<and>
    msgs r = [Bank_Send ''alice'' [\<lparr>coin_denom = ''uusd'', coin_amount = 50\<rparr>]]"
proof -
  obtain st' r where ex: "reward_execute (ClaimRewards (Some ''alice'')) (sc_deps sc_market) (sc_env 5)
      (sc_info ''custody'') sc_reward = Inr (st', r)"
    by (simp add: reward_eval)
  from claim_pays_all [OF ex] ex show ?thesis
    by (auto simp: sc_reward_def sc_reward_config_def sc_deps_def sc_market_def split: if_splits)
qed

text \<open>
  What an update of the configuration changes. It comes from the owner; the hub and the reward
  denomination stay; each optional address either stays or becomes the checked address; the token
  list stays or is replaced by the checked addresses of a list without repetition.
\<close>

theorem update_changes_only:
  assumes "reward_execute (Reward_UpdateConfig ow cu kt as ph ts) dp e i st = Inr (st', r)"
  shows "\<exists>c c' s s'. rs_config st = Some c \<and> rs_swap_config st = Some s \<and> sender i = rc_owner c \<and>
    st' = st\<lparr>rs_config := Some c', rs_swap_config := Some s'\<rparr> \<and> msgs r = [] \<and>
    rc_hub_contract c' = rc_hub_contract c \<and> rc_reward_denom c' = rc_reward_denom c \<and>
    (case kt of None \<Rightarrow> rc_known_cw20_tokens c' = rc_known_cw20_tokens c
     | Some tokens \<Rightarrow> distinct tokens \<and>
         traverse (\<lambda>a. std_res (addr_validate dp a)) tokens = Inr (rc_known_cw20_tokens c')) \<and>
    (case ow of None \<Rightarrow> rc_owner c' = rc_owner c | Some x \<Rightarrow> addr_validate dp x = Inr (rc_owner c')) \<and>
    (case cu of None \<Rightarrow> rc_custody_contract c' = rc_custody_contract c
     | Some x \<Rightarrow> (\<exists>a. addr_validate dp x = Inr a \<and> rc_custody_contract c' = Some a)) \<and>
    (case as of None \<Rightarrow> sw_astroport_addr s' = sw_astroport_addr s
     | Some x \<Rightarrow> addr_validate dp x = Inr (sw_astroport_addr s')) \<and>
    (case ph of None \<Rightarrow> sw_phoenix_addr s' = sw_phoenix_addr s
     | Some x \<Rightarrow> addr_validate dp x = Inr (sw_phoenix_addr s')) \<and>
    (case ts of None \<Rightarrow> sw_terraswap_addr s' = sw_terraswap_addr s
     | Some x \<Rightarrow> addr_validate dp x = Inr (sw_terraswap_addr s'))"
proof -
  from assms have "set_custody_contract ow cu kt as ph ts dp i st = Inr (st', r)" by simp
  then show ?thesis
    by (rule set_custody_contract_ok)
      (intro exI conjI; (assumption | simp add: has_unique_elements_iff cong: option.case_cong))
qed

theorem update_changes_only_witness:
  "\<exists>st' r c'. reward_execute (Reward_UpdateConfig None None (Some [''x'', ''y'']) None (Some ''p2'') None)
      (sc_deps sc_market) (sc_env 5) (sc_info ''owner'') sc_reward = Inr (st', r) \<and>
    rs_config st' = Some c' \<and> rc_known_cw20_tokens c' = [''x'', ''y''] \<and> rc_hub_contract c' = ''hub''"
proof -
  obtain st' r where ex: "reward_execute (Reward_UpdateConfig None None (Some [''x'', ''y'']) None (Some ''p2'') None)
      (sc_deps sc_market) (sc_env 5) (sc_info ''owner'') sc_reward = Inr (st', r)"
    by (simp add: set_custody_contract_def set_addr_def set_known_tokens_def has_unique_elements_def
        store_config_def reward_eval)
  from update_changes_only [OF ex] ex show ?thesis
    by (auto simp: sc_reward_def sc_reward_config_def sc_deps_def)
qed

text \<open>
  C30. The configuration stays sound along every run. After an instantiation, and after any sequence
  of messages and migrations on a chain whose address check returns the string it accepts, the hub
  and the reward denomination are those of the instantiation and no known token is listed twice.
\<close>

theorem reward_configuration_sound:
  assumes "addr_same dp" and "reward_instantiate m dp e i st0 = Inr (st, r)"
    and "reward_step\<^sup>*\<^sup>* st st'"
  shows "\<exists>c. rs_config st' = Some c \<and> rc_hub_contract c = rm_hub_contract m \<and>
    rc_reward_denom c = rm_reward_denom m \<and> distinct (rc_known_cw20_tokens c)"
  using reward_run_configured [OF assms(3) reward_instantiate_configured [OF assms(1,2)]]
  by (auto simp: reward_configured_def split: option.splits)

definition sc_reward_init :: reward_init_msg where
  "sc_reward_init = \<lparr>rm_hub_contract = ''hub'', rm_reward_denom = ''uusd'',
     rm_astroport_addr = ''astroport'', rm_phoenix_addr = ''phoenix'',
     rm_terraswap_addr = ''terraswap'', rm_known_tokens = [''lsd'']\<rparr>"

lemma sc_reward_run:
  obtains st r st' where
    "reward_instantiate sc_reward_init (sc_deps sc_market) (sc_env 5) (sc_info ''owner'')
       \<lparr>rs_config = None, rs_state = None, rs_swap_config = None\<rparr> = Inr (st, r)"
    "reward_step st st'"
    "\<exists>c. rs_config st' = Some c \<and> rc_known_cw20_tokens c = [''lsd'', ''x'']"
proof -
  obtain st r where i: "reward_instantiate sc_reward_init (sc_deps sc_market) (sc_env 5) (sc_info ''owner'')
       \<lparr>rs_config = None, rs_state = None, rs_swap_config = None\<rparr> = Inr (st, r)"
      and st: "rs_config st = Some \<lparr>rc_owner = ''owner'', rc_hub_contract = ''hub'', rc_custody_contract = None,
        rc_reward_denom = ''uusd'', rc_known_cw20_tokens = [''lsd'']\<rparr>" "rs_swap_config st \<noteq> None"
    by (simp add: reward_instantiate_def reward_config_of_def swap_config_of_def sc_reward_init_def
        has_unique_elements_def store_config_def store_state_def sc_deps_def sc_info_def Let_def)
  from st obtain st' r' where
      ex: "reward_execute (Reward_UpdateConfig None None (Some [''lsd'', ''x'']) None None None)
        (sc_deps sc_market) (sc_env 5) (sc_info ''owner'') st = Inr (st', r')"
      and c: "\<exists>c. rs_config st' = Some c \<and> rc_known_cw20_tokens c = [''lsd'', ''x'']"
    by (auto simp: set_custody_contract_def set_addr_def set_known_tokens_def has_unique_elements_def
        store_config_def read_config_def load_swap_config_def sc_deps_def sc_info_def)
  from i reward_call [OF sc_addr_same ex] c show thesis by (rule that)
qed

theorem reward_configuration_sound_witness:
  "\<exists>st st' c. reward_step\<^sup>*\<^sup>* st st' \<and> rs_config (st' :: reward_storage) = Some c \<and>
    rc_known_cw20_tokens c = [''lsd'', ''x''] \<and> rc_hub_contract c = ''hub'' \<and> distinct (rc_known_cw20_tokens c)"
proof -
  obtain st r st' where i: "reward_instantiate sc_reward_init (sc_deps sc_market) (sc_env 5) (sc_info ''owner'')
       \<lparr>rs_config = None, rs_state = None, rs_swap_config = None\<rparr> = Inr (st, r)"
      and s: "reward_step st st'" and c: "\<exists>c. rs_config st' = Some c \<and> rc_known_cw20_tokens c = [''lsd'', ''x'']"
    by (rule sc_reward_run)
  from s have run: "reward_step\<^sup>*\<^sup>* st st'" by (rule r_into_rtranclp)
  from reward_configuration_sound [OF sc_addr_same i run] c run show ?thesis
    by (auto simp: sc_reward_init_def intro!: exI [of _ st] exI [of _ st'])
qed

text \<open>
  A swap request to a reward contract with retrieval, for every implementation of the trait. It
  comes from the hub and leaves the storage. With nothing to retrieve the response is the swap
  itself. Otherwise the response has the retrieval messages in order, none of them with coins, and
  exactly the last one asks for a reply, with identifier 1, on success.
\<close>

theorem retrieval_protocol:
  assumes "swap_reply T" and "custom_execute T SwapToRewardDenom dp e i st = Inr (st', r)"
  shows "\<exists>c. rs_config st = Some c \<and> sender i = rc_hub_contract c \<and> st' = st \<and>
    ((\<exists>balances. get_retrieve_messages T dp e st = Inr [] \<and>
        bank_all_balances dp (contract_address e) = Inr balances \<and>
        msgs r = concat (map (sell dp (rc_reward_denom c) st)
          (for_sale dp (contract_address e) c balances))) \<or>
     (\<exists>ms m. get_retrieve_messages T dp e st = Inr (ms @ [m]) \<and>
        messages r = map sub_msg_new ms @ [\<lparr>sm_id = 1, sm_msg = m, sm_reply_on = Reply_Success\<rparr>] \<and>
        (\<forall>x \<in> set (ms @ [m]). \<exists>d b. x = Wasm_Execute d b [])))"
  by (rule swap_reply.swap_request [OF assms]) blast+

definition sc_spectrum_reward :: "spectrum_retrieve_config custom_storage" where
  "sc_spectrum_reward = \<lparr>rs_config = Some sc_reward_config, rs_state = Some reward_state_zero,
     rs_swap_config = rs_swap_config sc_reward,
     cs_retrieve_config = Some \<lparr>src_spectrum_token = ''spectrum'', src_pair = ''pair''\<rparr>\<rparr>"

lemma sc_spectrum_messages:
  "spectrum_get_retrieve_messages (sc_deps sc_market) (sc_env 5) sc_spectrum_reward =
    Inr [Wasm_Execute ''spectrum'' (SpectrumExec (Spectrum_Unbond 40)) [],
      Wasm_Execute ''lp'' (Cw20Exec (Cw20_Send ''pair'' 40 (PairHook (WithdrawLiquidity [])))) []]"
  by (simp add: spectrum_get_retrieve_messages_def read_retrieve_config_def sc_spectrum_reward_def
      reward_eval)

theorem retrieval_protocol_witness:
  "\<exists>st' r. custom_execute spectrum_retrieve SwapToRewardDenom (sc_deps sc_market) (sc_env 5)
      (sc_info ''hub'') sc_spectrum_reward = Inr (st', r) \<and> map sm_id (messages r) = [0, 1] \<and>
    map sm_reply_on (messages r) = [Reply_Never, Reply_Success]"
proof -
  obtain st' r where ex: "custom_execute spectrum_retrieve SwapToRewardDenom (sc_deps sc_market) (sc_env 5)
      (sc_info ''hub'') sc_spectrum_reward = Inr (st', r)"
    by (simp add: execute_retrieve_normal_tokens_def spectrum_get_retrieve_messages_def
        read_retrieve_config_def sc_spectrum_reward_def reward_eval)
  from retrieval_protocol [OF spectrum_retrieve.swap_reply_axioms ex] obtain ms m where
      ms: "get_retrieve_messages spectrum_retrieve (sc_deps sc_market) (sc_env 5) sc_spectrum_reward = Inr (ms @ [m])"
      and r: "messages r = map sub_msg_new ms @ [\<lparr>sm_id = 1, sm_msg = m, sm_reply_on = Reply_Success\<rparr>]"
    by (auto simp: sc_spectrum_messages)
  from ms have "length ms = 1" by (cases ms) (auto simp: sc_spectrum_messages)
  then obtain x where "ms = [x]" by (auto simp: length_Suc_conv)
  with ex r show ?thesis by (simp add: sub_msg_new_def)
qed

text \<open>
  The reply completes the retrieval: it swaps if and only if its identifier is the one that the
  request asked for, with the whole holdings then for sale; any other identifier is an error.
\<close>

theorem reply_swaps:
  assumes "rs_config st = Some c" and "bank_all_balances dp (contract_address e) = Inr balances"
  shows "if reply_id = 1
    then \<exists>r. custom_reply reply_id dp e st = Inr (st, r) \<and>
      msgs r = concat (map (sell dp (rc_reward_denom c) st) (for_sale dp (contract_address e) c balances))
    else custom_reply reply_id dp e st = generic_err ''Invalid Reply Id''"
proof -
  obtain r where "swap_balances dp e c st = Inr (st, r)"
      "msgs r = concat (map (sell dp (rc_reward_denom c) st) (for_sale dp (contract_address e) c balances))"
    by (rule swap_balances_ok [OF assms(2)])
  with assms(1) show ?thesis
    by (simp add: custom_reply_def retrieve_normal_tokens_operation_def custom_swap
        read_config_def)
qed

theorem reply_swaps_witness:
  "(\<exists>r. custom_reply 1 (sc_deps sc_market) (sc_env 5) sc_spectrum_reward = Inr (sc_spectrum_reward, r)) \<and>
   custom_reply 2 (sc_deps sc_market) (sc_env 5) sc_spectrum_reward = generic_err ''Invalid Reply Id''"
proof -
  have c: "rs_config sc_spectrum_reward = Some sc_reward_config" by (simp add: sc_spectrum_reward_def)
  have b: "bank_all_balances (sc_deps sc_market) (contract_address (sc_env 5)) = Inr (ch_coins sc_market)"
    by (simp add: sc_deps_def)
  from reply_swaps [OF c b, of 1] reply_swaps [OF c b, of 2] show ?thesis by auto
qed

text \<open>
  C35. What the amp-LP reward contract retrieves. It holds \<open>b\<close> staked shares. With none there is no
  message. Otherwise it computes the pool shares that the staking contract gives back for them
  (total pool shares times b over total staked shares, rounded down; none when nothing is staked),
  adds the pool shares it already holds, and, unless the sum is zero, unbonds all b and withdraws
  exactly the sum from the pair, in this order.
\<close>

theorem amp_retrieves_all:
  assumes "decimal_arith A" and "amp_get_retrieve_messages A dp e st = Inr ms"
  shows "\<exists>c b. cs_retrieve_config st = Some c \<and>
    query_as dp a_balance (arc_amp_lp_token c) (Q_Cw20Balance (contract_address e)) = Inr b \<and>
    (b = 0 \<and> ms = [] \<or>
     (\<exists>lp n s total. query_as dp a_pair_info (arc_pair c) Q_Pair = Inr lp \<and>
        query_as dp a_balance lp (Q_Cw20Balance (contract_address e)) = Inr n \<and>
        query_as dp a_eris_state (arc_hub c) (Q_Eris (Eris_QState None)) = Inr s \<and>
        unat total = (if es_total_amp_lp s = 0 then 0
          else unat (es_total_lp s) * unat b div unat (es_total_amp_lp s)) + unat n \<and>
        ms = (if total = 0 then []
          else [Wasm_Execute (arc_amp_lp_token c)
                  (Cw20Exec (Cw20_Send (arc_hub c) b (ErisHook (Eris_Unbond None)))) [],
                Wasm_Execute lp
                  (Cw20Exec (Cw20_Send (arc_pair c) total (PairHook (WithdrawLiquidity [])))) []])))"
  using assms(2)
proof (cases rule: amp_retrieve_cases)
  case (unbond c b lp n s bond total)
  from unbond(7) have "unat bond = (if es_total_amp_lp s = 0 then 0
      else unat (es_total_lp s) * unat b div unat (es_total_amp_lp s))"
    by (auto simp: amp_bond_amount_def or_panic_eq_Inr decimal_arith.u_multiply_ratio [OF assms(1)]
        split: if_splits)
  moreover have "unat total = unat bond + unat n"
    using unbond(8) by (simp add: decimal_arith.u_add [OF assms(1)])
  ultimately have "unat total = (if es_total_amp_lp s = 0 then 0
      else unat (es_total_lp s) * unat b div unat (es_total_amp_lp s)) + unat n" by simp
  with unbond show ?thesis by blast
qed blast

definition sc_amp_reward :: "amp_retrieve_config custom_storage" where
  "sc_amp_reward = \<lparr>rs_config = Some sc_reward_config, rs_state = Some reward_state_zero,
     rs_swap_config = rs_swap_config sc_reward,
     cs_retrieve_config = Some \<lparr>arc_amp_lp_token = ''amp_lp'', arc_hub = ''eris'', arc_pair = ''pair''\<rparr>\<rparr>"

theorem amp_retrieves_all_witness:
  "amp_get_retrieve_messages fixed18 (sc_deps sc_market) (sc_env 5) sc_amp_reward =
    Inr [Wasm_Execute ''amp_lp'' (Cw20Exec (Cw20_Send ''eris'' 50 (ErisHook (Eris_Unbond None)))) [],
      Wasm_Execute ''lp'' (Cw20Exec (Cw20_Send ''pair'' 82 (PairHook (WithdrawLiquidity [])))) []]"
proof -
  obtain ms where ex: "amp_get_retrieve_messages fixed18 (sc_deps sc_market) (sc_env 5) sc_amp_reward = Inr ms"
    by (simp add: amp_get_retrieve_messages_def amp_bond_amount_def read_retrieve_config_def
        sc_amp_reward_def fixed18_eval reward_eval)
  from amp_retrieves_all [OF fixed18.decimal_arith_axioms ex] obtain total :: u128 where
      "unat total = 82"
      "ms = (if total = 0 then [] else
        [Wasm_Execute ''amp_lp'' (Cw20Exec (Cw20_Send ''eris'' 50 (ErisHook (Eris_Unbond None)))) [],
         Wasm_Execute ''lp'' (Cw20Exec (Cw20_Send ''pair'' total (PairHook (WithdrawLiquidity [])))) []])"
    by (auto simp: sc_amp_reward_def reward_eval)
  moreover from this(1) have "total = 82" by (simp add: word_unat_eq_iff)
  ultimately show ?thesis using ex by simp
qed

text \<open>
  What the Spectrum reward contract retrieves: with a positive share it unbonds the whole bonded
  amount and withdraws exactly this amount from the pair, in this order; without a share it sends
  nothing.
\<close>

theorem spectrum_retrieves_all:
  assumes "spectrum_get_retrieve_messages dp e st = Inr ms"
  shows "\<exists>c info. cs_retrieve_config st = Some c \<and>
    query_as dp a_reward_info (src_spectrum_token c) (Q_Spectrum (Spectrum_QRewardInfo (contract_address e))) = Inr info \<and>
    (if ri_bond_share (ri_reward_info info) = 0 then ms = []
     else \<exists>lp. query_as dp a_pair_info (src_pair c) Q_Pair = Inr lp \<and>
       ms = [Wasm_Execute (src_spectrum_token c)
               (SpectrumExec (Spectrum_Unbond (ri_bond_amount (ri_reward_info info)))) [],
             Wasm_Execute lp (Cw20Exec (Cw20_Send (src_pair c) (ri_bond_amount (ri_reward_info info))
               (PairHook (WithdrawLiquidity [])))) []])"
  using assms by (cases rule: spectrum_retrieve_cases) auto

theorem spectrum_retrieves_all_witness:
  "spectrum_get_retrieve_messages (sc_deps sc_market) (sc_env 5) sc_spectrum_reward =
    Inr [Wasm_Execute ''spectrum'' (SpectrumExec (Spectrum_Unbond 40)) [],
      Wasm_Execute ''lp'' (Cw20Exec (Cw20_Send ''pair'' 40 (PairHook (WithdrawLiquidity [])))) []]"
proof -
  obtain ms where ms: "spectrum_get_retrieve_messages (sc_deps sc_market) (sc_env 5) sc_spectrum_reward = Inr ms"
    using sc_spectrum_messages by blast
  from spectrum_retrieves_all [OF ms]
  have "ms = [Wasm_Execute ''spectrum'' (SpectrumExec (Spectrum_Unbond 40)) [],
      Wasm_Execute ''lp'' (Cw20Exec (Cw20_Send ''pair'' 40 (PairHook (WithdrawLiquidity [])))) []]"
    by (auto simp: sc_spectrum_reward_def reward_eval)
  with ms show ?thesis by simp
qed

text \<open>
  C31. The configuration of a reward contract with retrieval stays sound too, for every
  implementation of the trait and along every run of messages, replies and migrations.
\<close>

theorem custom_configuration_sound:
  assumes "swap_reply T" and "addr_same dp"
    and "custom_instantiate T m dp e i st0 = Inr (st, r)" and "(custom_step T)\<^sup>*\<^sup>* st st'"
  shows "\<exists>c. rs_config st' = Some c \<and> rc_hub_contract c = rm_hub_contract m \<and>
    rc_reward_denom c = rm_reward_denom m \<and> distinct (rc_known_cw20_tokens c)"
  using swap_reply.custom_run_configured [OF assms(1,4) custom_instantiate_configured [OF assms(2,3)]]
  by (auto simp: reward_configured_def split: option.splits)

theorem custom_configuration_sound_witness:
  "\<exists>st r c. custom_instantiate spectrum_retrieve \<lparr>rm_hub_contract = ''hub'', rm_reward_denom = ''uusd'',
      rm_astroport_addr = ''astroport'', rm_phoenix_addr = ''phoenix'', rm_terraswap_addr = ''terraswap'',
      rm_known_tokens = [''lsd'', ''lp''],
      cm_retrieve_config = \<lparr>srw_spectrum_token = ''spectrum'', srw_pair = ''pair''\<rparr>\<rparr>
      (sc_deps sc_market) (sc_env 5) (sc_info ''owner'')
      \<lparr>rs_config = None, rs_state = None, rs_swap_config = None, cs_retrieve_config = None\<rparr> = Inr (st, r) \<and>
    rs_config st = Some c \<and> rc_hub_contract c = ''hub'' \<and> distinct (rc_known_cw20_tokens c)"
proof -
  let ?m = "\<lparr>rm_hub_contract = ''hub'', rm_reward_denom = ''uusd'',
      rm_astroport_addr = ''astroport'', rm_phoenix_addr = ''phoenix'', rm_terraswap_addr = ''terraswap'',
      rm_known_tokens = [''lsd'', ''lp''],
      cm_retrieve_config = \<lparr>srw_spectrum_token = ''spectrum'', srw_pair = ''pair''\<rparr>\<rparr>"
  obtain st r where i: "custom_instantiate spectrum_retrieve ?m (sc_deps sc_market) (sc_env 5) (sc_info ''owner'')
      \<lparr>rs_config = None, rs_state = None, rs_swap_config = None, cs_retrieve_config = None\<rparr> = Inr (st, r)"
    by (simp add: custom_instantiate_eq reward_config_of_def swap_config_of_def has_unique_elements_def
        store_config_def store_state_def store_retrieve_config_def spectrum_retrieve_def
        spectrum_validate_retrieve_config_def sc_deps_def sc_info_def Let_def)
  from custom_configuration_sound [OF spectrum_retrieve.swap_reply_axioms sc_addr_same i rtranclp.rtrancl_refl] i
  show ?thesis by auto
qed

text \<open>
  C38. Listing the holders page by page leaves no gap and repeats nobody. A page that ends with the
  holder \<open>p\<close> has exactly the stored holders after its start and up to \<open>p\<close>, each with what is stored of
  it; and followed by the page that starts after \<open>p\<close>, of whatever size, it is the page that a single
  request for both sizes together would have been, in ascending order of the addresses. No page has more
  than thirty entries.
\<close>

theorem pages_join:
  assumes "holder_map M" and "read_holders M m start limit = ps @ [p]"
  shows "(ps @ [p]) @ read_holders M m (Some (hr_address p)) limit' =
      map holder_response_of (take (page_size limit + page_size limit') (kv_range M m start)) \<and>
    sorted_wrt (<) (map hr_address ((ps @ [p]) @ read_holders M m (Some (hr_address p)) limit')) \<and>
    length (ps @ [p]) \<le> 30 \<and>
    (\<forall>e. e \<in> set (ps @ [p]) \<longleftrightarrow>
      (\<exists>k h. kv_may_load M m k = Some h \<and> above start k \<and> k \<le> hr_address p \<and> e = holder_response_of (k, h)))"
  using holder_map.page_entries [OF assms] holder_map.read_holders_length [OF assms(1), of m start limit]
  unfolding holder_map.pages_continue [OF assms] assms(2)
  by (intro conjI refl holder_map.page_sorted [OF assms(1)]) blast+

definition sc_holder :: "u128 \<Rightarrow> holder" where
  "sc_holder b = \<lparr>ho_balance = b, ho_index = Decimal256 0, ho_pending_rewards = Decimal256 0\<rparr>"

theorem pages_join_witness:
  "\<exists>page. map hr_address page = [''bob''] \<and>
    read_holders fmap_store (store_holder fmap_store ''bob'' (sc_holder 2)
      (store_holder fmap_store ''alice'' (sc_holder 1) fmempty)) (Some ''alice'') (Some 5) = page"
proof -
  let ?m = "store_holder fmap_store ''bob'' (sc_holder 2) (store_holder fmap_store ''alice'' (sc_holder 1) fmempty)"
  have range: "kv_range fmap_store ?m None = [(''alice'', sc_holder 1), (''bob'', sc_holder 2)]"
    by (simp add: store_holder_def comp_def sorted_list_of_fset.rep_eq)
  have sizes: "page_size (Some 1) = 1" "page_size (Some 5) = 5" by (simp_all add: page_size_def max_limit_def)
  have first: "read_holders fmap_store ?m None (Some 1) = [] @ [holder_response_of (''alice'', sc_holder 1)]"
    by (simp only: read_holders_take range sizes) simp
  from pages_join [OF fmap_store.holder_map_axioms first, of "Some 5"] show ?thesis
    by (simp only: range sizes) (simp add: holder_response_of_def)
qed

end
