(* ===== verification/Custom_Equiv.thy ===== *)
theory Custom_Equiv
  imports Custom_Reward
begin

text \<open>
  The reward contract with retrieval, without a retrieval: the entry points of
  \<open>packages/cavern_aAsset_custom_reward\<close> for the empty implementation of the trait do on their
  storage what those of \<open>contracts/cavern-lsd-reward\<close> do on the part of it that the plain contract
  has. \<open>reward_storage.truncate\<close> is this part, \<open>reward_storage.extend\<close> puts the rest back.
\<close>

lemma truncate_cells [simp]:
  "rs_config (reward_storage.truncate st) = rs_config st"
  "rs_state (reward_storage.truncate st) = rs_state st"
  "rs_swap_config (reward_storage.truncate st) = rs_swap_config st"
  by (simp_all add: reward_storage.truncate_def)

lemma truncate_reads [simp]:
  "read_config (reward_storage.truncate st) = read_config st"
  "load_swap_config (reward_storage.truncate st) = load_swap_config st"
  by (simp_all add: read_config_def load_swap_config_def)

lemma extend_truncate [simp]:
  "reward_storage.extend (reward_storage.truncate st) (reward_storage.more st) = st"
  by (simp add: reward_storage.extend_def reward_storage.truncate_def)

lemma extend_writes [simp]:
  "reward_storage.extend (s\<lparr>rs_config := c, rs_swap_config := w\<rparr>) z =
     (reward_storage.extend s z)\<lparr>rs_config := c, rs_swap_config := w\<rparr>"
  by (simp add: reward_storage.extend_def)

lemma truncate_swap [simp]:
  "create_swap_msgs dp a d (reward_storage.truncate st) = create_swap_msgs dp a d st"
proof -
  have "get_swap_result_for dp a d mt (reward_storage.truncate st) = get_swap_result_for dp a d mt st"
    and "create_swap_message_for a d mt (reward_storage.truncate st) = create_swap_message_for a d mt st" for mt
    by (simp_all add: get_swap_result_for_def get_contract_address_def create_swap_message_for_def)
  then show ?thesis
    by (simp add: create_swap_msgs_def swap_quotes_def case_prod_unfold cong: option.case_cong if_cong)
qed

text \<open>The result of the plain contract, with the rest of the storage as it was.\<close>

definition with_rest ::
  "'z reward_storage_scheme \<Rightarrow> (reward_storage \<times> response) res \<Rightarrow>
   ('z reward_storage_scheme \<times> response) res" where
  "with_rest st x = rbind x (\<lambda>(s, r). Inr (reward_storage.extend s (reward_storage.more st), r))"

lemma with_rest_simps [simp]:
  "with_rest st (Inl err) = Inl err"
  "with_rest st (Inr (s, r)) = Inr (reward_storage.extend s (reward_storage.more st), r)"
  "with_rest st (rbind m f) = rbind m (\<lambda>a. with_rest st (f a))"
  "with_rest st (if b then x else y) = (if b then with_rest st x else with_rest st y)"
  by (simp_all add: with_rest_def rbind_assoc)

lemma swap_on_part:
  "execute_swap dp e i st = with_rest st (execute_swap dp e i (reward_storage.truncate st))"
  by (simp add: execute_swap_def swap_balances_def swap_messages_of_def Let_def cong: if_cong)

lemma claim_on_part:
  "execute_claim_rewards recipient dp e i st =
    with_rest st (execute_claim_rewards recipient dp e i (reward_storage.truncate st))"
  by (simp add: execute_claim_rewards_def Let_def cong: if_cong)

lemma update_on_part:
  "set_custody_contract ow cu kt as ph ts dp i st =
    with_rest st (set_custody_contract ow cu kt as ph ts dp i (reward_storage.truncate st))"
  by (simp add: set_custody_contract_def store_config_def cong: if_cong)

lemma execute_on_part:
  "reward_execute m dp e i st = with_rest st (reward_execute m dp e i (reward_storage.truncate st))"
  by (cases m) (simp_all add: swap_on_part [of dp e i st] claim_on_part [of _ dp e i st]
      update_on_part [of _ _ _ _ _ _ dp i st])

text \<open>With nothing to retrieve a request swaps at once.\<close>

lemma empty_request:
  "custom_execute empty_retrieve m dp e i st = reward_execute m dp e i st"
  by (cases m)
    (simp_all add: execute_retrieve_normal_tokens_def execute_swap_def custom_swap read_config_def load_def
      split: option.split)

lemma query_on_part: "custom_query q dp e st = reward_query q dp e (reward_storage.truncate st)"
  by (cases q) (simp_all add: custom_query_eq reward_query_def query_accrued_rewards_def)

lemma message_part [simp]:
  "reward_config_of dp i (reward_init_msg.truncate M) = reward_config_of dp i M"
  "swap_config_of dp (reward_init_msg.truncate M) = swap_config_of dp M"
  by (simp_all add: reward_config_of_def swap_config_of_def reward_init_msg.truncate_def)

lemma store_on_part:
  "(store_retrieve_config rc (store_state s (store_config c st)))\<lparr>rs_swap_config := w\<rparr> =
    reward_storage.extend ((store_state s (store_config c (reward_storage.truncate st)))\<lparr>rs_swap_config := w\<rparr>)
      (reward_storage.more (st\<lparr>cs_retrieve_config := Some rc\<rparr>))"
  by (cases st) (simp add: store_retrieve_config_def store_state_def store_config_def
      reward_storage.truncate_def reward_storage.extend_def)

text \<open>
  C20. The reward contract with the empty retrieval is the plain reward contract. Every message and
  every query has the same result, storage, messages, attributes and errors included, on the part of
  the storage that the plain contract has; the retrieval configuration stays as it is, and an
  instantiation adds an empty one.
\<close>

theorem empty_retrieval_is_plain:
  "custom_execute empty_retrieve m dp e i st =
     rbind (reward_execute m dp e i (reward_storage.truncate st)) (\<lambda>(s, r).
       Inr (reward_storage.extend s (reward_storage.more st), r)) \<and>
   custom_instantiate empty_retrieve M dp e i st =
     rbind (reward_instantiate (reward_init_msg.truncate M) dp e i (reward_storage.truncate st)) (\<lambda>(s, r).
       Inr (reward_storage.extend s (reward_storage.more (st\<lparr>cs_retrieve_config := Some None\<rparr>)), r)) \<and>
   custom_query q dp e st = reward_query q dp e (reward_storage.truncate st)"
proof (intro conjI)
  show "custom_execute empty_retrieve m dp e i st =
     rbind (reward_execute m dp e i (reward_storage.truncate st)) (\<lambda>(s, r).
       Inr (reward_storage.extend s (reward_storage.more st), r))"
    using execute_on_part [of m dp e i st] by (simp add: empty_request with_rest_def)
  show "custom_instantiate empty_retrieve M dp e i st =
     rbind (reward_instantiate (reward_init_msg.truncate M) dp e i (reward_storage.truncate st)) (\<lambda>(s, r).
       Inr (reward_storage.extend s (reward_storage.more (st\<lparr>cs_retrieve_config := Some None\<rparr>)), r))"
    by (simp add: custom_instantiate_eq reward_instantiate_def empty_retrieve_def rbind_assoc Let_def
        store_on_part)
qed (rule query_on_part)

end
