(* ===== verification/Message_Types.thy ===== *)
theory Message_Types
  imports Messages
begin

text \<open>
  The rest of the interface crate \<open>basset\<close>: the messages and responses of the contracts around the
  repository's own (the oracle, the router, the Eris pool) and of earlier versions of the hub, which
  clients share but none of the modelled operations builds or reads, and the error type of the crate.
\<close>

section \<open>The oracle (oracle.rs)\<close>

record oracle_init_msg =
  oi_owner :: string
  oi_base_asset :: string

datatype oracle_execute_msg =
    Oracle_UpdateConfig (om_owner: "string option")
  | Oracle_RegisterFeeder (om_asset: string) (om_feeder: string)
  | Oracle_FeedPrice (om_prices: "(string \<times> decimal256) list")

record oracle_config_response =
  oc_owner :: string
  oc_base_asset :: string

record feeder_response =
  fe_asset :: string
  fe_feeder :: string

record prices_response_elem =
  pe_asset :: string
  pe_price :: decimal256
  pe_last_updated_time :: u64

record prices_response =
  ps_prices :: "prices_response_elem list"

section \<open>The router (dex\_router.rs)\<close>

record router_config_response =
  rr_astroport_factory :: string

section \<open>The Eris pool (eris\_lp.rs)\<close>

record eris_user_info_response =
  er_user_lp_amount :: u128
  er_user_amp_lp_amount :: u128
  er_total_lp :: u128
  er_total_amp_lp :: u128

datatype eris_migrate_msg = Eris_Migrate

record eris_config_response =
  ec_lp_token :: addr
  ec_amp_lp_token :: addr
  ec_owner :: addr
  ec_staking_contract :: addr
  ec_compound_proxy :: addr
  ec_controller :: addr
  ec_fee :: decimal
  ec_fee_collector :: addr
  ec_base_reward_token :: addr
  ec_deposit_profit_delay_s :: u64

record exchange_rates_response =
  xr_exchange_rates :: "(u64 \<times> decimal) list"
  xr_apr :: "decimal option"

section \<open>Unbonding from the hub (hub.rs)\<close>

type_synonym unbond_request = "(u64 \<times> u128) list"

datatype hub_hook_msg = Hub_Unbond

record unbond_history =
  uh_batch_id :: u64
  uh_time :: u64
  uh_amount :: u128
  uh_applied_exchange_rate :: decimal
  uh_withdraw_rate :: decimal
  uh_released :: bool

record whitelisted_validators_response =
  wv_validators :: "string list"

record current_batch_response =
  cb_id :: u64
  cb_requested_with_fee :: u128

record withdrawable_unbonded_response =
  wu_withdrawable :: u128

record unbond_requests_response =
  ub_address :: string
  ub_requests :: unbond_request

record all_history_response =
  ah_history :: "unbond_history list"

section \<open>The migration message of wrappers and reward contracts (reward.rs)\<close>

text \<open>Every \<open>migrate\<close> ignores it.\<close>

record reward_migrate_msg =
  rm_max_decompound_ratio :: "decimal option"

section \<open>Errors (contract\_error.rs)\<close>

text \<open>
  \<open>'ov\<close> is the type \<open>OverflowError\<close> of \<open>cosmwasm_std\<close>; how it and \<open>StdError\<close> print is a parameter of
  the texts that the derived \<open>Display\<close> gives.
\<close>

datatype 'ov basset_error =
    Basset_Std std_error
  | Basset_Overflow 'ov
  | Basset_Unauthorized
  | Basset_InvalidZeroAmount
  | Basset_MaxSpreadAssertion
  | Basset_MaxSlippageAssertion
  | Basset_AssetMismatch

fun basset_error_text :: "(std_error \<Rightarrow> string) \<Rightarrow> ('ov \<Rightarrow> string) \<Rightarrow> 'ov basset_error \<Rightarrow> string" where
  "basset_error_text std ov (Basset_Std er) = std er"
| "basset_error_text std ov (Basset_Overflow er) = ov er"
| "basset_error_text std ov Basset_Unauthorized = ''Unauthorized''"
| "basset_error_text std ov Basset_InvalidZeroAmount = ''Invalid zero amount''"
| "basset_error_text std ov Basset_MaxSpreadAssertion = ''Max spread assertion''"
| "basset_error_text std ov Basset_MaxSlippageAssertion = ''Max slippage assertion''"
| "basset_error_text std ov Basset_AssetMismatch = ''Asset mismatch''"

text \<open>The kinds of the crate's own errors print differently.\<close>

lemma basset_error_text_own:
  assumes "basset_error_text std ov x = basset_error_text std ov y"
    and "\<And>er. x \<noteq> Basset_Std er" "\<And>er. x \<noteq> Basset_Overflow er"
    and "\<And>er. y \<noteq> Basset_Std er" "\<And>er. y \<noteq> Basset_Overflow er"
  shows "x = y"
  using assms by (cases x; cases y; simp)

end
