(* ===== verification/Deployment.thy ===== *)
theory Deployment
  imports Hub_Contract Reward_Contract Coin_Hub
begin

text \<open>
  The deployment interface (src/interface): for each of three contracts, the name under which its
  compiled code is looked up among the artefacts when it is uploaded to a chain, and the entry points
  that stand for it in a simulated chain. The lookup belongs to \<open>cw_orch\<close> and is a parameter.
\<close>

section \<open>Uploadable contracts\<close>

text \<open>\<open>ContractWrapper::new_with_empty(execute, instantiate, query)\<close>, with or without \<open>with_migrate\<close>.\<close>

record ('i, 'e, 'q, 's, 'a) contract_wrapper =
  cw_execute :: "'e \<Rightarrow> deps \<Rightarrow> env \<Rightarrow> message_info \<Rightarrow> 's \<Rightarrow> ('s \<times> response) res"
  cw_instantiate :: "'i \<Rightarrow> deps \<Rightarrow> env \<Rightarrow> message_info \<Rightarrow> 's \<Rightarrow> ('s \<times> response) res"
  cw_query :: "'q \<Rightarrow> deps \<Rightarrow> env \<Rightarrow> 's \<Rightarrow> 'a res"
  cw_migrate :: "(deps \<Rightarrow> env \<Rightarrow> message_info \<Rightarrow> 's \<Rightarrow> ('s \<times> response) res) option"

text \<open>\<open>find_wasm_path(...).unwrap()\<close>: no artefact of the name is a panic.\<close>

definition lsd_hub_wasm :: "(string \<Rightarrow> 'path option) \<Rightarrow> 'path res" where
  "lsd_hub_wasm find_wasm_path = or_panic (find_wasm_path ''cavern_lsd_hub'')"

definition lsd_hub_wrapper ::
  "arith \<Rightarrow> (hub_init_msg, hub_execute_msg, hub_query_msg, hub_storage, hub_answer) contract_wrapper" where
  "lsd_hub_wrapper A = \<lparr>cw_execute = hub_execute A, cw_instantiate = hub_instantiate A,
     cw_query = (\<lambda>q dp e. hub_query q), cw_migrate = Some hub_migrate\<rparr>"

definition lsd_rewards_wasm :: "(string \<Rightarrow> 'path option) \<Rightarrow> 'path res" where
  "lsd_rewards_wasm find_wasm_path = or_panic (find_wasm_path ''cavern_lsd_reward'')"

definition lsd_rewards_wrapper ::
  "(reward_init_msg, reward_execute_msg, reward_query_msg, reward_storage, reward_answer) contract_wrapper" where
  "lsd_rewards_wrapper = \<lparr>cw_execute = reward_execute, cw_instantiate = reward_instantiate,
     cw_query = reward_query, cw_migrate = Some reward_migrate\<rparr>"

definition lsd_wrapper_wasm :: "(string \<Rightarrow> 'path option) \<Rightarrow> 'path res" where
  "lsd_wrapper_wasm find_wasm_path = or_panic (find_wasm_path ''st_luna_token'')"

definition lsd_wrapper_wrapper ::
  "arith \<Rightarrow> 'tok cw20_base \<Rightarrow> (stride_lsd_config_raw token_init_msg, wrapper_execute_msg, cw20_query_msg,
     (stride_lsd_config, 'tok) wrapper_storage, token_info_response wrapper_answer) contract_wrapper" where
  "lsd_wrapper_wrapper A C = \<lparr>cw_execute = lsd_wrapper_execute A C,
     cw_instantiate = lsd_wrapper_instantiate A C, cw_query = lsd_wrapper_query A C, cw_migrate = None\<rparr>"

section \<open>Which code is uploaded\<close>

text \<open>The packages of the workspace that are contracts, and the name that a build gives to their code.\<close>

definition workspace_contracts :: "string list" where
  "workspace_contracts = [''amp-lp-wrapper-token'', ''amp_luna-token'', ''b_luna-token'', ''cavern-lsd-hub'',
     ''cavern-lsd-reward'', ''cavern-lsd-wrapper'', ''anchor_basset_amp_lp_reward'',
     ''anchor_basset_spectrum_reward'', ''spectrum-wrapper-token'']"

definition artefact :: "string \<Rightarrow> string" where
  "artefact package = map (\<lambda>c. if c = CHR ''-'' then CHR ''_'' else c) package"

definition built :: "string \<Rightarrow> string option" where
  "built name = (if name \<in> set (map artefact workspace_contracts) then Some name else None)"

text \<open>
  From a fresh build of the workspace the hub and the reward contract can be uploaded. The wrapper
  cannot: it is looked up under the name of a package that the workspace does not have, while its
  simulated entry points are those of \<open>cavern-lsd-wrapper\<close>. Where an older build has left a file of
  that name, the code that is uploaded is not the code of the workspace.
\<close>

theorem uploads_of_a_fresh_build:
  "lsd_hub_wasm built = Inr (artefact ''cavern-lsd-hub'')"
  "lsd_rewards_wasm built = Inr (artefact ''cavern-lsd-reward'')"
  "lsd_wrapper_wasm built = Inl Panic"
  "built (artefact ''cavern-lsd-wrapper'') = Some (artefact ''cavern-lsd-wrapper'')"
  by (simp_all add: lsd_hub_wasm_def lsd_rewards_wasm_def lsd_wrapper_wasm_def built_def artefact_def
      workspace_contracts_def)

text \<open>On a simulated chain the wrapper cannot be migrated, although the contracts beside it can.\<close>

lemma simulated_migrations:
  "cw_migrate (lsd_hub_wrapper A) = Some hub_migrate" "cw_migrate lsd_rewards_wrapper = Some reward_migrate"
  "cw_migrate (lsd_wrapper_wrapper A C) = None"
  by (simp_all add: lsd_hub_wrapper_def lsd_rewards_wrapper_def lsd_wrapper_wrapper_def)

end
