(* ===== verification/Spec2Isabelle.thy ===== *)
theory Spec2Isabelle
  imports Custody Redemption Index_Live Storage_Props Reward_Props Custom_Equiv Message_Types Deployment
begin

text \<open>
  Cavern LSD wrappers: a model of the contracts and what is proved of it.

  THE PROGRAM. A wrapper token (a CW20 token) stands for liquid staking tokens (LSD) that the
  contract holds. The LSD gains value against the staked asset; one unit of the wrapper stays worth
  one unit of the asset. What the contract holds beyond what its supply is worth is the yield, and
  \<open>Decompound\<close> sends it to a reward contract, which sells it for a stable coin. The hub ties the
  two together: anybody may send it \<open>UpdateGlobalIndex\<close>, and it asks the wrapper to decompound to
  the reward contract and the reward contract to swap. Each contract is a state machine: an entry
  point reads the storage and the chain (\<open>Deps\<close>: address check, contract queries, bank balances)
  and returns new storage and messages, or fails, and then nothing is stored.

  THE THEORIES, and the code under src/ they model.

  \<^item> \<open>Prelude\<close>: results (\<open>Err\<close> values and panics), \<open>?\<close>, loading of storage items, checked machine
    integers, decimal rendering of numbers.
  \<^item> \<open>Cosmwasm_Math\<close>: \<open>Uint128\<close>, \<open>Decimal\<close>, \<open>Timestamp\<close> with the operations used. They belong to
    \<open>cosmwasm_std\<close>, so they are a parameter (record \<open>arith\<close>, laws in locale \<open>decimal_arith\<close>), with
    the instance \<open>fixed18\<close>.
  \<^item> \<open>Messages\<close>: packages/basset (\<open>dex_router.rs\<close>, \<open>eris_lp.rs\<close>, \<open>external.rs\<close>, \<open>hub.rs\<close>, \<open>reward.rs\<close>,
    \<open>wrapper.rs\<close>, \<open>oracle.rs\<close>): messages, queries and answers; responses and sub-messages.
    \<open>Message_Types\<close>: the other types of that crate, which no modelled operation builds or reads, and
    its errors (\<open>contract_error.rs\<close>).
  \<^item> \<open>Cw20_Base\<close>: the interface to the crate \<open>cw20_base\<close>, a parameter (record \<open>cw20_base\<close>, laws in
    locale \<open>cw20_token\<close>), with the instance \<open>ledger_cw20\<close>.
  \<^item> \<open>Lsd_Hub_Trait\<close>: the trait \<open>LSDHub\<close> (\<open>trait_def.rs\<close>) as the record \<open>lsd_hub\<close>, its contract as the
    locale \<open>lsd_hub_trait\<close>. \<open>Coin_Hub\<close> (packages/wrapper_implementations \<open>coin.rs\<close>, basset
    \<open>price_querier.rs\<close>, contracts/cavern-lsd-wrapper), \<open>Steak_Hub\<close> (\<open>steak.rs\<close>,
    contracts/ampLuna-wrapper, contracts/bLuna-wrapper) and \<open>Lp_Hubs\<close> (contracts/amp-lp-wrapper,
    contracts/spectrum-wrapper) are its implementations with their entry points.
  \<^item> \<open>Wrapper_Token\<close>: packages/cavern_lsd_wrapper_token (\<open>state.rs\<close>, \<open>querier.rs\<close>, \<open>handler.rs\<close>,
    \<open>contract.rs\<close>, \<open>msg.rs\<close>). \<open>Limited_Wrapper\<close>: packages/cavern_lsd_wrapper_token_with_limit, with
    its own copies of transfers, sends, configuration access and exchange rate (\<open>limited_transfer\<close>,
    \<open>limited_read_lsd_config\<close>, ...), which are shown equal to those of \<open>Wrapper_Token\<close>.
  \<^item> \<open>Hub_Contract\<close>: contracts/cavern-lsd-hub.
  \<^item> \<open>Reward_Swap\<close>: the modules of contracts/cavern-lsd-reward (\<open>state.rs\<close>, \<open>querier.rs\<close>, \<open>swap.rs\<close>,
    \<open>user.rs\<close>, \<open>global.rs\<close> and the updates of \<open>contract.rs\<close>); \<open>Reward_Contract\<close>: its entry points;
    \<open>Reward_Holders\<close>: its map of holders and the pagination over a sorted key-value store (a
    parameter, locale \<open>holder_map\<close>).
  \<^item> \<open>Custom_Swap\<close>: the same modules of packages/cavern_aAsset_custom_reward, on its own storage, each
    shown to compute what its twin of \<open>Reward_Swap\<close> computes; \<open>Custom_Reward\<close>: the entry points with
    retrieval and reply, the trait \<open>ExecuteWithSwapReply\<close> as the record \<open>execute_with_swap_reply\<close>
    (locale \<open>swap_reply\<close>) and its implementations in contracts/cavern_aAsset_amp_lp_reward and
    contracts/cavern_aAsset_spectrum_reward.
  \<^item> \<open>Chain\<close>: a hub, a wrapper and a reward contract (record \<open>contracts\<close>) at their addresses, beside
    an arbitrary outside (record \<open>outside\<close>: what it does with a message that arrives, and what a
    contract can see of it, what it sends on, which may be calls back into all three), with the
    delivery of nested messages, replies and the failure of whole transactions (\<open>run_msgs\<close>, \<open>call_hub\<close>).
    This is the documented behaviour of the chain's message dispatch.
  \<^item> \<open>Deployment\<close>: src/interface, the names under which compiled contracts are looked up and the entry
    points of the simulated ones.
  \<^item> \<open>Scenario\<close>: a concrete chain for the instances of the properties.

  THE LEMMAS.

  \<^item> \<open>Vault\<close> is the abstract specification of a wrapper: a pot, a supply and the steps allowed at a
    rate. \<open>Lsd_Flow\<close> says what emitted messages do to the pot. \<open>Wrapper_Laws\<close> has, inside the locale
    \<open>wrapper_env\<close> (arithmetic, token and LSD hub together), one elimination rule per handler;
    \<open>Wrapper_System\<close> the step relation of the wrapper in its environment and the simulation by the
    vault; \<open>Wrapper_Outcome\<close> the complete result of each handler as a formula on natural numbers,
    with the panics of the 128-bit arithmetic. The properties are in \<open>Wrapper_Props\<close>.
  \<^item> \<open>Limited_Laws\<close> and \<open>Limited_System\<close> do the same for the limited wrapper: share rate, allowance,
    and the accounting along runs. \<open>Limited_Outcome\<close> has the complete results as formulas, and
    \<open>Limited_Vault\<close> the abstract pot of shares, with the simulation of the contract's calls by it for
    small pots, and that a covered pot of shares stays covered. The properties are in \<open>Limited_Props\<close> and \<open>Limited_Env_Props\<close>.
  \<^item> \<open>Reward_Laws\<close> reduces the swap to \<open>for_sale\<close> (what is held and sold) and \<open>sell\<close> (the order for
    one asset at the best router). The properties of the reward contracts are in \<open>Reward_Props\<close>;
    \<open>Custom_Equiv\<close> shows that the contract with retrieval is the plain one when nothing is retrieved.
  \<^item> \<open>Storage_Props\<close>: what the storages of the hub and of the wrapper hold along every run.
  \<^item> \<open>Index_Round\<close>: the transaction of an update of the global index as a straight sequence
    (\<open>index_round\<close>), for every wrapper that serves a decompound and every reward contract that serves
    a swap; both kinds of each do.
  \<^item> \<open>Decompound_Live\<close>: when the decompounds of both wrappers succeed, and how much they pay;
    \<open>Index_Live\<close>: when the whole update of the global index goes through.
  \<^item> \<open>Chain_Runs\<close>: transactions in which contracts outside call back, the hub included. Locale
    \<open>kept_by_token\<close>: an invariant of the wrapper's storage and the outside is kept by every run of
    transactions when single deliveries and single calls of the wrapper keep it and it holds before
    the wrapper gives control away; of the hub's calls only those count that its configuration lets it
    make (\<open>asks\<close>), which no call within a transaction may change (\<open>hub_keeps\<close>).
    \<open>Instrumented\<close>: records beside the outside that nothing reads, of what the wrapper has sent to
    somebody (\<open>counting\<close>) and of what falls of the rate have cost (\<open>metered\<close>), with the proof that the
    runs are the same with and without them.
    \<open>Pot_Contract\<close>: locale \<open>pot_contract\<close>, a wrapper each of whose calls keeps a property of its pot,
    and \<open>pot_on_chain\<close>, such a wrapper on a chain with an honest outside; every run of the chain then
    keeps it. Both wrappers are such contracts (\<open>sublocale\<close>): the plain one for what it lacks to one
    coin per unit, through the steps of \<open>Vault\<close>, the limited one for being covered, through the steps
    of the pot of shares.
  \<^item> \<open>Chain_Props\<close> has the properties of an update of the global index, \<open>Transactions\<close> those of whole
    transactions, re-entrant ones included; \<open>Custody\<close> shows by the same locales that a plain wrapper
    together with the reward contract is a pot that nobody skims: the yield goes there and nowhere
    else. \<open>Redemption\<close>: whoever leaves, in whatever order, is paid. This theory has the properties of
    the hub's configuration.

  The properties are theorems outside every locale; an environment enters them as the hypothesis
  \<open>wrapper_env A C H asset\<close>, which the interpretations \<open>stride_wrapper\<close>, \<open>amp_luna_wrapper\<close>,
  \<open>bluna_wrapper\<close>, \<open>amp_lp_wrapper\<close> and \<open>spectrum_wrapper\<close> discharge for the contracts of the repository,
  and as hypotheses on what the chain answers.

  BOUNDS AND FUEL. Integers keep their width (\<open>u64\<close>, \<open>u128\<close>, 256-bit token balances); as the
  workspace builds with overflow checks, an overflow is the value \<open>Panic\<close>. No handler loops. There
  is one fuel: \<open>run_msgs\<close> bounds the depth to which messages nest, and \<open>None\<close> means that the bound
  was reached; three levels are enough for an update of the global index (theorems \<open>index_update\<close>
  and \<open>retrieval_round\<close> hold for every depth of at least three).
  The limited wrapper is shown to stay covered while it reads balances below 10^9: with b LSD in the
  pot the rounding of the quoted share price moves a payment by less than b * b / 10^18 units, which is
  less than one there; \<open>limited_burn_payable\<close> and \<open>limited_burn_exceeds_iff\<close> say what happens beyond.

  NOT MODELLED. JSON and schemas, which are derived code (a payload is the typed message); gas; the
  texts of errors of \<open>cosmwasm_std\<close> and of the token library, which stay parameters; the oracle,
  router, staking and pair contracts, which answer through \<open>deps\<close> or are part of the outside;
  the function builders of src/interface/src/lib.rs, which only renames; the schema examples and the
  tests. An update of the global index is determined for an outside that does not call back
  (\<open>quiet\<close>); what holds of runs of transactions needs no such hypothesis. That slashing lowers the
  rate is outside \<open>wrapper_step\<close>; \<open>slashing_shortfall\<close> bounds what it costs over whole transactions.
  Whether a token or the bank refuses a payment of zero, which a burn of few units may ask for, is a
  matter of the outside; \<open>everyone_can_leave\<close> counts such a payment as made.
  The messages that contracts outside send each other without reaching the three are a part of how
  the outside changes (\<open>ext_deliver\<close>).
\<close>

section \<open>The configuration of the hub\<close>

text \<open>
  What an update of the hub's configuration changes: it comes from the creator, sends nothing,
  and each of the three addresses stays or becomes the checked address, everything else stays.
\<close>

theorem hub_update_changes_only:
  assumes "hub_execute A (Hub_UpdateConfig ow rw tk) dp e i st = Inr (st', r)"
  shows "\<exists>c c'. hub_config_item st = Some c \<and> sender i = hc_creator c \<and>
    st' = st\<lparr>hub_config_item := Some c'\<rparr> \<and> msgs r = [] \<and>
    (case ow of None \<Rightarrow> hc_creator c' = hc_creator c | Some x \<Rightarrow> addr_validate dp x = Inr (hc_creator c')) \<and>
    (case rw of None \<Rightarrow> hc_reward_contract c' = hc_reward_contract c
     | Some x \<Rightarrow> \<exists>a. addr_validate dp x = Inr a \<and> hc_reward_contract c' = Some a) \<and>
    (case tk of None \<Rightarrow> hc_token_contract c' = hc_token_contract c
     | Some x \<Rightarrow> \<exists>a. addr_validate dp x = Inr a \<and> hc_token_contract c' = Some a)"
proof -
  from assms have "hub_update_config ow rw tk dp e i st = Inr (st', r)" by simp
  then obtain c c' where "hub_config_item st = Some c" "sender i = hc_creator c"
      "st' = st\<lparr>hub_config_item := Some c'\<rparr>" "msgs r = []"
      "set_to dp ow (hc_creator c) (\<lambda>a. a) (hc_creator c')"
      "set_to dp rw (hc_reward_contract c) Some (hc_reward_contract c')"
      "set_to dp tk (hc_token_contract c) Some (hc_token_contract c')"
    by (rule hub_update_config_ok)
  then show ?thesis
    by (intro exI [of _ c] exI [of _ c']) (auto simp: set_to_def split: option.splits)
qed

theorem hub_update_changes_only_witness:
  "\<exists>st' r c'. hub_execute fixed18 (Hub_UpdateConfig None (Some ''reward2'') None) (sc_dp 1 1) (sc_env 5)
      (sc_info ''owner'') sc_hub_storage = Inr (st', r) \<and> hub_config_item st' = Some c' \<and>
    hc_creator c' = ''owner'' \<and> hc_reward_contract c' = Some ''reward2'' \<and>
    hc_token_contract c' = Some ''wrapper''"
proof -
  obtain st' r where ex: "hub_execute fixed18 (Hub_UpdateConfig None (Some ''reward2'') None) (sc_dp 1 1)
      (sc_env 5) (sc_info ''owner'') sc_hub_storage = Inr (st', r)"
    by (simp add: hub_update_config_def update_hub_field_def update_hub_config_def load_hub_config_def
        sc_hub_storage_def sc_info_def sc_deps_def)
  from hub_update_changes_only [OF ex] ex show ?thesis
    by (auto simp: sc_hub_storage_def sc_deps_def split: if_splits)
qed

end
